(* ===== verification/Alsa_Prelude.thy ===== *)
theory Alsa_Prelude
  imports Main "HOL-Library.Word"
begin

text \<open>
  Shared vocabulary of the development: the machine types of the C sources, the way a
  call of the library ends (\<open>outcome\<close>), the little-endian layout of the UAPI
  structures, the heap blocks the event objects own, NUL-terminated character arrays,
  and the generic lemmas on bytes and flag words that the components use.
\<close>

unbundle bit_operations_syntax

named_theorems codec_simps "encoding and decoding of fixed size structures"
named_theorems heap_simps "reading and writing heap blocks"
named_theorems cstr_simps "NUL-terminated character arrays"

section \<open>Machine types\<close>

type_synonym u8 = "8 word"
type_synonym u16 = "16 word"
type_synonym u32 = "32 word"
type_synonym u64 = "64 word"
type_synonym bytes = "u8 list"
type_synonym errno = int

text \<open>Error numbers of Linux that the sources test by name.\<close>

abbreviation (input) EPERM :: errno where "EPERM \<equiv> 1"
abbreviation (input) ENOENT :: errno where "ENOENT \<equiv> 2"
abbreviation (input) EAGAIN :: errno where "EAGAIN \<equiv> 11"
abbreviation (input) ENOMEM :: errno where "ENOMEM \<equiv> 12"
abbreviation (input) EACCES :: errno where "EACCES \<equiv> 13"
abbreviation (input) EBUSY :: errno where "EBUSY \<equiv> 16"
abbreviation (input) ENODEV :: errno where "ENODEV \<equiv> 19"
abbreviation (input) EINVAL :: errno where "EINVAL \<equiv> 22"
abbreviation (input) ERANGE :: errno where "ERANGE \<equiv> 34"
abbreviation (input) ENODATA :: errno where "ENODATA \<equiv> 61"
abbreviation (input) EPROTO :: errno where "EPROTO \<equiv> 71"
abbreviation (input) EBADFD :: errno where "EBADFD \<equiv> 77"

section \<open>How a call ends\<close>

text \<open>
  A throwing function of the library returns \<open>TRUE\<close> with its out-parameters set, or
  \<open>FALSE\<close> with the \<open>GError\<close> set. Three more endings are told apart because the sources
  have them: \<open>FALSE\<close> with the error left untouched, the failure of a
  \<open>g_return_val_if_fail\<close> guard (a logged critical, \<open>FALSE\<close>, no error), an abort of GLib on
  memory exhaustion, and undefined behaviour of C (a read outside of an allocation, a free
  of memory that is not allocated, a use of an indeterminate value).
  The text of an error message is not modelled, its domain and code are.
\<close>

datatype gdomain =
    G_FILE_ERROR
  | ALSACTL_CARD_ERROR
  | ALSASEQ_EVENT_ERROR
  | ALSASEQ_USER_CLIENT_ERROR
  | ALSATIMER_USER_INSTANCE_ERROR
  | ALSARAWMIDI_STREAM_PAIR_ERROR

datatype gerror = GError gdomain int

datatype 'a outcome =
    Ret 'a
  | Throw gerror
  | FalseUnset
  | Critical
  | Abort
  | Undefined

fun obind :: "'a outcome \<Rightarrow> ('a \<Rightarrow> 'b outcome) \<Rightarrow> 'b outcome" where
  "obind (Ret x) f = f x"
| "obind (Throw e) f = Throw e"
| "obind FalseUnset f = FalseUnset"
| "obind Critical f = Critical"
| "obind Abort f = Abort"
| "obind Undefined f = Undefined"

lemma obind_Ret_iff [simp]: "obind m f = Ret y \<longleftrightarrow> (\<exists>x. m = Ret x \<and> f x = Ret y)"
  by (cases m) auto

lemma obind_assoc: "obind (obind m f) g = obind m (\<lambda>x. obind (f x) g)"
  by (cases m) auto

section \<open>Bytes of machine words\<close>

definition le_enc :: "nat \<Rightarrow> 'a::len word \<Rightarrow> bytes" where
  "le_enc n w = map (\<lambda>i. ucast (drop_bit (8 * i) w)) [0..<n]"

fun le_dec :: "bytes \<Rightarrow> 'a::len word" where
  "le_dec [] = 0"
| "le_dec (b # bs) = ucast b OR push_bit 8 (le_dec bs)"

lemma length_le_enc [simp]: "length (le_enc n w) = n"
  by (simp add: le_enc_def)

lemma nth_le_enc: "i < n \<Longrightarrow> le_enc n w ! i = ucast (drop_bit (8 * i) w)"
  by (simp add: le_enc_def)

lemma bit_le_dec:
  "bit (le_dec bs :: 'a::len word) k \<longleftrightarrow>
     k < LENGTH('a) \<and> k div 8 < length bs \<and> bit (bs ! (k div 8)) (k mod 8)"
proof (induction bs arbitrary: k)
  case Nil
  then show ?case by simp
next
  case (Cons b bs)
  show ?case
  proof (cases "k < 8")
    case True
    then show ?thesis
      by (auto simp: bit_or_iff bit_push_bit_iff bit_ucast_iff)
  next
    case False
    then have k: "k div 8 = Suc ((k - 8) div 8)" "k mod 8 = (k - 8) mod 8"
      by (simp_all add: le_div_geq le_mod_geq)
    have "\<not> bit b k" using False by (simp add: bit_word_iff_drop_bit_and impossible_bit)
    with False k show ?thesis
      by (auto simp: bit_or_iff bit_push_bit_iff bit_ucast_iff Cons.IH)
  qed
qed

lemma le_dec_enc:
  assumes "LENGTH('a::len) = 8 * n"
  shows "le_dec (le_enc n w) = (w :: 'a word)"
proof (rule bit_word_eqI)
  fix k assume k: "k < LENGTH('a)"
  with assms have "k div 8 < n" by auto
  then show "bit (le_dec (le_enc n w) :: 'a word) k \<longleftrightarrow> bit w k"
    using k by (simp add: bit_le_dec nth_le_enc bit_ucast_iff bit_drop_bit_eq)
qed

lemma le_enc_dec:
  assumes "LENGTH('a::len) = 8 * n" "length bs = n"
  shows "le_enc n (le_dec bs :: 'a word) = bs"
proof (rule nth_equalityI)
  show "length (le_enc n (le_dec bs :: 'a word)) = length bs" using assms by simp
next
  fix i assume "i < length (le_enc n (le_dec bs :: 'a word))"
  then have i: "i < n" by simp
  show "le_enc n (le_dec bs :: 'a word) ! i = bs ! i"
  proof (rule bit_word_eqI)
    fix j :: nat assume j: "j < LENGTH(8)"
    then have "8 * i + j < LENGTH('a)" using assms i by simp
    with i j assms show "bit (le_enc n (le_dec bs :: 'a word) ! i) j \<longleftrightarrow> bit (bs ! i) j"
      by (simp add: nth_le_enc bit_ucast_iff bit_drop_bit_eq bit_le_dec)
  qed
qed

lemma ucast_back_u8 [simp]: "(ucast (ucast (x :: u8) :: u32) :: u8) = x"
  by (rule bit_word_eqI) (simp add: bit_ucast_iff)

lemma ucast_u8_inject [simp]: "(ucast (x :: u8) :: u32) = ucast y \<longleftrightarrow> x = y"
proof
  assume *: "(ucast x :: u32) = ucast y"
  have "bit x k \<longleftrightarrow> bit y k" if "k < LENGTH(8)" for k
    using arg_cong [OF *, of "\<lambda>w. bit w k"] that by (simp add: bit_ucast_iff)
  then show "x = y" by (rule bit_word_eqI)
qed simp

lemma ucast_u8_zero: "(ucast (x :: u8) :: u32) = 0 \<longleftrightarrow> x = 0"
  using ucast_u8_inject [of x 0] by simp

section \<open>Fields of a byte array\<close>

definition get_at :: "nat \<Rightarrow> nat \<Rightarrow> bytes \<Rightarrow> bytes" where
  "get_at off n d = take n (drop off d)"

definition put_at :: "nat \<Rightarrow> bytes \<Rightarrow> bytes \<Rightarrow> bytes" where
  "put_at off bs d = take off d @ bs @ drop (off + length bs) d"

lemma length_get_at [simp]: "off + n \<le> length d \<Longrightarrow> length (get_at off n d) = n"
  by (simp add: get_at_def)

lemma length_put_at [simp]: "off + length bs \<le> length d \<Longrightarrow> length (put_at off bs d) = length d"
  by (simp add: put_at_def)

lemma get_put_same [codec_simps]:
  "off + length bs \<le> length d \<Longrightarrow> n = length bs \<Longrightarrow> get_at off n (put_at off bs d) = bs"
  by (simp add: get_at_def put_at_def)

lemma get_put_after [codec_simps]:
  assumes "off + length bs \<le> off'" "off' \<le> length d"
  shows "get_at off' n (put_at off bs d) = get_at off' n d"
proof -
  have "drop (off' - off - length bs) (drop (off + length bs) d) = drop off' d"
    using assms by simp
  then show ?thesis using assms by (simp add: get_at_def put_at_def)
qed

lemma get_put_before [codec_simps]:
  "off' + n \<le> off \<Longrightarrow> off \<le> length d \<Longrightarrow> get_at off' n (put_at off bs d) = get_at off' n d"
  by (auto simp: get_at_def put_at_def drop_take min_def)

lemma get_at_zero [codec_simps]: "get_at 0 n d = take n d"
  by (simp add: get_at_def)

text \<open>
  The contract of a fixed size structure: every value has \<open>size\<close> bytes, and decoding
  inverts encoding. A \<open>byte_layout\<close> has no byte that does not belong to a field, so that
  the two directions are inverse to each other.
\<close>

locale byte_codec =
  fixes enc :: "'a \<Rightarrow> bytes" and dec :: "bytes \<Rightarrow> 'a" and size :: nat
  assumes length_enc: "length (enc x) = size"
    and dec_enc: "dec (enc x) = x"
begin

lemma get_put:
  "off + size \<le> length d \<Longrightarrow> dec (get_at off size (put_at off (enc x) d)) = x"
  by (simp add: get_put_same length_enc dec_enc)

lemma length_put: "off + size \<le> length d \<Longrightarrow> length (put_at off (enc x) d) = length d"
  by (simp add: length_enc)

lemma enc_inject: "enc x = enc y \<longleftrightarrow> x = y"
  by (metis dec_enc)

lemma dec_prefix: "dec (take size (enc x @ bs)) = x"
  by (simp add: length_enc dec_enc)

end

locale byte_layout = byte_codec enc dec size
  for enc :: "'a \<Rightarrow> bytes" and dec :: "bytes \<Rightarrow> 'a" and size :: nat +
  assumes enc_dec: "length bs = size \<Longrightarrow> enc (dec bs) = bs"
begin

lemma dec_inject: "length bs = size \<Longrightarrow> length cs = size \<Longrightarrow> dec bs = dec cs \<longleftrightarrow> bs = cs"
  by (metis enc_dec)

end

interpretation u8c: byte_layout "le_enc 1 :: u8 \<Rightarrow> bytes" le_dec 1
  by unfold_locales (simp_all add: le_dec_enc le_enc_dec)

interpretation u16c: byte_layout "le_enc 2 :: u16 \<Rightarrow> bytes" le_dec 2
  by unfold_locales (simp_all add: le_dec_enc le_enc_dec)

interpretation u32c: byte_layout "le_enc 4 :: u32 \<Rightarrow> bytes" le_dec 4
  by unfold_locales (simp_all add: le_dec_enc le_enc_dec)

interpretation u64c: byte_layout "le_enc 8 :: u64 \<Rightarrow> bytes" le_dec 8
  by unfold_locales (simp_all add: le_dec_enc le_enc_dec)

lemmas word_codec [codec_simps] =
  u8c.dec_enc u16c.dec_enc u32c.dec_enc u64c.dec_enc
  u8c.enc_dec u16c.enc_dec u32c.enc_dec u64c.enc_dec

section \<open>Heap blocks\<close>

text \<open>
  Memory obtained from GLib is a map from the address of an allocation to its bytes. The
  allocator belongs to GLib and is an argument of the definitions that allocate: it returns
  the address of a new block, and \<open>None\<close> where GLib aborts the process. \<open>malloc_ok\<close> states
  what is documented of it: a request for zero bytes gives \<open>NULL\<close>, and any other gives a
  block that is not \<open>NULL\<close> and not in use.
\<close>

type_synonym heap = "u64 \<Rightarrow> bytes option"
type_synonym allocator = "heap \<Rightarrow> nat \<Rightarrow> u64 option"

definition malloc_ok :: "allocator \<Rightarrow> bool" where
  "malloc_ok malloc \<longleftrightarrow>
     (\<forall>h n p. malloc h n = Some p \<longrightarrow> (if n = 0 then p = 0 else p \<noteq> 0 \<and> h p = None))"

definition heap_new :: "allocator \<Rightarrow> heap \<Rightarrow> bytes \<Rightarrow> (heap \<times> u64) outcome" where
  "heap_new malloc h bs =
     (case malloc h (length bs) of
        None \<Rightarrow> Abort
      | Some p \<Rightarrow> Ret (if bs = [] then h else h(p \<mapsto> bs), p))"

definition heap_read :: "heap \<Rightarrow> u64 \<Rightarrow> nat \<Rightarrow> bytes option" where
  "heap_read h p n =
     (if n = 0 then Some []
      else case h p of None \<Rightarrow> None
         | Some bs \<Rightarrow> if n \<le> length bs then Some (take n bs) else None)"

definition g_free :: "heap \<Rightarrow> u64 \<Rightarrow> heap outcome" where
  "g_free h p = (if p = 0 then Ret h else if h p = None then Undefined else Ret (h(p := None)))"

lemma malloc_okD:
  "malloc_ok malloc \<Longrightarrow> malloc h n = Some p \<Longrightarrow> 0 < n \<Longrightarrow> p \<noteq> 0 \<and> h p = None"
  "malloc_ok malloc \<Longrightarrow> malloc h 0 = Some p \<Longrightarrow> p = 0"
  by (auto simp: malloc_ok_def split: if_splits)

lemma heap_new_read [heap_simps]:
  "heap_new malloc h bs = Ret (h', p) \<Longrightarrow> heap_read h' p (length bs) = Some bs"
  by (auto simp: heap_new_def heap_read_def split: option.splits if_splits)

lemma heap_new_frame:
  assumes "malloc_ok malloc" "heap_new malloc h bs = Ret (h', p)" "h q = Some cs"
  shows "h' q = Some cs"
proof (cases "bs = []")
  case True
  with assms show ?thesis by (auto simp: heap_new_def split: option.splits)
next
  case False
  with assms have "malloc h (length bs) = Some p" "h' = h(p \<mapsto> bs)"
    by (auto simp: heap_new_def split: option.splits)
  with assms False malloc_okD(1) [of malloc h "length bs" p] show ?thesis by auto
qed

lemma heap_new_read_frame:
  assumes "malloc_ok malloc" "heap_new malloc h bs = Ret (h', p)" "heap_read h q n = Some cs"
  shows "heap_read h' q n = Some cs"
  using assms(3) heap_new_frame [OF assms(1,2)]
  by (auto simp: heap_read_def split: if_splits option.splits)

lemma heap_new_fresh:
  assumes "malloc_ok malloc" "heap_new malloc h bs = Ret (h', p)"
  shows "h p = None \<or> p = 0"
  using assms malloc_okD(1) [of malloc h "length bs" p] malloc_okD(2) [of malloc h p]
  by (cases "bs = []") (auto simp: heap_new_def split: option.splits)

text \<open>A new block is apart from the others, so releasing it gives back the heap as it was before.\<close>

lemma heap_new_release:
  assumes "malloc_ok malloc" "heap_new malloc h bs = Ret (h', ptr)"
  shows "if bs = [] then ptr = 0 \<and> h' = h else ptr \<noteq> 0 \<and> h' ptr = Some bs \<and> h'(ptr := None) = h"
  using assms malloc_okD(1) [of malloc h "length bs" ptr] malloc_okD(2) [of malloc h ptr]
  by (cases "bs = []") (auto simp: heap_new_def fun_upd_idem split: option.splits)

lemma heap_read_length: "heap_read h p n = Some bs \<Longrightarrow> length bs = n"
  by (auto simp: heap_read_def split: if_splits option.splits)

text \<open>The copy of a boxed structure without pointers: a block of its own that holds the same value.\<close>

locale boxed_copy = byte_codec enc dec size
  for enc :: "'a \<Rightarrow> bytes" and dec :: "bytes \<Rightarrow> 'a" and size :: nat +
  fixes copy :: "allocator \<Rightarrow> heap \<Rightarrow> 'a \<Rightarrow> (heap \<times> u64) outcome"
  assumes copy_eq: "copy malloc h x = heap_new malloc h (enc x)"
    and size_pos: "0 < size"
begin

lemma copy_same:
  assumes "malloc_ok malloc" "copy malloc h x = Ret (h', p)"
  shows "\<exists>bs. h p = None \<and> h' p = Some bs \<and> length bs = size \<and> dec bs = x \<and> g_free h' p = Ret h"
proof -
  have new: "heap_new malloc h (enc x) = Ret (h', p)" and "enc x \<noteq> []"
    using assms(2) size_pos length_enc [of x] by (auto simp: copy_eq)
  with heap_new_release [OF assms(1) new] heap_new_fresh [OF assms(1) new] show ?thesis
    by (auto simp: length_enc dec_enc g_free_def)
qed

end

text \<open>An allocator with two blocks, for examples.\<close>

definition bump_malloc :: allocator where
  "bump_malloc h n = (if n = 0 then Some 0 else if h 1024 = None then Some 1024
     else if h 2048 = None then Some 2048 else None)"

lemma malloc_ok_bump: "malloc_ok bump_malloc"
  by (auto simp: malloc_ok_def bump_malloc_def split: if_splits)

section \<open>Character arrays\<close>

text \<open>
  A \<open>char name[N]\<close> field is a list of \<open>N\<close> bytes; \<open>cstr\<close> reads the string in front of the
  first NUL. \<open>g_strlcpy\<close> truncates to the array and always terminates the string.
\<close>

definition cstr :: "bytes \<Rightarrow> bytes" where
  "cstr bs = takeWhile (\<lambda>b. b \<noteq> 0) bs"

definition strlcpy :: "bytes \<Rightarrow> bytes \<Rightarrow> bytes" where
  "strlcpy dst src =
     (if dst = [] then []
      else let s = cstr src; n = min (length s) (length dst - 1)
           in take n s @ [0] @ drop (Suc n) dst)"

lemma length_strlcpy [simp]: "length (strlcpy dst src) = length dst"
  by (cases dst) (auto simp: strlcpy_def Let_def min_def)

lemma cstr_no_NUL [cstr_simps]: "0 \<notin> set s \<Longrightarrow> cstr s = s"
  by (auto simp: cstr_def takeWhile_eq_all_conv)

lemma cstr_append_NUL [cstr_simps]: "0 \<notin> set s \<Longrightarrow> cstr (s @ 0 # t) = s"
  by (auto simp: cstr_def takeWhile_tail)

lemma set_cstr: "0 \<notin> set (cstr s)"
  by (auto simp: cstr_def dest: set_takeWhileD)

lemma cstr_strlcpy [cstr_simps]:
  assumes "dst \<noteq> []"
  shows "cstr (strlcpy dst src) = take (length dst - 1) (cstr src)"
proof -
  have "0 \<notin> set (take k (cstr src))" for k
    using set_cstr [of src] by (auto dest: in_set_takeD)
  then show ?thesis using assms
    by (simp add: strlcpy_def Let_def cstr_append_NUL min_def)
qed

section \<open>Flag words\<close>

text \<open>Replacing the bits under a mask, the way every flag setter of the library does.\<close>

definition set_masked :: "'a::len word \<Rightarrow> 'a word \<Rightarrow> 'a word \<Rightarrow> 'a word" where
  "set_masked m v w = (w AND NOT m) OR v"

lemma set_masked_same: "v AND NOT m = 0 \<Longrightarrow> set_masked m v w AND m = v"
  by (rule bit_word_eqI) (auto simp: set_masked_def bit_simps bit_eq_iff)

lemma set_masked_other:
  "v AND m2 = 0 \<Longrightarrow> m AND m2 = 0 \<Longrightarrow> set_masked m v w AND m2 = w AND m2"
  by (rule bit_word_eqI) (auto simp: set_masked_def bit_simps bit_eq_iff)

end
