(* ===== verification/GObject_Props.thy ===== *)
theory GObject_Props
  imports Alsa_Prelude
begin

text \<open>
  Properties of the GObject classes of the library. A property value is a \<open>GValue\<close> of one of
  the fundamental types the sources use; reading it with the accessor of another type logs a
  critical and gives zero, and writing it leaves the value alone, as the preconditions of the
  accessors in GLib document. A class is a pair of functions \<open>set_property\<close> and
  \<open>get_property\<close> over an enumeration of its properties, with the table of parameter
  specifications that its \<open>class_init\<close> installs, the flag for construct-only properties included.
\<close>

section \<open>Values\<close>

datatype 'b gvalue =
    VBool bool
  | VUChar u8
  | VChar u8
  | VInt u32
  | VUInt u32
  | VInt64 u64
  | VUInt64 u64
  | VEnum u32
  | VFlags u32
  | VString "bytes option"
  | VBoxed "'b option"

datatype gtype =
    TBool | TUChar | TChar | TInt | TUInt | TInt64 | TUInt64 | TEnum | TFlags | TString | TBoxed

fun value_type :: "'b gvalue \<Rightarrow> gtype" where
  "value_type (VBool _) = TBool"
| "value_type (VUChar _) = TUChar"
| "value_type (VChar _) = TChar"
| "value_type (VInt _) = TInt"
| "value_type (VUInt _) = TUInt"
| "value_type (VInt64 _) = TInt64"
| "value_type (VUInt64 _) = TUInt64"
| "value_type (VEnum _) = TEnum"
| "value_type (VFlags _) = TFlags"
| "value_type (VString _) = TString"
| "value_type (VBoxed _) = TBoxed"

fun g_value_init :: "gtype \<Rightarrow> 'b gvalue" where
  "g_value_init TBool = VBool False"
| "g_value_init TUChar = VUChar 0"
| "g_value_init TChar = VChar 0"
| "g_value_init TInt = VInt 0"
| "g_value_init TUInt = VUInt 0"
| "g_value_init TInt64 = VInt64 0"
| "g_value_init TUInt64 = VUInt64 0"
| "g_value_init TEnum = VEnum 0"
| "g_value_init TFlags = VFlags 0"
| "g_value_init TString = VString None"
| "g_value_init TBoxed = VBoxed None"

fun g_value_get_boolean :: "'b gvalue \<Rightarrow> bool" where
  "g_value_get_boolean (VBool x) = x" | "g_value_get_boolean _ = False"
fun g_value_get_uchar :: "'b gvalue \<Rightarrow> u8" where
  "g_value_get_uchar (VUChar x) = x" | "g_value_get_uchar _ = 0"
fun g_value_get_schar :: "'b gvalue \<Rightarrow> u8" where
  "g_value_get_schar (VChar x) = x" | "g_value_get_schar _ = 0"
fun g_value_get_int :: "'b gvalue \<Rightarrow> u32" where
  "g_value_get_int (VInt x) = x" | "g_value_get_int _ = 0"
fun g_value_get_uint :: "'b gvalue \<Rightarrow> u32" where
  "g_value_get_uint (VUInt x) = x" | "g_value_get_uint _ = 0"
fun g_value_get_int64 :: "'b gvalue \<Rightarrow> u64" where
  "g_value_get_int64 (VInt64 x) = x" | "g_value_get_int64 _ = 0"
fun g_value_get_uint64 :: "'b gvalue \<Rightarrow> u64" where
  "g_value_get_uint64 (VUInt64 x) = x" | "g_value_get_uint64 _ = 0"
fun g_value_get_enum :: "'b gvalue \<Rightarrow> u32" where
  "g_value_get_enum (VEnum x) = x" | "g_value_get_enum _ = 0"
fun g_value_get_flags :: "'b gvalue \<Rightarrow> u32" where
  "g_value_get_flags (VFlags x) = x" | "g_value_get_flags _ = 0"
fun g_value_get_string :: "'b gvalue \<Rightarrow> bytes option" where
  "g_value_get_string (VString x) = x" | "g_value_get_string _ = None"
fun g_value_get_boxed :: "'b gvalue \<Rightarrow> 'b option" where
  "g_value_get_boxed (VBoxed x) = x" | "g_value_get_boxed _ = None"

fun g_value_set_boolean :: "'b gvalue \<Rightarrow> bool \<Rightarrow> 'b gvalue" where
  "g_value_set_boolean (VBool _) x = VBool x" | "g_value_set_boolean v x = v"
fun g_value_set_uchar :: "'b gvalue \<Rightarrow> u8 \<Rightarrow> 'b gvalue" where
  "g_value_set_uchar (VUChar _) x = VUChar x" | "g_value_set_uchar v x = v"
fun g_value_set_schar :: "'b gvalue \<Rightarrow> u8 \<Rightarrow> 'b gvalue" where
  "g_value_set_schar (VChar _) x = VChar x" | "g_value_set_schar v x = v"
fun g_value_set_int :: "'b gvalue \<Rightarrow> u32 \<Rightarrow> 'b gvalue" where
  "g_value_set_int (VInt _) x = VInt x" | "g_value_set_int v x = v"
fun g_value_set_uint :: "'b gvalue \<Rightarrow> u32 \<Rightarrow> 'b gvalue" where
  "g_value_set_uint (VUInt _) x = VUInt x" | "g_value_set_uint v x = v"
fun g_value_set_int64 :: "'b gvalue \<Rightarrow> u64 \<Rightarrow> 'b gvalue" where
  "g_value_set_int64 (VInt64 _) x = VInt64 x" | "g_value_set_int64 v x = v"
fun g_value_set_uint64 :: "'b gvalue \<Rightarrow> u64 \<Rightarrow> 'b gvalue" where
  "g_value_set_uint64 (VUInt64 _) x = VUInt64 x" | "g_value_set_uint64 v x = v"
fun g_value_set_enum :: "'b gvalue \<Rightarrow> u32 \<Rightarrow> 'b gvalue" where
  "g_value_set_enum (VEnum _) x = VEnum x" | "g_value_set_enum v x = v"
fun g_value_set_flags :: "'b gvalue \<Rightarrow> u32 \<Rightarrow> 'b gvalue" where
  "g_value_set_flags (VFlags _) x = VFlags x" | "g_value_set_flags v x = v"
fun g_value_set_string :: "'b gvalue \<Rightarrow> bytes \<Rightarrow> 'b gvalue" where
  "g_value_set_string (VString _) x = VString (Some x)" | "g_value_set_string v x = v"
fun g_value_set_boxed :: "'b gvalue \<Rightarrow> 'b \<Rightarrow> 'b gvalue" where
  "g_value_set_boxed (VBoxed _) x = VBoxed (Some x)" | "g_value_set_boxed v x = v"

text \<open>A static boxed value may be \<open>NULL\<close>.\<close>

fun g_value_set_static_boxed :: "'b gvalue \<Rightarrow> 'b option \<Rightarrow> 'b gvalue" where
  "g_value_set_static_boxed (VBoxed _) x = VBoxed x" | "g_value_set_static_boxed v x = v"

text \<open>
  A string property copied into a character array: \<open>g_strlcpy\<close> refuses a \<open>NULL\<close> source.
\<close>

definition copy_string :: "bytes \<Rightarrow> bytes option \<Rightarrow> bytes" where
  "copy_string dst src = (case src of None \<Rightarrow> dst | Some s \<Rightarrow> strlcpy dst s)"

lemma length_copy_string [simp]: "length (copy_string dst src) = length dst"
  by (simp add: copy_string_def split: option.splits)

definition string_fits :: "nat \<Rightarrow> bytes option \<Rightarrow> bool" where
  "string_fits n src \<longleftrightarrow> (case src of None \<Rightarrow> False | Some s \<Rightarrow> 0 \<notin> set s \<and> length s < n)"

lemma cstr_copy_string [simp]:
  "string_fits n src \<Longrightarrow> length dst = n \<Longrightarrow> Some (cstr (copy_string dst src)) = src"
  by (cases "dst = []") (auto simp: string_fits_def copy_string_def cstr_simps split: option.splits)

section \<open>Parameter specifications\<close>

record pspec =
  ps_name :: string
  ps_type :: gtype
  ps_min :: int
  ps_max :: int
  ps_readable :: bool
  ps_writable :: bool
  ps_construct_only :: bool

fun value_in_range :: "int \<Rightarrow> int \<Rightarrow> 'b gvalue \<Rightarrow> bool" where
  "value_in_range lo hi (VUChar x) \<longleftrightarrow> lo \<le> uint x \<and> uint x \<le> hi"
| "value_in_range lo hi (VChar x) \<longleftrightarrow> lo \<le> sint x \<and> sint x \<le> hi"
| "value_in_range lo hi (VInt x) \<longleftrightarrow> lo \<le> sint x \<and> sint x \<le> hi"
| "value_in_range lo hi (VUInt x) \<longleftrightarrow> lo \<le> uint x \<and> uint x \<le> hi"
| "value_in_range lo hi (VInt64 x) \<longleftrightarrow> lo \<le> sint x \<and> sint x \<le> hi"
| "value_in_range lo hi (VUInt64 x) \<longleftrightarrow> lo \<le> uint x \<and> uint x \<le> hi"
| "value_in_range lo hi _ \<longleftrightarrow> True"

definition pspec_accepts :: "pspec \<Rightarrow> 'b gvalue \<Rightarrow> bool" where
  "pspec_accepts spec v \<longleftrightarrow>
     ps_writable spec \<and> value_type v = ps_type spec \<and> value_in_range (ps_min spec) (ps_max spec) v"

text \<open>Reading a property into a value initialised to the type its specification names.\<close>

definition read_property :: "('o \<Rightarrow> 'p \<Rightarrow> 'b gvalue \<Rightarrow> 'b gvalue) \<Rightarrow> ('p \<Rightarrow> pspec) \<Rightarrow> 'o \<Rightarrow> 'p \<Rightarrow> 'b gvalue" where
  "read_property get_property props x p = get_property x p (g_value_init (ps_type (props p)))"

text \<open>
  Writing a property with a legal value. A construct-only property takes a value while the object is constructed; once it exists,
  GObject refuses the write without calling the class.
\<close>

definition g_object_set ::
  "('o \<Rightarrow> 'p \<Rightarrow> 'b gvalue \<Rightarrow> 'o outcome) \<Rightarrow> ('p \<Rightarrow> pspec) \<Rightarrow> bool \<Rightarrow> 'o \<Rightarrow> 'p \<Rightarrow> 'b gvalue \<Rightarrow> 'o outcome" where
  "g_object_set set_property props constructing x p v =
     (if ps_construct_only (props p) \<and> \<not> constructing then Ret x else set_property x p v)"

primrec write_properties ::
  "('o \<Rightarrow> 'p \<Rightarrow> 'b gvalue \<Rightarrow> 'o outcome) \<Rightarrow> ('p \<Rightarrow> pspec) \<Rightarrow> bool \<Rightarrow> ('p \<times> 'b gvalue) list \<Rightarrow> 'o \<Rightarrow> 'o outcome" where
  "write_properties set_property props constructing [] x = Ret x"
| "write_properties set_property props constructing (pv # pvs) x =
     obind (g_object_set set_property props constructing x (fst pv) (snd pv))
       (write_properties set_property props constructing pvs)"

section \<open>The contract of a class\<close>

text \<open>
  \<open>accepts p v\<close> says that \<open>v\<close> is a legal value of the writable property \<open>p\<close>, \<open>kept p\<close> that the
  class reads back what is written to \<open>p\<close>. No legal write fails, or changes another property that is kept.
\<close>

locale gobject_properties =
  fixes set_property :: "'o \<Rightarrow> 'p \<Rightarrow> 'b gvalue \<Rightarrow> 'o outcome"
    and get_property :: "'o \<Rightarrow> 'p \<Rightarrow> 'b gvalue \<Rightarrow> 'b gvalue"
    and props :: "'p \<Rightarrow> pspec"
    and inv :: "'o \<Rightarrow> bool"
    and accepts :: "'p \<Rightarrow> 'b gvalue \<Rightarrow> bool"
    and kept :: "'p \<Rightarrow> bool"
  assumes set_ok: "inv x \<Longrightarrow> accepts p v \<Longrightarrow> \<exists>y. set_property x p v = Ret y \<and> inv y"
    and set_get: "inv x \<Longrightarrow> accepts p v \<Longrightarrow> kept p \<Longrightarrow> set_property x p v = Ret y \<Longrightarrow>
      read_property get_property props y p = v"
    and set_other: "inv x \<Longrightarrow> accepts p v \<Longrightarrow> kept q \<Longrightarrow> set_property x p v = Ret y \<Longrightarrow> p \<noteq> q \<Longrightarrow>
      read_property get_property props y q = read_property get_property props x q"
begin

lemma g_object_set_ok:
  assumes "inv x" "accepts p v"
  obtains y where "g_object_set set_property props constructing x p v = Ret y" "inv y"
    "kept p \<Longrightarrow> read_property get_property props y p =
       (if ps_construct_only (props p) \<and> \<not> constructing then read_property get_property props x p else v)"
    "\<And>q. kept q \<Longrightarrow> q \<noteq> p \<Longrightarrow> read_property get_property props y q = read_property get_property props x q"
proof (cases "ps_construct_only (props p) \<and> \<not> constructing")
  case True
  with that [of x] assms(1) show ?thesis by (simp add: g_object_set_def)
next
  case False
  obtain y where y: "set_property x p v = Ret y" "inv y" using set_ok [OF assms] by blast
  with that [of y] False set_get [OF assms _ y(1)] set_other [OF assms _ y(1)] show ?thesis
    by (auto simp: g_object_set_def)
qed

lemma write_read:
  assumes "inv x" "distinct (map fst pvs)" "\<forall>(q, w)\<in>set pvs. accepts q w"
  shows "\<exists>y. write_properties set_property props constructing pvs x = Ret y \<and> inv y \<and>
    (\<forall>(p, v)\<in>set pvs. kept p \<longrightarrow> read_property get_property props y p =
       (if ps_construct_only (props p) \<and> \<not> constructing then read_property get_property props x p else v)) \<and>
    (\<forall>p. kept p \<longrightarrow> p \<notin> fst ` set pvs \<longrightarrow>
       read_property get_property props y p = read_property get_property props x p)"
  using assms
proof (induction pvs arbitrary: x)
  case (Cons pv pvs)
  obtain q w where pv: "pv = (q, w)" by (cases pv)
  with Cons.prems obtain z where z: "g_object_set set_property props constructing x q w = Ret z" "inv z"
      and zq: "kept q \<Longrightarrow> read_property get_property props z q =
        (if ps_construct_only (props q) \<and> \<not> constructing then read_property get_property props x q else w)"
      and zo: "\<And>p. kept p \<Longrightarrow> p \<noteq> q \<Longrightarrow> read_property get_property props z p = read_property get_property props x p"
    using g_object_set_ok [of x q w] by (metis case_prod_conv list.set_intros(1))
  have fresh: "q \<notin> fst ` set pvs" "distinct (map fst pvs)" "\<forall>(p, v)\<in>set pvs. accepts p v"
    using Cons.prems pv by auto
  obtain y where y: "write_properties set_property props constructing pvs z = Ret y" "inv y"
      and read: "\<forall>(p, v)\<in>set pvs. kept p \<longrightarrow> read_property get_property props y p =
        (if ps_construct_only (props p) \<and> \<not> constructing then read_property get_property props z p else v)"
      and other: "\<forall>p. kept p \<longrightarrow> p \<notin> fst ` set pvs \<longrightarrow>
        read_property get_property props y p = read_property get_property props z p"
    using Cons.IH [OF z(2) fresh(2,3)] by blast
  have "read_property get_property props y p =
      (if ps_construct_only (props p) \<and> \<not> constructing then read_property get_property props x p else v)"
    if "(p, v) \<in> set pvs" "kept p" for p v
  proof -
    have "p \<noteq> q" using that(1) fresh(1) by force
    then show ?thesis using bspec [OF read that(1)] zo [OF that(2)] that(2) by simp
  qed
  moreover have "kept q \<longrightarrow> read_property get_property props y q =
      (if ps_construct_only (props q) \<and> \<not> constructing then read_property get_property props x q else w)"
    using other fresh(1) zq by simp
  moreover have "read_property get_property props y p = read_property get_property props x p"
    if "kept p" "p \<notin> fst ` set (pv # pvs)" for p
    using that other zo [of p] pv by simp
  ultimately show ?case using z y by (auto simp: pv)
qed simp

end

text \<open>The trivial cases of the two predicates, and what the proofs of the contract unfold.\<close>

definition all_kept :: "'p \<Rightarrow> bool" where
  "all_kept p \<longleftrightarrow> True"

lemmas property_simps = read_property_def pspec_accepts_def all_kept_def

definition any_info :: "'o \<Rightarrow> bool" where
  "any_info info \<longleftrightarrow> True"

section \<open>Getters against their specifications\<close>

text \<open>
  A getter conforms to the specification of a property when it stores into a value of the type that the
  specification names, so that what is read comes from the object alone. A getter that uses the accessor of
  another type leaves the value as it was.
\<close>

definition getters_conform ::
  "('o \<Rightarrow> 'p \<Rightarrow> 'b gvalue \<Rightarrow> 'b gvalue) \<Rightarrow> ('p \<Rightarrow> pspec) \<Rightarrow> ('p \<Rightarrow> bool) \<Rightarrow> bool" where
  "getters_conform get_property props ok \<longleftrightarrow>
     (\<forall>x p v. ok p \<longrightarrow> value_type v = ps_type (props p) \<longrightarrow>
        get_property x p v = read_property get_property props x p \<and>
        value_type (get_property x p v) = ps_type (props p))"

lemma getters_conformI:
  assumes "\<And>x p v. ok p \<Longrightarrow> value_type v = ps_type (props p) \<Longrightarrow>
      get_property x p v = read_property get_property props x p \<and> value_type (get_property x p v) = ps_type (props p)"
  shows "getters_conform get_property props ok"
  unfolding getters_conform_def using assms by blast

lemma getters_conformD:
  assumes "getters_conform get_property props ok" "ok p" "value_type v = ps_type (props p)"
  shows "get_property x p v = read_property get_property props x p" "value_type (get_property x p v) = ps_type (props p)"
  using assms unfolding getters_conform_def by blast+

lemma value_type_init [simp]: "value_type (g_value_init t) = t"
  by (cases t) simp_all

lemma typed_set [simp]:
  "value_type v = TBool \<Longrightarrow> g_value_set_boolean v b = VBool b" "value_type v = TUChar \<Longrightarrow> g_value_set_uchar v c = VUChar c"
  "value_type v = TChar \<Longrightarrow> g_value_set_schar v c = VChar c" "value_type v = TInt \<Longrightarrow> g_value_set_int v i = VInt i"
  "value_type v = TUInt \<Longrightarrow> g_value_set_uint v i = VUInt i" "value_type v = TInt64 \<Longrightarrow> g_value_set_int64 v l = VInt64 l"
  "value_type v = TUInt64 \<Longrightarrow> g_value_set_uint64 v l = VUInt64 l" "value_type v = TEnum \<Longrightarrow> g_value_set_enum v i = VEnum i"
  "value_type v = TFlags \<Longrightarrow> g_value_set_flags v i = VFlags i" "value_type v = TString \<Longrightarrow> g_value_set_string v s = VString (Some s)"
  "value_type v = TBoxed \<Longrightarrow> g_value_set_boxed v x = VBoxed (Some x)"
  "value_type v = TBoxed \<Longrightarrow> g_value_set_static_boxed v y = VBoxed y"
  by (cases v; simp)+

end
