(* ===== verification/Enum_Values.thy ===== *)
theory Enum_Values
  imports Alsa_Prelude
begin

text \<open>
  Enumerations of the public headers. An enumeration is a datatype with the names of the header and a function to
  the value of each name, most of which are the constants of the kernel headers. The contract of an
  enumeration is that the values tell the names apart, so that a value of the kernel is read as one name at
  most. The contract of flags is that they share no bit, so that a word of flags is a set of names.
\<close>

definition enum_of_value :: "('e \<Rightarrow> 'v) \<Rightarrow> 'e list \<Rightarrow> 'v \<Rightarrow> 'e option" where
  "enum_of_value val es v = find (\<lambda>e. val e = v) es"

primrec flags_word :: "('e \<Rightarrow> 'a::len word) \<Rightarrow> 'e list \<Rightarrow> 'a word" where
  "flags_word val [] = 0" |
  "flags_word val (f # fs) = val f OR flags_word val fs"

definition flags_of_word :: "('e \<Rightarrow> 'a::len word) \<Rightarrow> 'e list \<Rightarrow> 'a word \<Rightarrow> 'e list" where
  "flags_of_word val es w = filter (\<lambda>f. w AND val f \<noteq> 0) es"

locale enumeration =
  fixes val :: "'e \<Rightarrow> 'v" and es :: "'e list"
  assumes members: "set es = UNIV"
    and distinct_values: "distinct (map val es)"
begin

lemma value_eq_iff: "val a = val b \<longleftrightarrow> a = b"
  using distinct_values members by (auto simp: distinct_map dest: inj_onD)

lemma of_value: "enum_of_value val es (val a) = Some a"
proof -
  obtain b where b: "find (\<lambda>e. val e = val a) es = Some b"
    using members by (cases "find (\<lambda>e. val e = val a) es") (auto simp: find_None_iff)
  then have "val b = val a" by (auto simp: find_Some_iff)
  with b show ?thesis by (simp add: enum_of_value_def value_eq_iff)
qed

lemma of_value_eq_Some: "enum_of_value val es v = Some a \<longleftrightarrow> val a = v"
  using of_value [of a] by (auto simp: enum_of_value_def find_Some_iff)

end

locale flag_enumeration = enumeration val es for val :: "'e \<Rightarrow> 'a::len word" and es +
  assumes disjoint_flags: "a \<noteq> b \<Longrightarrow> val a AND val b = 0"
    and flag_nonzero: "val a \<noteq> 0"
begin

lemma flag_in_word: "flags_word val fs AND val f \<noteq> 0 \<longleftrightarrow> f \<in> set fs"
proof (induction fs)
  case (Cons g fs)
  have "flags_word val (g # fs) AND val f = (val g AND val f) OR (flags_word val fs AND val f)"
    by (simp add: bit.conj_disj_distrib2)
  then show ?case using Cons disjoint_flags [of g f] flag_nonzero [of f] by (cases "g = f") auto
qed simp

lemma flags_of_flags_word: "flags_of_word val es (flags_word val fs) = filter (\<lambda>f. f \<in> set fs) es"
  by (simp add: flags_of_word_def flag_in_word)

lemma same_word_iff: "flags_word val fs = flags_word val gs \<longleftrightarrow> set fs = set gs"
proof
  assume "flags_word val fs = flags_word val gs"
  then show "set fs = set gs" using flag_in_word [of fs] flag_in_word [of gs] by auto
next
  assume "set fs = set gs"
  moreover have bits: "bit (flags_word val hs) n \<longleftrightarrow> (\<exists>h \<in> set hs. bit (val h) n)" for hs n
    by (induction hs) (auto simp: bit_or_iff)
  ultimately show "flags_word val fs = flags_word val gs" by (intro bit_eqI) simp
qed

end

end
