(* ===== verification/Timer_Enum_Types.thy ===== *)
theory Timer_Enum_Types
  imports Enum_Values
begin

text \<open>
  The enumerations of \<open>timer/alsatimer-enum-types.h\<close>, of timers: classes, flags, events and errors.
  The values are those of the kernel headers that the header names.
\<close>

datatype timer_class =
    ALSATIMER_CLASS_NONE | ALSATIMER_CLASS_GLOBAL | ALSATIMER_CLASS_CARD | ALSATIMER_CLASS_PCM

primrec timer_class_value :: "timer_class \<Rightarrow> u32" where
  "timer_class_value ALSATIMER_CLASS_NONE = - 1" |
  "timer_class_value ALSATIMER_CLASS_GLOBAL = 1" |
  "timer_class_value ALSATIMER_CLASS_CARD = 2" |
  "timer_class_value ALSATIMER_CLASS_PCM = 3"

definition all_timer_class :: "timer_class list" where
  "all_timer_class = [ALSATIMER_CLASS_NONE, ALSATIMER_CLASS_GLOBAL, ALSATIMER_CLASS_CARD, ALSATIMER_CLASS_PCM]"

lemma set_all_timer_class: "set all_timer_class = UNIV"
  using timer_class.exhaust by (auto simp: all_timer_class_def)

lemma distinct_all_timer_class: "distinct (map timer_class_value all_timer_class)"
  by (simp add: all_timer_class_def)

interpretation timer_class: enumeration timer_class_value all_timer_class
  by unfold_locales (fact set_all_timer_class distinct_all_timer_class)+

datatype timer_slave_class =
    ALSATIMER_SLAVE_CLASS_NONE | ALSATIMER_SLAVE_CLASS_APPLICATION | ALSATIMER_SLAVE_CLASS_SEQUENCER

primrec timer_slave_class_value :: "timer_slave_class \<Rightarrow> u32" where
  "timer_slave_class_value ALSATIMER_SLAVE_CLASS_NONE = 0" |
  "timer_slave_class_value ALSATIMER_SLAVE_CLASS_APPLICATION = 1" |
  "timer_slave_class_value ALSATIMER_SLAVE_CLASS_SEQUENCER = 2"

definition all_timer_slave_class :: "timer_slave_class list" where
  "all_timer_slave_class = [ALSATIMER_SLAVE_CLASS_NONE, ALSATIMER_SLAVE_CLASS_APPLICATION,
     ALSATIMER_SLAVE_CLASS_SEQUENCER]"

lemma set_all_timer_slave_class: "set all_timer_slave_class = UNIV"
  using timer_slave_class.exhaust by (auto simp: all_timer_slave_class_def)

lemma distinct_all_timer_slave_class: "distinct (map timer_slave_class_value all_timer_slave_class)"
  by (simp add: all_timer_slave_class_def)

interpretation timer_slave_class: enumeration timer_slave_class_value all_timer_slave_class
  by unfold_locales (fact set_all_timer_slave_class distinct_all_timer_slave_class)+

datatype timer_specific_global_device =
    ALSATIMER_SPECIFIC_GLOBAL_DEVICE_SYSTEM | ALSATIMER_SPECIFIC_GLOBAL_DEVICE_HRTIMER

primrec timer_specific_global_device_value :: "timer_specific_global_device \<Rightarrow> u32" where
  "timer_specific_global_device_value ALSATIMER_SPECIFIC_GLOBAL_DEVICE_SYSTEM = 0" |
  "timer_specific_global_device_value ALSATIMER_SPECIFIC_GLOBAL_DEVICE_HRTIMER = 3"

definition all_timer_specific_global_device :: "timer_specific_global_device list" where
  "all_timer_specific_global_device = [ALSATIMER_SPECIFIC_GLOBAL_DEVICE_SYSTEM,
     ALSATIMER_SPECIFIC_GLOBAL_DEVICE_HRTIMER]"

lemma set_all_timer_specific_global_device: "set all_timer_specific_global_device = UNIV"
  using timer_specific_global_device.exhaust by (auto simp: all_timer_specific_global_device_def)

lemma distinct_all_timer_specific_global_device: "distinct (map timer_specific_global_device_value all_timer_specific_global_device)"
  by (simp add: all_timer_specific_global_device_def)

interpretation timer_specific_global_device: enumeration timer_specific_global_device_value all_timer_specific_global_device
  by unfold_locales (fact set_all_timer_specific_global_device distinct_all_timer_specific_global_device)+

datatype timer_device_info_flag =
    ALSATIMER_DEVICE_INFO_FLAG_SLAVE

primrec timer_device_info_flag_value :: "timer_device_info_flag \<Rightarrow> u32" where
  "timer_device_info_flag_value ALSATIMER_DEVICE_INFO_FLAG_SLAVE = 1"

definition all_timer_device_info_flag :: "timer_device_info_flag list" where
  "all_timer_device_info_flag = [ALSATIMER_DEVICE_INFO_FLAG_SLAVE]"

lemma set_all_timer_device_info_flag: "set all_timer_device_info_flag = UNIV"
  using timer_device_info_flag.exhaust by (auto simp: all_timer_device_info_flag_def)

lemma distinct_all_timer_device_info_flag: "distinct (map timer_device_info_flag_value all_timer_device_info_flag)"
  by (simp add: all_timer_device_info_flag_def)

interpretation timer_device_info_flag: flag_enumeration timer_device_info_flag_value all_timer_device_info_flag
proof unfold_locales
  fix a b :: timer_device_info_flag
  assume "a \<noteq> b"
  then show "timer_device_info_flag_value a AND timer_device_info_flag_value b = 0" by (cases a; cases b; simp)
next
  fix a :: timer_device_info_flag
  show "timer_device_info_flag_value a \<noteq> 0" by (cases a) simp_all
qed (fact set_all_timer_device_info_flag distinct_all_timer_device_info_flag)+

datatype timer_instance_param_flag =
    ALSATIMER_INSTANCE_PARAM_FLAG_AUTO | ALSATIMER_INSTANCE_PARAM_FLAG_EXCLUSIVE
  | ALSATIMER_INSTANCE_PARAM_FLAG_EARLY_EVENT

primrec timer_instance_param_flag_value :: "timer_instance_param_flag \<Rightarrow> u32" where
  "timer_instance_param_flag_value ALSATIMER_INSTANCE_PARAM_FLAG_AUTO = 1" |
  "timer_instance_param_flag_value ALSATIMER_INSTANCE_PARAM_FLAG_EXCLUSIVE = 2" |
  "timer_instance_param_flag_value ALSATIMER_INSTANCE_PARAM_FLAG_EARLY_EVENT = 4"

definition all_timer_instance_param_flag :: "timer_instance_param_flag list" where
  "all_timer_instance_param_flag = [ALSATIMER_INSTANCE_PARAM_FLAG_AUTO,
     ALSATIMER_INSTANCE_PARAM_FLAG_EXCLUSIVE, ALSATIMER_INSTANCE_PARAM_FLAG_EARLY_EVENT]"

lemma set_all_timer_instance_param_flag: "set all_timer_instance_param_flag = UNIV"
  using timer_instance_param_flag.exhaust by (auto simp: all_timer_instance_param_flag_def)

lemma distinct_all_timer_instance_param_flag: "distinct (map timer_instance_param_flag_value all_timer_instance_param_flag)"
  by (simp add: all_timer_instance_param_flag_def)

interpretation timer_instance_param_flag: flag_enumeration timer_instance_param_flag_value all_timer_instance_param_flag
proof unfold_locales
  fix a b :: timer_instance_param_flag
  assume "a \<noteq> b"
  then show "timer_instance_param_flag_value a AND timer_instance_param_flag_value b = 0" by (cases a; cases b; simp)
next
  fix a :: timer_instance_param_flag
  show "timer_instance_param_flag_value a \<noteq> 0" by (cases a) simp_all
qed (fact set_all_timer_instance_param_flag distinct_all_timer_instance_param_flag)+

datatype timer_real_time_event_type =
    ALSATIMER_REAL_TIME_EVENT_TYPE_RESOLUTION | ALSATIMER_REAL_TIME_EVENT_TYPE_TICK
  | ALSATIMER_REAL_TIME_EVENT_TYPE_START | ALSATIMER_REAL_TIME_EVENT_TYPE_STOP
  | ALSATIMER_REAL_TIME_EVENT_TYPE_CONTINUE | ALSATIMER_REAL_TIME_EVENT_TYPE_PAUSE
  | ALSATIMER_REAL_TIME_EVENT_TYPE_EARLY | ALSATIMER_REAL_TIME_EVENT_TYPE_SUSPEND
  | ALSATIMER_REAL_TIME_EVENT_TYPE_RESUME | ALSATIMER_REAL_TIME_EVENT_TYPE_MSTART
  | ALSATIMER_REAL_TIME_EVENT_TYPE_MSTOP | ALSATIMER_REAL_TIME_EVENT_TYPE_MCONTINUE
  | ALSATIMER_REAL_TIME_EVENT_TYPE_MPAUSE | ALSATIMER_REAL_TIME_EVENT_TYPE_MSUSPEND
  | ALSATIMER_REAL_TIME_EVENT_TYPE_MRESUME

primrec timer_real_time_event_type_value :: "timer_real_time_event_type \<Rightarrow> int" where
  "timer_real_time_event_type_value ALSATIMER_REAL_TIME_EVENT_TYPE_RESOLUTION = 0" |
  "timer_real_time_event_type_value ALSATIMER_REAL_TIME_EVENT_TYPE_TICK = 1" |
  "timer_real_time_event_type_value ALSATIMER_REAL_TIME_EVENT_TYPE_START = 2" |
  "timer_real_time_event_type_value ALSATIMER_REAL_TIME_EVENT_TYPE_STOP = 3" |
  "timer_real_time_event_type_value ALSATIMER_REAL_TIME_EVENT_TYPE_CONTINUE = 4" |
  "timer_real_time_event_type_value ALSATIMER_REAL_TIME_EVENT_TYPE_PAUSE = 5" |
  "timer_real_time_event_type_value ALSATIMER_REAL_TIME_EVENT_TYPE_EARLY = 6" |
  "timer_real_time_event_type_value ALSATIMER_REAL_TIME_EVENT_TYPE_SUSPEND = 7" |
  "timer_real_time_event_type_value ALSATIMER_REAL_TIME_EVENT_TYPE_RESUME = 8" |
  "timer_real_time_event_type_value ALSATIMER_REAL_TIME_EVENT_TYPE_MSTART = 12" |
  "timer_real_time_event_type_value ALSATIMER_REAL_TIME_EVENT_TYPE_MSTOP = 13" |
  "timer_real_time_event_type_value ALSATIMER_REAL_TIME_EVENT_TYPE_MCONTINUE = 14" |
  "timer_real_time_event_type_value ALSATIMER_REAL_TIME_EVENT_TYPE_MPAUSE = 15" |
  "timer_real_time_event_type_value ALSATIMER_REAL_TIME_EVENT_TYPE_MSUSPEND = 17" |
  "timer_real_time_event_type_value ALSATIMER_REAL_TIME_EVENT_TYPE_MRESUME = 18"

definition all_timer_real_time_event_type :: "timer_real_time_event_type list" where
  "all_timer_real_time_event_type = [ALSATIMER_REAL_TIME_EVENT_TYPE_RESOLUTION,
     ALSATIMER_REAL_TIME_EVENT_TYPE_TICK, ALSATIMER_REAL_TIME_EVENT_TYPE_START,
     ALSATIMER_REAL_TIME_EVENT_TYPE_STOP, ALSATIMER_REAL_TIME_EVENT_TYPE_CONTINUE,
     ALSATIMER_REAL_TIME_EVENT_TYPE_PAUSE, ALSATIMER_REAL_TIME_EVENT_TYPE_EARLY,
     ALSATIMER_REAL_TIME_EVENT_TYPE_SUSPEND, ALSATIMER_REAL_TIME_EVENT_TYPE_RESUME,
     ALSATIMER_REAL_TIME_EVENT_TYPE_MSTART, ALSATIMER_REAL_TIME_EVENT_TYPE_MSTOP,
     ALSATIMER_REAL_TIME_EVENT_TYPE_MCONTINUE, ALSATIMER_REAL_TIME_EVENT_TYPE_MPAUSE,
     ALSATIMER_REAL_TIME_EVENT_TYPE_MSUSPEND, ALSATIMER_REAL_TIME_EVENT_TYPE_MRESUME]"

lemma set_all_timer_real_time_event_type: "set all_timer_real_time_event_type = UNIV"
  using timer_real_time_event_type.exhaust by (auto simp: all_timer_real_time_event_type_def)

lemma distinct_all_timer_real_time_event_type: "distinct (map timer_real_time_event_type_value all_timer_real_time_event_type)"
  by (simp add: all_timer_real_time_event_type_def)

interpretation timer_real_time_event_type: enumeration timer_real_time_event_type_value all_timer_real_time_event_type
  by unfold_locales (fact set_all_timer_real_time_event_type distinct_all_timer_real_time_event_type)+

datatype timer_event_type =
    ALSATIMER_EVENT_TYPE_TICK_TIME | ALSATIMER_EVENT_TYPE_REAL_TIME

primrec timer_event_type_value :: "timer_event_type \<Rightarrow> u32" where
  "timer_event_type_value ALSATIMER_EVENT_TYPE_TICK_TIME = 0" |
  "timer_event_type_value ALSATIMER_EVENT_TYPE_REAL_TIME = 1"

definition all_timer_event_type :: "timer_event_type list" where
  "all_timer_event_type = [ALSATIMER_EVENT_TYPE_TICK_TIME, ALSATIMER_EVENT_TYPE_REAL_TIME]"

lemma set_all_timer_event_type: "set all_timer_event_type = UNIV"
  using timer_event_type.exhaust by (auto simp: all_timer_event_type_def)

lemma distinct_all_timer_event_type: "distinct (map timer_event_type_value all_timer_event_type)"
  by (simp add: all_timer_event_type_def)

interpretation timer_event_type: enumeration timer_event_type_value all_timer_event_type
  by unfold_locales (fact set_all_timer_event_type distinct_all_timer_event_type)+

datatype timer_user_instance_error =
    ALSATIMER_USER_INSTANCE_ERROR_FAILED | ALSATIMER_USER_INSTANCE_ERROR_TIMER_NOT_FOUND
  | ALSATIMER_USER_INSTANCE_ERROR_NOT_ATTACHED | ALSATIMER_USER_INSTANCE_ERROR_ATTACHED

primrec timer_user_instance_error_code :: "timer_user_instance_error \<Rightarrow> int" where
  "timer_user_instance_error_code ALSATIMER_USER_INSTANCE_ERROR_FAILED = 0" |
  "timer_user_instance_error_code ALSATIMER_USER_INSTANCE_ERROR_TIMER_NOT_FOUND = 1" |
  "timer_user_instance_error_code ALSATIMER_USER_INSTANCE_ERROR_NOT_ATTACHED = 2" |
  "timer_user_instance_error_code ALSATIMER_USER_INSTANCE_ERROR_ATTACHED = 3"

definition all_timer_user_instance_error :: "timer_user_instance_error list" where
  "all_timer_user_instance_error = [ALSATIMER_USER_INSTANCE_ERROR_FAILED,
     ALSATIMER_USER_INSTANCE_ERROR_TIMER_NOT_FOUND, ALSATIMER_USER_INSTANCE_ERROR_NOT_ATTACHED,
     ALSATIMER_USER_INSTANCE_ERROR_ATTACHED]"

lemma set_all_timer_user_instance_error: "set all_timer_user_instance_error = UNIV"
  using timer_user_instance_error.exhaust by (auto simp: all_timer_user_instance_error_def)

lemma distinct_all_timer_user_instance_error: "distinct (map timer_user_instance_error_code all_timer_user_instance_error)"
  by (simp add: all_timer_user_instance_error_def)

interpretation timer_user_instance_error: enumeration timer_user_instance_error_code all_timer_user_instance_error
  by unfold_locales (fact set_all_timer_user_instance_error distinct_all_timer_user_instance_error)+

end
