(* ===== verification/Timer_Device_Id.thy ===== *)
theory Timer_Device_Id
  imports Timer_Enum_Types
begin

text \<open>
  The identifier of a timer device (\<open>timer/device-id.c\<close>), which the timer library and the queue timer of the
  sequencer share.
\<close>

section \<open>Identifiers of timer devices\<close>

record snd_timer_id =
  tid_dev_class :: u32
  tid_dev_sclass :: u32
  tid_card :: u32
  tid_device :: u32
  tid_subdevice :: u32

definition zero_timer_id :: snd_timer_id where
  "zero_timer_id = \<lparr>tid_dev_class = 0, tid_dev_sclass = 0, tid_card = 0, tid_device = 0, tid_subdevice = 0\<rparr>"

definition timer_device_id_copy :: "snd_timer_id \<Rightarrow> snd_timer_id" where
  "timer_device_id_copy self = self"

definition alsatimer_device_id_new :: "u32 \<Rightarrow> u32 \<Rightarrow> u32 \<Rightarrow> u32 \<Rightarrow> snd_timer_id" where
  "alsatimer_device_id_new class card_id device_id subdevice_id =
     zero_timer_id\<lparr>tid_dev_class := class, tid_card := card_id, tid_device := device_id,
       tid_subdevice := subdevice_id\<rparr>"

definition alsatimer_device_id_get_class :: "snd_timer_id \<Rightarrow> u32" where
  "alsatimer_device_id_get_class self = tid_dev_class self"

definition alsatimer_device_id_get_card_id :: "snd_timer_id \<Rightarrow> u32" where
  "alsatimer_device_id_get_card_id self = tid_card self"

definition alsatimer_device_id_get_device_id :: "snd_timer_id \<Rightarrow> u32" where
  "alsatimer_device_id_get_device_id self = tid_device self"

definition alsatimer_device_id_get_subdevice_id :: "snd_timer_id \<Rightarrow> u32" where
  "alsatimer_device_id_get_subdevice_id self = tid_subdevice self"

end
