(* ===== verification/Seq_Enum_Types.thy ===== *)
theory Seq_Enum_Types
  imports Enum_Values
begin

text \<open>
  The enumerations of \<open>seq/alsaseq-enum-types.h\<close>, of the sequencer: addresses, clients, ports, events, queues and errors.
  The values are those of the kernel headers that the header names.
\<close>

datatype seq_specific_address =
    ALSASEQ_SPECIFIC_ADDRESS_UNKNOWN | ALSASEQ_SPECIFIC_ADDRESS_SUBSCRIBERS
  | ALSASEQ_SPECIFIC_ADDRESS_BROADCAST

primrec seq_specific_address_value :: "seq_specific_address \<Rightarrow> u8" where
  "seq_specific_address_value ALSASEQ_SPECIFIC_ADDRESS_UNKNOWN = 253" |
  "seq_specific_address_value ALSASEQ_SPECIFIC_ADDRESS_SUBSCRIBERS = 254" |
  "seq_specific_address_value ALSASEQ_SPECIFIC_ADDRESS_BROADCAST = 255"

definition all_seq_specific_address :: "seq_specific_address list" where
  "all_seq_specific_address = [ALSASEQ_SPECIFIC_ADDRESS_UNKNOWN, ALSASEQ_SPECIFIC_ADDRESS_SUBSCRIBERS,
     ALSASEQ_SPECIFIC_ADDRESS_BROADCAST]"

lemma set_all_seq_specific_address: "set all_seq_specific_address = UNIV"
  using seq_specific_address.exhaust by (auto simp: all_seq_specific_address_def)

lemma distinct_all_seq_specific_address: "distinct (map seq_specific_address_value all_seq_specific_address)"
  by (simp add: all_seq_specific_address_def)

interpretation seq_specific_address: enumeration seq_specific_address_value all_seq_specific_address
  by unfold_locales (fact set_all_seq_specific_address distinct_all_seq_specific_address)+

datatype seq_specific_client_id =
    ALSASEQ_SPECIFIC_CLIENT_ID_SYSTEM | ALSASEQ_SPECIFIC_CLIENT_ID_DUMMY | ALSASEQ_SPECIFIC_CLIENT_ID_OSS

primrec seq_specific_client_id_value :: "seq_specific_client_id \<Rightarrow> u8" where
  "seq_specific_client_id_value ALSASEQ_SPECIFIC_CLIENT_ID_SYSTEM = 0" |
  "seq_specific_client_id_value ALSASEQ_SPECIFIC_CLIENT_ID_DUMMY = 14" |
  "seq_specific_client_id_value ALSASEQ_SPECIFIC_CLIENT_ID_OSS = 15"

definition all_seq_specific_client_id :: "seq_specific_client_id list" where
  "all_seq_specific_client_id = [ALSASEQ_SPECIFIC_CLIENT_ID_SYSTEM, ALSASEQ_SPECIFIC_CLIENT_ID_DUMMY,
     ALSASEQ_SPECIFIC_CLIENT_ID_OSS]"

lemma set_all_seq_specific_client_id: "set all_seq_specific_client_id = UNIV"
  using seq_specific_client_id.exhaust by (auto simp: all_seq_specific_client_id_def)

lemma distinct_all_seq_specific_client_id: "distinct (map seq_specific_client_id_value all_seq_specific_client_id)"
  by (simp add: all_seq_specific_client_id_def)

interpretation seq_specific_client_id: enumeration seq_specific_client_id_value all_seq_specific_client_id
  by unfold_locales (fact set_all_seq_specific_client_id distinct_all_seq_specific_client_id)+

datatype seq_client_type =
    ALSASEQ_CLIENT_TYPE_NONE | ALSASEQ_CLIENT_TYPE_USER | ALSASEQ_CLIENT_TYPE_KERNEL

primrec seq_client_type_value :: "seq_client_type \<Rightarrow> u32" where
  "seq_client_type_value ALSASEQ_CLIENT_TYPE_NONE = 0" |
  "seq_client_type_value ALSASEQ_CLIENT_TYPE_USER = 1" |
  "seq_client_type_value ALSASEQ_CLIENT_TYPE_KERNEL = 2"

definition all_seq_client_type :: "seq_client_type list" where
  "all_seq_client_type = [ALSASEQ_CLIENT_TYPE_NONE, ALSASEQ_CLIENT_TYPE_USER, ALSASEQ_CLIENT_TYPE_KERNEL]"

lemma set_all_seq_client_type: "set all_seq_client_type = UNIV"
  using seq_client_type.exhaust by (auto simp: all_seq_client_type_def)

lemma distinct_all_seq_client_type: "distinct (map seq_client_type_value all_seq_client_type)"
  by (simp add: all_seq_client_type_def)

interpretation seq_client_type: enumeration seq_client_type_value all_seq_client_type
  by unfold_locales (fact set_all_seq_client_type distinct_all_seq_client_type)+

datatype seq_filter_attr_flag =
    ALSASEQ_FILTER_ATTR_FLAG_BROADCAST | ALSASEQ_FILTER_ATTR_FLAG_MULTICAST | ALSASEQ_FILTER_ATTR_FLAG_BOUNCE

primrec seq_filter_attr_flag_value :: "seq_filter_attr_flag \<Rightarrow> u32" where
  "seq_filter_attr_flag_value ALSASEQ_FILTER_ATTR_FLAG_BROADCAST = 1" |
  "seq_filter_attr_flag_value ALSASEQ_FILTER_ATTR_FLAG_MULTICAST = 2" |
  "seq_filter_attr_flag_value ALSASEQ_FILTER_ATTR_FLAG_BOUNCE = 4"

definition all_seq_filter_attr_flag :: "seq_filter_attr_flag list" where
  "all_seq_filter_attr_flag = [ALSASEQ_FILTER_ATTR_FLAG_BROADCAST, ALSASEQ_FILTER_ATTR_FLAG_MULTICAST,
     ALSASEQ_FILTER_ATTR_FLAG_BOUNCE]"

lemma set_all_seq_filter_attr_flag: "set all_seq_filter_attr_flag = UNIV"
  using seq_filter_attr_flag.exhaust by (auto simp: all_seq_filter_attr_flag_def)

lemma distinct_all_seq_filter_attr_flag: "distinct (map seq_filter_attr_flag_value all_seq_filter_attr_flag)"
  by (simp add: all_seq_filter_attr_flag_def)

interpretation seq_filter_attr_flag: flag_enumeration seq_filter_attr_flag_value all_seq_filter_attr_flag
proof unfold_locales
  fix a b :: seq_filter_attr_flag
  assume "a \<noteq> b"
  then show "seq_filter_attr_flag_value a AND seq_filter_attr_flag_value b = 0" by (cases a; cases b; simp)
next
  fix a :: seq_filter_attr_flag
  show "seq_filter_attr_flag_value a \<noteq> 0" by (cases a) simp_all
qed (fact set_all_seq_filter_attr_flag distinct_all_seq_filter_attr_flag)+

datatype seq_specific_port_id =
    ALSASEQ_SPECIFIC_PORT_ID_SYSTEM_TIMER | ALSASEQ_SPECIFIC_PORT_ID_SYSTEM_ANNOUNCE

primrec seq_specific_port_id_value :: "seq_specific_port_id \<Rightarrow> u8" where
  "seq_specific_port_id_value ALSASEQ_SPECIFIC_PORT_ID_SYSTEM_TIMER = 0" |
  "seq_specific_port_id_value ALSASEQ_SPECIFIC_PORT_ID_SYSTEM_ANNOUNCE = 1"

definition all_seq_specific_port_id :: "seq_specific_port_id list" where
  "all_seq_specific_port_id = [ALSASEQ_SPECIFIC_PORT_ID_SYSTEM_TIMER, ALSASEQ_SPECIFIC_PORT_ID_SYSTEM_ANNOUNCE]"

lemma set_all_seq_specific_port_id: "set all_seq_specific_port_id = UNIV"
  using seq_specific_port_id.exhaust by (auto simp: all_seq_specific_port_id_def)

lemma distinct_all_seq_specific_port_id: "distinct (map seq_specific_port_id_value all_seq_specific_port_id)"
  by (simp add: all_seq_specific_port_id_def)

interpretation seq_specific_port_id: enumeration seq_specific_port_id_value all_seq_specific_port_id
  by unfold_locales (fact set_all_seq_specific_port_id distinct_all_seq_specific_port_id)+

datatype seq_port_cap_flag =
    ALSASEQ_PORT_CAP_FLAG_READ | ALSASEQ_PORT_CAP_FLAG_WRITE | ALSASEQ_PORT_CAP_FLAG_DUPLEX
  | ALSASEQ_PORT_CAP_FLAG_SUBS_READ | ALSASEQ_PORT_CAP_FLAG_SUBS_WRITE | ALSASEQ_PORT_CAP_FLAG_NO_EXPORT

primrec seq_port_cap_flag_value :: "seq_port_cap_flag \<Rightarrow> u32" where
  "seq_port_cap_flag_value ALSASEQ_PORT_CAP_FLAG_READ = 1" |
  "seq_port_cap_flag_value ALSASEQ_PORT_CAP_FLAG_WRITE = 2" |
  "seq_port_cap_flag_value ALSASEQ_PORT_CAP_FLAG_DUPLEX = 16" |
  "seq_port_cap_flag_value ALSASEQ_PORT_CAP_FLAG_SUBS_READ = 32" |
  "seq_port_cap_flag_value ALSASEQ_PORT_CAP_FLAG_SUBS_WRITE = 64" |
  "seq_port_cap_flag_value ALSASEQ_PORT_CAP_FLAG_NO_EXPORT = 128"

definition all_seq_port_cap_flag :: "seq_port_cap_flag list" where
  "all_seq_port_cap_flag = [ALSASEQ_PORT_CAP_FLAG_READ, ALSASEQ_PORT_CAP_FLAG_WRITE,
     ALSASEQ_PORT_CAP_FLAG_DUPLEX, ALSASEQ_PORT_CAP_FLAG_SUBS_READ, ALSASEQ_PORT_CAP_FLAG_SUBS_WRITE,
     ALSASEQ_PORT_CAP_FLAG_NO_EXPORT]"

lemma set_all_seq_port_cap_flag: "set all_seq_port_cap_flag = UNIV"
  using seq_port_cap_flag.exhaust by (auto simp: all_seq_port_cap_flag_def)

lemma distinct_all_seq_port_cap_flag: "distinct (map seq_port_cap_flag_value all_seq_port_cap_flag)"
  by (simp add: all_seq_port_cap_flag_def)

interpretation seq_port_cap_flag: flag_enumeration seq_port_cap_flag_value all_seq_port_cap_flag
proof unfold_locales
  fix a b :: seq_port_cap_flag
  assume "a \<noteq> b"
  then show "seq_port_cap_flag_value a AND seq_port_cap_flag_value b = 0" by (cases a; cases b; simp)
next
  fix a :: seq_port_cap_flag
  show "seq_port_cap_flag_value a \<noteq> 0" by (cases a) simp_all
qed (fact set_all_seq_port_cap_flag distinct_all_seq_port_cap_flag)+

datatype seq_port_attr_flag =
    ALSASEQ_PORT_ATTR_FLAG_SPECIFIC | ALSASEQ_PORT_ATTR_FLAG_MIDI_GENERIC | ALSASEQ_PORT_ATTR_FLAG_MIDI_GM
  | ALSASEQ_PORT_ATTR_FLAG_MIDI_GS | ALSASEQ_PORT_ATTR_FLAG_MIDI_XG | ALSASEQ_PORT_ATTR_FLAG_MIDI_MT32
  | ALSASEQ_PORT_ATTR_FLAG_MIDI_GM2 | ALSASEQ_PORT_ATTR_FLAG_HARDWARE | ALSASEQ_PORT_ATTR_FLAG_SOFTWARE
  | ALSASEQ_PORT_ATTR_FLAG_SYNTHESIZER | ALSASEQ_PORT_ATTR_FLAG_PORT | ALSASEQ_PORT_ATTR_FLAG_APPLICATION

primrec seq_port_attr_flag_value :: "seq_port_attr_flag \<Rightarrow> u32" where
  "seq_port_attr_flag_value ALSASEQ_PORT_ATTR_FLAG_SPECIFIC = 1" |
  "seq_port_attr_flag_value ALSASEQ_PORT_ATTR_FLAG_MIDI_GENERIC = 2" |
  "seq_port_attr_flag_value ALSASEQ_PORT_ATTR_FLAG_MIDI_GM = 4" |
  "seq_port_attr_flag_value ALSASEQ_PORT_ATTR_FLAG_MIDI_GS = 8" |
  "seq_port_attr_flag_value ALSASEQ_PORT_ATTR_FLAG_MIDI_XG = 16" |
  "seq_port_attr_flag_value ALSASEQ_PORT_ATTR_FLAG_MIDI_MT32 = 32" |
  "seq_port_attr_flag_value ALSASEQ_PORT_ATTR_FLAG_MIDI_GM2 = 64" |
  "seq_port_attr_flag_value ALSASEQ_PORT_ATTR_FLAG_HARDWARE = 65536" |
  "seq_port_attr_flag_value ALSASEQ_PORT_ATTR_FLAG_SOFTWARE = 131072" |
  "seq_port_attr_flag_value ALSASEQ_PORT_ATTR_FLAG_SYNTHESIZER = 262144" |
  "seq_port_attr_flag_value ALSASEQ_PORT_ATTR_FLAG_PORT = 524288" |
  "seq_port_attr_flag_value ALSASEQ_PORT_ATTR_FLAG_APPLICATION = 1048576"

definition all_seq_port_attr_flag :: "seq_port_attr_flag list" where
  "all_seq_port_attr_flag = [ALSASEQ_PORT_ATTR_FLAG_SPECIFIC, ALSASEQ_PORT_ATTR_FLAG_MIDI_GENERIC,
     ALSASEQ_PORT_ATTR_FLAG_MIDI_GM, ALSASEQ_PORT_ATTR_FLAG_MIDI_GS, ALSASEQ_PORT_ATTR_FLAG_MIDI_XG,
     ALSASEQ_PORT_ATTR_FLAG_MIDI_MT32, ALSASEQ_PORT_ATTR_FLAG_MIDI_GM2, ALSASEQ_PORT_ATTR_FLAG_HARDWARE,
     ALSASEQ_PORT_ATTR_FLAG_SOFTWARE, ALSASEQ_PORT_ATTR_FLAG_SYNTHESIZER, ALSASEQ_PORT_ATTR_FLAG_PORT,
     ALSASEQ_PORT_ATTR_FLAG_APPLICATION]"

lemma set_all_seq_port_attr_flag: "set all_seq_port_attr_flag = UNIV"
  using seq_port_attr_flag.exhaust by (auto simp: all_seq_port_attr_flag_def)

lemma distinct_all_seq_port_attr_flag: "distinct (map seq_port_attr_flag_value all_seq_port_attr_flag)"
  by (simp add: all_seq_port_attr_flag_def)

interpretation seq_port_attr_flag: flag_enumeration seq_port_attr_flag_value all_seq_port_attr_flag
proof unfold_locales
  fix a b :: seq_port_attr_flag
  assume "a \<noteq> b"
  then show "seq_port_attr_flag_value a AND seq_port_attr_flag_value b = 0" by (cases a; cases b; simp)
next
  fix a :: seq_port_attr_flag
  show "seq_port_attr_flag_value a \<noteq> 0" by (cases a) simp_all
qed (fact set_all_seq_port_attr_flag distinct_all_seq_port_attr_flag)+

datatype (plugins only: code) seq_event_type =
    ALSASEQ_EVENT_TYPE_SYSTEM | ALSASEQ_EVENT_TYPE_RESULT | ALSASEQ_EVENT_TYPE_NOTE | ALSASEQ_EVENT_TYPE_NOTEON
  | ALSASEQ_EVENT_TYPE_NOTEOFF | ALSASEQ_EVENT_TYPE_KEYPRESS | ALSASEQ_EVENT_TYPE_CONTROLLER
  | ALSASEQ_EVENT_TYPE_PGMCHANGE | ALSASEQ_EVENT_TYPE_CHANPRESS | ALSASEQ_EVENT_TYPE_PITCHBEND
  | ALSASEQ_EVENT_TYPE_CONTROL14 | ALSASEQ_EVENT_TYPE_NONREGPARAM | ALSASEQ_EVENT_TYPE_REGPARAM
  | ALSASEQ_EVENT_TYPE_SONGPOS | ALSASEQ_EVENT_TYPE_SONGSEL | ALSASEQ_EVENT_TYPE_QFRAME
  | ALSASEQ_EVENT_TYPE_TIMESIGN | ALSASEQ_EVENT_TYPE_KEYSIGN | ALSASEQ_EVENT_TYPE_START
  | ALSASEQ_EVENT_TYPE_CONTINUE | ALSASEQ_EVENT_TYPE_STOP | ALSASEQ_EVENT_TYPE_SETPOS_TICK
  | ALSASEQ_EVENT_TYPE_SETPOS_TIME | ALSASEQ_EVENT_TYPE_TEMPO | ALSASEQ_EVENT_TYPE_CLOCK
  | ALSASEQ_EVENT_TYPE_TICK | ALSASEQ_EVENT_TYPE_QUEUE_SKEW | ALSASEQ_EVENT_TYPE_TUNE_REQUEST
  | ALSASEQ_EVENT_TYPE_RESET | ALSASEQ_EVENT_TYPE_SENSING | ALSASEQ_EVENT_TYPE_ECHO | ALSASEQ_EVENT_TYPE_OSS
  | ALSASEQ_EVENT_TYPE_CLIENT_START | ALSASEQ_EVENT_TYPE_CLIENT_EXIT | ALSASEQ_EVENT_TYPE_CLIENT_CHANGE
  | ALSASEQ_EVENT_TYPE_PORT_START | ALSASEQ_EVENT_TYPE_PORT_EXIT | ALSASEQ_EVENT_TYPE_PORT_CHANGE
  | ALSASEQ_EVENT_TYPE_PORT_SUBSCRIBED | ALSASEQ_EVENT_TYPE_PORT_UNSUBSCRIBED | ALSASEQ_EVENT_TYPE_USR0
  | ALSASEQ_EVENT_TYPE_USR1 | ALSASEQ_EVENT_TYPE_USR2 | ALSASEQ_EVENT_TYPE_USR3 | ALSASEQ_EVENT_TYPE_USR4
  | ALSASEQ_EVENT_TYPE_USR5 | ALSASEQ_EVENT_TYPE_USR6 | ALSASEQ_EVENT_TYPE_USR7 | ALSASEQ_EVENT_TYPE_USR8
  | ALSASEQ_EVENT_TYPE_USR9 | ALSASEQ_EVENT_TYPE_SYSEX | ALSASEQ_EVENT_TYPE_BOUNCE
  | ALSASEQ_EVENT_TYPE_USR_VAR0 | ALSASEQ_EVENT_TYPE_USR_VAR1 | ALSASEQ_EVENT_TYPE_USR_VAR2
  | ALSASEQ_EVENT_TYPE_USR_VAR3 | ALSASEQ_EVENT_TYPE_USR_VAR4 | ALSASEQ_EVENT_TYPE_NONE

primrec seq_event_type_value :: "seq_event_type \<Rightarrow> u8" where
  "seq_event_type_value ALSASEQ_EVENT_TYPE_SYSTEM = 0" |
  "seq_event_type_value ALSASEQ_EVENT_TYPE_RESULT = 1" |
  "seq_event_type_value ALSASEQ_EVENT_TYPE_NOTE = 5" |
  "seq_event_type_value ALSASEQ_EVENT_TYPE_NOTEON = 6" |
  "seq_event_type_value ALSASEQ_EVENT_TYPE_NOTEOFF = 7" |
  "seq_event_type_value ALSASEQ_EVENT_TYPE_KEYPRESS = 8" |
  "seq_event_type_value ALSASEQ_EVENT_TYPE_CONTROLLER = 10" |
  "seq_event_type_value ALSASEQ_EVENT_TYPE_PGMCHANGE = 11" |
  "seq_event_type_value ALSASEQ_EVENT_TYPE_CHANPRESS = 12" |
  "seq_event_type_value ALSASEQ_EVENT_TYPE_PITCHBEND = 13" |
  "seq_event_type_value ALSASEQ_EVENT_TYPE_CONTROL14 = 14" |
  "seq_event_type_value ALSASEQ_EVENT_TYPE_NONREGPARAM = 15" |
  "seq_event_type_value ALSASEQ_EVENT_TYPE_REGPARAM = 16" |
  "seq_event_type_value ALSASEQ_EVENT_TYPE_SONGPOS = 20" |
  "seq_event_type_value ALSASEQ_EVENT_TYPE_SONGSEL = 21" |
  "seq_event_type_value ALSASEQ_EVENT_TYPE_QFRAME = 22" |
  "seq_event_type_value ALSASEQ_EVENT_TYPE_TIMESIGN = 23" |
  "seq_event_type_value ALSASEQ_EVENT_TYPE_KEYSIGN = 24" |
  "seq_event_type_value ALSASEQ_EVENT_TYPE_START = 30" |
  "seq_event_type_value ALSASEQ_EVENT_TYPE_CONTINUE = 31" |
  "seq_event_type_value ALSASEQ_EVENT_TYPE_STOP = 32" |
  "seq_event_type_value ALSASEQ_EVENT_TYPE_SETPOS_TICK = 33" |
  "seq_event_type_value ALSASEQ_EVENT_TYPE_SETPOS_TIME = 34" |
  "seq_event_type_value ALSASEQ_EVENT_TYPE_TEMPO = 35" |
  "seq_event_type_value ALSASEQ_EVENT_TYPE_CLOCK = 36" |
  "seq_event_type_value ALSASEQ_EVENT_TYPE_TICK = 37" |
  "seq_event_type_value ALSASEQ_EVENT_TYPE_QUEUE_SKEW = 38" |
  "seq_event_type_value ALSASEQ_EVENT_TYPE_TUNE_REQUEST = 40" |
  "seq_event_type_value ALSASEQ_EVENT_TYPE_RESET = 41" |
  "seq_event_type_value ALSASEQ_EVENT_TYPE_SENSING = 42" |
  "seq_event_type_value ALSASEQ_EVENT_TYPE_ECHO = 50" |
  "seq_event_type_value ALSASEQ_EVENT_TYPE_OSS = 51" |
  "seq_event_type_value ALSASEQ_EVENT_TYPE_CLIENT_START = 60" |
  "seq_event_type_value ALSASEQ_EVENT_TYPE_CLIENT_EXIT = 61" |
  "seq_event_type_value ALSASEQ_EVENT_TYPE_CLIENT_CHANGE = 62" |
  "seq_event_type_value ALSASEQ_EVENT_TYPE_PORT_START = 63" |
  "seq_event_type_value ALSASEQ_EVENT_TYPE_PORT_EXIT = 64" |
  "seq_event_type_value ALSASEQ_EVENT_TYPE_PORT_CHANGE = 65" |
  "seq_event_type_value ALSASEQ_EVENT_TYPE_PORT_SUBSCRIBED = 66" |
  "seq_event_type_value ALSASEQ_EVENT_TYPE_PORT_UNSUBSCRIBED = 67" |
  "seq_event_type_value ALSASEQ_EVENT_TYPE_USR0 = 90" |
  "seq_event_type_value ALSASEQ_EVENT_TYPE_USR1 = 91" |
  "seq_event_type_value ALSASEQ_EVENT_TYPE_USR2 = 92" |
  "seq_event_type_value ALSASEQ_EVENT_TYPE_USR3 = 93" |
  "seq_event_type_value ALSASEQ_EVENT_TYPE_USR4 = 94" |
  "seq_event_type_value ALSASEQ_EVENT_TYPE_USR5 = 95" |
  "seq_event_type_value ALSASEQ_EVENT_TYPE_USR6 = 96" |
  "seq_event_type_value ALSASEQ_EVENT_TYPE_USR7 = 97" |
  "seq_event_type_value ALSASEQ_EVENT_TYPE_USR8 = 98" |
  "seq_event_type_value ALSASEQ_EVENT_TYPE_USR9 = 99" |
  "seq_event_type_value ALSASEQ_EVENT_TYPE_SYSEX = 130" |
  "seq_event_type_value ALSASEQ_EVENT_TYPE_BOUNCE = 131" |
  "seq_event_type_value ALSASEQ_EVENT_TYPE_USR_VAR0 = 135" |
  "seq_event_type_value ALSASEQ_EVENT_TYPE_USR_VAR1 = 136" |
  "seq_event_type_value ALSASEQ_EVENT_TYPE_USR_VAR2 = 137" |
  "seq_event_type_value ALSASEQ_EVENT_TYPE_USR_VAR3 = 138" |
  "seq_event_type_value ALSASEQ_EVENT_TYPE_USR_VAR4 = 139" |
  "seq_event_type_value ALSASEQ_EVENT_TYPE_NONE = 255"

definition all_seq_event_type :: "seq_event_type list" where
  "all_seq_event_type = [ALSASEQ_EVENT_TYPE_SYSTEM, ALSASEQ_EVENT_TYPE_RESULT, ALSASEQ_EVENT_TYPE_NOTE,
     ALSASEQ_EVENT_TYPE_NOTEON, ALSASEQ_EVENT_TYPE_NOTEOFF, ALSASEQ_EVENT_TYPE_KEYPRESS,
     ALSASEQ_EVENT_TYPE_CONTROLLER, ALSASEQ_EVENT_TYPE_PGMCHANGE, ALSASEQ_EVENT_TYPE_CHANPRESS,
     ALSASEQ_EVENT_TYPE_PITCHBEND, ALSASEQ_EVENT_TYPE_CONTROL14, ALSASEQ_EVENT_TYPE_NONREGPARAM,
     ALSASEQ_EVENT_TYPE_REGPARAM, ALSASEQ_EVENT_TYPE_SONGPOS, ALSASEQ_EVENT_TYPE_SONGSEL,
     ALSASEQ_EVENT_TYPE_QFRAME, ALSASEQ_EVENT_TYPE_TIMESIGN, ALSASEQ_EVENT_TYPE_KEYSIGN,
     ALSASEQ_EVENT_TYPE_START, ALSASEQ_EVENT_TYPE_CONTINUE, ALSASEQ_EVENT_TYPE_STOP,
     ALSASEQ_EVENT_TYPE_SETPOS_TICK, ALSASEQ_EVENT_TYPE_SETPOS_TIME, ALSASEQ_EVENT_TYPE_TEMPO,
     ALSASEQ_EVENT_TYPE_CLOCK, ALSASEQ_EVENT_TYPE_TICK, ALSASEQ_EVENT_TYPE_QUEUE_SKEW,
     ALSASEQ_EVENT_TYPE_TUNE_REQUEST, ALSASEQ_EVENT_TYPE_RESET, ALSASEQ_EVENT_TYPE_SENSING,
     ALSASEQ_EVENT_TYPE_ECHO, ALSASEQ_EVENT_TYPE_OSS, ALSASEQ_EVENT_TYPE_CLIENT_START,
     ALSASEQ_EVENT_TYPE_CLIENT_EXIT, ALSASEQ_EVENT_TYPE_CLIENT_CHANGE, ALSASEQ_EVENT_TYPE_PORT_START,
     ALSASEQ_EVENT_TYPE_PORT_EXIT, ALSASEQ_EVENT_TYPE_PORT_CHANGE, ALSASEQ_EVENT_TYPE_PORT_SUBSCRIBED,
     ALSASEQ_EVENT_TYPE_PORT_UNSUBSCRIBED, ALSASEQ_EVENT_TYPE_USR0, ALSASEQ_EVENT_TYPE_USR1,
     ALSASEQ_EVENT_TYPE_USR2, ALSASEQ_EVENT_TYPE_USR3, ALSASEQ_EVENT_TYPE_USR4, ALSASEQ_EVENT_TYPE_USR5,
     ALSASEQ_EVENT_TYPE_USR6, ALSASEQ_EVENT_TYPE_USR7, ALSASEQ_EVENT_TYPE_USR8, ALSASEQ_EVENT_TYPE_USR9,
     ALSASEQ_EVENT_TYPE_SYSEX, ALSASEQ_EVENT_TYPE_BOUNCE, ALSASEQ_EVENT_TYPE_USR_VAR0,
     ALSASEQ_EVENT_TYPE_USR_VAR1, ALSASEQ_EVENT_TYPE_USR_VAR2, ALSASEQ_EVENT_TYPE_USR_VAR3,
     ALSASEQ_EVENT_TYPE_USR_VAR4, ALSASEQ_EVENT_TYPE_NONE]"

lemma set_all_seq_event_type: "set all_seq_event_type = UNIV"
  using seq_event_type.exhaust by (auto simp: all_seq_event_type_def)

lemma distinct_all_seq_event_type: "distinct (map seq_event_type_value all_seq_event_type)"
  by (simp add: all_seq_event_type_def)

interpretation seq_event_type: enumeration seq_event_type_value all_seq_event_type
  by unfold_locales (fact set_all_seq_event_type distinct_all_seq_event_type)+

datatype seq_event_tstamp_mode =
    ALSASEQ_EVENT_TSTAMP_MODE_TICK | ALSASEQ_EVENT_TSTAMP_MODE_REAL

primrec seq_event_tstamp_mode_value :: "seq_event_tstamp_mode \<Rightarrow> u8" where
  "seq_event_tstamp_mode_value ALSASEQ_EVENT_TSTAMP_MODE_TICK = 0" |
  "seq_event_tstamp_mode_value ALSASEQ_EVENT_TSTAMP_MODE_REAL = 1"

definition all_seq_event_tstamp_mode :: "seq_event_tstamp_mode list" where
  "all_seq_event_tstamp_mode = [ALSASEQ_EVENT_TSTAMP_MODE_TICK, ALSASEQ_EVENT_TSTAMP_MODE_REAL]"

lemma set_all_seq_event_tstamp_mode: "set all_seq_event_tstamp_mode = UNIV"
  using seq_event_tstamp_mode.exhaust by (auto simp: all_seq_event_tstamp_mode_def)

lemma distinct_all_seq_event_tstamp_mode: "distinct (map seq_event_tstamp_mode_value all_seq_event_tstamp_mode)"
  by (simp add: all_seq_event_tstamp_mode_def)

interpretation seq_event_tstamp_mode: enumeration seq_event_tstamp_mode_value all_seq_event_tstamp_mode
  by unfold_locales (fact set_all_seq_event_tstamp_mode distinct_all_seq_event_tstamp_mode)+

datatype seq_event_time_mode =
    ALSASEQ_EVENT_TIME_MODE_ABS | ALSASEQ_EVENT_TIME_MODE_REL

primrec seq_event_time_mode_value :: "seq_event_time_mode \<Rightarrow> u8" where
  "seq_event_time_mode_value ALSASEQ_EVENT_TIME_MODE_ABS = 0" |
  "seq_event_time_mode_value ALSASEQ_EVENT_TIME_MODE_REL = 2"

definition all_seq_event_time_mode :: "seq_event_time_mode list" where
  "all_seq_event_time_mode = [ALSASEQ_EVENT_TIME_MODE_ABS, ALSASEQ_EVENT_TIME_MODE_REL]"

lemma set_all_seq_event_time_mode: "set all_seq_event_time_mode = UNIV"
  using seq_event_time_mode.exhaust by (auto simp: all_seq_event_time_mode_def)

lemma distinct_all_seq_event_time_mode: "distinct (map seq_event_time_mode_value all_seq_event_time_mode)"
  by (simp add: all_seq_event_time_mode_def)

interpretation seq_event_time_mode: enumeration seq_event_time_mode_value all_seq_event_time_mode
  by unfold_locales (fact set_all_seq_event_time_mode distinct_all_seq_event_time_mode)+

datatype seq_event_length_mode =
    ALSASEQ_EVENT_LENGTH_MODE_FIXED | ALSASEQ_EVENT_LENGTH_MODE_VARIABLE | ALSASEQ_EVENT_LENGTH_MODE_POINTER

primrec seq_event_length_mode_value :: "seq_event_length_mode \<Rightarrow> u8" where
  "seq_event_length_mode_value ALSASEQ_EVENT_LENGTH_MODE_FIXED = 0" |
  "seq_event_length_mode_value ALSASEQ_EVENT_LENGTH_MODE_VARIABLE = 4" |
  "seq_event_length_mode_value ALSASEQ_EVENT_LENGTH_MODE_POINTER = 8"

definition all_seq_event_length_mode :: "seq_event_length_mode list" where
  "all_seq_event_length_mode = [ALSASEQ_EVENT_LENGTH_MODE_FIXED, ALSASEQ_EVENT_LENGTH_MODE_VARIABLE,
     ALSASEQ_EVENT_LENGTH_MODE_POINTER]"

lemma set_all_seq_event_length_mode: "set all_seq_event_length_mode = UNIV"
  using seq_event_length_mode.exhaust by (auto simp: all_seq_event_length_mode_def)

lemma distinct_all_seq_event_length_mode: "distinct (map seq_event_length_mode_value all_seq_event_length_mode)"
  by (simp add: all_seq_event_length_mode_def)

interpretation seq_event_length_mode: enumeration seq_event_length_mode_value all_seq_event_length_mode
  by unfold_locales (fact set_all_seq_event_length_mode distinct_all_seq_event_length_mode)+

datatype seq_event_priority_mode =
    ALSASEQ_EVENT_PRIORITY_MODE_NORMAL | ALSASEQ_EVENT_PRIORITY_MODE_HIGH

primrec seq_event_priority_mode_value :: "seq_event_priority_mode \<Rightarrow> u8" where
  "seq_event_priority_mode_value ALSASEQ_EVENT_PRIORITY_MODE_NORMAL = 0" |
  "seq_event_priority_mode_value ALSASEQ_EVENT_PRIORITY_MODE_HIGH = 16"

definition all_seq_event_priority_mode :: "seq_event_priority_mode list" where
  "all_seq_event_priority_mode = [ALSASEQ_EVENT_PRIORITY_MODE_NORMAL, ALSASEQ_EVENT_PRIORITY_MODE_HIGH]"

lemma set_all_seq_event_priority_mode: "set all_seq_event_priority_mode = UNIV"
  using seq_event_priority_mode.exhaust by (auto simp: all_seq_event_priority_mode_def)

lemma distinct_all_seq_event_priority_mode: "distinct (map seq_event_priority_mode_value all_seq_event_priority_mode)"
  by (simp add: all_seq_event_priority_mode_def)

interpretation seq_event_priority_mode: enumeration seq_event_priority_mode_value all_seq_event_priority_mode
  by unfold_locales (fact set_all_seq_event_priority_mode distinct_all_seq_event_priority_mode)+

datatype seq_specific_queue_id =
    ALSASEQ_SPECIFIC_QUEUE_ID_DIRECT

primrec seq_specific_queue_id_value :: "seq_specific_queue_id \<Rightarrow> u8" where
  "seq_specific_queue_id_value ALSASEQ_SPECIFIC_QUEUE_ID_DIRECT = 253"

definition all_seq_specific_queue_id :: "seq_specific_queue_id list" where
  "all_seq_specific_queue_id = [ALSASEQ_SPECIFIC_QUEUE_ID_DIRECT]"

lemma set_all_seq_specific_queue_id: "set all_seq_specific_queue_id = UNIV"
  using seq_specific_queue_id.exhaust by (auto simp: all_seq_specific_queue_id_def)

lemma distinct_all_seq_specific_queue_id: "distinct (map seq_specific_queue_id_value all_seq_specific_queue_id)"
  by (simp add: all_seq_specific_queue_id_def)

interpretation seq_specific_queue_id: enumeration seq_specific_queue_id_value all_seq_specific_queue_id
  by unfold_locales (fact set_all_seq_specific_queue_id distinct_all_seq_specific_queue_id)+

datatype seq_query_subscribe_type =
    ALSASEQ_QUERY_SUBSCRIBE_TYPE_READ | ALSASEQ_QUERY_SUBSCRIBE_TYPE_WRITE

primrec seq_query_subscribe_type_value :: "seq_query_subscribe_type \<Rightarrow> u32" where
  "seq_query_subscribe_type_value ALSASEQ_QUERY_SUBSCRIBE_TYPE_READ = 0" |
  "seq_query_subscribe_type_value ALSASEQ_QUERY_SUBSCRIBE_TYPE_WRITE = 1"

definition all_seq_query_subscribe_type :: "seq_query_subscribe_type list" where
  "all_seq_query_subscribe_type = [ALSASEQ_QUERY_SUBSCRIBE_TYPE_READ, ALSASEQ_QUERY_SUBSCRIBE_TYPE_WRITE]"

lemma set_all_seq_query_subscribe_type: "set all_seq_query_subscribe_type = UNIV"
  using seq_query_subscribe_type.exhaust by (auto simp: all_seq_query_subscribe_type_def)

lemma distinct_all_seq_query_subscribe_type: "distinct (map seq_query_subscribe_type_value all_seq_query_subscribe_type)"
  by (simp add: all_seq_query_subscribe_type_def)

interpretation seq_query_subscribe_type: enumeration seq_query_subscribe_type_value all_seq_query_subscribe_type
  by unfold_locales (fact set_all_seq_query_subscribe_type distinct_all_seq_query_subscribe_type)+

datatype seq_queue_timer_type =
    ALSASEQ_QUEUE_TIMER_TYPE_ALSA

primrec seq_queue_timer_type_value :: "seq_queue_timer_type \<Rightarrow> u32" where
  "seq_queue_timer_type_value ALSASEQ_QUEUE_TIMER_TYPE_ALSA = 0"

definition all_seq_queue_timer_type :: "seq_queue_timer_type list" where
  "all_seq_queue_timer_type = [ALSASEQ_QUEUE_TIMER_TYPE_ALSA]"

lemma set_all_seq_queue_timer_type: "set all_seq_queue_timer_type = UNIV"
  using seq_queue_timer_type.exhaust by (auto simp: all_seq_queue_timer_type_def)

lemma distinct_all_seq_queue_timer_type: "distinct (map seq_queue_timer_type_value all_seq_queue_timer_type)"
  by (simp add: all_seq_queue_timer_type_def)

interpretation seq_queue_timer_type: enumeration seq_queue_timer_type_value all_seq_queue_timer_type
  by unfold_locales (fact set_all_seq_queue_timer_type distinct_all_seq_queue_timer_type)+

datatype seq_remove_filter_flag =
    ALSASEQ_REMOVE_FILTER_FLAG_INPUT | ALSASEQ_REMOVE_FILTER_FLAG_OUTPUT | ALSASEQ_REMOVE_FILTER_FLAG_DEST
  | ALSASEQ_REMOVE_FILTER_FLAG_DEST_CHANNEL | ALSASEQ_REMOVE_FILTER_FLAG_TIME_BEFORE
  | ALSASEQ_REMOVE_FILTER_FLAG_TIME_AFTER | ALSASEQ_REMOVE_FILTER_FLAG_TIME_TICK
  | ALSASEQ_REMOVE_FILTER_FLAG_EVENT_TYPE | ALSASEQ_REMOVE_FILTER_FLAG_IGNORE_OFF
  | ALSASEQ_REMOVE_FILTER_FLAG_TAG_MATCH

primrec seq_remove_filter_flag_value :: "seq_remove_filter_flag \<Rightarrow> u32" where
  "seq_remove_filter_flag_value ALSASEQ_REMOVE_FILTER_FLAG_INPUT = 1" |
  "seq_remove_filter_flag_value ALSASEQ_REMOVE_FILTER_FLAG_OUTPUT = 2" |
  "seq_remove_filter_flag_value ALSASEQ_REMOVE_FILTER_FLAG_DEST = 4" |
  "seq_remove_filter_flag_value ALSASEQ_REMOVE_FILTER_FLAG_DEST_CHANNEL = 8" |
  "seq_remove_filter_flag_value ALSASEQ_REMOVE_FILTER_FLAG_TIME_BEFORE = 16" |
  "seq_remove_filter_flag_value ALSASEQ_REMOVE_FILTER_FLAG_TIME_AFTER = 32" |
  "seq_remove_filter_flag_value ALSASEQ_REMOVE_FILTER_FLAG_TIME_TICK = 64" |
  "seq_remove_filter_flag_value ALSASEQ_REMOVE_FILTER_FLAG_EVENT_TYPE = 128" |
  "seq_remove_filter_flag_value ALSASEQ_REMOVE_FILTER_FLAG_IGNORE_OFF = 256" |
  "seq_remove_filter_flag_value ALSASEQ_REMOVE_FILTER_FLAG_TAG_MATCH = 512"

definition all_seq_remove_filter_flag :: "seq_remove_filter_flag list" where
  "all_seq_remove_filter_flag = [ALSASEQ_REMOVE_FILTER_FLAG_INPUT, ALSASEQ_REMOVE_FILTER_FLAG_OUTPUT,
     ALSASEQ_REMOVE_FILTER_FLAG_DEST, ALSASEQ_REMOVE_FILTER_FLAG_DEST_CHANNEL,
     ALSASEQ_REMOVE_FILTER_FLAG_TIME_BEFORE, ALSASEQ_REMOVE_FILTER_FLAG_TIME_AFTER,
     ALSASEQ_REMOVE_FILTER_FLAG_TIME_TICK, ALSASEQ_REMOVE_FILTER_FLAG_EVENT_TYPE,
     ALSASEQ_REMOVE_FILTER_FLAG_IGNORE_OFF, ALSASEQ_REMOVE_FILTER_FLAG_TAG_MATCH]"

lemma set_all_seq_remove_filter_flag: "set all_seq_remove_filter_flag = UNIV"
  using seq_remove_filter_flag.exhaust by (auto simp: all_seq_remove_filter_flag_def)

lemma distinct_all_seq_remove_filter_flag: "distinct (map seq_remove_filter_flag_value all_seq_remove_filter_flag)"
  by (simp add: all_seq_remove_filter_flag_def)

interpretation seq_remove_filter_flag: flag_enumeration seq_remove_filter_flag_value all_seq_remove_filter_flag
proof unfold_locales
  fix a b :: seq_remove_filter_flag
  assume "a \<noteq> b"
  then show "seq_remove_filter_flag_value a AND seq_remove_filter_flag_value b = 0" by (cases a; cases b; simp)
next
  fix a :: seq_remove_filter_flag
  show "seq_remove_filter_flag_value a \<noteq> 0" by (cases a) simp_all
qed (fact set_all_seq_remove_filter_flag distinct_all_seq_remove_filter_flag)+

datatype seq_user_client_error =
    ALSASEQ_USER_CLIENT_ERROR_FAILED | ALSASEQ_USER_CLIENT_ERROR_PORT_PERMISSION
  | ALSASEQ_USER_CLIENT_ERROR_QUEUE_PERMISSION | ALSASEQ_USER_CLIENT_ERROR_EVENT_UNDELIVERABLE

primrec seq_user_client_error_code :: "seq_user_client_error \<Rightarrow> int" where
  "seq_user_client_error_code ALSASEQ_USER_CLIENT_ERROR_FAILED = 0" |
  "seq_user_client_error_code ALSASEQ_USER_CLIENT_ERROR_PORT_PERMISSION = 1" |
  "seq_user_client_error_code ALSASEQ_USER_CLIENT_ERROR_QUEUE_PERMISSION = 2" |
  "seq_user_client_error_code ALSASEQ_USER_CLIENT_ERROR_EVENT_UNDELIVERABLE = 3"

definition all_seq_user_client_error :: "seq_user_client_error list" where
  "all_seq_user_client_error = [ALSASEQ_USER_CLIENT_ERROR_FAILED, ALSASEQ_USER_CLIENT_ERROR_PORT_PERMISSION,
     ALSASEQ_USER_CLIENT_ERROR_QUEUE_PERMISSION, ALSASEQ_USER_CLIENT_ERROR_EVENT_UNDELIVERABLE]"

lemma set_all_seq_user_client_error: "set all_seq_user_client_error = UNIV"
  using seq_user_client_error.exhaust by (auto simp: all_seq_user_client_error_def)

lemma distinct_all_seq_user_client_error: "distinct (map seq_user_client_error_code all_seq_user_client_error)"
  by (simp add: all_seq_user_client_error_def)

interpretation seq_user_client_error: enumeration seq_user_client_error_code all_seq_user_client_error
  by unfold_locales (fact set_all_seq_user_client_error distinct_all_seq_user_client_error)+

datatype seq_event_error =
    ALSASEQ_EVENT_ERROR_FAILED | ALSASEQ_EVENT_ERROR_INVALID_DATA_TYPE
  | ALSASEQ_EVENT_ERROR_INVALID_LENGTH_MODE | ALSASEQ_EVENT_ERROR_INVALID_TSTAMP_MODE

primrec seq_event_error_code :: "seq_event_error \<Rightarrow> int" where
  "seq_event_error_code ALSASEQ_EVENT_ERROR_FAILED = 0" |
  "seq_event_error_code ALSASEQ_EVENT_ERROR_INVALID_DATA_TYPE = 1" |
  "seq_event_error_code ALSASEQ_EVENT_ERROR_INVALID_LENGTH_MODE = 2" |
  "seq_event_error_code ALSASEQ_EVENT_ERROR_INVALID_TSTAMP_MODE = 3"

definition all_seq_event_error :: "seq_event_error list" where
  "all_seq_event_error = [ALSASEQ_EVENT_ERROR_FAILED, ALSASEQ_EVENT_ERROR_INVALID_DATA_TYPE,
     ALSASEQ_EVENT_ERROR_INVALID_LENGTH_MODE, ALSASEQ_EVENT_ERROR_INVALID_TSTAMP_MODE]"

lemma set_all_seq_event_error: "set all_seq_event_error = UNIV"
  using seq_event_error.exhaust by (auto simp: all_seq_event_error_def)

lemma distinct_all_seq_event_error: "distinct (map seq_event_error_code all_seq_event_error)"
  by (simp add: all_seq_event_error_def)

interpretation seq_event_error: enumeration seq_event_error_code all_seq_event_error
  by unfold_locales (fact set_all_seq_event_error distinct_all_seq_event_error)+

text \<open>Types of events are ordered by their values, the order in which filters list them.\<close>

instantiation seq_event_type :: linorder
begin

definition less_eq_seq_event_type :: "seq_event_type \<Rightarrow> seq_event_type \<Rightarrow> bool" where
  "less_eq_seq_event_type a b \<longleftrightarrow> seq_event_type_value a \<le> seq_event_type_value b"

definition less_seq_event_type :: "seq_event_type \<Rightarrow> seq_event_type \<Rightarrow> bool" where
  "less_seq_event_type a b \<longleftrightarrow> seq_event_type_value a < seq_event_type_value b"

instance
  by standard (auto simp: less_eq_seq_event_type_def less_seq_event_type_def seq_event_type.value_eq_iff dest: order_antisym)

end

end
