(* ===== verification/Seq_Event_Data.thy ===== *)
theory Seq_Event_Data
  imports Seq_Enum_Types
begin

text \<open>
  The boxed structures carried by sequencer events: \<open>seq/addr.c\<close> and
  \<open>seq/event-data-note.c\<close>, \<open>event-data-ctl.c\<close>, \<open>event-data-queue.c\<close>,
  \<open>event-data-connect.c\<close>, \<open>event-data-result.c\<close>. Each structure is a record of its UAPI
  fields with its byte layout; each accessor and each copy function is one definition. Signed fields are words read
  with \<open>sint\<close>. The union in the queue control data is its two quadlets: \<open>value\<close>, \<open>tick\<close>,
  \<open>position\<close>, \<open>tv_sec\<close> and \<open>skew.value\<close> all name the first one.
\<close>

section \<open>The structures\<close>

record snd_seq_addr =
  addr_client :: u8
  addr_port :: u8

record snd_seq_ev_note =
  note_channel :: u8
  note_note :: u8
  note_velocity :: u8
  note_off_velocity :: u8
  note_duration :: u32

record snd_seq_ev_ctrl =
  ctl_channel :: u8
  ctl_unused :: "24 word"
  ctl_param :: u32
  ctl_value :: u32

record snd_seq_ev_queue_control =
  qc_queue :: u8
  qc_unused :: "24 word"
  qc_d32_0 :: u32
  qc_d32_1 :: u32

record snd_seq_connect =
  conn_sender :: snd_seq_addr
  conn_dest :: snd_seq_addr

record snd_seq_result =
  res_event :: u32
  res_result :: u32

section \<open>Addresses\<close>

definition alsaseq_addr_new :: "u8 \<Rightarrow> u8 \<Rightarrow> snd_seq_addr" where
  "alsaseq_addr_new client_id port_id = \<lparr>addr_client = client_id, addr_port = port_id\<rparr>"

definition alsaseq_addr_get_client_id :: "snd_seq_addr \<Rightarrow> u8" where
  "alsaseq_addr_get_client_id self = addr_client self"

definition alsaseq_addr_get_port_id :: "snd_seq_addr \<Rightarrow> u8" where
  "alsaseq_addr_get_port_id self = addr_port self"

definition alsaseq_addr_equal :: "snd_seq_addr \<Rightarrow> snd_seq_addr \<Rightarrow> bool" where
  "alsaseq_addr_equal self target \<longleftrightarrow>
     addr_client self = addr_client target \<and> addr_port self = addr_port target"

section \<open>Accessors of the event data\<close>

definition alsaseq_event_data_note_get_channel :: "snd_seq_ev_note \<Rightarrow> u8" where
  "alsaseq_event_data_note_get_channel self = note_channel self"

definition alsaseq_event_data_note_set_channel :: "snd_seq_ev_note \<Rightarrow> u8 \<Rightarrow> snd_seq_ev_note" where
  "alsaseq_event_data_note_set_channel self v = self\<lparr>note_channel := v\<rparr>"

definition alsaseq_event_data_note_get_note :: "snd_seq_ev_note \<Rightarrow> u8" where
  "alsaseq_event_data_note_get_note self = note_note self"

definition alsaseq_event_data_note_set_note :: "snd_seq_ev_note \<Rightarrow> u8 \<Rightarrow> snd_seq_ev_note" where
  "alsaseq_event_data_note_set_note self v = self\<lparr>note_note := v\<rparr>"

definition alsaseq_event_data_note_get_velocity :: "snd_seq_ev_note \<Rightarrow> u8" where
  "alsaseq_event_data_note_get_velocity self = note_velocity self"

definition alsaseq_event_data_note_set_velocity :: "snd_seq_ev_note \<Rightarrow> u8 \<Rightarrow> snd_seq_ev_note" where
  "alsaseq_event_data_note_set_velocity self v = self\<lparr>note_velocity := v\<rparr>"

definition alsaseq_event_data_note_get_off_velocity :: "snd_seq_ev_note \<Rightarrow> u8" where
  "alsaseq_event_data_note_get_off_velocity self = note_off_velocity self"

definition alsaseq_event_data_note_set_off_velocity :: "snd_seq_ev_note \<Rightarrow> u8 \<Rightarrow> snd_seq_ev_note" where
  "alsaseq_event_data_note_set_off_velocity self v = self\<lparr>note_off_velocity := v\<rparr>"

definition alsaseq_event_data_note_get_duration :: "snd_seq_ev_note \<Rightarrow> u8" where
  "alsaseq_event_data_note_get_duration self = ucast (note_duration self)"

definition alsaseq_event_data_note_set_duration :: "snd_seq_ev_note \<Rightarrow> u8 \<Rightarrow> snd_seq_ev_note" where
  "alsaseq_event_data_note_set_duration self v = self\<lparr>note_duration := ucast v\<rparr>"

definition alsaseq_event_data_ctl_get_channel :: "snd_seq_ev_ctrl \<Rightarrow> u8" where
  "alsaseq_event_data_ctl_get_channel self = ctl_channel self"

definition alsaseq_event_data_ctl_set_channel :: "snd_seq_ev_ctrl \<Rightarrow> u8 \<Rightarrow> snd_seq_ev_ctrl" where
  "alsaseq_event_data_ctl_set_channel self v = self\<lparr>ctl_channel := v\<rparr>"

definition alsaseq_event_data_ctl_get_param :: "snd_seq_ev_ctrl \<Rightarrow> u32" where
  "alsaseq_event_data_ctl_get_param self = ctl_param self"

definition alsaseq_event_data_ctl_set_param :: "snd_seq_ev_ctrl \<Rightarrow> u32 \<Rightarrow> snd_seq_ev_ctrl" where
  "alsaseq_event_data_ctl_set_param self v = self\<lparr>ctl_param := v\<rparr>"

definition alsaseq_event_data_ctl_get_value :: "snd_seq_ev_ctrl \<Rightarrow> u32" where
  "alsaseq_event_data_ctl_get_value self = ctl_value self"

definition alsaseq_event_data_ctl_set_value :: "snd_seq_ev_ctrl \<Rightarrow> u32 \<Rightarrow> snd_seq_ev_ctrl" where
  "alsaseq_event_data_ctl_set_value self v = self\<lparr>ctl_value := v\<rparr>"

definition alsaseq_event_data_queue_get_queue_id :: "snd_seq_ev_queue_control \<Rightarrow> u8" where
  "alsaseq_event_data_queue_get_queue_id self = qc_queue self"

definition alsaseq_event_data_queue_set_queue_id :: "snd_seq_ev_queue_control \<Rightarrow> u8 \<Rightarrow> snd_seq_ev_queue_control" where
  "alsaseq_event_data_queue_set_queue_id self v = self\<lparr>qc_queue := v\<rparr>"

definition alsaseq_event_data_queue_get_value_param :: "snd_seq_ev_queue_control \<Rightarrow> u32" where
  "alsaseq_event_data_queue_get_value_param self = qc_d32_0 self"

definition alsaseq_event_data_queue_set_value_param :: "snd_seq_ev_queue_control \<Rightarrow> u32 \<Rightarrow> snd_seq_ev_queue_control" where
  "alsaseq_event_data_queue_set_value_param self v = self\<lparr>qc_d32_0 := v\<rparr>"

definition alsaseq_event_data_queue_get_tick_time_param :: "snd_seq_ev_queue_control \<Rightarrow> u32" where
  "alsaseq_event_data_queue_get_tick_time_param self = qc_d32_0 self"

definition alsaseq_event_data_queue_set_tick_time_param :: "snd_seq_ev_queue_control \<Rightarrow> u32 \<Rightarrow> snd_seq_ev_queue_control" where
  "alsaseq_event_data_queue_set_tick_time_param self v = self\<lparr>qc_d32_0 := v\<rparr>"

definition alsaseq_event_data_queue_get_real_time_param :: "snd_seq_ev_queue_control \<Rightarrow> u32 \<times> u32" where
  "alsaseq_event_data_queue_get_real_time_param self = (qc_d32_0 self, qc_d32_1 self)"

definition alsaseq_event_data_queue_set_real_time_param :: "snd_seq_ev_queue_control \<Rightarrow> u32 \<times> u32 \<Rightarrow> snd_seq_ev_queue_control" where
  "alsaseq_event_data_queue_set_real_time_param self v = self\<lparr>qc_d32_0 := fst v, qc_d32_1 := snd v\<rparr>"

definition alsaseq_event_data_queue_get_position_param :: "snd_seq_ev_queue_control \<Rightarrow> u32" where
  "alsaseq_event_data_queue_get_position_param self = qc_d32_0 self"

definition alsaseq_event_data_queue_set_position_param :: "snd_seq_ev_queue_control \<Rightarrow> u32 \<Rightarrow> snd_seq_ev_queue_control" where
  "alsaseq_event_data_queue_set_position_param self v = self\<lparr>qc_d32_0 := v\<rparr>"

definition alsaseq_event_data_queue_get_skew_param :: "snd_seq_ev_queue_control \<Rightarrow> u32 \<times> u32" where
  "alsaseq_event_data_queue_get_skew_param self = (qc_d32_0 self, qc_d32_1 self)"

definition alsaseq_event_data_queue_set_skew_param :: "snd_seq_ev_queue_control \<Rightarrow> u32 \<times> u32 \<Rightarrow> snd_seq_ev_queue_control" where
  "alsaseq_event_data_queue_set_skew_param self v = self\<lparr>qc_d32_0 := fst v, qc_d32_1 := snd v\<rparr>"

definition alsaseq_event_data_queue_get_quadlet_param :: "snd_seq_ev_queue_control \<Rightarrow> u32 \<times> u32" where
  "alsaseq_event_data_queue_get_quadlet_param self = (qc_d32_0 self, qc_d32_1 self)"

definition alsaseq_event_data_queue_set_quadlet_param :: "snd_seq_ev_queue_control \<Rightarrow> u32 \<times> u32 \<Rightarrow> snd_seq_ev_queue_control" where
  "alsaseq_event_data_queue_set_quadlet_param self v = self\<lparr>qc_d32_0 := fst v, qc_d32_1 := snd v\<rparr>"

definition alsaseq_event_data_queue_get_byte_param :: "snd_seq_ev_queue_control \<Rightarrow> bytes" where
  "alsaseq_event_data_queue_get_byte_param self = le_enc 4 (qc_d32_0 self) @ le_enc 4 (qc_d32_1 self)"

definition alsaseq_event_data_queue_set_byte_param :: "snd_seq_ev_queue_control \<Rightarrow> bytes \<Rightarrow> snd_seq_ev_queue_control" where
  "alsaseq_event_data_queue_set_byte_param self v = self\<lparr>qc_d32_0 := le_dec (get_at 0 4 v), qc_d32_1 := le_dec (get_at 4 4 v)\<rparr>"

definition alsaseq_event_data_connect_get_src :: "snd_seq_connect \<Rightarrow> snd_seq_addr" where
  "alsaseq_event_data_connect_get_src self = conn_sender self"

definition alsaseq_event_data_connect_set_src :: "snd_seq_connect \<Rightarrow> snd_seq_addr \<Rightarrow> snd_seq_connect" where
  "alsaseq_event_data_connect_set_src self v = self\<lparr>conn_sender := v\<rparr>"

definition alsaseq_event_data_connect_get_dst :: "snd_seq_connect \<Rightarrow> snd_seq_addr" where
  "alsaseq_event_data_connect_get_dst self = conn_dest self"

definition alsaseq_event_data_connect_set_dst :: "snd_seq_connect \<Rightarrow> snd_seq_addr \<Rightarrow> snd_seq_connect" where
  "alsaseq_event_data_connect_set_dst self v = self\<lparr>conn_dest := v\<rparr>"

definition alsaseq_event_data_result_get_event :: "snd_seq_result \<Rightarrow> u32" where
  "alsaseq_event_data_result_get_event self = res_event self"

definition alsaseq_event_data_result_set_event :: "snd_seq_result \<Rightarrow> u32 \<Rightarrow> snd_seq_result" where
  "alsaseq_event_data_result_set_event self v = self\<lparr>res_event := v\<rparr>"

definition alsaseq_event_data_result_get_result :: "snd_seq_result \<Rightarrow> u32" where
  "alsaseq_event_data_result_get_result self = res_result self"

definition alsaseq_event_data_result_set_result :: "snd_seq_result \<Rightarrow> u32 \<Rightarrow> snd_seq_result" where
  "alsaseq_event_data_result_set_result self v = self\<lparr>res_result := v\<rparr>"

section \<open>Byte layouts\<close>

definition addr_enc :: "snd_seq_addr \<Rightarrow> bytes" where
  "addr_enc a = [addr_client a, addr_port a]"

definition addr_dec :: "bytes \<Rightarrow> snd_seq_addr" where
  "addr_dec bs = \<lparr>addr_client = bs ! 0, addr_port = bs ! 1\<rparr>"

definition note_enc :: "snd_seq_ev_note \<Rightarrow> bytes" where
  "note_enc n =
     [note_channel n, note_note n, note_velocity n, note_off_velocity n] @ le_enc 4 (note_duration n)"

definition note_dec :: "bytes \<Rightarrow> snd_seq_ev_note" where
  "note_dec bs = \<lparr>note_channel = bs ! 0, note_note = bs ! 1, note_velocity = bs ! 2,
     note_off_velocity = bs ! 3, note_duration = le_dec (get_at 4 4 bs)\<rparr>"

definition ctrl_enc :: "snd_seq_ev_ctrl \<Rightarrow> bytes" where
  "ctrl_enc c =
     ctl_channel c # le_enc 3 (ctl_unused c) @ le_enc 4 (ctl_param c) @ le_enc 4 (ctl_value c)"

definition ctrl_dec :: "bytes \<Rightarrow> snd_seq_ev_ctrl" where
  "ctrl_dec bs = \<lparr>ctl_channel = bs ! 0, ctl_unused = le_dec (get_at 1 3 bs),
     ctl_param = le_dec (get_at 4 4 bs), ctl_value = le_dec (get_at 8 4 bs)\<rparr>"

definition queue_enc :: "snd_seq_ev_queue_control \<Rightarrow> bytes" where
  "queue_enc q =
     qc_queue q # le_enc 3 (qc_unused q) @ le_enc 4 (qc_d32_0 q) @ le_enc 4 (qc_d32_1 q)"

definition queue_dec :: "bytes \<Rightarrow> snd_seq_ev_queue_control" where
  "queue_dec bs = \<lparr>qc_queue = bs ! 0, qc_unused = le_dec (get_at 1 3 bs),
     qc_d32_0 = le_dec (get_at 4 4 bs), qc_d32_1 = le_dec (get_at 8 4 bs)\<rparr>"

definition connect_enc :: "snd_seq_connect \<Rightarrow> bytes" where
  "connect_enc c = addr_enc (conn_sender c) @ addr_enc (conn_dest c)"

definition connect_dec :: "bytes \<Rightarrow> snd_seq_connect" where
  "connect_dec bs = \<lparr>conn_sender = addr_dec (get_at 0 2 bs), conn_dest = addr_dec (get_at 2 2 bs)\<rparr>"

definition result_enc :: "snd_seq_result \<Rightarrow> bytes" where
  "result_enc r = le_enc 4 (res_event r) @ le_enc 4 (res_result r)"

definition result_dec :: "bytes \<Rightarrow> snd_seq_result" where
  "result_dec bs = \<lparr>res_event = le_dec (get_at 0 4 bs), res_result = le_dec (get_at 4 4 bs)\<rparr>"

lemmas layout_defs =
  addr_enc_def addr_dec_def note_enc_def note_dec_def ctrl_enc_def ctrl_dec_def
  queue_enc_def queue_dec_def connect_enc_def connect_dec_def result_enc_def result_dec_def

text \<open>Splitting a byte array in front of its fields.\<close>

lemma bytes_split1: "length bs = Suc n \<Longrightarrow> bs = bs ! 0 # drop 1 bs"
  by (cases bs) auto

lemma bytes_split2: "length bs = Suc (Suc n) \<Longrightarrow> bs = bs ! 0 # bs ! 1 # drop 2 bs"
  by (cases bs; cases "tl bs") auto

lemma get_at_append: "length bs = k + m \<Longrightarrow> get_at 0 k bs @ get_at k m bs = bs"
  by (simp add: get_at_def)

lemma get_at_join: "get_at a k bs @ get_at (a + k) m bs = get_at a (k + m) bs"
  by (simp add: get_at_def take_add add.commute)

lemma get_at_drop_all: "length bs = a + m \<Longrightarrow> get_at a m bs = drop a bs"
  by (simp add: get_at_def)

lemma word24_codec [codec_simps]:
  "le_dec (le_enc 3 (w :: 24 word)) = w"
  "length bs = 3 \<Longrightarrow> le_enc 3 (le_dec bs :: 24 word) = bs"
  by (simp_all add: le_dec_enc le_enc_dec)

interpretation addrc: byte_layout addr_enc addr_dec 2
proof unfold_locales
  fix bs :: bytes assume "length bs = 2"
  then show "addr_enc (addr_dec bs) = bs"
    using bytes_split2 [of bs 0] by (simp add: layout_defs)
qed (simp_all add: layout_defs)

interpretation notec: byte_layout note_enc note_dec 8
proof unfold_locales
  fix bs :: bytes assume len: "length bs = 8"
  then have "bs = bs ! 0 # bs ! 1 # bs ! 2 # bs ! 3 # drop 4 bs"
    using bytes_split2 [of bs 6] bytes_split2 [of "drop 2 bs" 4] by simp
  with len show "note_enc (note_dec bs) = bs"
    by (simp add: layout_defs codec_simps get_at_drop_all [of bs 4 4])
qed (simp_all add: layout_defs get_at_def codec_simps)

lemma queue_like_split:
  assumes "length bs = 12"
  shows "bs ! 0 # get_at 1 3 bs @ get_at 4 4 bs @ get_at 8 4 bs = bs"
  using assms bytes_split1 [of bs 11] get_at_join [of 4 4 bs 4] get_at_join [of 1 3 bs 8]
    get_at_drop_all [of bs 1 11] by simp

interpretation ctrlc: byte_layout ctrl_enc ctrl_dec 12
proof unfold_locales
  fix bs :: bytes assume "length bs = 12"
  then show "ctrl_enc (ctrl_dec bs) = bs"
    using queue_like_split [of bs] by (simp add: layout_defs codec_simps)
qed (simp_all add: layout_defs get_at_def codec_simps)

interpretation queuec: byte_layout queue_enc queue_dec 12
proof unfold_locales
  fix bs :: bytes assume "length bs = 12"
  then show "queue_enc (queue_dec bs) = bs"
    using queue_like_split [of bs] by (simp add: layout_defs codec_simps)
qed (simp_all add: layout_defs get_at_def codec_simps)

interpretation connectc: byte_layout connect_enc connect_dec 4
proof unfold_locales
  fix bs :: bytes assume "length bs = 4"
  then show "connect_enc (connect_dec bs) = bs"
    by (simp add: connect_enc_def connect_dec_def addrc.enc_dec get_at_append [of bs 2 2])
qed (simp_all add: connect_enc_def connect_dec_def addrc.length_enc addrc.dec_enc get_at_def)

interpretation resultc: byte_layout result_enc result_dec 8
proof unfold_locales
  fix bs :: bytes assume "length bs = 8"
  then show "result_enc (result_dec bs) = bs"
    by (simp add: result_enc_def result_dec_def codec_simps get_at_append [of bs 4 4, simplified get_at_zero])
qed (simp_all add: result_enc_def result_dec_def get_at_def codec_simps)

section \<open>Copies of the boxed structures\<close>

definition seq_addr_copy :: "allocator \<Rightarrow> heap \<Rightarrow> snd_seq_addr \<Rightarrow> (heap \<times> u64) outcome" where
  "seq_addr_copy malloc h self = heap_new malloc h (addr_enc self)"

definition seq_event_data_note_copy :: "allocator \<Rightarrow> heap \<Rightarrow> snd_seq_ev_note \<Rightarrow> (heap \<times> u64) outcome" where
  "seq_event_data_note_copy malloc h self = heap_new malloc h (note_enc self)"

definition seq_event_data_ctl_copy :: "allocator \<Rightarrow> heap \<Rightarrow> snd_seq_ev_ctrl \<Rightarrow> (heap \<times> u64) outcome" where
  "seq_event_data_ctl_copy malloc h self = heap_new malloc h (ctrl_enc self)"

definition seq_event_data_queue_copy :: "allocator \<Rightarrow> heap \<Rightarrow> snd_seq_ev_queue_control \<Rightarrow> (heap \<times> u64) outcome" where
  "seq_event_data_queue_copy malloc h self = heap_new malloc h (queue_enc self)"

definition seq_event_data_connect_copy :: "allocator \<Rightarrow> heap \<Rightarrow> snd_seq_connect \<Rightarrow> (heap \<times> u64) outcome" where
  "seq_event_data_connect_copy malloc h self = heap_new malloc h (connect_enc self)"

definition seq_event_data_result_copy :: "allocator \<Rightarrow> heap \<Rightarrow> snd_seq_result \<Rightarrow> (heap \<times> u64) outcome" where
  "seq_event_data_result_copy malloc h self = heap_new malloc h (result_enc self)"

interpretation addr_copy: boxed_copy addr_enc addr_dec 2 seq_addr_copy
  by unfold_locales (simp_all add: seq_addr_copy_def)

interpretation note_copy: boxed_copy note_enc note_dec 8 seq_event_data_note_copy
  by unfold_locales (simp_all add: seq_event_data_note_copy_def)

interpretation ctrl_copy: boxed_copy ctrl_enc ctrl_dec 12 seq_event_data_ctl_copy
  by unfold_locales (simp_all add: seq_event_data_ctl_copy_def)

interpretation queue_copy: boxed_copy queue_enc queue_dec 12 seq_event_data_queue_copy
  by unfold_locales (simp_all add: seq_event_data_queue_copy_def)

interpretation connect_copy: boxed_copy connect_enc connect_dec 4 seq_event_data_connect_copy
  by unfold_locales (simp_all add: seq_event_data_connect_copy_def)

interpretation result_copy: boxed_copy result_enc result_dec 8 seq_event_data_result_copy
  by unfold_locales (simp_all add: seq_event_data_result_copy_def)

end
