(* ===== verification/Seq_Infos.thy ===== *)
theory Seq_Infos
  imports GObject_Props Timer_Device_Id Seq_Event_Data
begin

text \<open>
  The GObject classes of the sequencer part that wrap one UAPI structure each: client, port,
  pool, queue, tempo, timer, subscription, removal filter and system information. The record is
  the wrapped structure (the fields the sources touch), the enumeration and the table of
  parameter specifications are those of the class, and \<open>set_property\<close>/\<open>get_property\<close> translate
  the two switches. A property that a switch does not handle logs a warning and changes nothing.
  A \<open>NULL\<close> boxed value is dereferenced by some of the setters (\<open>Undefined\<close>).
  The second half relates the classes to the contract of GObject properties.
\<close>

section \<open>Client information\<close>

record snd_seq_client_info =
  ci_client :: u32
  ci_type :: u32
  ci_name :: bytes
  ci_filter :: u32
  ci_event_filter :: bytes
  ci_num_ports :: u32
  ci_event_lost :: u32
  ci_card :: u32
  ci_pid :: u32

abbreviation (input) SNDRV_SEQ_FILTER_USE_EVENT :: u32 where "SNDRV_SEQ_FILTER_USE_EVENT \<equiv> 0x80000000"

datatype seq_client_info_prop_type =
    SEQ_CLIENT_INFO_PROP_CLIENT_ID
  | SEQ_CLIENT_INFO_PROP_CLIENT_TYPE
  | SEQ_CLIENT_INFO_PROP_NAME
  | SEQ_CLIENT_INFO_PROP_FILTER_ATTR_FLAGS
  | SEQ_CLIENT_INFO_PROP_USE_FILTER
  | SEQ_CLIENT_INFO_PROP_PORT_COUNT
  | SEQ_CLIENT_INFO_PROP_LOST_COUNT
  | SEQ_CLIENT_INFO_PROP_CARD_ID
  | SEQ_CLIENT_INFO_PROP_PROCESS_ID

fun seq_client_info_props :: "seq_client_info_prop_type \<Rightarrow> pspec" where
  "seq_client_info_props SEQ_CLIENT_INFO_PROP_CLIENT_ID =
     \<lparr>ps_name = ''client-id'', ps_type = TUChar, ps_min = 0, ps_max = 255, ps_readable = True, ps_writable = True, ps_construct_only = False\<rparr>"
| "seq_client_info_props SEQ_CLIENT_INFO_PROP_CLIENT_TYPE =
     \<lparr>ps_name = ''type'', ps_type = TEnum, ps_min = 0, ps_max = 0, ps_readable = True, ps_writable = True, ps_construct_only = False\<rparr>"
| "seq_client_info_props SEQ_CLIENT_INFO_PROP_NAME =
     \<lparr>ps_name = ''name'', ps_type = TString, ps_min = 0, ps_max = 0, ps_readable = True, ps_writable = True, ps_construct_only = False\<rparr>"
| "seq_client_info_props SEQ_CLIENT_INFO_PROP_FILTER_ATTR_FLAGS =
     \<lparr>ps_name = ''filter-attributes'', ps_type = TFlags, ps_min = 0, ps_max = 0, ps_readable = True, ps_writable = True, ps_construct_only = False\<rparr>"
| "seq_client_info_props SEQ_CLIENT_INFO_PROP_USE_FILTER =
     \<lparr>ps_name = ''use-filter'', ps_type = TBool, ps_min = 0, ps_max = 0, ps_readable = True, ps_writable = True, ps_construct_only = False\<rparr>"
| "seq_client_info_props SEQ_CLIENT_INFO_PROP_PORT_COUNT =
     \<lparr>ps_name = ''port-count'', ps_type = TInt, ps_min = 0, ps_max = 2147483647, ps_readable = True, ps_writable = False, ps_construct_only = False\<rparr>"
| "seq_client_info_props SEQ_CLIENT_INFO_PROP_LOST_COUNT =
     \<lparr>ps_name = ''lost-count'', ps_type = TInt, ps_min = 0, ps_max = 2147483647, ps_readable = True, ps_writable = False, ps_construct_only = False\<rparr>"
| "seq_client_info_props SEQ_CLIENT_INFO_PROP_CARD_ID =
     \<lparr>ps_name = ''card-id'', ps_type = TInt, ps_min = -2147483648, ps_max = 2147483647, ps_readable = True, ps_writable = True, ps_construct_only = False\<rparr>"
| "seq_client_info_props SEQ_CLIENT_INFO_PROP_PROCESS_ID =
     \<lparr>ps_name = ''process-id'', ps_type = TInt64, ps_min = -9223372036854775808, ps_max = 9223372036854775807, ps_readable = True, ps_writable = False, ps_construct_only = False\<rparr>"

fun seq_client_info_set_property :: "snd_seq_client_info \<Rightarrow> seq_client_info_prop_type \<Rightarrow> snd_seq_addr gvalue \<Rightarrow> snd_seq_client_info outcome" where
  "seq_client_info_set_property info SEQ_CLIENT_INFO_PROP_CLIENT_ID val =
     Ret (info\<lparr>ci_client := ucast (g_value_get_uchar val)\<rparr>)"
| "seq_client_info_set_property info SEQ_CLIENT_INFO_PROP_CLIENT_TYPE val =
     Ret (info\<lparr>ci_type := g_value_get_enum val\<rparr>)"
| "seq_client_info_set_property info SEQ_CLIENT_INFO_PROP_NAME val =
     Ret (info\<lparr>ci_name := copy_string (ci_name info) (g_value_get_string val)\<rparr>)"
| "seq_client_info_set_property info SEQ_CLIENT_INFO_PROP_FILTER_ATTR_FLAGS val =
     Ret (info\<lparr>ci_filter := (ci_filter info AND SNDRV_SEQ_FILTER_USE_EVENT) OR g_value_get_flags val\<rparr>)"
| "seq_client_info_set_property info SEQ_CLIENT_INFO_PROP_USE_FILTER val =
     Ret (if g_value_get_boolean val
       then info\<lparr>ci_filter := (ci_filter info AND NOT SNDRV_SEQ_FILTER_USE_EVENT) OR SNDRV_SEQ_FILTER_USE_EVENT\<rparr>
       else info\<lparr>ci_filter := ci_filter info AND NOT SNDRV_SEQ_FILTER_USE_EVENT\<rparr>)"
| "seq_client_info_set_property info SEQ_CLIENT_INFO_PROP_PORT_COUNT val = Ret info"
| "seq_client_info_set_property info SEQ_CLIENT_INFO_PROP_LOST_COUNT val =
     Ret (info\<lparr>ci_event_lost := g_value_get_int val\<rparr>)"
| "seq_client_info_set_property info SEQ_CLIENT_INFO_PROP_CARD_ID val = Ret info"
| "seq_client_info_set_property info SEQ_CLIENT_INFO_PROP_PROCESS_ID val = Ret info"

fun seq_client_info_get_property :: "snd_seq_client_info \<Rightarrow> seq_client_info_prop_type \<Rightarrow> snd_seq_addr gvalue \<Rightarrow> snd_seq_addr gvalue" where
  "seq_client_info_get_property info SEQ_CLIENT_INFO_PROP_CLIENT_ID val =
     g_value_set_uchar val (ucast (ci_client info))"
| "seq_client_info_get_property info SEQ_CLIENT_INFO_PROP_CLIENT_TYPE val =
     g_value_set_enum val (ci_type info)"
| "seq_client_info_get_property info SEQ_CLIENT_INFO_PROP_NAME val =
     g_value_set_string val (cstr (ci_name info))"
| "seq_client_info_get_property info SEQ_CLIENT_INFO_PROP_FILTER_ATTR_FLAGS val =
     g_value_set_flags val (ci_filter info AND SNDRV_SEQ_FILTER_USE_EVENT)"
| "seq_client_info_get_property info SEQ_CLIENT_INFO_PROP_USE_FILTER val =
     g_value_set_boolean val (ci_filter info AND SNDRV_SEQ_FILTER_USE_EVENT \<noteq> 0)"
| "seq_client_info_get_property info SEQ_CLIENT_INFO_PROP_PORT_COUNT val =
     g_value_set_int val (ci_num_ports info)"
| "seq_client_info_get_property info SEQ_CLIENT_INFO_PROP_LOST_COUNT val =
     g_value_set_int val (ci_event_lost info)"
| "seq_client_info_get_property info SEQ_CLIENT_INFO_PROP_CARD_ID val =
     g_value_set_int val (ci_card info)"
| "seq_client_info_get_property info SEQ_CLIENT_INFO_PROP_PROCESS_ID val =
     g_value_set_int64 val (scast (ci_pid info))"

text \<open>
  The event filter is a bitmap of 256 event types. Setting it clears it first and ignores types
  outside of the map; getting it lists the types set, in increasing order.
\<close>

fun set_filter_bits :: "bytes \<Rightarrow> u32 list \<Rightarrow> bytes" where
  "set_filter_bits flt [] = flt"
| "set_filter_bits flt (event_type # rest) =
     (let order = unat event_type div 8; idx = unat event_type mod 8
      in set_filter_bits
           (if order < length flt then flt[order := flt ! order OR push_bit idx 1] else flt) rest)"

definition alsaseq_client_info_set_event_filter :: "snd_seq_client_info \<Rightarrow> u32 list \<Rightarrow> snd_seq_client_info" where
  "alsaseq_client_info_set_event_filter info event_types =
     info\<lparr>ci_event_filter := set_filter_bits (replicate 32 0) event_types\<rparr>"

definition filter_bit :: "bytes \<Rightarrow> nat \<Rightarrow> bool" where
  "filter_bit flt i \<longleftrightarrow>
     (let order = i div 8; idx = i mod 8
      in order < length flt \<and> flt ! order AND push_bit idx 1 \<noteq> 0)"

text \<open>The first loop counts the types, the second one fills an array of that many.\<close>

fun count_filter_bits :: "bytes \<Rightarrow> nat list \<Rightarrow> nat" where
  "count_filter_bits flt [] = 0"
| "count_filter_bits flt (i # is) = (if filter_bit flt i then 1 else 0) + count_filter_bits flt is"

fun fill_event_types :: "bytes \<Rightarrow> nat list \<Rightarrow> nat \<Rightarrow> u32 list \<Rightarrow> u32 list" where
  "fill_event_types flt [] index event_types = event_types"
| "fill_event_types flt (i # is) index event_types =
     (if filter_bit flt i then fill_event_types flt is (Suc index) (event_types[index := of_nat i])
      else fill_event_types flt is index event_types)"

definition alsaseq_client_info_get_event_filter :: "snd_seq_client_info \<Rightarrow> u32 list" where
  "alsaseq_client_info_get_event_filter info =
     (let flt = ci_event_filter info; count = count_filter_bits flt [0..<256]
      in if count = 0 then [] else fill_event_types flt [0..<256] 0 (replicate count 0))"

section \<open>Port information\<close>

record snd_seq_port_info =
  pi_addr :: snd_seq_addr
  pi_name :: bytes
  pi_capability :: u32
  pi_type :: u32
  pi_midi_channels :: u32
  pi_midi_voices :: u32
  pi_synth_voices :: u32
  pi_read_use :: u32
  pi_write_use :: u32
  pi_flags :: u32
  pi_time_queue :: u8

abbreviation (input) SNDRV_SEQ_PORT_FLG_GIVEN_PORT :: u32 where "SNDRV_SEQ_PORT_FLG_GIVEN_PORT \<equiv> 1"
abbreviation (input) SNDRV_SEQ_PORT_FLG_TIMESTAMP :: u32 where "SNDRV_SEQ_PORT_FLG_TIMESTAMP \<equiv> 2"
abbreviation (input) SNDRV_SEQ_PORT_FLG_TIME_REAL :: u32 where "SNDRV_SEQ_PORT_FLG_TIME_REAL \<equiv> 4"

datatype seq_port_info_prop_type =
    SEQ_PORT_INFO_PROP_ADDR
  | SEQ_PORT_INFO_PROP_NAME
  | SEQ_PORT_INFO_PROP_CAPS
  | SEQ_PORT_INFO_PROP_ATTRS
  | SEQ_PORT_INFO_PROP_MIDI_CHANNELS
  | SEQ_PORT_INFO_PROP_MIDI_VOICES
  | SEQ_PORT_INFO_PROP_SYNTH_VOICES
  | SEQ_PORT_INFO_PROP_READ_USERS
  | SEQ_PORT_INFO_PROP_WRITE_USERS
  | SEQ_PORT_INFO_PROP_TSTAMP_OVERWRITE
  | SEQ_PORT_INFO_PROP_TSTAMP_MODE
  | SEQ_PORT_INFO_PROP_TIME_QUEUE

fun seq_port_info_props :: "seq_port_info_prop_type \<Rightarrow> pspec" where
  "seq_port_info_props SEQ_PORT_INFO_PROP_ADDR =
     \<lparr>ps_name = ''addr'', ps_type = TBoxed, ps_min = 0, ps_max = 0, ps_readable = True, ps_writable = True, ps_construct_only = True\<rparr>"
| "seq_port_info_props SEQ_PORT_INFO_PROP_NAME =
     \<lparr>ps_name = ''name'', ps_type = TString, ps_min = 0, ps_max = 0, ps_readable = True, ps_writable = True, ps_construct_only = False\<rparr>"
| "seq_port_info_props SEQ_PORT_INFO_PROP_CAPS =
     \<lparr>ps_name = ''caps'', ps_type = TFlags, ps_min = 0, ps_max = 0, ps_readable = True, ps_writable = True, ps_construct_only = False\<rparr>"
| "seq_port_info_props SEQ_PORT_INFO_PROP_ATTRS =
     \<lparr>ps_name = ''attrs'', ps_type = TFlags, ps_min = 0, ps_max = 0, ps_readable = True, ps_writable = True, ps_construct_only = False\<rparr>"
| "seq_port_info_props SEQ_PORT_INFO_PROP_MIDI_CHANNELS =
     \<lparr>ps_name = ''midi-channels'', ps_type = TInt, ps_min = 0, ps_max = 2147483647, ps_readable = True, ps_writable = True, ps_construct_only = False\<rparr>"
| "seq_port_info_props SEQ_PORT_INFO_PROP_MIDI_VOICES =
     \<lparr>ps_name = ''midi-voices'', ps_type = TInt, ps_min = 0, ps_max = 2147483647, ps_readable = True, ps_writable = True, ps_construct_only = False\<rparr>"
| "seq_port_info_props SEQ_PORT_INFO_PROP_SYNTH_VOICES =
     \<lparr>ps_name = ''synth-voices'', ps_type = TInt, ps_min = 0, ps_max = 2147483647, ps_readable = True, ps_writable = True, ps_construct_only = False\<rparr>"
| "seq_port_info_props SEQ_PORT_INFO_PROP_READ_USERS =
     \<lparr>ps_name = ''read-users'', ps_type = TInt, ps_min = 0, ps_max = 2147483647, ps_readable = True, ps_writable = False, ps_construct_only = False\<rparr>"
| "seq_port_info_props SEQ_PORT_INFO_PROP_WRITE_USERS =
     \<lparr>ps_name = ''write-users'', ps_type = TInt, ps_min = 0, ps_max = 2147483647, ps_readable = True, ps_writable = False, ps_construct_only = False\<rparr>"
| "seq_port_info_props SEQ_PORT_INFO_PROP_TSTAMP_OVERWRITE =
     \<lparr>ps_name = ''tstamp-overwrite'', ps_type = TBool, ps_min = 0, ps_max = 0, ps_readable = True, ps_writable = True, ps_construct_only = False\<rparr>"
| "seq_port_info_props SEQ_PORT_INFO_PROP_TSTAMP_MODE =
     \<lparr>ps_name = ''tstamp-mode'', ps_type = TEnum, ps_min = 0, ps_max = 0, ps_readable = True, ps_writable = True, ps_construct_only = False\<rparr>"
| "seq_port_info_props SEQ_PORT_INFO_PROP_TIME_QUEUE =
     \<lparr>ps_name = ''queue-id'', ps_type = TUChar, ps_min = 0, ps_max = 255, ps_readable = True, ps_writable = True, ps_construct_only = False\<rparr>"

fun seq_port_info_set_property :: "snd_seq_port_info \<Rightarrow> seq_port_info_prop_type \<Rightarrow> snd_seq_addr gvalue \<Rightarrow> snd_seq_port_info outcome" where
  "seq_port_info_set_property info SEQ_PORT_INFO_PROP_ADDR val =
     (case g_value_get_boxed val of None \<Rightarrow> Ret info | Some addr \<Rightarrow> Ret (info\<lparr>pi_addr := addr\<rparr>))"
| "seq_port_info_set_property info SEQ_PORT_INFO_PROP_NAME val =
     Ret (info\<lparr>pi_name := copy_string (pi_name info) (g_value_get_string val)\<rparr>)"
| "seq_port_info_set_property info SEQ_PORT_INFO_PROP_CAPS val =
     Ret (info\<lparr>pi_capability := g_value_get_flags val\<rparr>)"
| "seq_port_info_set_property info SEQ_PORT_INFO_PROP_ATTRS val =
     Ret (info\<lparr>pi_type := g_value_get_flags val\<rparr>)"
| "seq_port_info_set_property info SEQ_PORT_INFO_PROP_MIDI_CHANNELS val =
     Ret (info\<lparr>pi_midi_channels := g_value_get_int val\<rparr>)"
| "seq_port_info_set_property info SEQ_PORT_INFO_PROP_MIDI_VOICES val =
     Ret (info\<lparr>pi_midi_voices := g_value_get_int val\<rparr>)"
| "seq_port_info_set_property info SEQ_PORT_INFO_PROP_SYNTH_VOICES val =
     Ret (info\<lparr>pi_synth_voices := g_value_get_int val\<rparr>)"
| "seq_port_info_set_property info SEQ_PORT_INFO_PROP_READ_USERS val =
     Ret (info\<lparr>pi_read_use := g_value_get_int val\<rparr>)"
| "seq_port_info_set_property info SEQ_PORT_INFO_PROP_WRITE_USERS val =
     Ret (info\<lparr>pi_write_use := g_value_get_int val\<rparr>)"
| "seq_port_info_set_property info SEQ_PORT_INFO_PROP_TSTAMP_OVERWRITE val =
     Ret (if g_value_get_boolean val
       then info\<lparr>pi_flags := pi_flags info OR SNDRV_SEQ_PORT_FLG_TIMESTAMP\<rparr>
       else info\<lparr>pi_flags := pi_flags info AND NOT SNDRV_SEQ_PORT_FLG_TIMESTAMP\<rparr>)"
| "seq_port_info_set_property info SEQ_PORT_INFO_PROP_TSTAMP_MODE val =
     Ret (if g_value_get_enum val \<noteq> 0
       then info\<lparr>pi_flags := pi_flags info OR SNDRV_SEQ_PORT_FLG_TIME_REAL\<rparr>
       else info\<lparr>pi_flags := pi_flags info AND NOT SNDRV_SEQ_PORT_FLG_TIME_REAL\<rparr>)"
| "seq_port_info_set_property info SEQ_PORT_INFO_PROP_TIME_QUEUE val =
     Ret (info\<lparr>pi_time_queue := g_value_get_uchar val\<rparr>)"

fun seq_port_info_get_property :: "snd_seq_port_info \<Rightarrow> seq_port_info_prop_type \<Rightarrow> snd_seq_addr gvalue \<Rightarrow> snd_seq_addr gvalue" where
  "seq_port_info_get_property info SEQ_PORT_INFO_PROP_ADDR val =
     g_value_set_boxed val (pi_addr info)"
| "seq_port_info_get_property info SEQ_PORT_INFO_PROP_NAME val =
     g_value_set_string val (cstr (pi_name info))"
| "seq_port_info_get_property info SEQ_PORT_INFO_PROP_CAPS val =
     g_value_set_flags val (pi_capability info)"
| "seq_port_info_get_property info SEQ_PORT_INFO_PROP_ATTRS val =
     g_value_set_flags val (pi_type info)"
| "seq_port_info_get_property info SEQ_PORT_INFO_PROP_MIDI_CHANNELS val =
     g_value_set_int val (pi_midi_channels info)"
| "seq_port_info_get_property info SEQ_PORT_INFO_PROP_MIDI_VOICES val =
     g_value_set_int val (pi_midi_voices info)"
| "seq_port_info_get_property info SEQ_PORT_INFO_PROP_SYNTH_VOICES val =
     g_value_set_int val (pi_synth_voices info)"
| "seq_port_info_get_property info SEQ_PORT_INFO_PROP_READ_USERS val =
     g_value_set_int val (pi_read_use info)"
| "seq_port_info_get_property info SEQ_PORT_INFO_PROP_WRITE_USERS val =
     g_value_set_int val (pi_write_use info)"
| "seq_port_info_get_property info SEQ_PORT_INFO_PROP_TSTAMP_OVERWRITE val =
     g_value_set_boolean val (pi_flags info AND SNDRV_SEQ_PORT_FLG_TIMESTAMP \<noteq> 0)"
| "seq_port_info_get_property info SEQ_PORT_INFO_PROP_TSTAMP_MODE val =
     g_value_set_enum val (if pi_flags info AND SNDRV_SEQ_PORT_FLG_TIME_REAL \<noteq> 0 then 1 else 0)"
| "seq_port_info_get_property info SEQ_PORT_INFO_PROP_TIME_QUEUE val =
     g_value_set_uchar val (pi_time_queue info)"

section \<open>Client pool\<close>

record snd_seq_client_pool =
  cp_client :: u32
  cp_output_pool :: u32
  cp_input_pool :: u32
  cp_output_room :: u32
  cp_output_free :: u32
  cp_input_free :: u32

datatype seq_client_pool_prop_type =
    SEQ_CLIENT_POOL_PROP_CLIENT_ID
  | SEQ_CLIENT_POOL_PROP_OUTPUT_POOL
  | SEQ_CLIENT_POOL_PROP_INPUT_POOL
  | SEQ_CLIENT_POOL_PROP_OUTPUT_ROOM
  | SEQ_CLIENT_POOL_PROP_OUTPUT_FREE
  | SEQ_CLIENT_POOL_PROP_INPUT_FREE

fun seq_client_pool_props :: "seq_client_pool_prop_type \<Rightarrow> pspec" where
  "seq_client_pool_props SEQ_CLIENT_POOL_PROP_CLIENT_ID =
     \<lparr>ps_name = ''client-id'', ps_type = TUChar, ps_min = 0, ps_max = 255, ps_readable = True, ps_writable = False, ps_construct_only = False\<rparr>"
| "seq_client_pool_props SEQ_CLIENT_POOL_PROP_OUTPUT_POOL =
     \<lparr>ps_name = ''output-pool'', ps_type = TUInt, ps_min = 0, ps_max = 2147483647, ps_readable = True, ps_writable = True, ps_construct_only = False\<rparr>"
| "seq_client_pool_props SEQ_CLIENT_POOL_PROP_INPUT_POOL =
     \<lparr>ps_name = ''input-pool'', ps_type = TUInt, ps_min = 0, ps_max = 2147483647, ps_readable = True, ps_writable = True, ps_construct_only = False\<rparr>"
| "seq_client_pool_props SEQ_CLIENT_POOL_PROP_OUTPUT_ROOM =
     \<lparr>ps_name = ''output-room'', ps_type = TUInt, ps_min = 0, ps_max = 2147483647, ps_readable = True, ps_writable = True, ps_construct_only = False\<rparr>"
| "seq_client_pool_props SEQ_CLIENT_POOL_PROP_OUTPUT_FREE =
     \<lparr>ps_name = ''output-free'', ps_type = TUInt, ps_min = 0, ps_max = 2147483647, ps_readable = True, ps_writable = True, ps_construct_only = False\<rparr>"
| "seq_client_pool_props SEQ_CLIENT_POOL_PROP_INPUT_FREE =
     \<lparr>ps_name = ''input-free'', ps_type = TUInt, ps_min = 0, ps_max = 2147483647, ps_readable = True, ps_writable = True, ps_construct_only = False\<rparr>"

fun seq_client_pool_set_property :: "snd_seq_client_pool \<Rightarrow> seq_client_pool_prop_type \<Rightarrow> snd_seq_addr gvalue \<Rightarrow> snd_seq_client_pool outcome" where
  "seq_client_pool_set_property info SEQ_CLIENT_POOL_PROP_CLIENT_ID val = Ret info"
| "seq_client_pool_set_property info SEQ_CLIENT_POOL_PROP_OUTPUT_POOL val =
     Ret (info\<lparr>cp_output_pool := g_value_get_uint val\<rparr>)"
| "seq_client_pool_set_property info SEQ_CLIENT_POOL_PROP_INPUT_POOL val =
     Ret (info\<lparr>cp_input_pool := g_value_get_uint val\<rparr>)"
| "seq_client_pool_set_property info SEQ_CLIENT_POOL_PROP_OUTPUT_ROOM val =
     Ret (info\<lparr>cp_output_room := g_value_get_uint val\<rparr>)"
| "seq_client_pool_set_property info SEQ_CLIENT_POOL_PROP_OUTPUT_FREE val =
     Ret (info\<lparr>cp_output_free := g_value_get_uint val\<rparr>)"
| "seq_client_pool_set_property info SEQ_CLIENT_POOL_PROP_INPUT_FREE val =
     Ret (info\<lparr>cp_input_free := g_value_get_uint val\<rparr>)"

fun seq_client_pool_get_property :: "snd_seq_client_pool \<Rightarrow> seq_client_pool_prop_type \<Rightarrow> snd_seq_addr gvalue \<Rightarrow> snd_seq_addr gvalue" where
  "seq_client_pool_get_property info SEQ_CLIENT_POOL_PROP_CLIENT_ID val =
     g_value_set_uchar val (ucast (cp_client info))"
| "seq_client_pool_get_property info SEQ_CLIENT_POOL_PROP_OUTPUT_POOL val =
     g_value_set_uint val (cp_output_pool info)"
| "seq_client_pool_get_property info SEQ_CLIENT_POOL_PROP_INPUT_POOL val =
     g_value_set_uint val (cp_input_pool info)"
| "seq_client_pool_get_property info SEQ_CLIENT_POOL_PROP_OUTPUT_ROOM val =
     g_value_set_uint val (cp_output_room info)"
| "seq_client_pool_get_property info SEQ_CLIENT_POOL_PROP_OUTPUT_FREE val =
     g_value_set_uint val (cp_output_free info)"
| "seq_client_pool_get_property info SEQ_CLIENT_POOL_PROP_INPUT_FREE val =
     g_value_set_uint val (cp_input_free info)"

section \<open>Queue information\<close>

record snd_seq_queue_info =
  qi_queue :: u32
  qi_owner :: u32
  qi_locked :: bool
  qi_name :: bytes

datatype seq_queue_info_prop_type =
    SEQ_QUEUE_INFO_PROP_QUEUE_ID
  | SEQ_QUEUE_INFO_PROP_CLIENT_ID
  | SEQ_QUEUE_INFO_PROP_LOCKED
  | SEQ_QUEUE_INFO_PROP_NAME

fun seq_queue_info_props :: "seq_queue_info_prop_type \<Rightarrow> pspec" where
  "seq_queue_info_props SEQ_QUEUE_INFO_PROP_QUEUE_ID =
     \<lparr>ps_name = ''queue-id'', ps_type = TUChar, ps_min = 0, ps_max = 255, ps_readable = True, ps_writable = True, ps_construct_only = False\<rparr>"
| "seq_queue_info_props SEQ_QUEUE_INFO_PROP_CLIENT_ID =
     \<lparr>ps_name = ''client-id'', ps_type = TUChar, ps_min = 0, ps_max = 255, ps_readable = True, ps_writable = True, ps_construct_only = False\<rparr>"
| "seq_queue_info_props SEQ_QUEUE_INFO_PROP_LOCKED =
     \<lparr>ps_name = ''locked'', ps_type = TBool, ps_min = 0, ps_max = 0, ps_readable = True, ps_writable = True, ps_construct_only = False\<rparr>"
| "seq_queue_info_props SEQ_QUEUE_INFO_PROP_NAME =
     \<lparr>ps_name = ''name'', ps_type = TString, ps_min = 0, ps_max = 0, ps_readable = True, ps_writable = True, ps_construct_only = False\<rparr>"

fun seq_queue_info_set_property :: "snd_seq_queue_info \<Rightarrow> seq_queue_info_prop_type \<Rightarrow> snd_seq_addr gvalue \<Rightarrow> snd_seq_queue_info outcome" where
  "seq_queue_info_set_property info SEQ_QUEUE_INFO_PROP_QUEUE_ID val =
     Ret (info\<lparr>qi_queue := ucast (g_value_get_uchar val)\<rparr>)"
| "seq_queue_info_set_property info SEQ_QUEUE_INFO_PROP_CLIENT_ID val =
     Ret (info\<lparr>qi_owner := ucast (g_value_get_uchar val)\<rparr>)"
| "seq_queue_info_set_property info SEQ_QUEUE_INFO_PROP_LOCKED val =
     Ret (info\<lparr>qi_locked := g_value_get_boolean val\<rparr>)"
| "seq_queue_info_set_property info SEQ_QUEUE_INFO_PROP_NAME val =
     Ret (info\<lparr>qi_name := copy_string (qi_name info) (g_value_get_string val)\<rparr>)"

fun seq_queue_info_get_property :: "snd_seq_queue_info \<Rightarrow> seq_queue_info_prop_type \<Rightarrow> snd_seq_addr gvalue \<Rightarrow> snd_seq_addr gvalue" where
  "seq_queue_info_get_property info SEQ_QUEUE_INFO_PROP_QUEUE_ID val =
     g_value_set_uchar val (ucast (qi_queue info))"
| "seq_queue_info_get_property info SEQ_QUEUE_INFO_PROP_CLIENT_ID val =
     g_value_set_uchar val (ucast (qi_owner info))"
| "seq_queue_info_get_property info SEQ_QUEUE_INFO_PROP_LOCKED val =
     g_value_set_boolean val (qi_locked info)"
| "seq_queue_info_get_property info SEQ_QUEUE_INFO_PROP_NAME val =
     g_value_set_string val (cstr (qi_name info))"

section \<open>Queue status\<close>

record snd_seq_queue_status =
  qs_queue :: u32
  qs_events :: u32
  qs_tick :: u32
  qs_time :: "u32 \<times> u32"
  qs_running :: u32

datatype seq_queue_status_prop_type =
    SEQ_QUEUE_STATUS_PROP_QUEUE_ID
  | SEQ_QUEUE_STATUS_PROP_EVENT_COUNT
  | SEQ_QUEUE_STATUS_PROP_RUNNING

fun seq_queue_status_props :: "seq_queue_status_prop_type \<Rightarrow> pspec" where
  "seq_queue_status_props SEQ_QUEUE_STATUS_PROP_QUEUE_ID =
     \<lparr>ps_name = ''queue-id'', ps_type = TUChar, ps_min = 0, ps_max = 255, ps_readable = True, ps_writable = False, ps_construct_only = False\<rparr>"
| "seq_queue_status_props SEQ_QUEUE_STATUS_PROP_EVENT_COUNT =
     \<lparr>ps_name = ''event-count'', ps_type = TInt, ps_min = 0, ps_max = 2147483647, ps_readable = True, ps_writable = False, ps_construct_only = False\<rparr>"
| "seq_queue_status_props SEQ_QUEUE_STATUS_PROP_RUNNING =
     \<lparr>ps_name = ''running'', ps_type = TBool, ps_min = 0, ps_max = 0, ps_readable = True, ps_writable = False, ps_construct_only = False\<rparr>"

fun seq_queue_status_get_property :: "snd_seq_queue_status \<Rightarrow> seq_queue_status_prop_type \<Rightarrow> snd_seq_addr gvalue \<Rightarrow> snd_seq_addr gvalue" where
  "seq_queue_status_get_property info SEQ_QUEUE_STATUS_PROP_QUEUE_ID val =
     g_value_set_int val (qs_queue info)"
| "seq_queue_status_get_property info SEQ_QUEUE_STATUS_PROP_EVENT_COUNT val =
     g_value_set_int val (qs_events info)"
| "seq_queue_status_get_property info SEQ_QUEUE_STATUS_PROP_RUNNING val =
     g_value_set_boolean val (qs_running info \<noteq> 0)"

definition alsaseq_queue_status_get_tick_time :: "snd_seq_queue_status \<Rightarrow> u32" where
  "alsaseq_queue_status_get_tick_time info = qs_tick info"

definition alsaseq_queue_status_get_real_time :: "snd_seq_queue_status \<Rightarrow> u32 \<times> u32" where
  "alsaseq_queue_status_get_real_time info = qs_time info"

section \<open>Queue tempo\<close>

record snd_seq_queue_tempo =
  qt_queue :: u32
  qt_tempo :: u32
  qt_ppq :: u32
  qt_skew_value :: u32
  qt_skew_base :: u32

datatype seq_queue_tempo_prop_type =
    SEQ_QUEUE_TEMPO_PROP_QUEUE_ID
  | SEQ_QUEUE_TEMPO_PROP_TEMPO
  | SEQ_QUEUE_TEMPO_PROP_RESOLUTION

fun seq_queue_tempo_props :: "seq_queue_tempo_prop_type \<Rightarrow> pspec" where
  "seq_queue_tempo_props SEQ_QUEUE_TEMPO_PROP_QUEUE_ID =
     \<lparr>ps_name = ''queue-id'', ps_type = TUChar, ps_min = 0, ps_max = 255, ps_readable = True, ps_writable = True, ps_construct_only = False\<rparr>"
| "seq_queue_tempo_props SEQ_QUEUE_TEMPO_PROP_TEMPO =
     \<lparr>ps_name = ''tempo'', ps_type = TUInt, ps_min = 0, ps_max = 4294967295, ps_readable = True, ps_writable = True, ps_construct_only = False\<rparr>"
| "seq_queue_tempo_props SEQ_QUEUE_TEMPO_PROP_RESOLUTION =
     \<lparr>ps_name = ''resolution'', ps_type = TInt, ps_min = 0, ps_max = 2147483647, ps_readable = True, ps_writable = True, ps_construct_only = False\<rparr>"

fun seq_queue_tempo_set_property :: "snd_seq_queue_tempo \<Rightarrow> seq_queue_tempo_prop_type \<Rightarrow> snd_seq_addr gvalue \<Rightarrow> snd_seq_queue_tempo outcome" where
  "seq_queue_tempo_set_property info SEQ_QUEUE_TEMPO_PROP_QUEUE_ID val =
     Ret (info\<lparr>qt_queue := ucast (g_value_get_uchar val)\<rparr>)"
| "seq_queue_tempo_set_property info SEQ_QUEUE_TEMPO_PROP_TEMPO val =
     Ret (info\<lparr>qt_tempo := g_value_get_int val\<rparr>)"
| "seq_queue_tempo_set_property info SEQ_QUEUE_TEMPO_PROP_RESOLUTION val =
     Ret (info\<lparr>qt_ppq := g_value_get_int val\<rparr>)"

fun seq_queue_tempo_get_property :: "snd_seq_queue_tempo \<Rightarrow> seq_queue_tempo_prop_type \<Rightarrow> snd_seq_addr gvalue \<Rightarrow> snd_seq_addr gvalue" where
  "seq_queue_tempo_get_property info SEQ_QUEUE_TEMPO_PROP_QUEUE_ID val =
     g_value_set_uchar val (ucast (qt_queue info))"
| "seq_queue_tempo_get_property info SEQ_QUEUE_TEMPO_PROP_TEMPO val =
     g_value_set_uint val (qt_tempo info)"
| "seq_queue_tempo_get_property info SEQ_QUEUE_TEMPO_PROP_RESOLUTION val =
     g_value_set_int val (qt_ppq info)"

definition alsaseq_queue_tempo_get_skew :: "snd_seq_queue_tempo \<Rightarrow> u32 \<times> u32" where
  "alsaseq_queue_tempo_get_skew info = (qt_skew_value info, qt_skew_base info)"

definition alsaseq_queue_tempo_set_skew :: "snd_seq_queue_tempo \<Rightarrow> u32 \<times> u32 \<Rightarrow> snd_seq_queue_tempo" where
  "alsaseq_queue_tempo_set_skew info skew = info\<lparr>qt_skew_value := fst skew, qt_skew_base := snd skew\<rparr>"

section \<open>Queue timer\<close>

text \<open>
  The common part of the queue timers, \<open>queue-timer-common.c\<close>, handles the first two
  properties; both are read only in their specification.
\<close>

record snd_seq_queue_timer =
  tm_queue :: u32
  tm_type :: u32
  tm_id :: snd_timer_id
  tm_resolution :: u32

datatype queue_timer_alsa_prop_type =
    QUEUE_TIMER_COMMON_PROP_QUEUE_ID
  | QUEUE_TIMER_COMMON_PROP_TIMER_TYPE
  | QUEUE_TIMER_ALSA_PROP_DEVICE_ID
  | QUEUE_TIMER_ALSA_PROP_RESOLUTION_TICKS

fun seq_queue_timer_alsa_props :: "queue_timer_alsa_prop_type \<Rightarrow> pspec" where
  "seq_queue_timer_alsa_props QUEUE_TIMER_COMMON_PROP_QUEUE_ID =
     \<lparr>ps_name = ''queue-id'', ps_type = TUChar, ps_min = 0, ps_max = 255, ps_readable = True, ps_writable = False, ps_construct_only = False\<rparr>"
| "seq_queue_timer_alsa_props QUEUE_TIMER_COMMON_PROP_TIMER_TYPE =
     \<lparr>ps_name = ''timer-type'', ps_type = TEnum, ps_min = 0, ps_max = 0, ps_readable = True, ps_writable = False, ps_construct_only = False\<rparr>"
| "seq_queue_timer_alsa_props QUEUE_TIMER_ALSA_PROP_DEVICE_ID =
     \<lparr>ps_name = ''device-id'', ps_type = TBoxed, ps_min = 0, ps_max = 0, ps_readable = True, ps_writable = True, ps_construct_only = False\<rparr>"
| "seq_queue_timer_alsa_props QUEUE_TIMER_ALSA_PROP_RESOLUTION_TICKS =
     \<lparr>ps_name = ''resolution-ticks'', ps_type = TUInt, ps_min = 0, ps_max = 4294967295, ps_readable = True, ps_writable = True, ps_construct_only = False\<rparr>"

fun queue_timer_common_set_property ::
  "snd_seq_queue_timer \<Rightarrow> queue_timer_alsa_prop_type \<Rightarrow> snd_timer_id gvalue \<Rightarrow> snd_seq_queue_timer" where
  "queue_timer_common_set_property data QUEUE_TIMER_COMMON_PROP_QUEUE_ID val =
     data\<lparr>tm_queue := ucast (g_value_get_uchar val)\<rparr>"
| "queue_timer_common_set_property data QUEUE_TIMER_COMMON_PROP_TIMER_TYPE val =
     data\<lparr>tm_type := g_value_get_enum val\<rparr>"
| "queue_timer_common_set_property data _ val = data"

fun queue_timer_common_get_property ::
  "snd_seq_queue_timer \<Rightarrow> queue_timer_alsa_prop_type \<Rightarrow> snd_timer_id gvalue \<Rightarrow> snd_timer_id gvalue" where
  "queue_timer_common_get_property data QUEUE_TIMER_COMMON_PROP_QUEUE_ID val =
     g_value_set_uchar val (ucast (tm_queue data))"
| "queue_timer_common_get_property data QUEUE_TIMER_COMMON_PROP_TIMER_TYPE val =
     g_value_set_enum val (tm_type data)"
| "queue_timer_common_get_property data _ val = val"

fun seq_queue_timer_alsa_set_property :: "snd_seq_queue_timer \<Rightarrow> queue_timer_alsa_prop_type \<Rightarrow> snd_timer_id gvalue \<Rightarrow> snd_seq_queue_timer outcome" where
  "seq_queue_timer_alsa_set_property info QUEUE_TIMER_COMMON_PROP_QUEUE_ID val =
     Ret (queue_timer_common_set_property info QUEUE_TIMER_COMMON_PROP_QUEUE_ID val)"
| "seq_queue_timer_alsa_set_property info QUEUE_TIMER_COMMON_PROP_TIMER_TYPE val =
     Ret (queue_timer_common_set_property info QUEUE_TIMER_COMMON_PROP_TIMER_TYPE val)"
| "seq_queue_timer_alsa_set_property info QUEUE_TIMER_ALSA_PROP_DEVICE_ID val =
     (case g_value_get_boxed val of None \<Rightarrow> Undefined | Some src \<Rightarrow> Ret (info\<lparr>tm_id := src\<rparr>))"
| "seq_queue_timer_alsa_set_property info QUEUE_TIMER_ALSA_PROP_RESOLUTION_TICKS val =
     Ret (info\<lparr>tm_resolution := g_value_get_uint val\<rparr>)"

fun seq_queue_timer_alsa_get_property :: "snd_seq_queue_timer \<Rightarrow> queue_timer_alsa_prop_type \<Rightarrow> snd_timer_id gvalue \<Rightarrow> snd_timer_id gvalue" where
  "seq_queue_timer_alsa_get_property info QUEUE_TIMER_COMMON_PROP_QUEUE_ID val =
     queue_timer_common_get_property info QUEUE_TIMER_COMMON_PROP_QUEUE_ID val"
| "seq_queue_timer_alsa_get_property info QUEUE_TIMER_COMMON_PROP_TIMER_TYPE val =
     queue_timer_common_get_property info QUEUE_TIMER_COMMON_PROP_TIMER_TYPE val"
| "seq_queue_timer_alsa_get_property info QUEUE_TIMER_ALSA_PROP_DEVICE_ID val =
     g_value_set_boxed val (tm_id info)"
| "seq_queue_timer_alsa_get_property info QUEUE_TIMER_ALSA_PROP_RESOLUTION_TICKS val =
     g_value_set_uint val (tm_resolution info)"

section \<open>Filter to remove events\<close>

record snd_seq_remove_events =
  rf_remove_mode :: u32
  rf_time :: "u32 \<times> u32"
  rf_queue :: u8
  rf_dest :: snd_seq_addr
  rf_channel :: u8
  rf_type :: u32
  rf_tag :: u8

abbreviation (input) SNDRV_SEQ_REMOVE_TIME_TICK :: u32 where "SNDRV_SEQ_REMOVE_TIME_TICK \<equiv> 64"

datatype seq_remove_filter_prop_type =
    SEQ_REMOVE_FILTER_PROP_FLAGS
  | SEQ_REMOVE_FILTER_PROP_QUEUE_ID
  | SEQ_REMOVE_FILTER_PROP_DST
  | SEQ_REMOVE_FILTER_PROP_CHANNEL
  | SEQ_REMOVE_FILTER_PROP_EVENT_TYPE
  | SEQ_REMOVE_FILTER_PROP_TAG

fun seq_remove_filter_props :: "seq_remove_filter_prop_type \<Rightarrow> pspec" where
  "seq_remove_filter_props SEQ_REMOVE_FILTER_PROP_FLAGS =
     \<lparr>ps_name = ''flags'', ps_type = TFlags, ps_min = 0, ps_max = 0, ps_readable = True, ps_writable = True, ps_construct_only = False\<rparr>"
| "seq_remove_filter_props SEQ_REMOVE_FILTER_PROP_QUEUE_ID =
     \<lparr>ps_name = ''queue-id'', ps_type = TUChar, ps_min = 0, ps_max = 255, ps_readable = True, ps_writable = True, ps_construct_only = False\<rparr>"
| "seq_remove_filter_props SEQ_REMOVE_FILTER_PROP_DST =
     \<lparr>ps_name = ''destination'', ps_type = TBoxed, ps_min = 0, ps_max = 0, ps_readable = True, ps_writable = True, ps_construct_only = False\<rparr>"
| "seq_remove_filter_props SEQ_REMOVE_FILTER_PROP_CHANNEL =
     \<lparr>ps_name = ''channel'', ps_type = TUChar, ps_min = 0, ps_max = 255, ps_readable = True, ps_writable = True, ps_construct_only = False\<rparr>"
| "seq_remove_filter_props SEQ_REMOVE_FILTER_PROP_EVENT_TYPE =
     \<lparr>ps_name = ''event-type'', ps_type = TEnum, ps_min = 0, ps_max = 0, ps_readable = True, ps_writable = True, ps_construct_only = False\<rparr>"
| "seq_remove_filter_props SEQ_REMOVE_FILTER_PROP_TAG =
     \<lparr>ps_name = ''tag'', ps_type = TChar, ps_min = -128, ps_max = 127, ps_readable = True, ps_writable = True, ps_construct_only = False\<rparr>"

fun seq_remove_filter_set_property :: "snd_seq_remove_events \<Rightarrow> seq_remove_filter_prop_type \<Rightarrow> snd_seq_addr gvalue \<Rightarrow> snd_seq_remove_events outcome" where
  "seq_remove_filter_set_property info SEQ_REMOVE_FILTER_PROP_FLAGS val =
     Ret (info\<lparr>rf_remove_mode := g_value_get_flags val\<rparr>)"
| "seq_remove_filter_set_property info SEQ_REMOVE_FILTER_PROP_QUEUE_ID val =
     Ret (info\<lparr>rf_queue := g_value_get_uchar val\<rparr>)"
| "seq_remove_filter_set_property info SEQ_REMOVE_FILTER_PROP_DST val =
     (case g_value_get_boxed val of None \<Rightarrow> Undefined | Some src \<Rightarrow> Ret (info\<lparr>rf_dest := src\<rparr>))"
| "seq_remove_filter_set_property info SEQ_REMOVE_FILTER_PROP_CHANNEL val =
     Ret (info\<lparr>rf_channel := g_value_get_uchar val\<rparr>)"
| "seq_remove_filter_set_property info SEQ_REMOVE_FILTER_PROP_EVENT_TYPE val =
     Ret (info\<lparr>rf_type := g_value_get_enum val\<rparr>)"
| "seq_remove_filter_set_property info SEQ_REMOVE_FILTER_PROP_TAG val =
     Ret (info\<lparr>rf_tag := g_value_get_schar val\<rparr>)"

fun seq_remove_filter_get_property :: "snd_seq_remove_events \<Rightarrow> seq_remove_filter_prop_type \<Rightarrow> snd_seq_addr gvalue \<Rightarrow> snd_seq_addr gvalue" where
  "seq_remove_filter_get_property info SEQ_REMOVE_FILTER_PROP_FLAGS val =
     g_value_set_flags val (rf_remove_mode info)"
| "seq_remove_filter_get_property info SEQ_REMOVE_FILTER_PROP_QUEUE_ID val =
     g_value_set_uchar val (rf_queue info)"
| "seq_remove_filter_get_property info SEQ_REMOVE_FILTER_PROP_DST val =
     g_value_set_boxed val (rf_dest info)"
| "seq_remove_filter_get_property info SEQ_REMOVE_FILTER_PROP_CHANNEL val =
     g_value_set_uchar val (rf_channel info)"
| "seq_remove_filter_get_property info SEQ_REMOVE_FILTER_PROP_EVENT_TYPE val =
     g_value_set_enum val (rf_type info)"
| "seq_remove_filter_get_property info SEQ_REMOVE_FILTER_PROP_TAG val =
     g_value_set_schar val (rf_tag info)"

text \<open>
  The time of the filter is a union of a tick count and of seconds and nanoseconds; the accessors
  refuse the form that the TIME_TICK flag does not select.
\<close>

definition alsaseq_remove_filter_get_tick_time :: "snd_seq_remove_events \<Rightarrow> u32 outcome" where
  "alsaseq_remove_filter_get_tick_time self =
     (if 0 < rf_remove_mode self AND SNDRV_SEQ_REMOVE_TIME_TICK then Ret (fst (rf_time self)) else Critical)"

definition alsaseq_remove_filter_set_tick_time :: "snd_seq_remove_events \<Rightarrow> u32 \<Rightarrow> snd_seq_remove_events outcome" where
  "alsaseq_remove_filter_set_tick_time self tick_time =
     (if 0 < rf_remove_mode self AND SNDRV_SEQ_REMOVE_TIME_TICK
      then Ret (self\<lparr>rf_time := (tick_time, snd (rf_time self))\<rparr>) else Critical)"

definition alsaseq_remove_filter_get_real_time :: "snd_seq_remove_events \<Rightarrow> (u32 \<times> u32) outcome" where
  "alsaseq_remove_filter_get_real_time self =
     (if rf_remove_mode self AND SNDRV_SEQ_REMOVE_TIME_TICK = 0 then Ret (rf_time self) else Critical)"

definition alsaseq_remove_filter_set_real_time :: "snd_seq_remove_events \<Rightarrow> u32 \<times> u32 \<Rightarrow> snd_seq_remove_events outcome" where
  "alsaseq_remove_filter_set_real_time self real_time =
     (if rf_remove_mode self AND SNDRV_SEQ_REMOVE_TIME_TICK = 0
      then Ret (self\<lparr>rf_time := real_time\<rparr>) else Critical)"

section \<open>Subscription data\<close>

record snd_seq_port_subscribe =
  sd_sender :: snd_seq_addr
  sd_dest :: snd_seq_addr
  sd_voices :: u32
  sd_flags :: u32
  sd_queue :: u8

abbreviation (input) SNDRV_SEQ_PORT_SUBS_EXCLUSIVE :: u32 where "SNDRV_SEQ_PORT_SUBS_EXCLUSIVE \<equiv> 1"
abbreviation (input) SNDRV_SEQ_PORT_SUBS_TIMESTAMP :: u32 where "SNDRV_SEQ_PORT_SUBS_TIMESTAMP \<equiv> 2"
abbreviation (input) SNDRV_SEQ_PORT_SUBS_TIME_REAL :: u32 where "SNDRV_SEQ_PORT_SUBS_TIME_REAL \<equiv> 4"

datatype seq_subscribe_data_prop_type =
    SEQ_SUBSCRIBE_DATA_PROP_SENDER
  | SEQ_SUBSCRIBE_DATA_PROP_DEST
  | SEQ_SUBSCRIBE_DATA_PROP_IS_EXCLUSIVE
  | SEQ_SUBSCRIBE_DATA_PROP_HAS_TSTAMP
  | SEQ_SUBSCRIBE_DATA_PROP_TSTAMP_MODE
  | SEQ_SUBSCRIBE_DATA_PROP_QUEUE_ID

fun seq_subscribe_data_props :: "seq_subscribe_data_prop_type \<Rightarrow> pspec" where
  "seq_subscribe_data_props SEQ_SUBSCRIBE_DATA_PROP_SENDER =
     \<lparr>ps_name = ''sender'', ps_type = TBoxed, ps_min = 0, ps_max = 0, ps_readable = True, ps_writable = True, ps_construct_only = False\<rparr>"
| "seq_subscribe_data_props SEQ_SUBSCRIBE_DATA_PROP_DEST =
     \<lparr>ps_name = ''dest'', ps_type = TBoxed, ps_min = 0, ps_max = 0, ps_readable = True, ps_writable = True, ps_construct_only = False\<rparr>"
| "seq_subscribe_data_props SEQ_SUBSCRIBE_DATA_PROP_IS_EXCLUSIVE =
     \<lparr>ps_name = ''is-exclusive'', ps_type = TBool, ps_min = 0, ps_max = 0, ps_readable = True, ps_writable = True, ps_construct_only = False\<rparr>"
| "seq_subscribe_data_props SEQ_SUBSCRIBE_DATA_PROP_HAS_TSTAMP =
     \<lparr>ps_name = ''has-tstamp'', ps_type = TBool, ps_min = 0, ps_max = 0, ps_readable = True, ps_writable = True, ps_construct_only = False\<rparr>"
| "seq_subscribe_data_props SEQ_SUBSCRIBE_DATA_PROP_TSTAMP_MODE =
     \<lparr>ps_name = ''tstamp-mode'', ps_type = TEnum, ps_min = 0, ps_max = 0, ps_readable = True, ps_writable = True, ps_construct_only = False\<rparr>"
| "seq_subscribe_data_props SEQ_SUBSCRIBE_DATA_PROP_QUEUE_ID =
     \<lparr>ps_name = ''queue-id'', ps_type = TUChar, ps_min = 0, ps_max = 255, ps_readable = True, ps_writable = True, ps_construct_only = False\<rparr>"

fun seq_subscribe_data_set_property :: "snd_seq_port_subscribe \<Rightarrow> seq_subscribe_data_prop_type \<Rightarrow> snd_seq_addr gvalue \<Rightarrow> snd_seq_port_subscribe outcome" where
  "seq_subscribe_data_set_property info SEQ_SUBSCRIBE_DATA_PROP_SENDER val =
     (case g_value_get_boxed val of None \<Rightarrow> Undefined | Some addr \<Rightarrow> Ret (info\<lparr>sd_sender := addr\<rparr>))"
| "seq_subscribe_data_set_property info SEQ_SUBSCRIBE_DATA_PROP_DEST val =
     (case g_value_get_boxed val of None \<Rightarrow> Undefined | Some addr \<Rightarrow> Ret (info\<lparr>sd_dest := addr\<rparr>))"
| "seq_subscribe_data_set_property info SEQ_SUBSCRIBE_DATA_PROP_IS_EXCLUSIVE val =
     Ret (let flags = sd_flags info AND NOT SNDRV_SEQ_PORT_SUBS_EXCLUSIVE
       in if g_value_get_boolean val then info\<lparr>sd_flags := flags OR SNDRV_SEQ_PORT_SUBS_EXCLUSIVE\<rparr> else info\<lparr>sd_flags := flags\<rparr>)"
| "seq_subscribe_data_set_property info SEQ_SUBSCRIBE_DATA_PROP_HAS_TSTAMP val =
     Ret (let flags = sd_flags info AND NOT SNDRV_SEQ_PORT_SUBS_TIMESTAMP
       in if g_value_get_boolean val then info\<lparr>sd_flags := flags OR SNDRV_SEQ_PORT_SUBS_TIMESTAMP\<rparr> else info\<lparr>sd_flags := flags\<rparr>)"
| "seq_subscribe_data_set_property info SEQ_SUBSCRIBE_DATA_PROP_TSTAMP_MODE val =
     Ret (let flags = sd_flags info AND NOT SNDRV_SEQ_PORT_SUBS_TIME_REAL
       in if g_value_get_enum val = 1 then info\<lparr>sd_flags := flags OR SNDRV_SEQ_PORT_SUBS_TIME_REAL\<rparr> else info\<lparr>sd_flags := flags\<rparr>)"
| "seq_subscribe_data_set_property info SEQ_SUBSCRIBE_DATA_PROP_QUEUE_ID val =
     Ret (info\<lparr>sd_queue := g_value_get_uchar val\<rparr>)"

fun seq_subscribe_data_get_property :: "snd_seq_port_subscribe \<Rightarrow> seq_subscribe_data_prop_type \<Rightarrow> snd_seq_addr gvalue \<Rightarrow> snd_seq_addr gvalue" where
  "seq_subscribe_data_get_property info SEQ_SUBSCRIBE_DATA_PROP_SENDER val =
     g_value_set_boxed val (sd_sender info)"
| "seq_subscribe_data_get_property info SEQ_SUBSCRIBE_DATA_PROP_DEST val =
     g_value_set_boxed val (sd_dest info)"
| "seq_subscribe_data_get_property info SEQ_SUBSCRIBE_DATA_PROP_IS_EXCLUSIVE val =
     g_value_set_boolean val (0 < sd_flags info AND SNDRV_SEQ_PORT_SUBS_EXCLUSIVE)"
| "seq_subscribe_data_get_property info SEQ_SUBSCRIBE_DATA_PROP_HAS_TSTAMP val =
     g_value_set_boolean val (0 < sd_flags info AND SNDRV_SEQ_PORT_SUBS_TIMESTAMP)"
| "seq_subscribe_data_get_property info SEQ_SUBSCRIBE_DATA_PROP_TSTAMP_MODE val =
     g_value_set_enum val (if sd_flags info AND SNDRV_SEQ_PORT_SUBS_TIME_REAL \<noteq> 0 then 1 else 0)"
| "seq_subscribe_data_get_property info SEQ_SUBSCRIBE_DATA_PROP_QUEUE_ID val =
     g_value_set_uchar val (sd_queue info)"

section \<open>System information\<close>

record snd_seq_system_info =
  si_queues :: u32
  si_clients :: u32
  si_ports :: u32
  si_channels :: u32
  si_cur_clients :: u32
  si_cur_queues :: u32

datatype seq_system_info_prop_type =
    SEQ_SYSTEM_INFO_PROP_MAXIMUM_QUEUE_COUNT
  | SEQ_SYSTEM_INFO_PROP_MAXIMUM_CLIENT_COUNT
  | SEQ_SYSTEM_INFO_PROP_MAXIMUM_PORT_COUNT
  | SEQ_SYSTEM_INFO_PROP_MAXIMUM_CHANNEL_COUNT
  | SEQ_SYSTEM_INFO_PROP_CURRENT_CLIENT_COUNT
  | SEQ_SYSTEM_INFO_PROP_CURRENT_QUEUE_COUNT

fun seq_system_info_props :: "seq_system_info_prop_type \<Rightarrow> pspec" where
  "seq_system_info_props SEQ_SYSTEM_INFO_PROP_MAXIMUM_QUEUE_COUNT =
     \<lparr>ps_name = ''maximum-queue-count'', ps_type = TInt, ps_min = 0, ps_max = 2147483647, ps_readable = True, ps_writable = False, ps_construct_only = False\<rparr>"
| "seq_system_info_props SEQ_SYSTEM_INFO_PROP_MAXIMUM_CLIENT_COUNT =
     \<lparr>ps_name = ''maximum-client-count'', ps_type = TInt, ps_min = 0, ps_max = 2147483647, ps_readable = True, ps_writable = False, ps_construct_only = False\<rparr>"
| "seq_system_info_props SEQ_SYSTEM_INFO_PROP_MAXIMUM_PORT_COUNT =
     \<lparr>ps_name = ''maximum-port-count'', ps_type = TInt, ps_min = 0, ps_max = 2147483647, ps_readable = True, ps_writable = False, ps_construct_only = False\<rparr>"
| "seq_system_info_props SEQ_SYSTEM_INFO_PROP_MAXIMUM_CHANNEL_COUNT =
     \<lparr>ps_name = ''maximum-channel-count'', ps_type = TInt, ps_min = 0, ps_max = 2147483647, ps_readable = True, ps_writable = False, ps_construct_only = False\<rparr>"
| "seq_system_info_props SEQ_SYSTEM_INFO_PROP_CURRENT_CLIENT_COUNT =
     \<lparr>ps_name = ''current-client-count'', ps_type = TInt, ps_min = 0, ps_max = 2147483647, ps_readable = True, ps_writable = False, ps_construct_only = False\<rparr>"
| "seq_system_info_props SEQ_SYSTEM_INFO_PROP_CURRENT_QUEUE_COUNT =
     \<lparr>ps_name = ''current-queue-count'', ps_type = TInt, ps_min = 0, ps_max = 2147483647, ps_readable = True, ps_writable = False, ps_construct_only = False\<rparr>"

fun seq_system_info_get_property :: "snd_seq_system_info \<Rightarrow> seq_system_info_prop_type \<Rightarrow> snd_seq_addr gvalue \<Rightarrow> snd_seq_addr gvalue" where
  "seq_system_info_get_property info SEQ_SYSTEM_INFO_PROP_MAXIMUM_QUEUE_COUNT val =
     g_value_set_int val (si_queues info)"
| "seq_system_info_get_property info SEQ_SYSTEM_INFO_PROP_MAXIMUM_CLIENT_COUNT val =
     g_value_set_int val (si_clients info)"
| "seq_system_info_get_property info SEQ_SYSTEM_INFO_PROP_MAXIMUM_PORT_COUNT val =
     g_value_set_int val (si_ports info)"
| "seq_system_info_get_property info SEQ_SYSTEM_INFO_PROP_MAXIMUM_CHANNEL_COUNT val =
     g_value_set_int val (si_channels info)"
| "seq_system_info_get_property info SEQ_SYSTEM_INFO_PROP_CURRENT_CLIENT_COUNT val =
     g_value_set_int val (si_cur_clients info)"
| "seq_system_info_get_property info SEQ_SYSTEM_INFO_PROP_CURRENT_QUEUE_COUNT val =
     g_value_set_int val (si_cur_queues info)"

section \<open>Flag bits\<close>

lemma flag_bit_set [simp]:
  fixes x m :: u32
  shows "(x OR m) AND m = m" "(x AND NOT m) AND m = 0" "((x AND NOT m) OR m) AND m = m"
proof -
  show "(x OR m) AND m = m" "(x AND NOT m) AND m = 0" "((x AND NOT m) OR m) AND m = m"
    by (rule bit_word_eqI, auto simp: bit_simps)+
qed

lemma flag_bit_other:
  assumes "m AND n = (0 :: u32)"
  shows "(x OR m) AND n = x AND n" "(x AND NOT m) AND n = x AND n"
    "((x AND NOT m) OR m) AND n = x AND n"
proof -
  have *: "\<not> (bit m k \<and> bit n k)" for k
    using arg_cong [OF assms, of "\<lambda>w. bit w k"] by (simp add: bit_simps)
  show "(x OR m) AND n = x AND n" "(x AND NOT m) AND n = x AND n"
    "((x AND NOT m) OR m) AND n = x AND n"
    by (rule bit_word_eqI, use * in \<open>auto simp: bit_simps\<close>)+
qed

section \<open>The classes keep the contract of properties\<close>

text \<open>
  Legal values: what the parameter specification accepts, for an enumeration of time stamp modes
  one of its two members, for boxed values not \<open>NULL\<close>, for a name a string that fits.
\<close>

fun value_fits :: "'b gvalue \<Rightarrow> bool" where
  "value_fits (VBoxed x) \<longleftrightarrow> x \<noteq> None"
| "value_fits (VString x) \<longleftrightarrow> string_fits 64 x"
| "value_fits _ \<longleftrightarrow> True"

definition seq_port_info_accepts :: "seq_port_info_prop_type \<Rightarrow> snd_seq_addr gvalue \<Rightarrow> bool" where
  "seq_port_info_accepts p v \<longleftrightarrow> pspec_accepts (seq_port_info_props p) v \<and> value_fits v \<and>
     (p = SEQ_PORT_INFO_PROP_TSTAMP_MODE \<longrightarrow> v \<in> {VEnum 0, VEnum 1})"

definition seq_port_info_inv :: "snd_seq_port_info \<Rightarrow> bool" where
  "seq_port_info_inv info \<longleftrightarrow> length (pi_name info) = 64"

lemmas port_flags [simp] =
  flag_bit_other [of 2 4, simplified] flag_bit_other [of 4 2, simplified]
  flag_bit_set [of _ 2, simplified] flag_bit_set [of _ 4, simplified]

interpretation port_info: gobject_properties seq_port_info_set_property seq_port_info_get_property
  seq_port_info_props seq_port_info_inv seq_port_info_accepts all_kept
proof (unfold_locales, goal_cases)
  case (1 x p v)
  then show ?case
    by (cases p; cases v) (auto simp: seq_port_info_inv_def seq_port_info_accepts_def property_simps split: option.splits)
next
  case (2 x p v y)
  then show ?case
    by (cases p; cases v) (auto simp: seq_port_info_inv_def seq_port_info_accepts_def property_simps split: if_splits)
next
  case (3 x p v q y)
  then show ?case
    by (cases p; cases q) (auto simp: property_simps split: option.splits if_splits)
qed

definition seq_client_pool_accepts :: "seq_client_pool_prop_type \<Rightarrow> snd_seq_addr gvalue \<Rightarrow> bool" where
  "seq_client_pool_accepts p v \<longleftrightarrow> pspec_accepts (seq_client_pool_props p) v \<and> value_fits v"

interpretation client_pool: gobject_properties seq_client_pool_set_property seq_client_pool_get_property
  seq_client_pool_props any_info seq_client_pool_accepts all_kept
proof (unfold_locales, goal_cases)
  case (1 x p v)
  then show ?case
    by (cases p; cases v) (auto simp: any_info_def seq_client_pool_accepts_def property_simps split: option.splits)
next
  case (2 x p v y)
  then show ?case
    by (cases p; cases v) (auto simp: any_info_def seq_client_pool_accepts_def property_simps split: if_splits)
next
  case (3 x p v q y)
  then show ?case
    by (cases p; cases q) (auto simp: any_info_def seq_client_pool_accepts_def property_simps split: option.splits if_splits)
qed

definition seq_queue_info_accepts :: "seq_queue_info_prop_type \<Rightarrow> snd_seq_addr gvalue \<Rightarrow> bool" where
  "seq_queue_info_accepts p v \<longleftrightarrow> pspec_accepts (seq_queue_info_props p) v \<and> value_fits v"

definition seq_queue_info_inv :: "snd_seq_queue_info \<Rightarrow> bool" where
  "seq_queue_info_inv info \<longleftrightarrow> length (qi_name info) = 64"

interpretation queue_info: gobject_properties seq_queue_info_set_property seq_queue_info_get_property
  seq_queue_info_props seq_queue_info_inv seq_queue_info_accepts all_kept
proof (unfold_locales, goal_cases)
  case (1 x p v)
  then show ?case
    by (cases p; cases v) (auto simp: seq_queue_info_inv_def seq_queue_info_accepts_def property_simps split: option.splits)
next
  case (2 x p v y)
  then show ?case
    by (cases p; cases v) (auto simp: seq_queue_info_inv_def seq_queue_info_accepts_def property_simps split: if_splits)
next
  case (3 x p v q y)
  then show ?case
    by (cases p; cases q) (auto simp: seq_queue_info_inv_def seq_queue_info_accepts_def property_simps split: option.splits if_splits)
qed

definition seq_queue_timer_alsa_accepts :: "queue_timer_alsa_prop_type \<Rightarrow> snd_timer_id gvalue \<Rightarrow> bool" where
  "seq_queue_timer_alsa_accepts p v \<longleftrightarrow> pspec_accepts (seq_queue_timer_alsa_props p) v \<and> value_fits v"

interpretation queue_timer: gobject_properties seq_queue_timer_alsa_set_property seq_queue_timer_alsa_get_property
  seq_queue_timer_alsa_props any_info seq_queue_timer_alsa_accepts all_kept
proof (unfold_locales, goal_cases)
  case (1 x p v)
  then show ?case
    by (cases p; cases v) (auto simp: any_info_def seq_queue_timer_alsa_accepts_def property_simps split: option.splits)
next
  case (2 x p v y)
  then show ?case
    by (cases p; cases v) (auto simp: any_info_def seq_queue_timer_alsa_accepts_def property_simps split: if_splits)
next
  case (3 x p v q y)
  then show ?case
    by (cases p; cases q) (auto simp: any_info_def seq_queue_timer_alsa_accepts_def property_simps split: option.splits if_splits)
qed

definition seq_remove_filter_accepts :: "seq_remove_filter_prop_type \<Rightarrow> snd_seq_addr gvalue \<Rightarrow> bool" where
  "seq_remove_filter_accepts p v \<longleftrightarrow> pspec_accepts (seq_remove_filter_props p) v \<and> value_fits v"

interpretation remove_filter: gobject_properties seq_remove_filter_set_property seq_remove_filter_get_property
  seq_remove_filter_props any_info seq_remove_filter_accepts all_kept
proof (unfold_locales, goal_cases)
  case (1 x p v)
  then show ?case
    by (cases p; cases v) (auto simp: any_info_def seq_remove_filter_accepts_def property_simps split: option.splits)
next
  case (2 x p v y)
  then show ?case
    by (cases p; cases v) (auto simp: any_info_def seq_remove_filter_accepts_def property_simps split: if_splits)
next
  case (3 x p v q y)
  then show ?case
    by (cases p; cases q) (auto simp: any_info_def seq_remove_filter_accepts_def property_simps split: option.splits if_splits)
qed

definition seq_subscribe_data_accepts :: "seq_subscribe_data_prop_type \<Rightarrow> snd_seq_addr gvalue \<Rightarrow> bool" where
  "seq_subscribe_data_accepts p v \<longleftrightarrow> pspec_accepts (seq_subscribe_data_props p) v \<and> value_fits v \<and>
     (p = SEQ_SUBSCRIBE_DATA_PROP_TSTAMP_MODE \<longrightarrow> v \<in> {VEnum 0, VEnum 1})"

lemmas subscribe_flags [simp] =
  flag_bit_other [of 1 2, simplified] flag_bit_other [of 1 4, simplified]
  flag_bit_other [of 2 1, simplified] flag_bit_other [of 4 1, simplified]
  flag_bit_set [of _ 1, simplified]

interpretation subscribe_data: gobject_properties seq_subscribe_data_set_property seq_subscribe_data_get_property
  seq_subscribe_data_props any_info seq_subscribe_data_accepts all_kept
proof (unfold_locales, goal_cases)
  case (1 x p v)
  then show ?case
    by (cases p; cases v) (auto simp: Let_def any_info_def seq_subscribe_data_accepts_def property_simps split: option.splits)
next
  case (2 x p v y)
  then show ?case
    by (cases p; cases v) (auto simp: Let_def any_info_def seq_subscribe_data_accepts_def property_simps split: if_splits)
next
  case (3 x p v q y)
  then show ?case
    by (cases p; cases q) (auto simp: Let_def any_info_def seq_subscribe_data_accepts_def property_simps split: option.splits if_splits)
qed

text \<open>
  The tempo is the one property of its class that is lost: the specification says \<open>uint\<close>, the
  setter reads an \<open>int\<close>.
\<close>

definition tempo_kept :: "seq_queue_tempo_prop_type \<Rightarrow> bool" where
  "tempo_kept p \<longleftrightarrow> p \<noteq> SEQ_QUEUE_TEMPO_PROP_TEMPO"

definition seq_queue_tempo_accepts :: "seq_queue_tempo_prop_type \<Rightarrow> snd_seq_addr gvalue \<Rightarrow> bool" where
  "seq_queue_tempo_accepts p v \<longleftrightarrow> pspec_accepts (seq_queue_tempo_props p) v \<and> value_fits v"

interpretation queue_tempo: gobject_properties seq_queue_tempo_set_property seq_queue_tempo_get_property
  seq_queue_tempo_props any_info seq_queue_tempo_accepts tempo_kept
proof (unfold_locales, goal_cases)
  case (1 x p v)
  then show ?case
    by (cases p; cases v) (auto simp: any_info_def seq_queue_tempo_accepts_def tempo_kept_def property_simps split: option.splits)
next
  case (2 x p v y)
  then show ?case
    by (cases p; cases v) (auto simp: any_info_def seq_queue_tempo_accepts_def tempo_kept_def property_simps split: if_splits)
next
  case (3 x p v q y)
  then show ?case
    by (cases p; cases q) (auto simp: any_info_def seq_queue_tempo_accepts_def tempo_kept_def property_simps split: option.splits if_splits)
qed

text \<open>
  Of the client information, the filter attributes are written but read through the wrong mask,
  and the card identifier is writable in its specification but not handled by the setter.
  Legal filter attributes are the three lowest bits.
\<close>

definition client_info_kept :: "seq_client_info_prop_type \<Rightarrow> bool" where
  "client_info_kept p \<longleftrightarrow>
     p \<noteq> SEQ_CLIENT_INFO_PROP_FILTER_ATTR_FLAGS \<and> p \<noteq> SEQ_CLIENT_INFO_PROP_CARD_ID"

lemmas use_filter_flag [simp] = flag_bit_set [of _ "0x80000000", simplified]

lemma filter_flags [simp]:
  assumes "f AND NOT 7 = (0 :: u32)"
  shows "f AND 0x80000000 = 0" "((x AND 0x80000000) OR f) AND 0x80000000 = x AND 0x80000000"
proof -
  have "f AND 0x80000000 = (f AND - 8) AND 0x80000000" by (simp add: and.assoc)
  with assms show *: "f AND 0x80000000 = 0" by simp
  show "((x AND 0x80000000) OR f) AND 0x80000000 = x AND 0x80000000"
    by (simp only: bit.conj_disj_distrib2 * and.assoc) simp
qed

definition seq_client_info_accepts :: "seq_client_info_prop_type \<Rightarrow> snd_seq_addr gvalue \<Rightarrow> bool" where
  "seq_client_info_accepts p v \<longleftrightarrow> pspec_accepts (seq_client_info_props p) v \<and> value_fits v \<and>
     (p = SEQ_CLIENT_INFO_PROP_FILTER_ATTR_FLAGS \<longrightarrow> g_value_get_flags v AND NOT 7 = 0)"

definition seq_client_info_inv :: "snd_seq_client_info \<Rightarrow> bool" where
  "seq_client_info_inv info \<longleftrightarrow> length (ci_name info) = 64"

interpretation client_info: gobject_properties seq_client_info_set_property seq_client_info_get_property
  seq_client_info_props seq_client_info_inv seq_client_info_accepts client_info_kept
proof (unfold_locales, goal_cases)
  case (1 x p v)
  then show ?case
    by (cases p; cases v) (auto simp: seq_client_info_inv_def seq_client_info_accepts_def client_info_kept_def property_simps split: option.splits)
next
  case (2 x p v y)
  then show ?case
    by (cases p; cases v) (auto simp: seq_client_info_inv_def seq_client_info_accepts_def client_info_kept_def property_simps split: if_splits)
next
  case (3 x p v q y)
  then show ?case
    by (cases p; cases q) (auto simp: seq_client_info_inv_def seq_client_info_accepts_def client_info_kept_def property_simps split: option.splits if_splits)
qed

section \<open>Properties\<close>


definition blank_port_info :: snd_seq_port_info where
  "blank_port_info =
     \<lparr>pi_addr = \<lparr>addr_client = 0, addr_port = 0\<rparr>, pi_name = replicate 64 0, pi_capability = 0,
      pi_type = 0, pi_midi_channels = 0, pi_midi_voices = 0, pi_synth_voices = 0, pi_read_use = 0,
      pi_write_use = 0, pi_flags = 0, pi_time_queue = 0\<rparr>"


text \<open>
  The same for the properties of a subscription, boxed addresses and the three flag bits
  that share one word included.
\<close>

theorem subscribe_data_write_read:
  assumes "distinct (map fst pvs)" "\<forall>(p, v)\<in>set pvs. seq_subscribe_data_accepts p v"
  shows "\<exists>data'. write_properties seq_subscribe_data_set_property seq_subscribe_data_props constructing pvs data = Ret data' \<and>
    (\<forall>(p, v)\<in>set pvs. read_property seq_subscribe_data_get_property seq_subscribe_data_props data' p = v) \<and>
    (\<forall>p. p \<notin> fst ` set pvs \<longrightarrow>
       read_property seq_subscribe_data_get_property seq_subscribe_data_props data' p =
       read_property seq_subscribe_data_get_property seq_subscribe_data_props data p)"
proof -
  have "\<not> ps_construct_only (seq_subscribe_data_props p)" for p by (cases p) simp_all
  then show ?thesis using subscribe_data.write_read [of data, OF _ assms, of constructing] by (auto simp: all_kept_def any_info_def)
qed

theorem subscribe_data_write_read_witness:
  "\<exists>data'. write_properties seq_subscribe_data_set_property seq_subscribe_data_props False
       [(SEQ_SUBSCRIBE_DATA_PROP_IS_EXCLUSIVE, VBool True), (SEQ_SUBSCRIBE_DATA_PROP_HAS_TSTAMP, VBool False)]
       \<lparr>sd_sender = \<lparr>addr_client = 1, addr_port = 2\<rparr>, sd_dest = \<lparr>addr_client = 3, addr_port = 4\<rparr>,
        sd_voices = 0, sd_flags = 6, sd_queue = 0\<rparr> = Ret data' \<and>
     read_property seq_subscribe_data_get_property seq_subscribe_data_props data'
       SEQ_SUBSCRIBE_DATA_PROP_IS_EXCLUSIVE = VBool True \<and>
     read_property seq_subscribe_data_get_property seq_subscribe_data_props data'
       SEQ_SUBSCRIBE_DATA_PROP_TSTAMP_MODE = VEnum 1"
proof -
  let ?pvs = "[(SEQ_SUBSCRIBE_DATA_PROP_IS_EXCLUSIVE, VBool True),
    (SEQ_SUBSCRIBE_DATA_PROP_HAS_TSTAMP, VBool False)] :: (_ \<times> snd_seq_addr gvalue) list"
  have "distinct (map fst ?pvs)" "\<forall>(p, v)\<in>set ?pvs. seq_subscribe_data_accepts p v"
    by (simp_all add: seq_subscribe_data_accepts_def pspec_accepts_def)
  from subscribe_data_write_read [OF this, of False] show ?thesis
    by (auto simp: read_property_def g_object_set_def)
qed

text \<open>
  The client information keeps what is written to it apart from two properties: the filter
  attributes are read back as the use-filter bit alone, whatever legal attributes were written,
  and a card identifier is writable in its specification but not stored.
\<close>

theorem client_info_write_read:
  assumes "seq_client_info_inv info" "seq_client_info_accepts p v"
  shows "\<exists>info'. seq_client_info_set_property info p v = Ret info' \<and> seq_client_info_inv info' \<and>
    (let before = read_property seq_client_info_get_property seq_client_info_props info p;
         after = read_property seq_client_info_get_property seq_client_info_props info' p
     in if p = SEQ_CLIENT_INFO_PROP_FILTER_ATTR_FLAGS
        then after = VFlags (ci_filter info AND SNDRV_SEQ_FILTER_USE_EVENT)
        else if p = SEQ_CLIENT_INFO_PROP_CARD_ID then after = before
        else after = v)"
proof -
  obtain info' where set: "seq_client_info_set_property info p v = Ret info'"
      and inv: "seq_client_info_inv info'"
    using client_info.set_ok [OF assms] by blast
  show ?thesis
  proof (cases "client_info_kept p")
    case True
    with client_info.set_get [OF assms _ set] show ?thesis
      using set inv by (auto simp: client_info_kept_def Let_def)
  next
    case False
    with set inv assms(2) show ?thesis
      by (cases p) (auto simp: client_info_kept_def Let_def property_simps seq_client_info_accepts_def)
  qed
qed

definition blank_client_info :: snd_seq_client_info where
  "blank_client_info =
     \<lparr>ci_client = 0, ci_type = 0, ci_name = replicate 64 0, ci_filter = 0,
      ci_event_filter = replicate 32 0, ci_num_ports = 0, ci_event_lost = 0, ci_card = 0, ci_pid = 0\<rparr>"

theorem client_info_write_read_witness:
  "\<exists>info'. seq_client_info_set_property blank_client_info SEQ_CLIENT_INFO_PROP_FILTER_ATTR_FLAGS (VFlags 3)
       = Ret info' \<and>
     read_property seq_client_info_get_property seq_client_info_props info'
       SEQ_CLIENT_INFO_PROP_FILTER_ATTR_FLAGS = VFlags 0"
  using client_info_write_read [of blank_client_info SEQ_CLIENT_INFO_PROP_FILTER_ATTR_FLAGS "VFlags 3"]
  by (auto simp: seq_client_info_inv_def blank_client_info_def seq_client_info_accepts_def
      pspec_accepts_def Let_def)

text \<open>
  A tempo is lost. Writing any legal value of the property stores zero.
\<close>

theorem queue_tempo_lost:
  assumes "pspec_accepts (seq_queue_tempo_props SEQ_QUEUE_TEMPO_PROP_TEMPO) v"
  shows "seq_queue_tempo_set_property info SEQ_QUEUE_TEMPO_PROP_TEMPO v = Ret (info\<lparr>qt_tempo := 0\<rparr>)"
  using assms by (cases v) (auto simp: pspec_accepts_def)

theorem queue_tempo_lost_witness:
  "seq_queue_tempo_set_property
     \<lparr>qt_queue = 1, qt_tempo = 500000, qt_ppq = 96, qt_skew_value = 0, qt_skew_base = 0\<rparr>
     SEQ_QUEUE_TEMPO_PROP_TEMPO (VUInt 250000) =
   Ret (\<lparr>qt_queue = 1, qt_tempo = 500000, qt_ppq = 96, qt_skew_value = 0, qt_skew_base = 0\<rparr>\<lparr>qt_tempo := 0\<rparr>)"
  by (rule queue_tempo_lost) (simp add: pspec_accepts_def)

lemma length_set_filter_bits [simp]: "length (set_filter_bits flt ts) = length flt"
  by (induction flt ts rule: set_filter_bits.induct) (simp_all add: Let_def)

lemma filter_bit_iff:
  "length flt = 32 \<Longrightarrow> i < 256 \<Longrightarrow> filter_bit flt i \<longleftrightarrow> bit (flt ! (i div 8)) (i mod 8)"
  by (auto simp: filter_bit_def Let_def bit_iff_and_push_bit_not_eq_0 push_bit_eq_mult)

lemma filter_bit_set:
  assumes "length flt = 32" "i < 256"
  shows "filter_bit (set_filter_bits flt ts) i \<longleftrightarrow> filter_bit flt i \<or> i \<in> unat ` set ts"
  using assms
proof (induction flt ts rule: set_filter_bits.induct)
  case (2 flt t ts)
  define flt' where "flt' = (if unat t div 8 < 32
    then flt[unat t div 8 := flt ! (unat t div 8) OR push_bit (unat t mod 8) 1] else flt)"
  have eq: "unat t div 8 = i div 8 \<and> unat t mod 8 = i mod 8 \<longleftrightarrow> unat t = i"
    by (metis div_mult_mod_eq)
  have "bit (flt' ! (i div 8)) (i mod 8) \<longleftrightarrow> bit (flt ! (i div 8)) (i mod 8) \<or> unat t = i"
  proof (cases "unat t div 8 = i div 8")
    case True
    have "i div 8 < 32" using "2.prems"(2) by (simp add: less_mult_imp_div_less)
    with True "2.prems" have "flt' ! (i div 8) = flt ! (i div 8) OR push_bit (unat t mod 8) 1"
      by (simp add: flt'_def)
    with True eq show ?thesis by (auto simp: bit_or_iff bit_exp_iff)
  next
    case False
    with eq show ?thesis by (auto simp: flt'_def nth_list_update)
  qed
  with "2.IH" [OF refl refl] "2.prems" show ?case
    by (auto simp: Let_def flt'_def filter_bit_iff)
qed simp

lemma count_filter_bits_eq: "count_filter_bits flt is = length (filter (filter_bit flt) is)"
  by (induction "is") simp_all

lemma fill_event_types_eq:
  "fill_event_types flt is (length done) (done @ replicate (length (filter (filter_bit flt) is)) 0) =
     done @ map of_nat (filter (filter_bit flt) is)"
proof (induction "is" arbitrary: "done")
  case (Cons i "is")
  then show ?case using Cons.IH [of "done @ [of_nat i]"] by (simp add: list_update_append)
qed simp

lemma get_event_filter_filter:
  "alsaseq_client_info_get_event_filter info = map of_nat (filter (filter_bit (ci_event_filter info)) [0..<256])"
  using fill_event_types_eq [of "ci_event_filter info" "[0..<256]" "[]"]
  by (simp add: alsaseq_client_info_get_event_filter_def count_filter_bits_eq Let_def del: upt_conv_Cons upt_Suc)

lemma filter_upt_sorted:
  fixes S :: "nat set"
  assumes "S \<subseteq> {..<n}"
  shows "filter (\<lambda>i. i \<in> S) [0..<n] = sorted_list_of_set S"
proof -
  have "finite S" using assms finite_subset by blast
  then show ?thesis using assms by (intro sorted_distinct_set_unique) (auto simp: sorted_wrt_filter)
qed

lemma sorted_event_type_values:
  "map (\<lambda>t. unat (seq_event_type_value t)) (sorted_list_of_set (set ts)) =
     sorted_list_of_set ((\<lambda>t. unat (seq_event_type_value t)) ` set ts)"
proof (rule sorted_distinct_set_unique)
  show "sorted (map (\<lambda>t. unat (seq_event_type_value t)) (sorted_list_of_set (set ts)))"
    unfolding sorted_map
    by (rule sorted_wrt_mono_rel [of _ "(\<le>)"]) (simp_all add: less_eq_seq_event_type_def word_le_nat_alt)
  show "distinct (map (\<lambda>t. unat (seq_event_type_value t)) (sorted_list_of_set (set ts)))"
    by (simp add: distinct_map inj_on_def seq_event_type.value_eq_iff word_unat_eq_iff [symmetric])
qed simp_all

text \<open>
  C15: the event filter of a client reads back as the increasing list of exactly the event types
  that were set, whatever the filter was before; types above 255 and repetitions are dropped. For a filter of types of
  the enumeration this is the sorted list of them, each once.
\<close>

theorem event_filter_roundtrip:
  "alsaseq_client_info_get_event_filter (alsaseq_client_info_set_event_filter info event_types) =
     map of_nat (filter (\<lambda>i. i \<in> unat ` set event_types) [0..<256]) \<and>
   alsaseq_client_info_get_event_filter
       (alsaseq_client_info_set_event_filter info (map (\<lambda>t. ucast (seq_event_type_value t)) ts)) =
     map (\<lambda>t. ucast (seq_event_type_value t)) (sorted_list_of_set (set ts))"
proof -
  have read_back: "alsaseq_client_info_get_event_filter (alsaseq_client_info_set_event_filter info event_types) =
     map of_nat (filter (\<lambda>i. i \<in> unat ` set event_types) [0..<256])" for event_types
  proof -
    have "filter_bit (replicate 32 0) i \<longleftrightarrow> False" if "i < 256" for i
      using that by (simp add: filter_bit_iff)
    then have "filter (filter_bit (set_filter_bits (replicate 32 0) event_types)) [0..<256] =
        filter (\<lambda>i. i \<in> unat ` set event_types) [0..<256]"
      by (intro filter_cong) (auto simp: filter_bit_set)
    then show ?thesis
      by (simp add: get_event_filter_filter alsaseq_client_info_set_event_filter_def)
  qed
  let ?S = "(\<lambda>t. unat (seq_event_type_value t)) ` set ts"
  have byte: "unat v < 256" for v :: u8 using unsigned_less [of v, where ?'a = nat] by simp
  have "unat (ucast v :: u32) = unat v" for v :: u8
    using byte [of v] by (simp add: unsigned_ucast_eq take_bit_nat_eq_self)
  then have "unat ` set (map (\<lambda>t. ucast (seq_event_type_value t) :: u32) ts) = ?S"
    by (simp add: image_image)
  moreover have "?S \<subseteq> {..<256}" using byte by auto
  ultimately have "filter (\<lambda>i. i \<in> unat ` set (map (\<lambda>t. ucast (seq_event_type_value t) :: u32) ts)) [0..<256] =
      map (\<lambda>t. unat (seq_event_type_value t)) (sorted_list_of_set (set ts))"
    using filter_upt_sorted [of ?S 256] by (simp add: sorted_event_type_values)
  then show ?thesis by (simp add: read_back)
qed

section \<open>Getters conform to their specifications\<close>

lemma seq_client_info_conforms: "getters_conform seq_client_info_get_property seq_client_info_props all_kept"
  apply (rule getters_conformI)
  subgoal for x p v by (cases p) (simp_all add: read_property_def)
  done

lemma seq_port_info_conforms: "getters_conform seq_port_info_get_property seq_port_info_props all_kept"
  apply (rule getters_conformI)
  subgoal for x p v by (cases p) (simp_all add: read_property_def)
  done

lemma seq_client_pool_conforms: "getters_conform seq_client_pool_get_property seq_client_pool_props all_kept"
  apply (rule getters_conformI)
  subgoal for x p v by (cases p) (simp_all add: read_property_def)
  done

lemma seq_queue_info_conforms: "getters_conform seq_queue_info_get_property seq_queue_info_props all_kept"
  apply (rule getters_conformI)
  subgoal for x p v by (cases p) (simp_all add: read_property_def)
  done

lemma seq_queue_tempo_conforms: "getters_conform seq_queue_tempo_get_property seq_queue_tempo_props all_kept"
  apply (rule getters_conformI)
  subgoal for x p v by (cases p) (simp_all add: read_property_def)
  done

lemma seq_queue_timer_alsa_conforms: "getters_conform seq_queue_timer_alsa_get_property seq_queue_timer_alsa_props all_kept"
  apply (rule getters_conformI)
  subgoal for x p v by (cases p) (simp_all add: read_property_def)
  done

lemma seq_remove_filter_conforms: "getters_conform seq_remove_filter_get_property seq_remove_filter_props all_kept"
  apply (rule getters_conformI)
  subgoal for x p v by (cases p) (simp_all add: read_property_def)
  done

lemma seq_subscribe_data_conforms: "getters_conform seq_subscribe_data_get_property seq_subscribe_data_props all_kept"
  apply (rule getters_conformI)
  subgoal for x p v by (cases p) (simp_all add: read_property_def)
  done

lemma seq_system_info_conforms: "getters_conform seq_system_info_get_property seq_system_info_props all_kept"
  apply (rule getters_conformI)
  subgoal for x p v by (cases p) (simp_all add: read_property_def)
  done

text \<open>The number of the queue of a queue status is written by the accessor of another type.\<close>

lemma seq_queue_status_conforms: "getters_conform seq_queue_status_get_property seq_queue_status_props (\<lambda>p. p \<noteq> SEQ_QUEUE_STATUS_PROP_QUEUE_ID)"
  apply (rule getters_conformI)
  subgoal for x p v by (cases p) (simp_all add: read_property_def)
  done

end
