(* ===== verification/Utils.thy ===== *)
theory Utils
  imports Alsa_Prelude "HOL-Library.Multiset"
begin

text \<open>
  The helpers of \<open>utils/\<close>: parsing of numbers, formatting of device names, lookup of devices
  by way of libudev, and control requests to a card. An internal function returns a negative
  error number or zero; its out-parameter is \<open>None\<close> as long as it is not written.
  libudev, the allocator of the C library, \<open>qsort\<close> and the system calls are arguments.
\<close>

section \<open>System calls\<close>

datatype 'a sysret = SysOk 'a | SysErr errno

text \<open>
  The calls a component makes to the kernel. The state of the world is threaded through them;
  \<open>file_error\<close> is \<open>g_file_error_from_errno\<close>.
\<close>

record 'w sys =
  sys_open :: "'w \<Rightarrow> bytes \<Rightarrow> u32 \<Rightarrow> 'w \<times> int sysret"
  sys_close :: "'w \<Rightarrow> int \<Rightarrow> 'w"
  sys_read :: "'w \<Rightarrow> int \<Rightarrow> nat \<Rightarrow> 'w \<times> bytes sysret"
  sys_write :: "'w \<Rightarrow> int \<Rightarrow> bytes \<Rightarrow> 'w \<times> nat sysret"
  file_error :: "errno \<Rightarrow> int"

abbreviation (input) G_FILE_ERROR_FAILED :: int where "G_FILE_ERROR_FAILED \<equiv> 24"

abbreviation (input) O_RDONLY :: u32 where "O_RDONLY \<equiv> 0"
abbreviation (input) O_WRONLY :: u32 where "O_WRONLY \<equiv> 1"
abbreviation (input) O_RDWR :: u32 where "O_RDWR \<equiv> 2"
abbreviation (input) O_ACCMODE :: u32 where "O_ACCMODE \<equiv> 3"
abbreviation (input) O_NONBLOCK :: u32 where "O_NONBLOCK \<equiv> 0x800"

definition generate_file_error :: "('w, 'z) sys_scheme \<Rightarrow> errno \<Rightarrow> 'a outcome" where
  "generate_file_error sys err = Throw (GError G_FILE_ERROR (file_error sys err))"

text \<open>
  The classes with a domain of errors of their own have a table of messages, indexed by the code of the error. GLib
  refuses to make an error without a message, so a code without an entry in the table leaves the error unset,
  and a code outside of the table reads past its end.
\<close>

definition g_set_error_literal :: "gdomain \<Rightarrow> int \<Rightarrow> string option \<Rightarrow> 'a outcome" where
  "g_set_error_literal domain code message =
     (case message of Some _ \<Rightarrow> Throw (GError domain code) | None \<Rightarrow> Critical)"

definition generate_local_error :: "gdomain \<Rightarrow> string option list \<Rightarrow> int \<Rightarrow> 'a outcome" where
  "generate_local_error domain err_msgs code =
     (if 0 \<le> code \<and> nat code < length err_msgs then g_set_error_literal domain code (err_msgs ! nat code)
      else Undefined)"

lemmas local_error_defs = generate_local_error_def g_set_error_literal_def

text \<open>
  A request of \<open>ioctl\<close> takes a structure and returns the structure the kernel wrote back, or an
  error number.
\<close>

type_synonym ('w, 'd) request = "'w \<Rightarrow> int \<Rightarrow> 'd \<Rightarrow> 'w \<times> 'd sysret"

text \<open>
  How a query of the sequencer or the timer begins: \<open>open_fd\<close> gives the descriptor, when it is
  written, with the \<open>gboolean\<close> returned and the error; the body runs unless that is \<open>FALSE\<close>.
\<close>

definition with_opened ::
  "'w \<times> (int option \<times> int \<times> gerror option) outcome \<Rightarrow> ('w \<Rightarrow> int \<Rightarrow> 'w \<times> 'a outcome) \<Rightarrow> 'w \<times> 'a outcome" where
  "with_opened opened body =
     (case opened of
        (w', Ret (fd, result, err)) \<Rightarrow>
          if result = 0 then (w', case err of Some e \<Rightarrow> Throw e | None \<Rightarrow> FalseUnset)
          else (case fd of None \<Rightarrow> (w', Undefined) | Some fd' \<Rightarrow> body w' fd')
      | (w', _) \<Rightarrow> (w', Undefined))"

text \<open>One request, after which the descriptor is closed.\<close>

definition request_and_close ::
  "('w, 'z) sys_scheme \<Rightarrow> ('w, 'd) request \<Rightarrow> 'd \<Rightarrow> 'w \<Rightarrow> int \<Rightarrow> 'w \<times> 'd outcome" where
  "request_and_close sys ioctl data w fd =
     (case ioctl w fd data of
        (w', SysErr e) \<Rightarrow> (sys_close sys w' fd, generate_file_error sys e)
      | (w', SysOk data') \<Rightarrow> (sys_close sys w' fd, Ret data'))"

text \<open>A request that the kernel refuses, for examples.\<close>

definition refuse :: "('w, 'd) request" where
  "refuse w fd d = (w, SysErr EINVAL)"

text \<open>The version of a protocol, split up by the macros of the UAPI headers.\<close>

definition SNDRV_PROTOCOL_TRIPLET :: "u32 \<Rightarrow> u16 \<times> u16 \<times> u16" where
  "SNDRV_PROTOCOL_TRIPLET ver =
     (ucast (drop_bit 16 ver AND 0xffff), ucast (drop_bit 8 ver AND 0xff), ucast (ver AND 0xff))"

text \<open>Conditions of a polled descriptor, and what the dispatch function of a source returns.\<close>

abbreviation (input) G_IO_IN :: u32 where "G_IO_IN \<equiv> 1"
abbreviation (input) G_IO_ERR :: u32 where "G_IO_ERR \<equiv> 8"

datatype source_result = G_SOURCE_REMOVE | G_SOURCE_CONTINUE

section \<open>Records in a buffer\<close>

text \<open>
  The sources of events read into a buffer and walk over the records of fixed size in it. Such a
  walk hands every whole record to its handler, in order, and ignores what follows the last one.
\<close>

locale record_walk =
  fixes emit :: "nat \<Rightarrow> bytes \<Rightarrow> 's list" and handle :: "bytes \<Rightarrow> 's list" and size :: nat
  assumes size_pos: "0 < size"
    and emit_step: "size \<le> len \<Longrightarrow> emit len buf = handle (take size buf) @ emit (len - size) (drop size buf)"
    and emit_end: "len < size \<Longrightarrow> emit len buf = []"
begin

lemma emit_records:
  assumes "\<forall>r\<in>set rs. length r = size" "k < size"
  shows "emit (size * length rs + k) (concat rs @ rest) = concat (map handle rs)"
  using assms(1)
proof (induction rs)
  case Nil
  then show ?case using assms(2) by (simp add: emit_end)
next
  case (Cons r rs)
  then show ?case
    using emit_step [of "size * length (r # rs) + k" "concat (r # rs) @ rest"] by simp
qed

lemma emit_whole:
  assumes "\<forall>r\<in>set rs. length r = size"
  shows "emit (length (concat rs)) (concat rs @ rest) = concat (map handle rs)"
proof -
  have "length (concat rs) = size * length rs" using assms by (induction rs) auto
  with emit_records [OF assms size_pos] show ?thesis by simp
qed

end

lemma get_at_take: "off + n \<le> m \<Longrightarrow> get_at off n (take m d) = get_at off n d"
  by (simp add: get_at_def drop_take min_def)

section \<open>Objects that own a descriptor\<close>

text \<open>
  An object with a descriptor is kept alive by references: the application holds some, and every source
  created from the object needs one. A user is the application with one of its references, or a source; the number of users
  is counted beside the object. As long as there is one, a user may create a source, which adds a user when the call
  succeeds, and any user may go away, which releases one reference. Releasing the last reference closes the descriptor.
\<close>

datatype ref_op = CreateSourceOp | ReleaseOp

definition succeeded :: "'a outcome \<Rightarrow> bool" where
  "succeeded r \<longleftrightarrow> (case r of Ret _ \<Rightarrow> True | _ \<Rightarrow> False)"

primrec run_users ::
  "('w \<Rightarrow> 'o \<Rightarrow> 'o \<times> 's outcome) \<Rightarrow> ('w \<Rightarrow> 'o \<Rightarrow> 'w \<times> 'o) \<Rightarrow> ref_op list \<Rightarrow> 'w \<Rightarrow> 'o \<Rightarrow> nat \<Rightarrow> 'w \<times> 'o \<times> nat" where
  "run_users create release [] w x users = (w, x, users)"
| "run_users create release (op # ops) w x users =
     (if users = 0 then (w, x, users)
      else case op of
        CreateSourceOp \<Rightarrow>
          (case create w x of (x', r) \<Rightarrow> run_users create release ops w x' (if succeeded r then Suc users else users))
      | ReleaseOp \<Rightarrow> (case release w x of (w', x') \<Rightarrow> run_users create release ops w' x' (users - 1)))"

locale descriptor_owner =
  fixes refs :: "'o \<Rightarrow> nat" and fd :: "'o \<Rightarrow> int"
    and create :: "'w \<Rightarrow> 'o \<Rightarrow> 'o \<times> 's outcome" and release :: "'w \<Rightarrow> 'o \<Rightarrow> 'w \<times> 'o" and close :: "'w \<Rightarrow> int \<Rightarrow> 'w"
  assumes create_refs: "create w x = (x', r) \<Longrightarrow> refs x' = (if succeeded r then Suc (refs x) else refs x) \<and> fd x' = fd x"
    and release_refs: "release w x = (w', x') \<Longrightarrow> refs x' = refs x - 1 \<and> fd x' = fd x"
    and release_last: "release w x = (w', x') \<Longrightarrow> refs x = 1 \<Longrightarrow> 0 \<le> fd x \<Longrightarrow> w' = close w (fd x)"
    and release_more: "release w x = (w', x') \<Longrightarrow> 1 < refs x \<Longrightarrow> w' = w"
begin

lemma run_no_users: "run_users create release ops w x 0 = (w, x, 0)"
  by (cases ops) simp_all

lemma closed_once:
  "refs x = users \<Longrightarrow> 0 < users \<Longrightarrow> 0 \<le> fd x \<Longrightarrow> run_users create release ops w x users = (w', x', users') \<Longrightarrow>
     refs x' = users' \<and> w' = (if users' = 0 then close w (fd x) else w)"
proof (induction ops arbitrary: x users)
  case (Cons op ops)
  show ?case
  proof (cases op)
    case CreateSourceOp
    obtain x1 r where new: "create w x = (x1, r)" by fastforce
    show ?thesis using Cons.IH [of x1 "refs x1"] Cons.prems create_refs [OF new] new CreateSourceOp
      by (auto split: if_splits)
  next
    case ReleaseOp
    obtain w1 x1 where rel: "release w x = (w1, x1)" by fastforce
    show ?thesis
    proof (cases "users = 1")
      case True
      with rel Cons.prems ReleaseOp release_refs [OF rel] release_last [OF rel] run_no_users [of ops w1 x1]
      show ?thesis by auto
    next
      case False
      with rel Cons.prems ReleaseOp release_refs [OF rel] release_more [OF rel] Cons.IH [of x1 "users - 1"]
      show ?thesis by simp
    qed
  qed
qed simp

end

section \<open>Numbers and names\<close>

definition isspace :: "u8 \<Rightarrow> bool" where
  "isspace c \<longleftrightarrow> c = 32 \<or> 9 \<le> c \<and> c \<le> 13"

definition isdigit :: "u8 \<Rightarrow> bool" where
  "isdigit c \<longleftrightarrow> 48 \<le> c \<and> c \<le> 57"

fun digits_val :: "bytes \<Rightarrow> int \<Rightarrow> int" where
  "digits_val [] acc = acc"
| "digits_val (c # cs) acc = digits_val cs (10 * acc + (uint c - 48))"

abbreviation (input) LONG_MAX :: int where "LONG_MAX \<equiv> 9223372036854775807"
abbreviation (input) LONG_MIN :: int where "LONG_MIN \<equiv> -9223372036854775808"

text \<open>
  \<open>strtol\<close> in base ten: the value and the rest of the literal, \<open>None\<close> for a value out of range.
  Without digits the rest is the whole literal.
\<close>

definition strtol :: "bytes \<Rightarrow> (int \<times> bytes) option" where
  "strtol literal =
     (let s = dropWhile isspace literal;
          neg = (s \<noteq> [] \<and> hd s = 45);
          t = (if s \<noteq> [] \<and> (hd s = 45 \<or> hd s = 43) then tl s else s);
          ds = takeWhile isdigit t;
          v = (if neg then - digits_val ds 0 else digits_val ds 0)
      in if ds = [] then Some (0, literal)
         else if v < LONG_MIN \<or> LONG_MAX < v then None
         else Some (v, dropWhile isdigit t))"

definition long_from_string :: "bytes \<Rightarrow> int \<times> int option" where
  "long_from_string literal =
     (case strtol (cstr literal) of
        None \<Rightarrow> (- ERANGE, None)
      | Some (val, rest) \<Rightarrow>
          if rest = cstr literal \<or> (rest \<noteq> [] \<and> hd rest \<noteq> 10) then (- EINVAL, None)
          else (0, Some val))"

text \<open>Decimal representation of an unsigned number, the conversion \<open>%u\<close>.\<close>

fun dec_repr :: "nat \<Rightarrow> bytes" where
  "dec_repr n = (if n < 10 then [of_nat (48 + n)] else dec_repr (n div 10) @ [of_nat (48 + n mod 10)])"

declare dec_repr.simps [simp del]

datatype piece = Lit bytes | Num u32

definition format :: "piece list \<Rightarrow> bytes" where
  "format ps = concat (map (\<lambda>p. case p of Lit s \<Rightarrow> s | Num n \<Rightarrow> dec_repr (unat n)) ps)"

record libc =
  malloc_fits :: "nat \<Rightarrow> bool"
  qsort :: "(u32 \<Rightarrow> u32 \<Rightarrow> int) \<Rightarrow> u32 list \<Rightarrow> u32 list"

definition allocate_string :: "libc \<Rightarrow> piece list \<Rightarrow> int \<times> bytes option" where
  "allocate_string libc template =
     (let s = format template
      in if \<not> malloc_fits libc (length s + 1) then (- ENOMEM, None) else (0, Some s))"

definition ascii :: "string \<Rightarrow> bytes" where
  "ascii s = map (\<lambda>c. of_nat (of_char c)) s"

section \<open>Lookup of devices\<close>

record udev_device =
  udev_device_get_sysname :: "bytes sysret"
  udev_device_get_devnode :: "bytes sysret"
  udev_device_get_sysnum :: "bytes option"

record udev =
  udev_new :: "unit sysret"
  udev_device_new_from_subsystem_sysname :: "bytes \<Rightarrow> udev_device sysret"
  udev_enumerate_new :: "unit sysret"
  udev_enumerate_add_match_subsystem :: int
  udev_enumerate_scan_devices :: int
  udev_enumerate_get_list_entry :: "bytes sysret list"
  udev_device_new_from_syspath :: "bytes \<Rightarrow> udev_device sysret"

definition lookup_and_allocate_string_by_sysname ::
  "libc \<Rightarrow> udev \<Rightarrow> bytes \<Rightarrow> (udev_device \<Rightarrow> bytes sysret) \<Rightarrow> int \<times> bytes option" where
  "lookup_and_allocate_string_by_sysname libc udev sysname func =
     (case udev_new udev of SysErr e \<Rightarrow> (- e, None)
      | SysOk _ \<Rightarrow> (case udev_device_new_from_subsystem_sysname udev sysname of SysErr e \<Rightarrow> (- e, None)
         | SysOk device \<Rightarrow> (case func device of SysErr e \<Rightarrow> (- e, None)
            | SysOk n \<Rightarrow> if \<not> malloc_fits libc (length n + 1) then (- ENOMEM, None) else (0, Some n))))"

text \<open>On failure of the first step the pointer that is freed was never written.\<close>

definition lookup_and_allocate_name_by_sysname ::
  "libc \<Rightarrow> udev \<Rightarrow> (udev_device \<Rightarrow> bytes sysret) \<Rightarrow> piece list \<Rightarrow> (int \<times> bytes option) outcome" where
  "lookup_and_allocate_name_by_sysname libc udev func fmt =
     (case allocate_string libc fmt of
        (err, None) \<Rightarrow> Undefined
      | (err, Some sysname) \<Rightarrow> Ret (lookup_and_allocate_string_by_sysname libc udev sysname func))"

definition lookup_and_allocate_sysname_by_sysname ::
  "libc \<Rightarrow> udev \<Rightarrow> piece list \<Rightarrow> (int \<times> bytes option) outcome" where
  "lookup_and_allocate_sysname_by_sysname libc udev fmt =
     lookup_and_allocate_name_by_sysname libc udev udev_device_get_sysname fmt"

definition lookup_and_allocate_devname_by_sysname ::
  "libc \<Rightarrow> udev \<Rightarrow> piece list \<Rightarrow> (int \<times> bytes option) outcome" where
  "lookup_and_allocate_devname_by_sysname libc udev fmt =
     lookup_and_allocate_name_by_sysname libc udev udev_device_get_devnode fmt"

definition lookup_and_allocate_card_sysname :: "libc \<Rightarrow> udev \<Rightarrow> u32 \<Rightarrow> (int \<times> bytes option) outcome" where
  "lookup_and_allocate_card_sysname libc udev card_id =
     lookup_and_allocate_sysname_by_sysname libc udev [Lit (ascii ''card''), Num card_id]"

definition lookup_and_allocate_control_sysname :: "libc \<Rightarrow> udev \<Rightarrow> u32 \<Rightarrow> (int \<times> bytes option) outcome" where
  "lookup_and_allocate_control_sysname libc udev card_id =
     lookup_and_allocate_sysname_by_sysname libc udev [Lit (ascii ''controlC''), Num card_id]"

definition lookup_and_allocate_control_devname :: "libc \<Rightarrow> udev \<Rightarrow> u32 \<Rightarrow> (int \<times> bytes option) outcome" where
  "lookup_and_allocate_control_devname libc udev card_id =
     lookup_and_allocate_devname_by_sysname libc udev [Lit (ascii ''controlC''), Num card_id]"

definition hwdep_template :: "u32 \<Rightarrow> u32 \<Rightarrow> piece list" where
  "hwdep_template card_id device_id = [Lit (ascii ''hwC''), Num card_id, Lit (ascii ''D''), Num device_id]"

definition rawmidi_template :: "u32 \<Rightarrow> u32 \<Rightarrow> piece list" where
  "rawmidi_template card_id device_id = [Lit (ascii ''midiC''), Num card_id, Lit (ascii ''D''), Num device_id]"

definition lookup_and_allocate_hwdep_sysname ::
  "libc \<Rightarrow> udev \<Rightarrow> u32 \<Rightarrow> u32 \<Rightarrow> (int \<times> bytes option) outcome" where
  "lookup_and_allocate_hwdep_sysname libc udev card_id device_id =
     lookup_and_allocate_sysname_by_sysname libc udev (hwdep_template card_id device_id)"

definition lookup_and_allocate_hwdep_devname ::
  "libc \<Rightarrow> udev \<Rightarrow> u32 \<Rightarrow> u32 \<Rightarrow> (int \<times> bytes option) outcome" where
  "lookup_and_allocate_hwdep_devname libc udev card_id device_id =
     lookup_and_allocate_devname_by_sysname libc udev (hwdep_template card_id device_id)"

definition lookup_and_allocate_rawmidi_sysname ::
  "libc \<Rightarrow> udev \<Rightarrow> u32 \<Rightarrow> u32 \<Rightarrow> (int \<times> bytes option) outcome" where
  "lookup_and_allocate_rawmidi_sysname libc udev card_id device_id =
     lookup_and_allocate_sysname_by_sysname libc udev (rawmidi_template card_id device_id)"

definition lookup_and_allocate_rawmidi_devname ::
  "libc \<Rightarrow> udev \<Rightarrow> u32 \<Rightarrow> u32 \<Rightarrow> (int \<times> bytes option) outcome" where
  "lookup_and_allocate_rawmidi_devname libc udev card_id device_id =
     lookup_and_allocate_devname_by_sysname libc udev (rawmidi_template card_id device_id)"

definition lookup_and_allocate_timer_sysname :: "libc \<Rightarrow> udev \<Rightarrow> (int \<times> bytes option) outcome" where
  "lookup_and_allocate_timer_sysname libc udev =
     lookup_and_allocate_sysname_by_sysname libc udev [Lit (ascii ''timer'')]"

definition lookup_and_allocate_timer_devname :: "libc \<Rightarrow> udev \<Rightarrow> (int \<times> bytes option) outcome" where
  "lookup_and_allocate_timer_devname libc udev =
     lookup_and_allocate_devname_by_sysname libc udev [Lit (ascii ''timer'')]"

definition lookup_and_allocate_seq_sysname :: "libc \<Rightarrow> udev \<Rightarrow> (int \<times> bytes option) outcome" where
  "lookup_and_allocate_seq_sysname libc udev =
     lookup_and_allocate_sysname_by_sysname libc udev [Lit (ascii ''seq'')]"

definition lookup_and_allocate_seq_devname :: "libc \<Rightarrow> udev \<Rightarrow> (int \<times> bytes option) outcome" where
  "lookup_and_allocate_seq_devname libc udev =
     lookup_and_allocate_devname_by_sysname libc udev [Lit (ascii ''seq'')]"

section \<open>Enumeration of devices\<close>

definition detect_device :: "udev \<Rightarrow> bytes sysret \<Rightarrow> bytes \<Rightarrow> int \<times> udev_device option" where
  "detect_device udev entry prefix =
     (case entry of SysErr e \<Rightarrow> (- e, None)
      | SysOk syspath \<Rightarrow> (case udev_device_new_from_syspath udev syspath of SysErr e \<Rightarrow> (- e, None)
         | SysOk dev \<Rightarrow> (case udev_device_get_sysname dev of SysErr e \<Rightarrow> (- e, None)
            | SysOk sysname \<Rightarrow>
                if take (length prefix) sysname \<noteq> prefix then (- ENODEV, None) else (0, Some dev))))"

definition compare_u32 :: "u32 \<Rightarrow> u32 \<Rightarrow> int" where
  "compare_u32 x y = (if x > y then 1 else 0)"

fun count_devices :: "udev \<Rightarrow> bytes \<Rightarrow> bytes sysret list \<Rightarrow> nat" where
  "count_devices udev prefix [] = 0"
| "count_devices udev prefix (entry # entries) =
     (if fst (detect_device udev entry prefix) < 0 then 0 else 1) + count_devices udev prefix entries"

text \<open>
  The second pass over the same entries asks udev again, which may have changed. It fills the
  \<open>cnt\<close> elements allocated after the first pass, and would write past them.
\<close>

fun collect_sysnums ::
  "udev \<Rightarrow> bytes \<Rightarrow> bytes sysret list \<Rightarrow> nat \<Rightarrow> u32 list \<Rightarrow> u32 list outcome" where
  "collect_sysnums udev prefix [] cnt acc = Ret acc"
| "collect_sysnums udev prefix (entry # entries) cnt acc =
     (case detect_device udev entry prefix of
        (err, dev) \<Rightarrow>
          if err < 0 then collect_sysnums udev prefix entries cnt acc
          else (case dev of None \<Rightarrow> Undefined
            | Some d \<Rightarrow>
               (case udev_device_get_sysnum d of
                  None \<Rightarrow> collect_sysnums udev prefix entries cnt acc
                | Some sysnum \<Rightarrow>
                    (case snd (long_from_string sysnum) of
                       None \<Rightarrow> collect_sysnums udev prefix entries cnt acc
                     | Some val \<Rightarrow>
                         if cnt \<le> length acc then Undefined
                         else collect_sysnums udev prefix entries cnt (acc @ [of_int val])))))"

text \<open>The result is the error number, \<open>*entries\<close> and \<open>*entry_count\<close>.\<close>

definition generate_sysnum_list_by_sysname_prefix ::
  "libc \<Rightarrow> udev \<Rightarrow> udev \<Rightarrow> bytes \<Rightarrow> (int \<times> u32 list option \<times> nat option) outcome" where
  "generate_sysnum_list_by_sysname_prefix libc udev udev2 prefix =
     (case udev_new udev of SysErr e \<Rightarrow> Ret (- e, None, None)
      | SysOk _ \<Rightarrow> (case udev_enumerate_new udev of SysErr e \<Rightarrow> Ret (- e, None, None)
      | SysOk _ \<Rightarrow>
          if udev_enumerate_add_match_subsystem udev < 0
          then Ret (udev_enumerate_add_match_subsystem udev, None, None)
          else if udev_enumerate_scan_devices udev < 0
          then Ret (udev_enumerate_scan_devices udev, None, None)
          else let err = udev_enumerate_scan_devices udev;
                   entry_list = udev_enumerate_get_list_entry udev;
                   cnt = count_devices udev prefix entry_list
               in if cnt = 0 then Ret (err, None, None)
                  else if \<not> malloc_fits libc (4 * cnt) then Ret (- ENOMEM, None, None)
                  else obind (collect_sysnums udev2 prefix entry_list cnt [])
                         (\<lambda>nums. if length nums \<noteq> cnt
                            then Ret (- ENODATA, Some (nums @ replicate (cnt - length nums) 0), None)
                            else Ret (err, Some (qsort libc compare_u32 nums), Some cnt))))"

definition generate_sysnum_list ::
  "libc \<Rightarrow> udev \<Rightarrow> udev \<Rightarrow> piece list \<Rightarrow> (int \<times> u32 list option \<times> nat option) outcome" where
  "generate_sysnum_list libc udev udev2 fmt =
     (case allocate_string libc fmt of
        (err, None) \<Rightarrow> Undefined
      | (err, Some prefix) \<Rightarrow> generate_sysnum_list_by_sysname_prefix libc udev udev2 prefix)"

definition generate_card_sysnum_list ::
  "libc \<Rightarrow> udev \<Rightarrow> udev \<Rightarrow> (int \<times> u32 list option \<times> nat option) outcome" where
  "generate_card_sysnum_list libc udev udev2 = generate_sysnum_list libc udev udev2 [Lit (ascii ''card'')]"

definition generate_hwdep_sysnum_list ::
  "libc \<Rightarrow> udev \<Rightarrow> udev \<Rightarrow> u32 \<Rightarrow> (int \<times> u32 list option \<times> nat option) outcome" where
  "generate_hwdep_sysnum_list libc udev udev2 card_id =
     generate_sysnum_list libc udev udev2 [Lit (ascii ''hwC''), Num card_id]"

definition generate_rawmidi_sysnum_list ::
  "libc \<Rightarrow> udev \<Rightarrow> udev \<Rightarrow> u32 \<Rightarrow> (int \<times> u32 list option \<times> nat option) outcome" where
  "generate_rawmidi_sysnum_list libc udev udev2 card_id =
     generate_sysnum_list libc udev udev2 [Lit (ascii ''midiC''), Num card_id]"

section \<open>Requests to a card\<close>

text \<open>
  The descriptor is written only when the device was found; \<open>None\<close> leaves it indeterminate.
  The request itself is an argument, with the data it works on.
\<close>

definition request_ctl_ioctl_opened ::
  "('w, 'z) sys_scheme \<Rightarrow> libc \<Rightarrow> udev \<Rightarrow> ('w \<Rightarrow> int \<Rightarrow> 'd \<Rightarrow> 'w \<times> 'd sysret) \<Rightarrow> 'w \<Rightarrow> u32 \<Rightarrow> 'd \<Rightarrow>
     ('w \<times> int option \<times> 'd \<times> int) outcome" where
  "request_ctl_ioctl_opened sys libc udev ioctl w card_id data =
     obind (lookup_and_allocate_control_devname libc udev card_id)
       (\<lambda>(err, devname).
          if err < 0 then Ret (w, None, data, err)
          else (case devname of None \<Rightarrow> Undefined
            | Some d \<Rightarrow>
                (case sys_open sys w d (O_RDONLY OR O_NONBLOCK) of
                   (w', SysErr e) \<Rightarrow> Ret (w', Some (-1), data, - e)
                 | (w', SysOk fd) \<Rightarrow>
                     (case ioctl w' fd data of
                        (w'', SysErr e) \<Rightarrow> Ret (w'', Some fd, data, - e)
                      | (w'', SysOk data') \<Rightarrow> Ret (w'', Some fd, data', 0)))))"

definition request_ctl_ioctl ::
  "('w, 'z) sys_scheme \<Rightarrow> libc \<Rightarrow> udev \<Rightarrow> ('w \<Rightarrow> int \<Rightarrow> 'd \<Rightarrow> 'w \<times> 'd sysret) \<Rightarrow> 'w \<Rightarrow> u32 \<Rightarrow> 'd \<Rightarrow>
     ('w \<times> 'd \<times> int) outcome" where
  "request_ctl_ioctl sys libc udev ioctl w card_id data =
     obind (request_ctl_ioctl_opened sys libc udev ioctl w card_id data)
       (\<lambda>(w', fd, data', err). case fd of
           None \<Rightarrow> Undefined
         | Some fd' \<Rightarrow> Ret (sys_close sys w' fd', data', err))"

section \<open>Decimal numbers\<close>

lemma digits_val_append: "digits_val (ds @ [c]) acc = 10 * digits_val ds acc + (uint c - 48)"
  by (induction ds acc rule: digits_val.induct) simp_all

lemma digit_char:
  assumes "k < 10"
  shows "uint (of_nat (48 + k) :: u8) = 48 + int k" "isdigit (of_nat (48 + k))"
    "\<not> isspace (of_nat (48 + k))" "(of_nat (48 + k) :: u8) \<noteq> 0"
    "(of_nat (48 + k) :: u8) \<noteq> 45" "(of_nat (48 + k) :: u8) \<noteq> 43"
proof -
  have "k \<in> {0, 1, 2, 3, 4, 5, 6, 7, 8, 9}" using assms by auto
  then show "uint (of_nat (48 + k) :: u8) = 48 + int k" "isdigit (of_nat (48 + k))"
    "\<not> isspace (of_nat (48 + k))" "(of_nat (48 + k) :: u8) \<noteq> 0"
    "(of_nat (48 + k) :: u8) \<noteq> 45" "(of_nat (48 + k) :: u8) \<noteq> 43"
    by (auto simp: isdigit_def isspace_def)
qed

lemma dec_repr_digits:
  "dec_repr n \<noteq> []" "set (dec_repr n) \<subseteq> (\<lambda>k. of_nat (48 + k)) ` {..<10}"
  "digits_val (dec_repr n) 0 = int n"
proof (induction n rule: dec_repr.induct)
  case (1 n)
  have less: "n mod 10 < 10" by simp
  { case 1 show ?case by (subst dec_repr.simps) simp }
  { case 2 show ?case
      using "1.IH"(2) less by (subst dec_repr.simps) (simp del: of_nat_add) }
  { case 3 show ?case
    proof (cases "n < 10")
      case True
      then have "dec_repr n = [of_nat (48 + n)]" by (simp add: dec_repr.simps)
      with True digit_char(1) [of n] show ?thesis by (simp del: of_nat_add)
    next
      case False
      then have "dec_repr n = dec_repr (n div 10) @ [of_nat (48 + n mod 10)]"
        by (subst dec_repr.simps) simp
      then have "digits_val (dec_repr n) 0 = 10 * int (n div 10) + int (n mod 10)"
        using "1.IH"(3) [OF False] digit_char(1) [OF less]
        by (simp only: digits_val_append)
      also have "\<dots> = int n" by presburger
      finally show ?thesis .
    qed }
qed

lemma dec_repr_char:
  assumes "c \<in> set (dec_repr n)"
  shows "isdigit c \<and> \<not> isspace c \<and> c \<noteq> 0 \<and> c \<noteq> 45 \<and> c \<noteq> 43"
proof -
  obtain k where "k < 10" "c = of_nat (48 + k)"
    using assms dec_repr_digits(2) [of n] by (auto simp del: of_nat_add)
  with digit_char [of k] show ?thesis by (simp del: of_nat_add)
qed

text \<open>
  The number of a device, printed in decimal the way sysfs does, with or without a line feed
  behind it, is read back by \<open>long_from_string\<close>, for every number a \<open>long\<close> can hold.
\<close>

theorem long_from_string_dec_repr:
  assumes "int n \<le> LONG_MAX" "tail = [] \<or> tail = [10]"
  shows "long_from_string (dec_repr n @ tail) = (0, Some (int n))"
proof -
  let ?d = "dec_repr n"
  have digits: "\<forall>c\<in>set ?d. isdigit c \<and> \<not> isspace c \<and> c \<noteq> 0 \<and> c \<noteq> 45 \<and> c \<noteq> 43"
    using dec_repr_char by blast
  have "hd ?d \<in> set ?d" using dec_repr_digits(1) [of n] by simp
  with digits have hd: "\<not> isspace (hd ?d)" "hd ?d \<noteq> 45" "hd ?d \<noteq> 43" by auto
  have nonl: "\<not> isdigit 10" by (simp add: isdigit_def)
  have cstr: "cstr (?d @ tail) = ?d @ tail"
    using digits assms(2) by (intro cstr_no_NUL) auto
  have ws: "dropWhile isspace (?d @ tail) = ?d @ tail"
    using hd(1) dec_repr_digits(1) [of n] by (cases ?d) auto
  have tw: "takeWhile isdigit (?d @ tail) = ?d" "dropWhile isdigit (?d @ tail) = tail"
    using digits assms(2) nonl by (auto simp: takeWhile_append2 dropWhile_append2)
  have "strtol (?d @ tail) = Some (int n, tail)"
    using assms(1) hd tw dec_repr_digits(1,3) [of n]
    by (simp add: strtol_def ws Let_def hd_append)
  then show ?thesis using assms(2) dec_repr_digits(1) [of n] cstr
    by (auto simp: long_from_string_def)
qed

theorem long_from_string_dec_repr_witness:
  "long_from_string (dec_repr 1207 @ [10]) = (0, Some 1207) \<and> dec_repr 1207 = [49, 50, 48, 55]"
  using long_from_string_dec_repr [of 1207 "[10]"] by (simp add: dec_repr.simps)

section \<open>Enumeration\<close>

text \<open>The devices at the entries of the list whose name has the prefix, and what makes udev well behaved.\<close>

definition device_at :: "udev \<Rightarrow> bytes sysret \<Rightarrow> udev_device option" where
  "device_at udev entry =
     (case entry of SysErr _ \<Rightarrow> None
      | SysOk syspath \<Rightarrow> (case udev_device_new_from_syspath udev syspath of SysErr _ \<Rightarrow> None | SysOk d \<Rightarrow> Some d))"

definition name_starts_with :: "bytes \<Rightarrow> udev_device \<Rightarrow> bool" where
  "name_starts_with prefix d \<longleftrightarrow> (\<exists>rest. udev_device_get_sysname d = SysOk (prefix @ rest))"

definition matching_devices :: "udev \<Rightarrow> bytes \<Rightarrow> bytes sysret list \<Rightarrow> udev_device list" where
  "matching_devices udev prefix entries = filter (name_starts_with prefix) (List.map_filter (device_at udev) entries)"

definition errno_set :: "'a sysret \<Rightarrow> bool" where
  "errno_set r \<longleftrightarrow> (case r of SysOk _ \<Rightarrow> True | SysErr e \<Rightarrow> 0 < e)"

definition udev_sets_errno :: "udev \<Rightarrow> bool" where
  "udev_sets_errno udev \<longleftrightarrow>
     (\<forall>entry\<in>set (udev_enumerate_get_list_entry udev). errno_set entry) \<and>
     (\<forall>p. errno_set (udev_device_new_from_syspath udev p) \<and>
        (\<forall>d. udev_device_new_from_syspath udev p = SysOk d \<longrightarrow> errno_set (udev_device_get_sysname d)))"

lemma take_prefix: "take (length xs) ys = xs \<longleftrightarrow> (\<exists>rest. ys = xs @ rest)"
  by (metis append_eq_conv_conj append_take_drop_id)

lemma detect_device_cases:
  assumes "udev_sets_errno udev" "entry \<in> set (udev_enumerate_get_list_entry udev)"
  shows "(\<exists>err. detect_device udev entry prefix = (err, None) \<and> err < 0 \<and> matching_devices udev prefix [entry] = []) \<or>
    (\<exists>d. detect_device udev entry prefix = (0, Some d) \<and> matching_devices udev prefix [entry] = [d])"
  using assms
  by (auto simp: detect_device_def udev_sets_errno_def errno_set_def matching_devices_def map_filter_simps device_at_def
      name_starts_with_def take_prefix split: sysret.splits option.splits)

lemma matching_devices_Cons:
  "matching_devices udev prefix (entry # entries) = matching_devices udev prefix [entry] @ matching_devices udev prefix entries"
  by (simp add: matching_devices_def map_filter_simps split: option.splits)

text \<open>The number of a device is printed in decimal, as libudev cuts it off the name.\<close>

definition numbered :: "(udev_device \<Rightarrow> nat) \<Rightarrow> udev_device \<Rightarrow> bool" where
  "numbered num d \<longleftrightarrow> udev_device_get_sysnum d = Some (dec_repr (num d)) \<and> num d < 2 ^ 32"

lemma collect_matching:
  assumes "udev_sets_errno udev" "set entries \<subseteq> set (udev_enumerate_get_list_entry udev)"
    and "list_all (numbered num) (matching_devices udev prefix entries)"
  shows "count_devices udev prefix entries = length (matching_devices udev prefix entries) \<and>
    (\<forall>acc n. length acc + length (matching_devices udev prefix entries) \<le> n \<longrightarrow>
       collect_sysnums udev prefix entries n acc =
         Ret (acc @ map (\<lambda>d. of_nat (num d)) (matching_devices udev prefix entries)))"
  using assms(2,3)
proof (induction entries)
  case Nil
  then show ?case by (simp add: matching_devices_def map_filter_simps)
next
  case (Cons entry entries)
  note split = matching_devices_Cons [of udev prefix entry entries]
  consider (no) err where "detect_device udev entry prefix = (err, None)" "err < 0" "matching_devices udev prefix [entry] = []"
    | (yes) d where "detect_device udev entry prefix = (0, Some d)" "matching_devices udev prefix [entry] = [d]"
    using detect_device_cases [OF assms(1), of entry prefix] Cons.prems by auto
  then show ?case
  proof cases
    case no
    with Cons show ?thesis unfolding split by simp
  next
    case yes
    then have "udev_device_get_sysnum d = Some (dec_repr (num d))" "num d < 2 ^ 32"
      using Cons.prems(2) unfolding split by (simp_all add: numbered_def)
    moreover from this(2) have "long_from_string (dec_repr (num d)) = (0, Some (int (num d)))"
      using long_from_string_dec_repr [of "num d" "[]"] by simp
    ultimately show ?thesis using yes Cons unfolding split by simp
  qed
qed

text \<open>
  C17: when udev answers both passes alike, \<open>generate_sysnum_list_by_sysname_prefix\<close> finds the devices whose name starts with
  the prefix, and no other: the number of each one, as it is printed in sysfs, is handed to \<open>qsort\<close> once, in the order of the entries,
  and the result is what \<open>qsort\<close> makes of them, with their number. When no device matches the call succeeds but leaves both out-parameters unwritten.
  Nothing is said of \<open>qsort\<close>, since the comparison it is given is no order.
\<close>

theorem sysnum_list_complete:
  assumes "udev_new udev = SysOk u1" "udev_enumerate_new udev = SysOk u2"
    and "udev_enumerate_add_match_subsystem udev = 0" "udev_enumerate_scan_devices udev = 0" "udev_sets_errno udev"
    and "devices = filter (name_starts_with prefix) (List.map_filter (device_at udev) (udev_enumerate_get_list_entry udev))"
    and "malloc_fits libc (4 * length devices)" "list_all (numbered num) devices"
  shows "generate_sysnum_list_by_sysname_prefix libc udev udev prefix =
    (if devices = [] then Ret (0, None, None)
     else Ret (0, Some (qsort libc compare_u32 (map (\<lambda>d. of_nat (num d)) devices)), Some (length devices)))"
proof -
  have "devices = matching_devices udev prefix (udev_enumerate_get_list_entry udev)"
    using assms(6) by (simp add: matching_devices_def)
  with collect_matching [OF assms(5) subset_refl, of num prefix] assms(1-4,7,8) show ?thesis
    by (simp add: generate_sysnum_list_by_sysname_prefix_def Let_def)
qed

text \<open>A machine with one sound card, and an allocator and a sort that work.\<close>

definition card_device :: udev_device where
  "card_device = \<lparr>udev_device_get_sysname = SysOk (ascii ''card2''),
     udev_device_get_devnode = SysOk (ascii ''/dev/snd/controlC2''), udev_device_get_sysnum = Some (ascii ''2'')\<rparr>"

definition one_card :: udev where
  "one_card = \<lparr>udev_new = SysOk (), udev_device_new_from_subsystem_sysname = (\<lambda>_. SysOk card_device),
     udev_enumerate_new = SysOk (), udev_enumerate_add_match_subsystem = 0,
     udev_enumerate_scan_devices = 0, udev_enumerate_get_list_entry = [SysOk (ascii ''/sys/card2'')],
     udev_device_new_from_syspath = (\<lambda>_. SysOk card_device)\<rparr>"

definition udev_with :: "udev_device option \<Rightarrow> udev" where
  "udev_with found = \<lparr>udev_new = SysOk (),
     udev_device_new_from_subsystem_sysname = (\<lambda>_. case found of Some d \<Rightarrow> SysOk d | None \<Rightarrow> SysErr ENODEV),
     udev_enumerate_new = SysOk (), udev_enumerate_add_match_subsystem = 0,
     udev_enumerate_scan_devices = 0, udev_enumerate_get_list_entry = [],
     udev_device_new_from_syspath = (\<lambda>_. SysErr ENODEV)\<rparr>"

definition plain_libc :: libc where
  "plain_libc = \<lparr>malloc_fits = (\<lambda>_. True), qsort = (\<lambda>_ xs. xs)\<rparr>"

text \<open>A machine with two cards, and another device beside them.\<close>

definition device_named :: "string \<Rightarrow> nat \<Rightarrow> udev_device" where
  "device_named name n = \<lparr>udev_device_get_sysname = SysOk (ascii name),
     udev_device_get_devnode = SysErr ENOENT, udev_device_get_sysnum = Some (dec_repr n)\<rparr>"

definition two_cards :: udev where
  "two_cards = one_card\<lparr>udev_enumerate_get_list_entry := [SysOk [2], SysOk [9], SysOk [0]],
     udev_device_new_from_syspath := (\<lambda>p. SysOk (if p = [2] then device_named ''card2'' 2
       else if p = [9] then device_named ''controlC2'' 2 else device_named ''card0'' 0))\<rparr>"

lemma two_cards_devices:
  "filter (name_starts_with (ascii ''card'')) (List.map_filter (device_at two_cards) (udev_enumerate_get_list_entry two_cards)) =
     [device_named ''card2'' 2, device_named ''card0'' 0]"
  by (simp add: two_cards_def device_at_def map_filter_simps name_starts_with_def device_named_def ascii_def)

theorem sysnum_list_complete_witness:
  "generate_sysnum_list_by_sysname_prefix plain_libc two_cards two_cards (ascii ''card'') = Ret (0, Some [2, 0], Some 2)"
proof -
  let ?num = "\<lambda>d. if udev_device_get_sysname d = SysOk (ascii ''card2'') then 2 else 0"
  have "udev_sets_errno two_cards"
    by (simp add: udev_sets_errno_def two_cards_def errno_set_def device_named_def)
  moreover have "list_all (numbered ?num) [device_named ''card2'' 2, device_named ''card0'' 0]"
    by (simp add: numbered_def device_named_def ascii_def)
  ultimately show ?thesis
    using sysnum_list_complete [OF _ _ _ _ _ two_cards_devices [symmetric], of "()" "()" plain_libc ?num]
    by (simp add: two_cards_def one_card_def plain_libc_def) (simp add: device_named_def ascii_def)
qed

text \<open>
  The order handed to \<open>qsort\<close> is no order: the comparison never returns a negative number,
  so that a smaller and a larger number compare as equal one way round and as greater the other.
\<close>

theorem compare_u32_not_antisymmetric:
  "compare_u32 x y \<in> {0, 1} \<and> (x < y \<longrightarrow> compare_u32 x y = 0 \<and> compare_u32 y x = 1)"
  by (auto simp: compare_u32_def)

theorem compare_u32_not_antisymmetric_witness: "compare_u32 1 2 = 0 \<and> compare_u32 2 1 = 1"
  using compare_u32_not_antisymmetric [of 1 2] by simp

section \<open>Card requests\<close>

text \<open>
  A request to a card whose device is found opens the device, issues the request and closes
  the descriptor that was opened, whatever the request returns; when the device is not found, the
  descriptor that is closed was never written.
\<close>

theorem request_ctl_ioctl_closes:
  assumes "lookup_and_allocate_control_devname libc udev card_id = Ret (err, devname)"
  shows "if err < 0 then request_ctl_ioctl sys libc udev ioctl w card_id data = Undefined
    else \<forall>d w1 fd. devname = Some d \<and> sys_open sys w d (O_RDONLY OR O_NONBLOCK) = (w1, SysOk fd) \<longrightarrow>
      request_ctl_ioctl sys libc udev ioctl w card_id data =
        (case ioctl w1 fd data of
           (w2, SysOk data') \<Rightarrow> Ret (sys_close sys w2 fd, data', 0)
         | (w2, SysErr e) \<Rightarrow> Ret (sys_close sys w2 fd, data, - e))"
  using assms by (auto simp: request_ctl_ioctl_def request_ctl_ioctl_opened_def
      split: prod.splits sysret.splits option.splits)

text \<open>A kernel that logs the descriptors it closes.\<close>

definition log_sys :: "int list sys" where
  "log_sys = \<lparr>sys_open = (\<lambda>w d f. (w, SysOk 7)), sys_close = (\<lambda>w fd. fd # w),
     sys_read = (\<lambda>w fd n. (w, SysErr 5)), sys_write = (\<lambda>w fd bs. (w, SysOk (length bs))),
     file_error = (\<lambda>e. G_FILE_ERROR_FAILED)\<rparr>"

theorem request_ctl_ioctl_closes_witness:
  "request_ctl_ioctl log_sys plain_libc one_card (\<lambda>w fd d. (w, SysOk (d + 1))) [] 2 (41 :: nat) =
     Ret ([7], 42, 0)"
  using request_ctl_ioctl_closes [of plain_libc one_card 2 0 "Some (ascii ''/dev/snd/controlC2'')"
      log_sys "\<lambda>w fd d. (w, SysOk (d + 1))" "[]" "41 :: nat"]
  by (simp add: log_sys_def lookup_and_allocate_control_devname_def
      lookup_and_allocate_devname_by_sysname_def lookup_and_allocate_name_by_sysname_def
      lookup_and_allocate_string_by_sysname_def allocate_string_def plain_libc_def one_card_def
      card_device_def Let_def)

end
