(* ===== verification/Seq_Query.thy ===== *)
theory Seq_Query
  imports Seq_Infos Utils
begin

text \<open>
  The queries of \<open>seq/query.c\<close>. The kernel is the argument \<open>sys\<close>: the system calls of the
  prelude and one function for each request of the sequencer the sources issue, from the
  descriptor and the structure to the structure written back, or an error number and then an
  untouched structure. A query returns the new state of the world and how the call ends.
\<close>

section \<open>The sequencer core\<close>

record snd_seq_queue_client =
  qc_queue :: u32
  qc_client :: u32
  qc_used :: u32

record snd_seq_query_subs =
  qu_root :: snd_seq_addr
  qu_type :: u32
  qu_index :: u32
  qu_num_subs :: u32
  qu_addr :: snd_seq_addr
  qu_queue :: u8
  qu_flags :: u32

record 'w seq_sys = "'w sys" +
  env_libc :: libc
  env_udev :: udev
  ioctl_PVERSION :: "('w, u32) request"
  ioctl_CLIENT_ID :: "('w, u32) request"
  ioctl_SYSTEM_INFO :: "('w, snd_seq_system_info) request"
  ioctl_GET_CLIENT_INFO :: "('w, snd_seq_client_info) request"
  ioctl_SET_CLIENT_INFO :: "('w, snd_seq_client_info) request"
  ioctl_QUERY_NEXT_CLIENT :: "('w, snd_seq_client_info) request"
  ioctl_CREATE_PORT :: "('w, snd_seq_port_info) request"
  ioctl_DELETE_PORT :: "('w, snd_seq_port_info) request"
  ioctl_GET_PORT_INFO :: "('w, snd_seq_port_info) request"
  ioctl_SET_PORT_INFO :: "('w, snd_seq_port_info) request"
  ioctl_QUERY_NEXT_PORT :: "('w, snd_seq_port_info) request"
  ioctl_SUBSCRIBE_PORT :: "('w, snd_seq_port_subscribe) request"
  ioctl_UNSUBSCRIBE_PORT :: "('w, snd_seq_port_subscribe) request"
  ioctl_GET_CLIENT_POOL :: "('w, snd_seq_client_pool) request"
  ioctl_SET_CLIENT_POOL :: "('w, snd_seq_client_pool) request"
  ioctl_CREATE_QUEUE :: "('w, snd_seq_queue_info) request"
  ioctl_DELETE_QUEUE :: "('w, snd_seq_queue_info) request"
  ioctl_GET_QUEUE_INFO :: "('w, snd_seq_queue_info) request"
  ioctl_SET_QUEUE_INFO :: "('w, snd_seq_queue_info) request"
  ioctl_GET_NAMED_QUEUE :: "('w, snd_seq_queue_info) request"
  ioctl_GET_QUEUE_STATUS :: "('w, snd_seq_queue_status) request"
  ioctl_GET_QUEUE_TEMPO :: "('w, snd_seq_queue_tempo) request"
  ioctl_SET_QUEUE_TEMPO :: "('w, snd_seq_queue_tempo) request"
  ioctl_GET_QUEUE_TIMER :: "('w, snd_seq_queue_timer) request"
  ioctl_SET_QUEUE_TIMER :: "('w, snd_seq_queue_timer) request"
  ioctl_GET_QUEUE_CLIENT :: "('w, snd_seq_queue_client) request"
  ioctl_SET_QUEUE_CLIENT :: "('w, snd_seq_queue_client) request"
  ioctl_REMOVE_EVENTS :: "('w, snd_seq_remove_events) request"
  ioctl_QUERY_SUBS :: "('w, snd_seq_query_subs) request"

text \<open>New objects and local structures are zero filled.\<close>

definition zero_system_info :: snd_seq_system_info where
  "zero_system_info = \<lparr>si_queues = 0, si_clients = 0, si_ports = 0, si_channels = 0,
     si_cur_clients = 0, si_cur_queues = 0\<rparr>"

definition zero_client_pool :: snd_seq_client_pool where
  "zero_client_pool = \<lparr>cp_client = 0, cp_output_pool = 0, cp_input_pool = 0, cp_output_room = 0,
     cp_output_free = 0, cp_input_free = 0\<rparr>"

definition zero_queue_info :: snd_seq_queue_info where
  "zero_queue_info = \<lparr>qi_queue = 0, qi_owner = 0, qi_locked = False, qi_name = replicate 64 0\<rparr>"

section \<open>The device\<close>

definition alsaseq_get_seq_sysname :: "'w seq_sys \<Rightarrow> bytes outcome" where
  "alsaseq_get_seq_sysname sys =
     obind (lookup_and_allocate_seq_sysname (env_libc sys) (env_udev sys))
       (\<lambda>(err, sysname). if err < 0 then generate_file_error sys (- err)
          else (case sysname of None \<Rightarrow> Undefined | Some s \<Rightarrow> Ret s))"

definition alsaseq_get_seq_devnode :: "'w seq_sys \<Rightarrow> bytes outcome" where
  "alsaseq_get_seq_devnode sys =
     obind (lookup_and_allocate_seq_devname (env_libc sys) (env_udev sys))
       (\<lambda>(err, devnode). if err < 0 then generate_file_error sys (- err)
          else (case devnode of None \<Rightarrow> Undefined | Some s \<Rightarrow> Ret s))"

text \<open>
  The descriptor, when it is written, with the \<open>gboolean\<close> returned: minus one, which callers
  take for true, when the device is not found.
\<close>

definition open_fd :: "'w seq_sys \<Rightarrow> 'w \<Rightarrow> 'w \<times> (int option \<times> int \<times> gerror option) outcome" where
  "open_fd sys w =
     (case alsaseq_get_seq_devnode sys of
        Throw e \<Rightarrow> (w, Ret (None, -1, Some e))
      | Ret devname \<Rightarrow>
          (case sys_open sys w devname O_RDONLY of
             (w', SysErr e) \<Rightarrow> (w', Ret (Some (-1), 0, Some (GError G_FILE_ERROR (file_error sys e))))
           | (w', SysOk fd) \<Rightarrow> (w', Ret (Some fd, 1, None)))
      | _ \<Rightarrow> (w, Undefined))"

text \<open>How every query begins.\<close>

definition with_fd :: "'w seq_sys \<Rightarrow> 'w \<Rightarrow> ('w \<Rightarrow> int \<Rightarrow> 'w \<times> 'a outcome) \<Rightarrow> 'w \<times> 'a outcome" where
  "with_fd sys w body = with_opened (open_fd sys w) body"

section \<open>Queries for one structure\<close>

definition alsaseq_get_system_info :: "'w seq_sys \<Rightarrow> 'w \<Rightarrow> 'w \<times> snd_seq_system_info outcome" where
  "alsaseq_get_system_info sys w =
     with_fd sys w (\<lambda>w fd.
       case request_and_close sys (ioctl_SYSTEM_INFO sys) zero_system_info w fd of
         (w', r) \<Rightarrow> (w', obind r (\<lambda>info. Ret (info\<lparr>si_cur_clients := si_cur_clients info - 1\<rparr>))))"

definition alsaseq_get_client_info :: "'w seq_sys \<Rightarrow> 'w \<Rightarrow> u8 \<Rightarrow> 'w \<times> snd_seq_client_info outcome" where
  "alsaseq_get_client_info sys w client_id =
     with_fd sys w (request_and_close sys (ioctl_GET_CLIENT_INFO sys)
       (blank_client_info\<lparr>ci_client := ucast client_id\<rparr>))"

definition alsaseq_get_port_info :: "'w seq_sys \<Rightarrow> 'w \<Rightarrow> u8 \<Rightarrow> u8 \<Rightarrow> 'w \<times> snd_seq_port_info outcome" where
  "alsaseq_get_port_info sys w client_id port_id =
     with_fd sys w (request_and_close sys (ioctl_GET_PORT_INFO sys)
       (blank_port_info\<lparr>pi_addr := \<lparr>addr_client = client_id, addr_port = port_id\<rparr>\<rparr>))"

definition alsaseq_get_client_pool :: "'w seq_sys \<Rightarrow> 'w \<Rightarrow> u8 \<Rightarrow> 'w \<times> snd_seq_client_pool outcome" where
  "alsaseq_get_client_pool sys w client_id =
     with_fd sys w (request_and_close sys (ioctl_GET_CLIENT_POOL sys)
       (zero_client_pool\<lparr>cp_client := ucast client_id\<rparr>))"

definition alsaseq_get_queue_info_by_id :: "'w seq_sys \<Rightarrow> 'w \<Rightarrow> u8 \<Rightarrow> 'w \<times> snd_seq_queue_info outcome" where
  "alsaseq_get_queue_info_by_id sys w queue_id =
     with_fd sys w (request_and_close sys (ioctl_GET_QUEUE_INFO sys)
       (zero_queue_info\<lparr>qi_queue := ucast queue_id\<rparr>))"

definition alsaseq_get_queue_info_by_name ::
  "'w seq_sys \<Rightarrow> 'w \<Rightarrow> bytes option \<Rightarrow> 'w \<times> snd_seq_queue_info outcome" where
  "alsaseq_get_queue_info_by_name sys w name =
     with_fd sys w (request_and_close sys (ioctl_GET_NAMED_QUEUE sys)
       (zero_queue_info\<lparr>qi_name := copy_string (qi_name zero_queue_info) name\<rparr>))"

definition alsaseq_get_queue_status ::
  "'w seq_sys \<Rightarrow> 'w \<Rightarrow> u8 \<Rightarrow> snd_seq_queue_status \<Rightarrow> 'w \<times> snd_seq_queue_status outcome" where
  "alsaseq_get_queue_status sys w queue_id status =
     with_fd sys w (request_and_close sys (ioctl_GET_QUEUE_STATUS sys)
       (status\<lparr>qs_queue := ucast queue_id\<rparr>))"

section \<open>Lists\<close>

text \<open>
  An array of \<open>cnt\<close> elements filled from the front; what is not filled stays zero. The results
  are \<open>*entries\<close> and \<open>*entry_count\<close>, \<open>None\<close> when not written.
\<close>

definition padded :: "nat \<Rightarrow> u8 list \<Rightarrow> u8 list" where
  "padded cnt xs = xs @ replicate (cnt - length xs) 0"

text \<open>
  The loop over the clients ends when the array is full or the kernel reports an error; with a
  kernel that reported the own client again and again it would not.
\<close>

partial_function (option) query_clients ::
  "'w seq_sys \<Rightarrow> int \<Rightarrow> u32 \<Rightarrow> nat \<Rightarrow> 'w \<Rightarrow> snd_seq_client_info \<Rightarrow> u8 list \<Rightarrow>
     ('w \<times> u8 list outcome) option" where
  "query_clients sys fd my_id cnt w client_info list =
     (if length list < cnt
      then (case ioctl_QUERY_NEXT_CLIENT sys w fd client_info of
              (w', SysErr e) \<Rightarrow>
                Some (w', if e \<noteq> ENOENT then generate_file_error sys e else Ret list)
            | (w', SysOk client_info') \<Rightarrow>
                query_clients sys fd my_id cnt w' client_info'
                  (if ci_client client_info' \<noteq> my_id then list @ [ucast (ci_client client_info')] else list))
      else Some (w, Ret list))"

definition alsaseq_get_client_id_list ::
  "'w seq_sys \<Rightarrow> 'w \<Rightarrow> ('w \<times> (u8 list option \<times> nat option) outcome) option" where
  "alsaseq_get_client_id_list sys w =
     (case open_fd sys w of
        (w0, Ret (fd, result, err)) \<Rightarrow>
          if result = 0 then Some (w0, case err of Some e \<Rightarrow> Throw e | None \<Rightarrow> FalseUnset)
          else (case fd of None \<Rightarrow> Some (w0, Undefined) | Some fd \<Rightarrow>
            (case ioctl_CLIENT_ID sys w0 fd 0 of
               (w1, SysErr e) \<Rightarrow> Some (sys_close sys w1 fd, generate_file_error sys e)
             | (w1, SysOk my_id) \<Rightarrow>
                 (case ioctl_SYSTEM_INFO sys w1 fd zero_system_info of
                    (w2, SysErr e) \<Rightarrow> Some (sys_close sys w2 fd, generate_file_error sys e)
                  | (w2, SysOk info) \<Rightarrow>
                      let cnt = unat (si_cur_clients info - 1)
                      in if cnt = 0 then Some (sys_close sys w2 fd, Ret (None, Some 0))
                         else Option.bind (query_clients sys fd my_id cnt w2 (blank_client_info\<lparr>ci_client := -1\<rparr>) [])
                                (\<lambda>(w3, r). Some (sys_close sys w3 fd,
                                   obind r (\<lambda>list. Ret (Some (padded cnt list), Some cnt)))))))
      | (w0, _) \<Rightarrow> Some (w0, Undefined))"

fun query_ports ::
  "'w seq_sys \<Rightarrow> int \<Rightarrow> nat \<Rightarrow> 'w \<Rightarrow> snd_seq_port_info \<Rightarrow> u8 list \<Rightarrow> 'w \<times> u8 list outcome" where
  "query_ports sys fd 0 w port_info list = (w, Ret list)"
| "query_ports sys fd (Suc n) w port_info list =
     (case ioctl_QUERY_NEXT_PORT sys w fd port_info of
        (w', SysErr e) \<Rightarrow> (w', if e \<noteq> ENOENT then generate_file_error sys e else Ret list)
      | (w', SysOk port_info') \<Rightarrow>
          query_ports sys fd n w' port_info' (list @ [addr_port (pi_addr port_info')]))"

text \<open>After the loop the descriptor is closed, and closed again at the end.\<close>

definition alsaseq_get_port_id_list ::
  "'w seq_sys \<Rightarrow> 'w \<Rightarrow> u8 \<Rightarrow> 'w \<times> (u8 list \<times> nat) outcome" where
  "alsaseq_get_port_id_list sys w client_id =
     with_fd sys w (\<lambda>w fd.
       case ioctl_GET_CLIENT_INFO sys w fd (blank_client_info\<lparr>ci_client := ucast client_id\<rparr>) of
         (w1, SysErr e) \<Rightarrow> (sys_close sys w1 fd, generate_file_error sys e)
       | (w1, SysOk client_info) \<Rightarrow>
           let cnt = unat (ci_num_ports client_info)
           in (case query_ports sys fd cnt w1
                      (blank_port_info\<lparr>pi_addr := \<lparr>addr_client = client_id, addr_port = -1\<rparr>\<rparr>) [] of
                 (w2, r) \<Rightarrow> (sys_close sys (sys_close sys w2 fd) fd,
                            obind r (\<lambda>list. Ret (padded cnt list, cnt)))))"

text \<open>The structure of each request is uninitialised but for the number of the queue.\<close>

fun probe_queues ::
  "'w seq_sys \<Rightarrow> (nat \<Rightarrow> snd_seq_queue_info) \<Rightarrow> int \<Rightarrow> nat \<Rightarrow> nat \<Rightarrow> nat \<Rightarrow> 'w \<Rightarrow> u8 list \<Rightarrow> 'w \<times> u8 list" where
  "probe_queues sys junk fd cnt i 0 w list = (w, list)"
| "probe_queues sys junk fd cnt i (Suc n) w list =
     (case ioctl_GET_QUEUE_INFO sys w fd ((junk i)\<lparr>qi_queue := of_nat i\<rparr>) of
        (w', SysErr e) \<Rightarrow> probe_queues sys junk fd cnt (Suc i) n w' list
      | (w', SysOk _) \<Rightarrow>
          if cnt \<le> length (list @ [of_nat i]) then (w', list @ [of_nat i])
          else probe_queues sys junk fd cnt (Suc i) n w' (list @ [of_nat i]))"

definition alsaseq_get_queue_id_list ::
  "'w seq_sys \<Rightarrow> (nat \<Rightarrow> snd_seq_queue_info) \<Rightarrow> 'w \<Rightarrow> 'w \<times> (u8 list option \<times> nat option) outcome" where
  "alsaseq_get_queue_id_list sys junk w =
     with_fd sys w (\<lambda>w fd.
       case ioctl_SYSTEM_INFO sys w fd zero_system_info of
         (w1, SysErr e) \<Rightarrow> (sys_close sys w1 fd, generate_file_error sys e)
       | (w1, SysOk info) \<Rightarrow>
           let maximum_count = unat (si_queues info); cnt = unat (si_cur_queues info)
           in if cnt = 0 then (sys_close sys w1 fd, Ret (None, None))
              else (case probe_queues sys junk fd cnt 0 maximum_count w1 [] of
                      (w2, list) \<Rightarrow> (sys_close sys w2 fd, Ret (Some (padded cnt list), Some cnt))))"

section \<open>Subscriptions\<close>

abbreviation (input) SNDRV_SEQ_QUERY_SUBS_READ :: u32 where "SNDRV_SEQ_QUERY_SUBS_READ \<equiv> 0"

definition zero_addr :: snd_seq_addr where
  "zero_addr = \<lparr>addr_client = 0, addr_port = 0\<rparr>"

definition zero_subscribe :: snd_seq_port_subscribe where
  "zero_subscribe = \<lparr>sd_sender = zero_addr, sd_dest = zero_addr, sd_voices = 0, sd_flags = 0, sd_queue = 0\<rparr>"

definition fill_data_with_result :: "snd_seq_port_subscribe \<Rightarrow> snd_seq_query_subs \<Rightarrow> snd_seq_port_subscribe" where
  "fill_data_with_result data query =
     (let data1 = (if qu_type query = SNDRV_SEQ_QUERY_SUBS_READ
                   then data\<lparr>sd_sender := qu_root query, sd_dest := qu_addr query\<rparr>
                   else data\<lparr>sd_sender := qu_addr query, sd_dest := qu_root query\<rparr>)
      in data1\<lparr>sd_queue := qu_queue query, sd_flags := qu_flags query\<rparr>)"

text \<open>
  The loop appends the subscription found and asks for the next one, also after the last one. The
  variable for the result is set when a request fails and never otherwise, so that the loop
  has a result only when it breaks; \<open>None\<close> is the variable that was not written.
\<close>

fun query_subscriptions ::
  "'w seq_sys \<Rightarrow> int \<Rightarrow> nat \<Rightarrow> 'w \<Rightarrow> snd_seq_query_subs \<Rightarrow> snd_seq_port_subscribe list \<Rightarrow>
     'w \<times> snd_seq_port_subscribe list \<times> errno option" where
  "query_subscriptions sys fd 0 w query entries = (w, entries, None)"
| "query_subscriptions sys fd (Suc n) w query entries =
     (let entries1 = entries @ [fill_data_with_result zero_subscribe query];
          query1 = query\<lparr>qu_index := qu_index query + 1\<rparr>
      in case ioctl_QUERY_SUBS sys w fd query1 of
           (w', SysErr e) \<Rightarrow> (w', entries1, Some e)
         | (w', SysOk query2) \<Rightarrow> query_subscriptions sys fd n w' query2 entries1)"

text \<open>
  The address is handed to \<open>g_object_get\<close>, which expects an object: what it leaves in the structure for
  the request is an argument. The entries are \<open>None\<close> once they have been released.
\<close>

definition failed_query :: "'w seq_sys \<Rightarrow> errno \<Rightarrow> unit outcome" where
  "failed_query sys e = (if e \<noteq> ENOENT then generate_file_error sys e else FalseUnset)"

definition alsaseq_get_subscription_list ::
  "'w seq_sys \<Rightarrow> (snd_seq_addr \<Rightarrow> snd_seq_addr) \<Rightarrow> 'w \<Rightarrow> snd_seq_addr \<Rightarrow> u32 \<Rightarrow> snd_seq_port_subscribe list \<Rightarrow>
     'w \<times> (snd_seq_port_subscribe list option \<times> unit outcome) outcome" where
  "alsaseq_get_subscription_list sys g_object_get w addr query_type entries =
     with_fd sys w (\<lambda>w1 fd.
       let query = \<lparr>qu_root = g_object_get addr, qu_type = query_type, qu_index = 0, qu_num_subs = 0,
             qu_addr = zero_addr, qu_queue = 0, qu_flags = 0\<rparr>
       in case ioctl_QUERY_SUBS sys w1 fd query of
            (w2, SysErr e) \<Rightarrow> (sys_close sys w2 fd, Ret (Some entries, failed_query sys e))
          | (w2, SysOk query1) \<Rightarrow>
              (case query_subscriptions sys fd (unat (qu_num_subs query1)) w2 query1 entries of
                 (w3, _, Some e) \<Rightarrow> (sys_close sys w3 fd, Ret (None, failed_query sys e))
               | (w3, _, None) \<Rightarrow> (w3, Undefined)))"

section \<open>Properties of the queries\<close>

lemma open_fd_ok:
  assumes "alsaseq_get_seq_devnode sys = Ret devnode" "sys_open sys w devnode O_RDONLY = (w', SysOk fd)"
  shows "open_fd sys w = (w', Ret (Some fd, 1, None))"
  using assms by (simp add: open_fd_def)

lemma with_fd_ok:
  assumes "alsaseq_get_seq_devnode sys = Ret devnode" "sys_open sys w devnode O_RDONLY = (w', SysOk fd)"
  shows "with_fd sys w body = body w' fd"
  by (simp add: with_fd_def with_opened_def open_fd_ok [OF assms])

lemma with_fd_no_device:
  "alsaseq_get_seq_devnode sys = Throw e \<Longrightarrow> with_fd sys w body = (w, Undefined)"
  by (simp add: with_fd_def with_opened_def open_fd_def)

text \<open>
  C23: when the device node of the sequencer cannot be found, \<open>open_fd\<close> returns minus one, which
  its callers take for success: each of the eleven queries that open the device goes on with a descriptor that was never written.
\<close>

theorem queries_without_device_undefined:
  assumes "alsaseq_get_seq_devnode sys = Throw e"
  shows "snd (alsaseq_get_system_info sys w) = Undefined \<and>
    snd (alsaseq_get_client_info sys w c) = Undefined \<and>
    snd (alsaseq_get_port_info sys w c p) = Undefined \<and>
    snd (alsaseq_get_client_pool sys w c) = Undefined \<and>
    snd (alsaseq_get_queue_info_by_id sys w q) = Undefined \<and>
    snd (alsaseq_get_port_id_list sys w c) = Undefined \<and>
    snd (alsaseq_get_queue_id_list sys junk w) = Undefined \<and>
    alsaseq_get_client_id_list sys w = Some (w, Undefined) \<and>
    snd (alsaseq_get_queue_info_by_name sys w name) = Undefined \<and>
    snd (alsaseq_get_queue_status sys w q status) = Undefined \<and>
    snd (alsaseq_get_subscription_list sys g_object_get w addr query_type entries) = Undefined"
  using assms
  by (simp add: with_fd_no_device alsaseq_get_system_info_def alsaseq_get_client_info_def
      alsaseq_get_port_info_def alsaseq_get_client_pool_def alsaseq_get_queue_info_by_id_def
      alsaseq_get_port_id_list_def alsaseq_get_queue_id_list_def alsaseq_get_client_id_list_def
      alsaseq_get_queue_info_by_name_def alsaseq_get_queue_status_def alsaseq_get_subscription_list_def open_fd_def)

text \<open>
  With the device open, a query for one structure issues its request once on the descriptor
  opened, closes that descriptor once, and returns the structure the kernel wrote or the error
  number of the request as a file error. The system information counts the own connection out.
\<close>

theorem query_closes_descriptor:
  assumes "alsaseq_get_seq_devnode sys = Ret devnode" "sys_open sys w devnode O_RDONLY = (w1, SysOk fd)"
  shows "alsaseq_get_client_info sys w c =
      (case ioctl_GET_CLIENT_INFO sys w1 fd (blank_client_info\<lparr>ci_client := ucast c\<rparr>) of
         (w2, SysOk info) \<Rightarrow> (sys_close sys w2 fd, Ret info)
       | (w2, SysErr e) \<Rightarrow> (sys_close sys w2 fd, Throw (GError G_FILE_ERROR (file_error sys e)))) \<and>
    alsaseq_get_system_info sys w =
      (case ioctl_SYSTEM_INFO sys w1 fd zero_system_info of
         (w2, SysOk info) \<Rightarrow> (sys_close sys w2 fd, Ret (info\<lparr>si_cur_clients := si_cur_clients info - 1\<rparr>))
       | (w2, SysErr e) \<Rightarrow> (sys_close sys w2 fd, Throw (GError G_FILE_ERROR (file_error sys e))))"
  by (simp add: alsaseq_get_client_info_def alsaseq_get_system_info_def with_fd_ok [OF assms]
      request_and_close_def generate_file_error_def split: prod.splits sysret.splits)

text \<open>The kernel has the subscriptions \<open>subs\<close> of the address and answers by index.\<close>

definition answers_subscriptions :: "'w seq_sys \<Rightarrow> int \<Rightarrow> snd_seq_query_subs list \<Rightarrow> bool" where
  "answers_subscriptions sys fd subs \<longleftrightarrow>
     (\<forall>w query. ioctl_QUERY_SUBS sys w fd query =
        (w, if unat (qu_index query) < length subs
            then SysOk ((subs ! unat (qu_index query))\<lparr>qu_index := qu_index query, qu_num_subs := of_nat (length subs)\<rparr>)
            else SysErr ENOENT))"

lemma query_subscriptions_end:
  assumes "answers_subscriptions sys fd subs" "length subs < 2 ^ 31"
    and "unat (qu_index query) + n = length subs" "0 < n"
  shows "\<exists>entries'. query_subscriptions sys fd n w query entries = (w, entries', Some ENOENT)"
  using assms(3,4)
proof (induction n arbitrary: query entries)
  case (Suc n)
  let ?q = "query\<lparr>qu_index := qu_index query + 1\<rparr>"
  have idx: "unat (qu_index query + 1) = unat (qu_index query) + 1"
    using Suc.prems assms(2) unat_plus_if' [of "qu_index query" 1] by simp
  show ?case
  proof (cases n)
    case 0
    then have "ioctl_QUERY_SUBS sys w fd ?q = (w, SysErr ENOENT)"
      using assms(1) idx Suc.prems by (simp add: answers_subscriptions_def)
    then show ?thesis by simp
  next
    case (Suc m)
    then obtain query2 where "ioctl_QUERY_SUBS sys w fd ?q = (w, SysOk query2)" "qu_index query2 = qu_index query + 1"
      using assms(1) idx Suc.prems by (simp add: answers_subscriptions_def)
    then show ?thesis using Suc.IH [of query2 "entries @ [fill_data_with_result zero_subscribe query]"] Suc.prems Suc idx by simp
  qed
qed simp

text \<open>
  C20: the list of subscriptions is never returned. Whatever the kernel and \<open>g_object_get\<close> do, the call does not
  succeed: it fails, or it tests a result that was never written. With a kernel that has some
  subscriptions of the address it fails without an error after the last one, and releases the list.
\<close>

theorem subscription_list_never_returned:
  "snd (alsaseq_get_subscription_list sys g_object_get w addr query_type entries) \<noteq> Ret (entries', Ret ()) \<and>
   (alsaseq_get_seq_devnode sys = Ret devnode \<and> sys_open sys w devnode O_RDONLY = (w1, SysOk fd) \<and>
    answers_subscriptions sys fd subs \<and> subs \<noteq> [] \<and> length subs < 2 ^ 31 \<longrightarrow>
      alsaseq_get_subscription_list sys g_object_get w addr query_type entries =
        (sys_close sys w1 fd, Ret (None, FalseUnset)))"
proof (intro conjI impI, goal_cases)
  case 1
  show ?case
    by (auto simp: alsaseq_get_subscription_list_def with_fd_def with_opened_def failed_query_def generate_file_error_def Let_def
        split: prod.splits outcome.splits option.splits sysret.splits if_splits)
next
  case 2
  let ?q = "\<lparr>qu_root = g_object_get addr, qu_type = query_type, qu_index = 0, qu_num_subs = 0,
    qu_addr = zero_addr, qu_queue = 0, qu_flags = 0\<rparr>"
  from 2 obtain query1 where q1: "ioctl_QUERY_SUBS sys w1 fd ?q = (w1, SysOk query1)" "qu_index query1 = 0"
      "unat (qu_num_subs query1) = length subs"
    by (auto simp: answers_subscriptions_def unat_of_nat)
  then obtain entries' where
      "query_subscriptions sys fd (length subs) w1 query1 entries = (w1, entries', Some ENOENT)"
    using query_subscriptions_end [of sys fd subs query1 "length subs" w1 entries] 2 by auto
  with q1 2 show ?case
    by (auto simp: alsaseq_get_subscription_list_def with_fd_ok failed_query_def)
qed

section \<open>The list of queues\<close>

text \<open>The kernel knows the queues \<open>Q\<close>, and asking for one changes nothing.\<close>

definition answers_queues :: "'w seq_sys \<Rightarrow> int \<Rightarrow> (nat \<Rightarrow> bool) \<Rightarrow> bool" where
  "answers_queues sys fd Q \<longleftrightarrow>
     (\<forall>w info. fst (ioctl_GET_QUEUE_INFO sys w fd info) = w \<and>
        ((\<exists>x. snd (ioctl_GET_QUEUE_INFO sys w fd info) = SysOk x) \<longleftrightarrow> Q (unat (qi_queue info))))"

lemma ask_queue:
  assumes "answers_queues sys fd Q"
  shows "Q (unat (qi_queue info)) \<Longrightarrow> \<exists>x. ioctl_GET_QUEUE_INFO sys w fd info = (w, SysOk x)"
    and "\<not> Q (unat (qi_queue info)) \<Longrightarrow> \<exists>e. ioctl_GET_QUEUE_INFO sys w fd info = (w, SysErr e)"
proof -
  obtain w' res where eq: "ioctl_GET_QUEUE_INFO sys w fd info = (w', res)" by fastforce
  have "w' = w \<and> ((\<exists>x. res = SysOk x) \<longleftrightarrow> Q (unat (qi_queue info)))"
    using assms eq by (metis answers_queues_def fst_conv snd_conv)
  then show "Q (unat (qi_queue info)) \<Longrightarrow> \<exists>x. ioctl_GET_QUEUE_INFO sys w fd info = (w, SysOk x)"
    "\<not> Q (unat (qi_queue info)) \<Longrightarrow> \<exists>e. ioctl_GET_QUEUE_INFO sys w fd info = (w, SysErr e)"
    using eq by (cases res; auto)+
qed

lemma probe_queues_complete:
  assumes "answers_queues sys fd Q" "i + n < 2 ^ 32"
    and "cnt = length list + length (filter Q [i..<i + n])"
  shows "probe_queues sys junk fd cnt i n w list = (w, list @ map of_nat (filter Q [i..<i + n]))"
  using assms(2,3)
proof (induction n arbitrary: i list)
  case (Suc n)
  let ?ask = "ioctl_GET_QUEUE_INFO sys w fd ((junk i)\<lparr>qi_queue := of_nat i\<rparr>)"
  have i: "unat (of_nat i :: u32) = i" using Suc.prems(1) by (simp add: unat_of_nat)
  have upt: "[i..<Suc (i + n)] = i # [Suc i..<Suc (i + n)]" by (simp add: upt_rec)
  show ?case
  proof (cases "Q i")
    case True
    with i obtain x where "?ask = (w, SysOk x)"
      using ask_queue(1) [OF assms(1), of "(junk i)\<lparr>qi_queue := of_nat i\<rparr>" w] by auto
    with True Suc.IH [of "Suc i" "list @ [of_nat i]"] Suc.prems show ?thesis
      by (auto simp: upt simp del: upt_Suc)
  next
    case False
    with i obtain e where "?ask = (w, SysErr e)"
      using ask_queue(2) [OF assms(1), of "(junk i)\<lparr>qi_queue := of_nat i\<rparr>" w] by auto
    with False Suc.IH [of "Suc i" list] Suc.prems show ?thesis
      by (simp add: upt del: upt_Suc)
  qed
qed simp

text \<open>
  C13: when the kernel reports as many queues as it answers for, the list of queue identifiers is
  the increasing list of all of them. Without any queue the call succeeds and writes neither the
  list nor its length.
\<close>

theorem queue_id_list_complete:
  assumes "alsaseq_get_seq_devnode sys = Ret devnode" "sys_open sys w devnode O_RDONLY = (w1, SysOk fd)"
    and "ioctl_SYSTEM_INFO sys w1 fd zero_system_info = (w2, SysOk info)"
    and "answers_queues sys fd Q" "queues = filter Q [0..<unat (si_queues info)]"
    and "unat (si_cur_queues info) = length queues"
  shows "alsaseq_get_queue_id_list sys junk w =
    (sys_close sys w2 fd,
     Ret (if queues = [] then (None, None) else (Some (map of_nat queues), Some (length queues))))"
proof -
  have "unat (si_queues info) < 2 ^ 32" using unsigned_less [of "si_queues info", where ?'a = nat] by simp
  then have "probe_queues sys junk fd (length queues) 0 (unat (si_queues info)) w2 []
      = (w2, map of_nat queues)"
    using probe_queues_complete [OF assms(4), of 0 "unat (si_queues info)" "length queues" "[]"] assms(5)
    by simp
  then show ?thesis
    by (simp add: alsaseq_get_queue_id_list_def with_fd_ok [OF assms(1,2)] assms(3,6) Let_def padded_def)
qed

section \<open>The list of clients\<close>

text \<open>
  The kernel walks through the clients \<open>cs\<close>: asked with a client, it fills in the information of the next one, of which
  the walk reads the number alone, and it refuses when there is none.
\<close>

definition enumerates_clients :: "'w seq_sys \<Rightarrow> int \<Rightarrow> nat list \<Rightarrow> bool" where
  "enumerates_clients sys fd cs \<longleftrightarrow>
     (\<forall>w info i. i \<le> length cs \<and> ci_client info = (if i = 0 then -1 else of_nat (cs ! (i - 1))) \<longrightarrow>
        (if i < length cs
         then \<exists>info'. ioctl_QUERY_NEXT_CLIENT sys w fd info = (w, SysOk info') \<and> ci_client info' = of_nat (cs ! i)
         else ioctl_QUERY_NEXT_CLIENT sys w fd info = (w, SysErr ENOENT)))"

lemma query_clients_complete:
  assumes "enumerates_clients sys fd cs" "\<forall>c\<in>set cs. c < 256" "my < 256"
    and "i \<le> length cs" "ci_client info = (if i = 0 then -1 else of_nat (cs ! (i - 1)))"
    and "cnt = length list + length (filter (\<lambda>c. c \<noteq> my) (drop i cs))"
  shows "query_clients sys fd (of_nat my) cnt w info list =
    Some (w, Ret (list @ map of_nat (filter (\<lambda>c. c \<noteq> my) (drop i cs))))"
  using assms(4-6)
proof (induction "length cs - i" arbitrary: i info list)
  case 0
  then show ?case by (subst query_clients.simps) simp
next
  case (Suc n)
  then have i: "i < length cs" by simp
  let ?c = "cs ! i"
  have drop: "drop i cs = ?c # drop (Suc i) cs" using i by (simp add: Cons_nth_drop_Suc)
  have c: "?c < 256" using assms(2) i by simp
  have ne: "(of_nat ?c :: u32) = of_nat my \<longleftrightarrow> ?c = my"
    using c assms(3) by (simp add: word_unat_eq_iff unat_of_nat)
  have trunc: "(ucast (of_nat ?c :: u32) :: u8) = of_nat ?c" 
    using c by (simp add: word_unat_eq_iff unsigned_ucast_eq unsigned_of_nat take_bit_eq_mod)
  obtain info' where step: "ioctl_QUERY_NEXT_CLIENT sys w fd info = (w, SysOk info')" "ci_client info' = of_nat ?c"
    using assms(1) [unfolded enumerates_clients_def, rule_format, of i info w] Suc.prems i by auto
  show ?case
  proof (cases "length list < cnt")
    case True
    with Suc.hyps(1) [of "Suc i" info' "if ?c \<noteq> my then list @ [of_nat ?c] else list"] Suc.hyps(2) Suc.prems i step ne trunc drop
    show ?thesis by (subst query_clients.simps) auto
  next
    case False
    with Suc.prems have "filter (\<lambda>c. c \<noteq> my) (drop i cs) = []" by simp
    with False show ?thesis by (subst query_clients.simps) simp
  qed
qed

text \<open>
  C12: the list of client identifiers is complete. With a kernel that walks through the clients
  \<open>cs\<close>, whatever information it fills in besides their numbers, this connection being one of them, the call returns, and the list holds every other
  client, in the order of the kernel.
\<close>

theorem client_id_list_complete:
  assumes "alsaseq_get_seq_devnode sys = Ret devnode" "sys_open sys w devnode O_RDONLY = (w1, SysOk fd)"
    and "ioctl_CLIENT_ID sys w1 fd 0 = (w2, SysOk (of_nat my))"
    and "ioctl_SYSTEM_INFO sys w2 fd zero_system_info = (w3, SysOk info)"
    and "enumerates_clients sys fd cs" "distinct cs" "my \<in> set cs" "\<forall>c\<in>set cs. c < 256"
    and "si_cur_clients info = of_nat (length cs)"
    and "others = filter (\<lambda>c. c \<noteq> my) cs" "others \<noteq> []"
  shows "alsaseq_get_client_id_list sys w =
    Some (sys_close sys w3 fd, Ret (Some (map of_nat others), Some (length others)))"
proof -
  have "others = remove1 my cs"
    using assms(6,10) by (simp add: distinct_remove1_removeAll removeAll_filter_not_eq eq_commute)
  then have len: "length others = length cs - 1" using assms(7) by (simp add: length_remove1)
  have "length cs \<le> 256"
    using assms(6,8) card_mono [of "{..<256}" "set cs"] distinct_card [of cs] by auto
  moreover have "cs \<noteq> []" using assms(7) by auto
  ultimately have bounds: "1 \<le> length cs" "length cs \<le> 256" by (cases cs; simp)+
  then have eq: "(of_nat (length cs) - 1 :: u32) = of_nat (length others)" by (simp add: len of_nat_diff)
  have "length others < 2 ^ 32" using bounds len by simp
  then have "unat (of_nat (length others) :: u32) = length others" by (simp add: unat_of_nat)
  then have cnt: "unat (si_cur_clients info - 1) = length others" by (simp only: assms(9) eq)
  have "query_clients sys fd (of_nat my) (length others) w3 (blank_client_info\<lparr>ci_client := -1\<rparr>) [] =
      Some (w3, Ret (map of_nat others))"
    using query_clients_complete [OF assms(5,8), of my 0 "blank_client_info\<lparr>ci_client := -1\<rparr>"
        "length others" "[]" w3] assms(7,8,10) by simp
  then show ?thesis
    using assms(1-4,11) cnt
    by (simp add: alsaseq_get_client_id_list_def open_fd_def Let_def padded_def)
qed

section \<open>A small machine\<close>

text \<open>
  A kernel with the clients 0, 14 and 128, where this connection is 128, and the queues 0 and 2.
\<close>

definition seq_device :: udev_device where
  "seq_device = \<lparr>udev_device_get_sysname = SysOk (ascii ''seq''),
     udev_device_get_devnode = SysOk (ascii ''/dev/snd/seq''), udev_device_get_sysnum = None\<rparr>"

definition small_udev :: "bool \<Rightarrow> udev" where
  "small_udev present = udev_with (if present then Some seq_device else None)"

definition small_client :: "u32 \<Rightarrow> string \<Rightarrow> snd_seq_client_info" where
  "small_client client name =
     blank_client_info\<lparr>ci_client := client, ci_type := 1, ci_name := ascii name @ replicate (64 - length name) 0, ci_num_ports := 1\<rparr>"

definition next_small_client :: "(int list, snd_seq_client_info) request" where
  "next_small_client w fd info =
     (w, if ci_client info = -1 then SysOk (small_client 0 ''System'')
         else if ci_client info = 0 then SysOk (small_client 14 ''Midi Through'')
         else if ci_client info = 14 then SysOk (small_client 128 ''Client-128'')
         else SysErr ENOENT)"

definition small_subs :: "(int list, snd_seq_query_subs) request" where
  "small_subs w fd query =
     (w, if qu_index query = 0
         then SysOk \<lparr>qu_root = \<lparr>addr_client = 128, addr_port = 0\<rparr>, qu_type = 0, qu_index = 0, qu_num_subs = 1,
           qu_addr = \<lparr>addr_client = 14, addr_port = 0\<rparr>, qu_queue = 0, qu_flags = 0\<rparr>
         else SysErr ENOENT)"

definition small_seq :: "bool \<Rightarrow> int list seq_sys" where
  "small_seq present =
     \<lparr>sys_open = (\<lambda>w d f. (w, SysOk 7)), sys_close = (\<lambda>w fd. fd # w),
      sys_read = (\<lambda>w fd n. (w, SysErr EAGAIN)), sys_write = (\<lambda>w fd bs. (w, SysOk (length bs))),
      file_error = (\<lambda>e. if e = EACCES then 2 else if e = ENOENT then 4 else G_FILE_ERROR_FAILED),
      env_libc = plain_libc, env_udev = small_udev present,
      ioctl_PVERSION = (\<lambda>w fd d. (w, SysOk 0x010002)),
      ioctl_CLIENT_ID = (\<lambda>w fd d. (w, SysOk 128)),
      ioctl_SYSTEM_INFO = (\<lambda>w fd d. (w, SysOk (d\<lparr>si_queues := 4, si_cur_clients := 3, si_cur_queues := 2\<rparr>))),
      ioctl_GET_CLIENT_INFO = (\<lambda>w fd d. (w, SysOk d)), ioctl_SET_CLIENT_INFO = (\<lambda>w fd d. (w, SysOk d)),
      ioctl_QUERY_NEXT_CLIENT = next_small_client,
      ioctl_CREATE_PORT = (\<lambda>w fd d. (w, SysOk d)), ioctl_DELETE_PORT = refuse,
      ioctl_GET_PORT_INFO = refuse, ioctl_SET_PORT_INFO = refuse, ioctl_QUERY_NEXT_PORT = refuse,
      ioctl_SUBSCRIBE_PORT = (\<lambda>w fd d. (w, SysErr EPERM)), ioctl_UNSUBSCRIBE_PORT = refuse,
      ioctl_GET_CLIENT_POOL = refuse, ioctl_SET_CLIENT_POOL = refuse, ioctl_CREATE_QUEUE = refuse,
      ioctl_DELETE_QUEUE = refuse,
      ioctl_GET_QUEUE_INFO = (\<lambda>w fd d. (w, if qi_queue d = 0 \<or> qi_queue d = 2 then SysOk d else SysErr EINVAL)),
      ioctl_SET_QUEUE_INFO = refuse, ioctl_GET_NAMED_QUEUE = refuse, ioctl_GET_QUEUE_STATUS = refuse,
      ioctl_GET_QUEUE_TEMPO = refuse, ioctl_SET_QUEUE_TEMPO = refuse, ioctl_GET_QUEUE_TIMER = refuse,
      ioctl_SET_QUEUE_TIMER = refuse, ioctl_GET_QUEUE_CLIENT = refuse, ioctl_SET_QUEUE_CLIENT = refuse,
      ioctl_REMOVE_EVENTS = refuse, ioctl_QUERY_SUBS = small_subs\<rparr>"

lemma small_seq_device:
  "alsaseq_get_seq_devnode (small_seq True) = Ret (ascii ''/dev/snd/seq'')"
  "alsaseq_get_seq_devnode (small_seq False) = Throw (GError G_FILE_ERROR G_FILE_ERROR_FAILED)"
  by (simp_all add: alsaseq_get_seq_devnode_def lookup_and_allocate_seq_devname_def
      lookup_and_allocate_devname_by_sysname_def lookup_and_allocate_name_by_sysname_def
      lookup_and_allocate_string_by_sysname_def allocate_string_def plain_libc_def small_seq_def
      small_udev_def udev_with_def seq_device_def generate_file_error_def Let_def)

lemma small_seq_simps:
  "sys_open (small_seq b) w d f = (w, SysOk 7)" "sys_close (small_seq b) w fd = fd # w"
  "ioctl_CLIENT_ID (small_seq b) w fd x = (w, SysOk 128)"
  "ioctl_SYSTEM_INFO (small_seq b) w fd si =
     (w, SysOk (si\<lparr>si_queues := 4, si_cur_clients := 3, si_cur_queues := 2\<rparr>))"
  "ioctl_GET_CLIENT_INFO (small_seq b) w fd ci = (w, SysOk ci)"
  "ioctl_QUERY_NEXT_CLIENT (small_seq b) = next_small_client"
  "ioctl_GET_QUEUE_INFO (small_seq b) w fd qi =
     (w, if qi_queue qi = 0 \<or> qi_queue qi = 2 then SysOk qi else SysErr EINVAL)"
  "sys_write (small_seq b) w fd bs = (w, SysOk (length bs))"
  "ioctl_PVERSION (small_seq b) w fd x = (w, SysOk 0x010002)"
  "ioctl_SUBSCRIBE_PORT (small_seq b) w fd sd = (w, SysErr EPERM)"
  "ioctl_SET_QUEUE_TEMPO (small_seq b) w fd qt = (w, SysErr EINVAL)"
  "ioctl_SET_QUEUE_INFO (small_seq b) w fd qi = (w, SysErr EINVAL)"
  "file_error (small_seq b) e = (if e = EACCES then 2 else if e = ENOENT then 4 else G_FILE_ERROR_FAILED)"
  by (simp_all add: small_seq_def refuse_def)

lemma small_seq_clients: "enumerates_clients (small_seq b) 7 [0, 14, 128]"
  unfolding enumerates_clients_def
proof (intro allI impI, elim conjE)
  fix w :: "int list" and info :: snd_seq_client_info and i :: nat
  assume "i \<le> length [0, 14, 128 :: nat]"
    and info: "ci_client info = (if i = 0 then - 1 else of_nat ([0, 14, 128] ! (i - 1)))"
  then have "i = 0 \<or> i = 1 \<or> i = 2 \<or> i = 3" by auto
  with info show "if i < length [0, 14, 128 :: nat]
      then \<exists>info'. ioctl_QUERY_NEXT_CLIENT (small_seq b) w 7 info = (w, SysOk info') \<and> ci_client info' = of_nat ([0, 14, 128] ! i)
      else ioctl_QUERY_NEXT_CLIENT (small_seq b) w 7 info = (w, SysErr ENOENT)"
    by (auto simp: small_seq_simps next_small_client_def small_client_def)
qed

lemma small_seq_queues: "answers_queues (small_seq b) 7 (\<lambda>i. i = 0 \<or> i = 2)"
  by (simp add: answers_queues_def small_seq_simps word_unat_eq_iff)

theorem queries_without_device_undefined_witness:
  "snd (alsaseq_get_system_info (small_seq False) []) = Undefined"
  using queries_without_device_undefined [OF small_seq_device(2), of "[]" 0 0 0 "\<lambda>_. zero_queue_info"]
  by (rule conjunct1)

theorem query_closes_descriptor_witness:
  "alsaseq_get_client_info (small_seq True) [] 14 = ([7], Ret (blank_client_info\<lparr>ci_client := 14\<rparr>))"
  using query_closes_descriptor [of "small_seq True" "ascii ''/dev/snd/seq''" "[]" "[]" 7 14]
  by (simp add: small_seq_device small_seq_simps)

theorem subscription_list_never_returned_witness:
  "alsaseq_get_subscription_list (small_seq True) (\<lambda>a. a) [] \<lparr>addr_client = 128, addr_port = 0\<rparr> 0 [] = ([7], Ret (None, FalseUnset))"
proof -
  define sub where "sub = \<lparr>qu_root = \<lparr>addr_client = 128, addr_port = 0\<rparr>, qu_type = 0, qu_index = 0, qu_num_subs = 0,
    qu_addr = \<lparr>addr_client = 14, addr_port = 0\<rparr>, qu_queue = 0, qu_flags = 0\<rparr>"
  have "answers_subscriptions (small_seq True) 7 [sub]"
    by (simp add: answers_subscriptions_def small_seq_def small_subs_def sub_def unat_eq_0)
  then show ?thesis
    using subscription_list_never_returned [of "small_seq True" "\<lambda>a. a" "[]" "\<lparr>addr_client = 128, addr_port = 0\<rparr>" 0 "[]"
        None "ascii ''/dev/snd/seq''" "[]" 7 "[sub]"]
    by (simp add: small_seq_device small_seq_simps)
qed

theorem queue_id_list_complete_witness:
  "alsaseq_get_queue_id_list (small_seq True) (\<lambda>_. zero_queue_info) [] = ([7], Ret (Some [0, 2], Some 2))"
proof -
  have "[0..<4] = [0, 1, 2, 3 :: nat]" by (simp add: upt_rec)
  then show ?thesis
    using queue_id_list_complete [OF small_seq_device(1) small_seq_simps(1) small_seq_simps(4)
        small_seq_queues refl, where w = "[]" and junk = "\<lambda>_. zero_queue_info"]
    by (simp add: small_seq_simps)
qed

theorem client_id_list_complete_witness:
  "alsaseq_get_client_id_list (small_seq True) [] = Some ([7], Ret (Some [0, 14], Some 2))"
proof -
  have my: "ioctl_CLIENT_ID (small_seq True) [] 7 0 = ([], SysOk (of_nat 128))"
    by (simp add: small_seq_simps)
  show ?thesis
    using client_id_list_complete [OF small_seq_device(1) small_seq_simps(1) my small_seq_simps(4)
        small_seq_clients _ _ _ _ refl]
    by (simp add: small_seq_simps)
qed

end
