(* ===== verification/Seq_Event.thy ===== *)
theory Seq_Event
  imports Seq_Event_Data
begin

text \<open>
  The sequencer event of \<open>seq/event.c\<close>. An event object is the 28 byte structure
  \<open>snd_seq_event\<close>, a record whose 12 byte data union is a 96 bit word read and written
  through byte views; the blob of an event of variable length is a heap block at the address
  kept in the union. Operations that release or allocate a blob take the heap, the ones that
  compare addresses take the address of the structure too. \<open>NULL\<close> and type checks of the
  instance and of out-parameters are enforced by the types of the model. The structure itself is a value:
  that it is allocated and released with the object is left out, and so is the abort when there is no memory for it.
\<close>

section \<open>The structure\<close>

text \<open>The time stamp is a union of a tick count and of seconds and nanoseconds.\<close>

record snd_seq_timestamp =
  ts_sec :: u32
  ts_nsec :: u32

record snd_seq_event =
  ev_type :: u8
  ev_flags :: u8
  ev_tag :: u8
  ev_queue :: u8
  ev_time :: snd_seq_timestamp
  ev_source :: snd_seq_addr
  ev_dest :: snd_seq_addr
  ev_data :: "96 word"

abbreviation (input) event_size :: nat where "event_size \<equiv> 28"

abbreviation (input) SNDRV_SEQ_TIME_STAMP_MASK :: u8 where "SNDRV_SEQ_TIME_STAMP_MASK \<equiv> 1"
abbreviation (input) SNDRV_SEQ_TIME_MODE_MASK :: u8 where "SNDRV_SEQ_TIME_MODE_MASK \<equiv> 2"
abbreviation (input) SNDRV_SEQ_EVENT_LENGTH_MASK :: u8 where "SNDRV_SEQ_EVENT_LENGTH_MASK \<equiv> 12"
abbreviation (input) SNDRV_SEQ_PRIORITY_MASK :: u8 where "SNDRV_SEQ_PRIORITY_MASK \<equiv> 16"
abbreviation (input) SNDRV_SEQ_EVENT_LENGTH_FIXED :: u8 where "SNDRV_SEQ_EVENT_LENGTH_FIXED \<equiv> 0"
abbreviation (input) SNDRV_SEQ_EVENT_LENGTH_VARIABLE :: u8 where "SNDRV_SEQ_EVENT_LENGTH_VARIABLE \<equiv> 4"
abbreviation (input) SNDRV_SEQ_EVENT_LENGTH_VARUSR :: u8 where "SNDRV_SEQ_EVENT_LENGTH_VARUSR \<equiv> 8"
abbreviation (input) SNDRV_SEQ_QUEUE_DIRECT :: u8 where "SNDRV_SEQ_QUEUE_DIRECT \<equiv> 253"

definition length_mode :: "snd_seq_event \<Rightarrow> u8" where
  "length_mode ev = ev_flags ev AND SNDRV_SEQ_EVENT_LENGTH_MASK"

definition event_enc :: "snd_seq_event \<Rightarrow> bytes" where
  "event_enc ev =
     [ev_type ev, ev_flags ev, ev_tag ev, ev_queue ev]
     @ (le_enc 4 (ts_sec (ev_time ev)) @ le_enc 4 (ts_nsec (ev_time ev)))
     @ addr_enc (ev_source ev) @ addr_enc (ev_dest ev) @ le_enc 12 (ev_data ev)"

definition event_dec :: "bytes \<Rightarrow> snd_seq_event" where
  "event_dec bs =
     \<lparr>ev_type = bs ! 0, ev_flags = bs ! 1, ev_tag = bs ! 2, ev_queue = bs ! 3,
      ev_time = \<lparr>ts_sec = le_dec (get_at 4 4 bs), ts_nsec = le_dec (get_at 8 4 bs)\<rparr>,
      ev_source = addr_dec (get_at 12 2 bs), ev_dest = addr_dec (get_at 14 2 bs),
      ev_data = le_dec (get_at 16 12 bs)\<rparr>"

text \<open>Views of the data union.\<close>

definition data_get :: "nat \<Rightarrow> nat \<Rightarrow> snd_seq_event \<Rightarrow> bytes" where
  "data_get off n ev = get_at off n (le_enc 12 (ev_data ev))"

definition data_put :: "nat \<Rightarrow> bytes \<Rightarrow> snd_seq_event \<Rightarrow> snd_seq_event" where
  "data_put off bs ev = ev\<lparr>ev_data := le_dec (put_at off bs (le_enc 12 (ev_data ev)))\<rparr>"

definition ext_len :: "snd_seq_event \<Rightarrow> u32" where
  "ext_len ev = le_dec (data_get 0 4 ev)"

definition ext_ptr :: "snd_seq_event \<Rightarrow> u64" where
  "ext_ptr ev = le_dec (data_get 4 8 ev)"

section \<open>Copy and release\<close>

text \<open>
  The boxed copy. Its argument is the memory from the address of the event to the end of
  the allocation that holds it: the structure alone for an event created by the library,
  the rest of the buffer for an event inside of a container. For a blob the bytes that
  follow the structure are copied.
\<close>

definition seq_event_copy :: "allocator \<Rightarrow> heap \<Rightarrow> bytes \<Rightarrow> (heap \<times> snd_seq_event) outcome" where
  "seq_event_copy malloc h mem =
     (if length mem < event_size then Undefined
      else let ev = event_dec (take event_size mem)
           in if length_mode ev = SNDRV_SEQ_EVENT_LENGTH_VARIABLE
              then let len = unat (ext_len ev)
                   in if length mem < event_size + len then Undefined
                      else obind (heap_new malloc h (take len (drop event_size mem)))
                             (\<lambda>(h', dst). Ret (h', data_put 4 (le_enc 8 dst) ev))
              else Ret (h, ev))"

definition free_blob_data :: "u64 \<Rightarrow> heap \<Rightarrow> snd_seq_event \<Rightarrow> heap outcome" where
  "free_blob_data self h ev =
     (if length_mode ev = SNDRV_SEQ_EVENT_LENGTH_VARIABLE
      then if self + of_nat event_size \<noteq> ext_ptr ev then g_free h (ext_ptr ev) else Ret h
      else Ret h)"

definition seq_event_free :: "u64 \<Rightarrow> heap \<Rightarrow> snd_seq_event \<Rightarrow> heap outcome" where
  "seq_event_free self h ev = free_blob_data self h ev"

definition zero_event :: snd_seq_event where
  "zero_event =
     \<lparr>ev_type = 0, ev_flags = 0, ev_tag = 0, ev_queue = 0,
      ev_time = \<lparr>ts_sec = 0, ts_nsec = 0\<rparr>,
      ev_source = \<lparr>addr_client = 0, addr_port = 0\<rparr>,
      ev_dest = \<lparr>addr_client = 0, addr_port = 0\<rparr>, ev_data = 0\<rparr>"

definition alsaseq_event_new :: "allocator \<Rightarrow> heap \<Rightarrow> u32 \<Rightarrow> (heap \<times> snd_seq_event) outcome" where
  "alsaseq_event_new malloc h event_type =
     seq_event_copy malloc h (event_enc (zero_event\<lparr>ev_type := ucast event_type\<rparr>))"

section \<open>Header fields\<close>

definition alsaseq_event_get_event_type :: "snd_seq_event \<Rightarrow> u32" where
  "alsaseq_event_get_event_type self = ucast (ev_type self)"

definition alsaseq_event_get_length_mode :: "snd_seq_event \<Rightarrow> u32" where
  "alsaseq_event_get_length_mode self = ucast (ev_flags self AND SNDRV_SEQ_EVENT_LENGTH_MASK)"

definition alsaseq_event_get_tstamp_mode :: "snd_seq_event \<Rightarrow> u32" where
  "alsaseq_event_get_tstamp_mode self = ucast (ev_flags self AND SNDRV_SEQ_TIME_STAMP_MASK)"

definition alsaseq_event_get_time_mode :: "snd_seq_event \<Rightarrow> u32" where
  "alsaseq_event_get_time_mode self = ucast (ev_flags self AND SNDRV_SEQ_TIME_MODE_MASK)"

definition alsaseq_event_set_time_mode :: "snd_seq_event \<Rightarrow> u32 \<Rightarrow> snd_seq_event" where
  "alsaseq_event_set_time_mode self time_mode =
     self\<lparr>ev_flags := set_masked SNDRV_SEQ_TIME_MODE_MASK (ucast time_mode) (ev_flags self)\<rparr>"

definition alsaseq_event_get_priority_mode :: "snd_seq_event \<Rightarrow> u32" where
  "alsaseq_event_get_priority_mode self = ucast (ev_flags self AND SNDRV_SEQ_PRIORITY_MASK)"

definition alsaseq_event_set_priority_mode :: "snd_seq_event \<Rightarrow> u32 \<Rightarrow> snd_seq_event" where
  "alsaseq_event_set_priority_mode self priority_mode =
     self\<lparr>ev_flags := set_masked SNDRV_SEQ_PRIORITY_MASK (ucast priority_mode) (ev_flags self)\<rparr>"

definition alsaseq_event_get_tag :: "snd_seq_event \<Rightarrow> u8" where
  "alsaseq_event_get_tag self = ev_tag self"

definition alsaseq_event_set_tag :: "snd_seq_event \<Rightarrow> u8 \<Rightarrow> snd_seq_event" where
  "alsaseq_event_set_tag self tag = self\<lparr>ev_tag := tag\<rparr>"

definition alsaseq_event_get_queue_id :: "snd_seq_event \<Rightarrow> u8" where
  "alsaseq_event_get_queue_id self = ev_queue self"

definition alsaseq_event_set_queue_id :: "snd_seq_event \<Rightarrow> u8 \<Rightarrow> snd_seq_event" where
  "alsaseq_event_set_queue_id self queue_id = self\<lparr>ev_queue := queue_id\<rparr>"

definition alsaseq_event_get_source :: "snd_seq_event \<Rightarrow> snd_seq_addr" where
  "alsaseq_event_get_source self = ev_source self"

definition alsaseq_event_set_source :: "snd_seq_event \<Rightarrow> snd_seq_addr \<Rightarrow> snd_seq_event" where
  "alsaseq_event_set_source self addr = self\<lparr>ev_source := addr\<rparr>"

definition alsaseq_event_get_destination :: "snd_seq_event \<Rightarrow> snd_seq_addr" where
  "alsaseq_event_get_destination self = ev_dest self"

definition alsaseq_event_set_destination :: "snd_seq_event \<Rightarrow> snd_seq_addr \<Rightarrow> snd_seq_event" where
  "alsaseq_event_set_destination self addr = self\<lparr>ev_dest := addr\<rparr>"

section \<open>Time stamps\<close>

text \<open>The mode check returns \<open>FALSE\<close> and leaves the error alone.\<close>

definition validate_event_tstamp_mode :: "snd_seq_event \<Rightarrow> seq_event_tstamp_mode \<Rightarrow> unit outcome" where
  "validate_event_tstamp_mode ev mode =
     (if ev_flags ev AND SNDRV_SEQ_TIME_STAMP_MASK \<noteq> seq_event_tstamp_mode_value mode then FalseUnset else Ret ())"

definition alsaseq_event_get_tick_time :: "snd_seq_event \<Rightarrow> u32 outcome" where
  "alsaseq_event_get_tick_time self =
     obind (validate_event_tstamp_mode self ALSASEQ_EVENT_TSTAMP_MODE_TICK)
       (\<lambda>_. Ret (ts_sec (ev_time self)))"

definition alsaseq_event_set_tick_time :: "snd_seq_event \<Rightarrow> u32 \<Rightarrow> snd_seq_event outcome" where
  "alsaseq_event_set_tick_time self tick_time =
     obind (validate_event_tstamp_mode self ALSASEQ_EVENT_TSTAMP_MODE_TICK)
       (\<lambda>_. Ret (self\<lparr>ev_time := (ev_time self)\<lparr>ts_sec := tick_time\<rparr>\<rparr>))"

definition alsaseq_event_get_real_time :: "snd_seq_event \<Rightarrow> (u32 \<times> u32) outcome" where
  "alsaseq_event_get_real_time self =
     obind (validate_event_tstamp_mode self ALSASEQ_EVENT_TSTAMP_MODE_REAL)
       (\<lambda>_. Ret (ts_sec (ev_time self), ts_nsec (ev_time self)))"

definition alsaseq_event_set_real_time :: "snd_seq_event \<Rightarrow> u32 \<times> u32 \<Rightarrow> snd_seq_event outcome" where
  "alsaseq_event_set_real_time self real_time =
     obind (validate_event_tstamp_mode self ALSASEQ_EVENT_TSTAMP_MODE_REAL)
       (\<lambda>_. Ret (self\<lparr>ev_time := \<lparr>ts_sec = fst real_time, ts_nsec = snd real_time\<rparr>\<rparr>))"

section \<open>Which data an event type carries\<close>

abbreviation (input) SEQ_EVENT_DATA_FLAG_USER :: u32 where "SEQ_EVENT_DATA_FLAG_USER \<equiv> 0x100000"
abbreviation (input) SEQ_EVENT_DATA_FLAG_BLANK :: u32 where "SEQ_EVENT_DATA_FLAG_BLANK \<equiv> 0x1000000"
abbreviation (input) SEQ_EVENT_DATA_FLAG_NONE :: u32 where "SEQ_EVENT_DATA_FLAG_NONE \<equiv> 0x2000000"
abbreviation (input) SEQ_EVENT_DATA_FLAG_RESULT :: u32 where "SEQ_EVENT_DATA_FLAG_RESULT \<equiv> 0x1"
abbreviation (input) SEQ_EVENT_DATA_FLAG_NOTE :: u32 where "SEQ_EVENT_DATA_FLAG_NOTE \<equiv> 0x2"
abbreviation (input) SEQ_EVENT_DATA_FLAG_CONTROL :: u32 where "SEQ_EVENT_DATA_FLAG_CONTROL \<equiv> 0x4"
abbreviation (input) SEQ_EVENT_DATA_FLAG_QUEUE :: u32 where "SEQ_EVENT_DATA_FLAG_QUEUE \<equiv> 0x8"
abbreviation (input) SEQ_EVENT_DATA_FLAG_ADDR :: u32 where "SEQ_EVENT_DATA_FLAG_ADDR \<equiv> 0x10"
abbreviation (input) SEQ_EVENT_DATA_FLAG_CONNECT :: u32 where "SEQ_EVENT_DATA_FLAG_CONNECT \<equiv> 0x20"
abbreviation (input) SEQ_EVENT_DATA_FLAG_BYTE :: u32 where "SEQ_EVENT_DATA_FLAG_BYTE \<equiv> 0x40"
abbreviation (input) SEQ_EVENT_DATA_FLAG_QUADLET :: u32 where "SEQ_EVENT_DATA_FLAG_QUADLET \<equiv> 0x80"
abbreviation (input) SEQ_EVENT_DATA_FLAG_TSTAMP :: u32 where "SEQ_EVENT_DATA_FLAG_TSTAMP \<equiv> 0x100"
abbreviation (input) SEQ_EVENT_DATA_FLAG_FIXED_ANY :: u32 where "SEQ_EVENT_DATA_FLAG_FIXED_ANY \<equiv> 0xfff"
abbreviation (input) SEQ_EVENT_DATA_FLAG_BLOB :: u32 where "SEQ_EVENT_DATA_FLAG_BLOB \<equiv> 0x1000"
abbreviation (input) SEQ_EVENT_DATA_FLAG_VARIABLE_ANY :: u32 where "SEQ_EVENT_DATA_FLAG_VARIABLE_ANY \<equiv> 0xf000"
abbreviation (input) SEQ_EVENT_DATA_FLAG_POINTER :: u32 where "SEQ_EVENT_DATA_FLAG_POINTER \<equiv> 0x10000"
abbreviation (input) SEQ_EVENT_DATA_FLAG_VARUSR_ANY :: u32 where "SEQ_EVENT_DATA_FLAG_VARUSR_ANY \<equiv> 0xf0000"
abbreviation (input) SEQ_EVENT_DATA_FLAG_ANY :: u32 where "SEQ_EVENT_DATA_FLAG_ANY \<equiv> 0xfffff"

definition seq_event_data_flags :: "u8 \<Rightarrow> u32" where
  "seq_event_data_flags t =
     (if t \<le> 4 then SEQ_EVENT_DATA_FLAG_RESULT
      else if t \<le> 9 then SEQ_EVENT_DATA_FLAG_NOTE
      else if t \<le> 24 then SEQ_EVENT_DATA_FLAG_CONTROL
      else if t \<le> 29 then SEQ_EVENT_DATA_FLAG_FIXED_ANY
      else if t \<le> 39 then SEQ_EVENT_DATA_FLAG_QUEUE
      else if t \<le> 49 then SEQ_EVENT_DATA_FLAG_BLANK
      else if t \<le> 59 then SEQ_EVENT_DATA_FLAG_ANY
      else if t \<le> 65 then SEQ_EVENT_DATA_FLAG_ADDR
      else if t \<le> 69 then SEQ_EVENT_DATA_FLAG_CONNECT
      else if t \<le> 79 then SEQ_EVENT_DATA_FLAG_FIXED_ANY
      else if t \<le> 89 then SEQ_EVENT_DATA_FLAG_FIXED_ANY
      else if t \<le> 99 then SEQ_EVENT_DATA_FLAG_FIXED_ANY OR SEQ_EVENT_DATA_FLAG_USER
      else if t \<le> 109 then SEQ_EVENT_DATA_FLAG_FIXED_ANY
      else if t \<le> 119 then SEQ_EVENT_DATA_FLAG_FIXED_ANY
      else if t \<le> 129 then SEQ_EVENT_DATA_FLAG_FIXED_ANY
      else if t \<le> 134 then SEQ_EVENT_DATA_FLAG_BLOB
      else if t \<le> 139 then SEQ_EVENT_DATA_FLAG_VARIABLE_ANY OR SEQ_EVENT_DATA_FLAG_USER
      else if t \<le> 149 then SEQ_EVENT_DATA_FLAG_VARIABLE_ANY
      else if t \<le> 254 then SEQ_EVENT_DATA_FLAG_ANY
      else SEQ_EVENT_DATA_FLAG_NONE)"

abbreviation (input) invalid_data_type :: gerror where
  "invalid_data_type \<equiv> GError ALSASEQ_EVENT_ERROR (seq_event_error_code ALSASEQ_EVENT_ERROR_INVALID_DATA_TYPE)"

abbreviation (input) invalid_length_mode :: gerror where
  "invalid_length_mode \<equiv> GError ALSASEQ_EVENT_ERROR (seq_event_error_code ALSASEQ_EVENT_ERROR_INVALID_LENGTH_MODE)"

definition validate_event_type :: "snd_seq_event \<Rightarrow> u32 \<Rightarrow> unit outcome" where
  "validate_event_type ev flag =
     (if seq_event_data_flags (ev_type ev) AND flag = 0 then Throw invalid_data_type else Ret ())"

definition expected_length_mode :: "u32 \<Rightarrow> u32" where
  "expected_length_mode flag =
     (if flag \<in> {SEQ_EVENT_DATA_FLAG_RESULT, SEQ_EVENT_DATA_FLAG_NOTE, SEQ_EVENT_DATA_FLAG_CONTROL,
         SEQ_EVENT_DATA_FLAG_QUEUE, SEQ_EVENT_DATA_FLAG_ADDR, SEQ_EVENT_DATA_FLAG_CONNECT,
         SEQ_EVENT_DATA_FLAG_BYTE, SEQ_EVENT_DATA_FLAG_QUADLET, SEQ_EVENT_DATA_FLAG_TSTAMP}
      then ucast SNDRV_SEQ_EVENT_LENGTH_FIXED
      else if flag = SEQ_EVENT_DATA_FLAG_BLOB then ucast SNDRV_SEQ_EVENT_LENGTH_VARIABLE
      else if flag = SEQ_EVENT_DATA_FLAG_POINTER then ucast SNDRV_SEQ_EVENT_LENGTH_VARUSR
      else 0xffffffff)"

definition validate_event_type_and_length :: "snd_seq_event \<Rightarrow> u32 \<Rightarrow> unit outcome" where
  "validate_event_type_and_length ev flag =
     obind (validate_event_type ev flag)
       (\<lambda>_. if ucast (ev_flags ev AND SNDRV_SEQ_EVENT_LENGTH_MASK) \<noteq> expected_length_mode flag
            then Throw invalid_length_mode else Ret ())"

section \<open>Preparing the data union\<close>

definition clear_data_fields :: "u64 \<Rightarrow> heap \<Rightarrow> snd_seq_event \<Rightarrow> (heap \<times> snd_seq_event) outcome" where
  "clear_data_fields self h ev =
     obind (free_blob_data self h ev) (\<lambda>h'. Ret (h', ev\<lparr>ev_data := 0\<rparr>))"

definition set_length_mode :: "u8 \<Rightarrow> snd_seq_event \<Rightarrow> snd_seq_event" where
  "set_length_mode mode ev =
     ev\<lparr>ev_flags := set_masked SNDRV_SEQ_EVENT_LENGTH_MASK mode (ev_flags ev)\<rparr>"

definition ensure_fixed_length_event ::
  "u64 \<Rightarrow> heap \<Rightarrow> snd_seq_event \<Rightarrow> (heap \<times> snd_seq_event) outcome" where
  "ensure_fixed_length_event self h ev =
     obind (clear_data_fields self h ev)
       (\<lambda>(h', ev'). Ret (h', set_length_mode SNDRV_SEQ_EVENT_LENGTH_FIXED ev'))"

text \<open>
  The bytes to copy are read at the address \<open>buf\<close> after the former blob is released.
\<close>

definition ensure_variable_length_event ::
  "allocator \<Rightarrow> u64 \<Rightarrow> heap \<Rightarrow> snd_seq_event \<Rightarrow> u64 \<Rightarrow> nat \<Rightarrow> (heap \<times> snd_seq_event) outcome" where
  "ensure_variable_length_event malloc self h ev buf len =
     obind (clear_data_fields self h ev)
       (\<lambda>(h', ev'). case heap_read h' buf len of
          None \<Rightarrow> Undefined
        | Some bs \<Rightarrow> obind (heap_new malloc h' bs)
            (\<lambda>(h'', ptr). Ret (h'',
               set_length_mode SNDRV_SEQ_EVENT_LENGTH_VARIABLE
                 (data_put 0 (le_enc 4 (of_nat len :: u32)) (data_put 4 (le_enc 8 ptr) ev')))))"

definition ensure_pointer_length_event ::
  "u64 \<Rightarrow> heap \<Rightarrow> snd_seq_event \<Rightarrow> (heap \<times> snd_seq_event) outcome" where
  "ensure_pointer_length_event self h ev =
     obind (clear_data_fields self h ev)
       (\<lambda>(h', ev'). Ret (h', set_length_mode SNDRV_SEQ_EVENT_LENGTH_VARUSR ev'))"

section \<open>Access to the data\<close>

definition quadlets_enc :: "u32 \<times> u32 \<times> u32 \<Rightarrow> bytes" where
  "quadlets_enc q = le_enc 4 (fst q) @ le_enc 4 (fst (snd q)) @ le_enc 4 (snd (snd q))"

definition quadlets_dec :: "bytes \<Rightarrow> u32 \<times> u32 \<times> u32" where
  "quadlets_dec bs = (le_dec (get_at 0 4 bs), le_dec (get_at 4 4 bs), le_dec (get_at 8 4 bs))"

definition alsaseq_event_get_note_data :: "snd_seq_event \<Rightarrow> snd_seq_ev_note outcome" where
  "alsaseq_event_get_note_data self =
     obind (validate_event_type_and_length self SEQ_EVENT_DATA_FLAG_NOTE)
       (\<lambda>_. Ret (note_dec (data_get 0 8 self)))"

definition alsaseq_event_set_note_data ::
  "u64 \<Rightarrow> heap \<Rightarrow> snd_seq_event \<Rightarrow> snd_seq_ev_note \<Rightarrow> (heap \<times> snd_seq_event) outcome" where
  "alsaseq_event_set_note_data self h ev data =
     obind (validate_event_type ev SEQ_EVENT_DATA_FLAG_NOTE)
       (\<lambda>_. obind (ensure_fixed_length_event self h ev)
          (\<lambda>(h', ev'). Ret (h', data_put 0 (note_enc data) ev')))"

definition alsaseq_event_get_ctl_data :: "snd_seq_event \<Rightarrow> snd_seq_ev_ctrl outcome" where
  "alsaseq_event_get_ctl_data self =
     obind (validate_event_type_and_length self SEQ_EVENT_DATA_FLAG_CONTROL)
       (\<lambda>_. Ret (ctrl_dec (data_get 0 12 self)))"

definition alsaseq_event_set_ctl_data ::
  "u64 \<Rightarrow> heap \<Rightarrow> snd_seq_event \<Rightarrow> snd_seq_ev_ctrl \<Rightarrow> (heap \<times> snd_seq_event) outcome" where
  "alsaseq_event_set_ctl_data self h ev data =
     obind (validate_event_type ev SEQ_EVENT_DATA_FLAG_CONTROL)
       (\<lambda>_. obind (ensure_fixed_length_event self h ev)
          (\<lambda>(h', ev'). Ret (h', data_put 0 (ctrl_enc data) ev')))"

definition alsaseq_event_get_byte_data :: "snd_seq_event \<Rightarrow> (bytes) outcome" where
  "alsaseq_event_get_byte_data self =
     obind (validate_event_type_and_length self SEQ_EVENT_DATA_FLAG_BYTE)
       (\<lambda>_. let data = data_get 0 12 self
            in obind (validate_event_type self SEQ_EVENT_DATA_FLAG_BYTE) (\<lambda>_. Ret data))"

definition alsaseq_event_set_byte_data ::
  "u64 \<Rightarrow> heap \<Rightarrow> snd_seq_event \<Rightarrow> bytes \<Rightarrow> (heap \<times> snd_seq_event) outcome" where
  "alsaseq_event_set_byte_data self h ev data =
     obind (validate_event_type ev SEQ_EVENT_DATA_FLAG_BYTE)
       (\<lambda>_. obind (ensure_fixed_length_event self h ev)
          (\<lambda>(h', ev'). Ret (h', data_put 0 data ev')))"

definition alsaseq_event_get_quadlet_data :: "snd_seq_event \<Rightarrow> (u32 \<times> u32 \<times> u32) outcome" where
  "alsaseq_event_get_quadlet_data self =
     obind (validate_event_type_and_length self SEQ_EVENT_DATA_FLAG_QUADLET)
       (\<lambda>_. let data = quadlets_dec (data_get 0 12 self)
            in obind (validate_event_type self SEQ_EVENT_DATA_FLAG_QUADLET) (\<lambda>_. Ret data))"

definition alsaseq_event_set_quadlet_data ::
  "u64 \<Rightarrow> heap \<Rightarrow> snd_seq_event \<Rightarrow> u32 \<times> u32 \<times> u32 \<Rightarrow> (heap \<times> snd_seq_event) outcome" where
  "alsaseq_event_set_quadlet_data self h ev data =
     obind (validate_event_type ev SEQ_EVENT_DATA_FLAG_QUADLET)
       (\<lambda>_. obind (ensure_fixed_length_event self h ev)
          (\<lambda>(h', ev'). Ret (h', data_put 0 (quadlets_enc data) ev')))"

definition alsaseq_event_get_queue_data :: "snd_seq_event \<Rightarrow> snd_seq_ev_queue_control outcome" where
  "alsaseq_event_get_queue_data self =
     obind (validate_event_type_and_length self SEQ_EVENT_DATA_FLAG_QUEUE)
       (\<lambda>_. Ret (queue_dec (data_get 0 12 self)))"

definition alsaseq_event_set_queue_data ::
  "u64 \<Rightarrow> heap \<Rightarrow> snd_seq_event \<Rightarrow> snd_seq_ev_queue_control \<Rightarrow> (heap \<times> snd_seq_event) outcome" where
  "alsaseq_event_set_queue_data self h ev data =
     obind (validate_event_type ev SEQ_EVENT_DATA_FLAG_QUEUE)
       (\<lambda>_. obind (ensure_fixed_length_event self h ev)
          (\<lambda>(h', ev'). Ret (h', data_put 0 (queue_enc data) ev')))"

definition alsaseq_event_get_addr_data :: "snd_seq_event \<Rightarrow> snd_seq_addr outcome" where
  "alsaseq_event_get_addr_data self =
     obind (validate_event_type_and_length self SEQ_EVENT_DATA_FLAG_ADDR)
       (\<lambda>_. Ret (addr_dec (data_get 0 2 self)))"

definition alsaseq_event_set_addr_data ::
  "u64 \<Rightarrow> heap \<Rightarrow> snd_seq_event \<Rightarrow> snd_seq_addr \<Rightarrow> (heap \<times> snd_seq_event) outcome" where
  "alsaseq_event_set_addr_data self h ev data =
     obind (validate_event_type ev SEQ_EVENT_DATA_FLAG_ADDR)
       (\<lambda>_. obind (ensure_fixed_length_event self h ev)
          (\<lambda>(h', ev'). Ret (h', data_put 0 (addr_enc data) ev')))"

definition alsaseq_event_get_connect_data :: "snd_seq_event \<Rightarrow> snd_seq_connect outcome" where
  "alsaseq_event_get_connect_data self =
     obind (validate_event_type_and_length self SEQ_EVENT_DATA_FLAG_CONNECT)
       (\<lambda>_. Ret (connect_dec (data_get 0 4 self)))"

definition alsaseq_event_set_connect_data ::
  "u64 \<Rightarrow> heap \<Rightarrow> snd_seq_event \<Rightarrow> snd_seq_connect \<Rightarrow> (heap \<times> snd_seq_event) outcome" where
  "alsaseq_event_set_connect_data self h ev data =
     obind (validate_event_type ev SEQ_EVENT_DATA_FLAG_CONNECT)
       (\<lambda>_. obind (ensure_fixed_length_event self h ev)
          (\<lambda>(h', ev'). Ret (h', data_put 0 (connect_enc data) ev')))"

definition alsaseq_event_get_result_data :: "snd_seq_event \<Rightarrow> snd_seq_result outcome" where
  "alsaseq_event_get_result_data self =
     obind (validate_event_type_and_length self SEQ_EVENT_DATA_FLAG_RESULT)
       (\<lambda>_. Ret (result_dec (data_get 0 8 self)))"

definition alsaseq_event_set_result_data ::
  "u64 \<Rightarrow> heap \<Rightarrow> snd_seq_event \<Rightarrow> snd_seq_result \<Rightarrow> (heap \<times> snd_seq_event) outcome" where
  "alsaseq_event_set_result_data self h ev data =
     obind (validate_event_type ev SEQ_EVENT_DATA_FLAG_RESULT)
       (\<lambda>_. obind (ensure_fixed_length_event self h ev)
          (\<lambda>(h', ev'). Ret (h', data_put 0 (result_enc data) ev')))"

definition alsaseq_event_get_blob_data :: "heap \<Rightarrow> snd_seq_event \<Rightarrow> (u64 \<times> nat) outcome" where
  "alsaseq_event_get_blob_data h self =
     obind (validate_event_type_and_length self SEQ_EVENT_DATA_FLAG_BLOB)
       (\<lambda>_. Ret (ext_ptr self, unat (ext_len self)))"

definition alsaseq_event_set_blob_data ::
  "allocator \<Rightarrow> u64 \<Rightarrow> heap \<Rightarrow> snd_seq_event \<Rightarrow> u64 \<Rightarrow> nat \<Rightarrow> (heap \<times> snd_seq_event) outcome" where
  "alsaseq_event_set_blob_data malloc self h ev data len =
     (if data = 0 then Critical
      else obind (validate_event_type ev SEQ_EVENT_DATA_FLAG_BLOB)
             (\<lambda>_. ensure_variable_length_event malloc self h ev data len))"

definition alsaseq_event_get_pointer_data :: "snd_seq_event \<Rightarrow> (u64 \<times> nat) outcome" where
  "alsaseq_event_get_pointer_data self =
     obind (validate_event_type_and_length self SEQ_EVENT_DATA_FLAG_POINTER)
       (\<lambda>_. Ret (ext_ptr self, unat (ext_len self)))"

definition alsaseq_event_set_pointer_data ::
  "u64 \<Rightarrow> heap \<Rightarrow> snd_seq_event \<Rightarrow> u64 \<Rightarrow> nat \<Rightarrow> (heap \<times> snd_seq_event) outcome" where
  "alsaseq_event_set_pointer_data self h ev data len =
     (if data = 0 \<or> len = 0 then Critical
      else obind (validate_event_type ev SEQ_EVENT_DATA_FLAG_POINTER)
             (\<lambda>_. obind (ensure_pointer_length_event self h ev)
                (\<lambda>(h', ev'). Ret (h',
                   data_put 0 (le_enc 4 (of_nat len :: u32)) (data_put 4 (le_enc 8 data) ev')))))"

definition alsaseq_event_get_tick_time_data :: "snd_seq_event \<Rightarrow> u32 outcome" where
  "alsaseq_event_get_tick_time_data self =
     obind (validate_event_type_and_length self SEQ_EVENT_DATA_FLAG_TSTAMP)
       (\<lambda>_. obind (validate_event_tstamp_mode self ALSASEQ_EVENT_TSTAMP_MODE_TICK)
          (\<lambda>_. Ret (le_dec (data_get 0 4 self))))"

definition alsaseq_event_set_tick_time_data ::
  "u64 \<Rightarrow> heap \<Rightarrow> snd_seq_event \<Rightarrow> u32 \<Rightarrow> (heap \<times> snd_seq_event) outcome" where
  "alsaseq_event_set_tick_time_data self h ev tick_time =
     obind (validate_event_type ev SEQ_EVENT_DATA_FLAG_TSTAMP)
       (\<lambda>_. obind (validate_event_tstamp_mode ev ALSASEQ_EVENT_TSTAMP_MODE_TICK)
          (\<lambda>_. obind (ensure_fixed_length_event self h ev)
             (\<lambda>(h', ev'). Ret (h', data_put 0 (le_enc 4 tick_time) ev'))))"

definition alsaseq_event_get_real_time_data :: "snd_seq_event \<Rightarrow> (u32 \<times> u32) outcome" where
  "alsaseq_event_get_real_time_data self =
     obind (validate_event_type_and_length self SEQ_EVENT_DATA_FLAG_TSTAMP)
       (\<lambda>_. obind (validate_event_tstamp_mode self ALSASEQ_EVENT_TSTAMP_MODE_REAL)
          (\<lambda>_. Ret (le_dec (data_get 0 4 self), le_dec (data_get 4 4 self))))"

definition alsaseq_event_set_real_time_data ::
  "u64 \<Rightarrow> heap \<Rightarrow> snd_seq_event \<Rightarrow> u32 \<times> u32 \<Rightarrow> (heap \<times> snd_seq_event) outcome" where
  "alsaseq_event_set_real_time_data self h ev real_time =
     obind (validate_event_type ev SEQ_EVENT_DATA_FLAG_TSTAMP)
       (\<lambda>_. obind (validate_event_tstamp_mode ev ALSASEQ_EVENT_TSTAMP_MODE_REAL)
          (\<lambda>_. obind (ensure_fixed_length_event self h ev)
             (\<lambda>(h', ev'). Ret (h',
                data_put 4 (le_enc 4 (snd real_time)) (data_put 0 (le_enc 4 (fst real_time)) ev')))))"

section \<open>Flattened layout\<close>

definition seq_event_calculate_flattened_length :: "snd_seq_event \<Rightarrow> bool \<Rightarrow> nat" where
  "seq_event_calculate_flattened_length self aligned =
     (let len = (if length_mode self = SNDRV_SEQ_EVENT_LENGTH_VARIABLE
                 then event_size + unat (ext_len self) else event_size)
      in if aligned then (len + event_size - 1) div event_size * event_size else len)"

definition alsaseq_event_calculate_pool_consumption :: "snd_seq_event \<Rightarrow> nat" where
  "alsaseq_event_calculate_pool_consumption self =
     seq_event_calculate_flattened_length self True div event_size"

text \<open>
  Copy to a buffer of \<open>length\<close> bytes. The part of the buffer after the copied bytes keeps
  its content; without room for the blob only the structure is copied.
\<close>

definition seq_event_copy_flattened :: "heap \<Rightarrow> snd_seq_event \<Rightarrow> bytes \<Rightarrow> nat \<Rightarrow> bytes outcome" where
  "seq_event_copy_flattened h self buf len =
     (if length buf < event_size then Undefined
      else let buf' = put_at 0 (event_enc self) buf
           in if length_mode self = SNDRV_SEQ_EVENT_LENGTH_VARIABLE
              then if \<not> event_size + unat (ext_len self) \<le> len then Ret buf'
                   else (case heap_read h (ext_ptr self) (unat (ext_len self)) of
                           None \<Rightarrow> Undefined
                         | Some bs \<Rightarrow> if length buf < event_size + length bs then Undefined
                                     else Ret (put_at event_size bs buf'))
              else Ret buf')"

definition seq_event_is_deliverable :: "snd_seq_event \<Rightarrow> bool" where
  "seq_event_is_deliverable self =
     (let flags = seq_event_data_flags (ev_type self)
      in if length_mode self = SNDRV_SEQ_EVENT_LENGTH_FIXED
         then if ev_type self = seq_event_type_value ALSASEQ_EVENT_TYPE_NOTE
              then ev_queue self \<noteq> SNDRV_SEQ_QUEUE_DIRECT
              else flags AND SEQ_EVENT_DATA_FLAG_FIXED_ANY > 0
         else if length_mode self = SNDRV_SEQ_EVENT_LENGTH_VARIABLE
         then flags AND SEQ_EVENT_DATA_FLAG_VARIABLE_ANY > 0
         else if length_mode self = SNDRV_SEQ_EVENT_LENGTH_VARUSR
         then flags AND SEQ_EVENT_DATA_FLAG_VARUSR_ANY > 0 \<and> ev_queue self = SNDRV_SEQ_QUEUE_DIRECT
         else False)"

section \<open>Layout of the structure\<close>

lemma length_event_enc [simp]: "length (event_enc ev) = event_size"
  by (simp add: event_enc_def addrc.length_enc)

lemma event_dec_enc: "event_dec (event_enc ev) = ev"
  by (simp add: event_enc_def event_dec_def get_at_def codec_simps addrc.length_enc addrc.dec_enc
      le_dec_enc)

lemma event_enc_dec:
  assumes "length bs = event_size"
  shows "event_enc (event_dec bs) = bs"
proof -
  have "bs = bs ! 0 # bs ! 1 # bs ! 2 # bs ! 3 # drop 4 bs"
    using assms bytes_split2 [of bs 26] bytes_split2 [of "drop 2 bs" 24] by simp
  moreover have "get_at 4 4 bs @ get_at 8 4 bs @ get_at 12 2 bs @ get_at 14 2 bs @ get_at 16 12 bs
      = drop 4 bs"
    using assms get_at_join [of 14 2 bs 12] get_at_join [of 12 2 bs 14] get_at_join [of 8 4 bs 16]
      get_at_join [of 4 4 bs 20] get_at_drop_all [of bs 4 24] by simp
  ultimately show ?thesis using assms
    by (simp add: event_enc_def event_dec_def codec_simps addrc.enc_dec le_enc_dec)
qed

interpretation eventc: byte_layout event_enc event_dec event_size
  by unfold_locales (simp_all add: event_dec_enc event_enc_dec)

lemma data_get_put [codec_simps]:
  "off + length bs \<le> 12 \<Longrightarrow> n = length bs \<Longrightarrow> data_get off n (data_put off bs ev) = bs"
  by (simp add: data_get_def data_put_def le_enc_dec get_put_same)

lemma data_get_put_after [codec_simps]:
  "off + length bs \<le> off' \<Longrightarrow> off' \<le> 12 \<Longrightarrow> data_get off' n (data_put off bs ev) = data_get off' n ev"
  by (simp add: data_get_def data_put_def le_enc_dec get_put_after)

lemma data_get_put_before [codec_simps]:
  "off' + n \<le> off \<Longrightarrow> off + length bs \<le> 12 \<Longrightarrow>
     data_get off' n (data_put off bs ev) = data_get off' n ev"
  by (simp add: data_get_def data_put_def le_enc_dec get_put_before)

lemma data_put_header [simp]:
  "ev_type (data_put off bs ev) = ev_type ev" "ev_flags (data_put off bs ev) = ev_flags ev"
  "ev_tag (data_put off bs ev) = ev_tag ev" "ev_queue (data_put off bs ev) = ev_queue ev"
  "ev_time (data_put off bs ev) = ev_time ev" "ev_source (data_put off bs ev) = ev_source ev"
  "ev_dest (data_put off bs ev) = ev_dest ev" "length_mode (data_put off bs ev) = length_mode ev"
  by (simp_all add: data_put_def length_mode_def)

lemma data_get_flags [simp]: "data_get off n (set_length_mode m ev) = data_get off n ev"
  by (simp add: data_get_def set_length_mode_def)

lemma ext_set_length_mode [simp]:
  "ext_len (set_length_mode m ev) = ext_len ev" "ext_ptr (set_length_mode m ev) = ext_ptr ev"
  by (simp_all add: ext_len_def ext_ptr_def)

lemma ext_put_ptr [simp]:
  "ext_len (data_put 4 (le_enc 8 p) ev) = ext_len ev"
  "ext_ptr (data_put 4 (le_enc 8 (p :: u64)) ev) = p"
  by (simp_all add: ext_len_def ext_ptr_def codec_simps)

lemma ext_put_len [simp]:
  "ext_len (data_put 0 (le_enc 4 (n :: u32)) ev) = n"
  "ext_ptr (data_put 0 (le_enc 4 n) ev) = ext_ptr ev"
  by (simp_all add: ext_len_def ext_ptr_def codec_simps)

section \<open>Length modes\<close>

lemma length_mode_set [simp]:
  "length_mode (set_length_mode SNDRV_SEQ_EVENT_LENGTH_FIXED ev) = SNDRV_SEQ_EVENT_LENGTH_FIXED"
  "length_mode (set_length_mode SNDRV_SEQ_EVENT_LENGTH_VARIABLE ev) = SNDRV_SEQ_EVENT_LENGTH_VARIABLE"
  "length_mode (set_length_mode SNDRV_SEQ_EVENT_LENGTH_VARUSR ev) = SNDRV_SEQ_EVENT_LENGTH_VARUSR"
  by (simp_all add: length_mode_def set_length_mode_def set_masked_same)

lemma set_length_mode_header [simp]:
  "ev_type (set_length_mode m ev) = ev_type ev" "ev_tag (set_length_mode m ev) = ev_tag ev"
  "ev_queue (set_length_mode m ev) = ev_queue ev" "ev_time (set_length_mode m ev) = ev_time ev"
  "ev_source (set_length_mode m ev) = ev_source ev" "ev_dest (set_length_mode m ev) = ev_dest ev"
  "ev_data (set_length_mode m ev) = ev_data ev"
  by (simp_all add: set_length_mode_def)

lemma set_length_mode_tstamp [simp]:
  "m AND SNDRV_SEQ_TIME_STAMP_MASK = 0 \<Longrightarrow>
     ev_flags (set_length_mode m ev) AND SNDRV_SEQ_TIME_STAMP_MASK = ev_flags ev AND SNDRV_SEQ_TIME_STAMP_MASK"
  by (simp add: set_length_mode_def set_masked_other)

text \<open>The header of an event apart from the length mode: what no data setter changes.\<close>

definition same_header :: "snd_seq_event \<Rightarrow> snd_seq_event \<Rightarrow> bool" where
  "same_header a b \<longleftrightarrow>
     ev_type a = ev_type b \<and> ev_tag a = ev_tag b \<and> ev_queue a = ev_queue b \<and>
     ev_time a = ev_time b \<and> ev_source a = ev_source b \<and> ev_dest a = ev_dest b \<and>
     ev_flags a AND NOT SNDRV_SEQ_EVENT_LENGTH_MASK = ev_flags b AND NOT SNDRV_SEQ_EVENT_LENGTH_MASK"

lemma same_header_set_length_mode:
  "m AND NOT SNDRV_SEQ_EVENT_LENGTH_MASK = 0 \<Longrightarrow>
     same_header (data_put off bs (set_length_mode m (ev\<lparr>ev_data := d\<rparr>))) ev"
  by (simp add: same_header_def set_length_mode_def set_masked_other)

section \<open>Ownership of blobs\<close>

text \<open>
  An event of variable length owns the block its pointer names, of the length it states; an
  empty blob has no block.
\<close>

definition owns_blob :: "heap \<Rightarrow> snd_seq_event \<Rightarrow> bool" where
  "owns_blob h ev \<longleftrightarrow>
     (length_mode ev = SNDRV_SEQ_EVENT_LENGTH_VARIABLE \<longrightarrow>
        (if ext_len ev = 0 then ext_ptr ev = 0
         else ext_ptr ev \<noteq> 0 \<and> (\<exists>bs. h (ext_ptr ev) = Some bs \<and> length bs = unat (ext_len ev))))"

text \<open>The heap after the blob of an event is released.\<close>

definition without_blob :: "heap \<Rightarrow> snd_seq_event \<Rightarrow> heap" where
  "without_blob h ev =
     (if length_mode ev = SNDRV_SEQ_EVENT_LENGTH_VARIABLE \<and> ext_ptr ev \<noteq> 0
      then h(ext_ptr ev := None) else h)"

text \<open>A blob of its own does not start right behind the structure, where the blob of an event in a container does.\<close>

definition blob_apart :: "u64 \<Rightarrow> snd_seq_event \<Rightarrow> bool" where
  "blob_apart self ev \<longleftrightarrow>
     (length_mode ev = SNDRV_SEQ_EVENT_LENGTH_VARIABLE \<longrightarrow> ext_ptr ev \<noteq> self + of_nat event_size)"

lemma free_blob_data_owned:
  assumes "owns_blob h ev" "blob_apart self ev"
  shows "free_blob_data self h ev = Ret (without_blob h ev)"
  using assms by (auto simp: free_blob_data_def owns_blob_def without_blob_def blob_apart_def g_free_def
      split: if_splits)

lemma clear_data_fields_owned:
  assumes "owns_blob h ev" "blob_apart self ev"
  shows "clear_data_fields self h ev = Ret (without_blob h ev, ev\<lparr>ev_data := 0\<rparr>)"
  by (simp add: clear_data_fields_def free_blob_data_owned [OF assms])

lemma ensure_fixed_owned:
  assumes "owns_blob h ev" "blob_apart self ev"
  shows "ensure_fixed_length_event self h ev =
    Ret (without_blob h ev, set_length_mode SNDRV_SEQ_EVENT_LENGTH_FIXED (ev\<lparr>ev_data := 0\<rparr>))"
  by (simp add: ensure_fixed_length_event_def clear_data_fields_owned [OF assms])

section \<open>The contract of the fixed length data\<close>

text \<open>
  What a getter and a setter of one kind of data promise on an event that owns its blob: both
  refuse a type that does not carry this kind; else the setter releases the blob, keeps the
  header, switches to fixed length, and the getter then returns what was set.
\<close>

definition fixed_data_contract ::
  "(u64 \<Rightarrow> heap \<Rightarrow> snd_seq_event \<Rightarrow> 'a \<Rightarrow> (heap \<times> snd_seq_event) outcome) \<Rightarrow>
   (snd_seq_event \<Rightarrow> 'a outcome) \<Rightarrow> u32 \<Rightarrow> u64 \<Rightarrow> heap \<Rightarrow> snd_seq_event \<Rightarrow> 'a \<Rightarrow> bool" where
  "fixed_data_contract set_data get_data flag self h ev data \<longleftrightarrow>
     (if seq_event_data_flags (ev_type ev) AND flag = 0
      then set_data self h ev data = Throw invalid_data_type \<and> get_data ev = Throw invalid_data_type
      else \<exists>ev'. set_data self h ev data = Ret (without_blob h ev, ev') \<and> get_data ev' = Ret data \<and>
             same_header ev' ev \<and> length_mode ev' = SNDRV_SEQ_EVENT_LENGTH_FIXED)"

text \<open>
  The pairs of a getter and a setter for one kind of fixed length data share their shape:
  the setter checks the type of the event, releases a blob, clears the union and stores the
  structure; the getter checks type and length mode and reads it back.
\<close>

locale fixed_data_access = byte_codec enc dec size
  for enc :: "'a \<Rightarrow> bytes" and dec :: "bytes \<Rightarrow> 'a" and size :: nat +
  fixes set_data :: "u64 \<Rightarrow> heap \<Rightarrow> snd_seq_event \<Rightarrow> 'a \<Rightarrow> (heap \<times> snd_seq_event) outcome"
    and get_data :: "snd_seq_event \<Rightarrow> 'a outcome"
    and flag :: u32
  assumes set_data_eq: "set_data self h ev data =
      obind (validate_event_type ev flag)
        (\<lambda>_. obind (ensure_fixed_length_event self h ev)
           (\<lambda>(h', ev'). Ret (h', data_put 0 (enc data) ev')))"
    and get_data_eq: "get_data ev =
      obind (validate_event_type_and_length ev flag) (\<lambda>_. Ret (dec (data_get 0 size ev)))"
    and size_le: "size \<le> 12"
    and fixed_flag: "expected_length_mode flag = 0"
begin

lemma set_data_cases:
  "set_data self h ev data = Ret (h', ev') \<Longrightarrow>
     seq_event_data_flags (ev_type ev) AND flag \<noteq> 0 \<and>
     ev' = data_put 0 (enc data) (set_length_mode SNDRV_SEQ_EVENT_LENGTH_FIXED (ev\<lparr>ev_data := 0\<rparr>))"
  by (auto simp: set_data_eq validate_event_type_def ensure_fixed_length_event_def
      clear_data_fields_def split: if_splits)

lemma get_set:
  assumes "set_data self h ev data = Ret (h', ev')"
  shows "get_data ev' = Ret data"
proof -
  have "data_get 0 size ev' = enc data"
    using set_data_cases [OF assms] size_le by (simp add: length_enc codec_simps)
  moreover have "validate_event_type_and_length ev' flag = Ret ()"
    using set_data_cases [OF assms] length_mode_set(1) [of "ev\<lparr>ev_data := 0\<rparr>"]
    by (simp add: validate_event_type_and_length_def validate_event_type_def fixed_flag
        length_mode_def)
  ultimately show ?thesis by (simp add: get_data_eq dec_enc)
qed

lemma set_same_header:
  "set_data self h ev data = Ret (h', ev') \<Longrightarrow> same_header ev' ev"
  by (drule set_data_cases) (simp add: same_header_set_length_mode)

lemma set_fixed_mode:
  "set_data self h ev data = Ret (h', ev') \<Longrightarrow> length_mode ev' = SNDRV_SEQ_EVENT_LENGTH_FIXED"
  by (drule set_data_cases) simp

lemma set_owned:
  assumes "owns_blob h ev" "blob_apart self ev"
  shows "set_data self h ev data =
    (if seq_event_data_flags (ev_type ev) AND flag = 0 then Throw invalid_data_type
     else Ret (without_blob h ev,
       data_put 0 (enc data) (set_length_mode SNDRV_SEQ_EVENT_LENGTH_FIXED (ev\<lparr>ev_data := 0\<rparr>))))"
  by (simp add: set_data_eq validate_event_type_def ensure_fixed_owned [OF assms])

lemma get_wrong_type:
  "seq_event_data_flags (ev_type ev) AND flag = 0 \<Longrightarrow> get_data ev = Throw invalid_data_type"
  by (simp add: get_data_eq validate_event_type_and_length_def validate_event_type_def)

lemma get_wrong_mode:
  "seq_event_data_flags (ev_type ev) AND flag \<noteq> 0 \<Longrightarrow>
   length_mode ev \<noteq> SNDRV_SEQ_EVENT_LENGTH_FIXED \<Longrightarrow> get_data ev = Throw invalid_length_mode"
  by (auto simp: get_data_eq validate_event_type_and_length_def validate_event_type_def
      fixed_flag length_mode_def ucast_u8_zero)

lemma contract:
  assumes "owns_blob h ev" "blob_apart self ev"
  shows "fixed_data_contract set_data get_data flag self h ev data"
proof (cases "seq_event_data_flags (ev_type ev) AND flag = 0")
  case True
  then show ?thesis by (simp add: fixed_data_contract_def set_owned [OF assms] get_wrong_type)
next
  case False
  define ev' where "ev' =
    data_put 0 (enc data) (set_length_mode SNDRV_SEQ_EVENT_LENGTH_FIXED (ev\<lparr>ev_data := 0\<rparr>))"
  have *: "set_data self h ev data = Ret (without_blob h ev, ev')"
    using False by (simp add: set_owned [OF assms] ev'_def)
  with False get_set [OF *] set_same_header [OF *] set_fixed_mode [OF *] show ?thesis
    by (auto simp: fixed_data_contract_def)
qed

end

lemma quadlets_dec_enc: "quadlets_dec (quadlets_enc q) = q"
  by (simp add: quadlets_dec_def quadlets_enc_def get_at_def codec_simps)

interpretation quadletc: byte_codec quadlets_enc quadlets_dec 12
  by unfold_locales (simp add: quadlets_enc_def, rule quadlets_dec_enc)

lemma validate_type_twice:
  "obind (validate_event_type_and_length ev flag) (\<lambda>_. obind (validate_event_type ev flag) (\<lambda>_. m)) =
   obind (validate_event_type_and_length ev flag) (\<lambda>_. m)"
  by (simp add: validate_event_type_and_length_def validate_event_type_def)

lemmas fixed_flags = expected_length_mode_def

interpretation note_data: fixed_data_access note_enc note_dec 8
  alsaseq_event_set_note_data alsaseq_event_get_note_data SEQ_EVENT_DATA_FLAG_NOTE
  by unfold_locales (simp_all add: alsaseq_event_set_note_data_def alsaseq_event_get_note_data_def
      fixed_flags)

interpretation ctl_data: fixed_data_access ctrl_enc ctrl_dec 12
  alsaseq_event_set_ctl_data alsaseq_event_get_ctl_data SEQ_EVENT_DATA_FLAG_CONTROL
  by unfold_locales (simp_all add: alsaseq_event_set_ctl_data_def alsaseq_event_get_ctl_data_def
      fixed_flags)

interpretation quadlet_data: fixed_data_access quadlets_enc quadlets_dec 12
  alsaseq_event_set_quadlet_data alsaseq_event_get_quadlet_data SEQ_EVENT_DATA_FLAG_QUADLET
  by unfold_locales (simp_all add: alsaseq_event_set_quadlet_data_def
      alsaseq_event_get_quadlet_data_def fixed_flags Let_def validate_type_twice)

interpretation queue_data: fixed_data_access queue_enc queue_dec 12
  alsaseq_event_set_queue_data alsaseq_event_get_queue_data SEQ_EVENT_DATA_FLAG_QUEUE
  by unfold_locales (simp_all add: alsaseq_event_set_queue_data_def alsaseq_event_get_queue_data_def
      fixed_flags)

interpretation address_data: fixed_data_access addr_enc addr_dec 2
  alsaseq_event_set_addr_data alsaseq_event_get_addr_data SEQ_EVENT_DATA_FLAG_ADDR
  by unfold_locales (simp_all add: alsaseq_event_set_addr_data_def alsaseq_event_get_addr_data_def
      fixed_flags)

interpretation connect_data: fixed_data_access connect_enc connect_dec 4
  alsaseq_event_set_connect_data alsaseq_event_get_connect_data SEQ_EVENT_DATA_FLAG_CONNECT
  by unfold_locales (simp_all add: alsaseq_event_set_connect_data_def
      alsaseq_event_get_connect_data_def fixed_flags)

interpretation result_data: fixed_data_access result_enc result_dec 8
  alsaseq_event_set_result_data alsaseq_event_get_result_data SEQ_EVENT_DATA_FLAG_RESULT
  by unfold_locales (simp_all add: alsaseq_event_set_result_data_def
      alsaseq_event_get_result_data_def fixed_flags)

lemma byte_data_contract:
  assumes "owns_blob h ev" "blob_apart self ev" "length data = 12"
  shows "fixed_data_contract alsaseq_event_set_byte_data alsaseq_event_get_byte_data
    SEQ_EVENT_DATA_FLAG_BYTE self h ev data"
proof -
  let ?ev' = "data_put 0 data (set_length_mode SNDRV_SEQ_EVENT_LENGTH_FIXED (ev\<lparr>ev_data := 0\<rparr>))"
  have "length_mode ?ev' = 0" by simp
  then have "ev_flags ?ev' AND 12 = 0" by (simp only: length_mode_def)
  moreover have "same_header ?ev' ev" by (rule same_header_set_length_mode) simp
  ultimately show ?thesis using assms(3)
    by (auto simp: fixed_data_contract_def alsaseq_event_set_byte_data_def
        alsaseq_event_get_byte_data_def Let_def validate_type_twice validate_event_type_def
        validate_event_type_and_length_def fixed_flags ensure_fixed_owned [OF assms(1,2)]
        codec_simps length_mode_def)
qed

text \<open>
  C7: for every kind of fixed length data, the setter and the getter of \<open>event.c\<close> agree. On an
  event that owns its blob, both refuse an event type which does not carry the kind with the
  error INVALID_DATA_TYPE; otherwise the setter succeeds, releases the blob, keeps every header
  field but the length mode, which becomes FIXED, and the getter returns the data set.
\<close>

theorem fixed_data_roundtrip:
  assumes "owns_blob h ev" "blob_apart self ev" "length bs = 12"
  shows "fixed_data_contract alsaseq_event_set_note_data alsaseq_event_get_note_data
           SEQ_EVENT_DATA_FLAG_NOTE self h ev note_v \<and>
         fixed_data_contract alsaseq_event_set_ctl_data alsaseq_event_get_ctl_data
           SEQ_EVENT_DATA_FLAG_CONTROL self h ev ctl_v \<and>
         fixed_data_contract alsaseq_event_set_byte_data alsaseq_event_get_byte_data
           SEQ_EVENT_DATA_FLAG_BYTE self h ev bs \<and>
         fixed_data_contract alsaseq_event_set_quadlet_data alsaseq_event_get_quadlet_data
           SEQ_EVENT_DATA_FLAG_QUADLET self h ev quadlets \<and>
         fixed_data_contract alsaseq_event_set_queue_data alsaseq_event_get_queue_data
           SEQ_EVENT_DATA_FLAG_QUEUE self h ev queue_v \<and>
         fixed_data_contract alsaseq_event_set_addr_data alsaseq_event_get_addr_data
           SEQ_EVENT_DATA_FLAG_ADDR self h ev addr_v \<and>
         fixed_data_contract alsaseq_event_set_connect_data alsaseq_event_get_connect_data
           SEQ_EVENT_DATA_FLAG_CONNECT self h ev connect_v \<and>
         fixed_data_contract alsaseq_event_set_result_data alsaseq_event_get_result_data
           SEQ_EVENT_DATA_FLAG_RESULT self h ev result_v"
  using note_data.contract [OF assms(1,2)] ctl_data.contract [OF assms(1,2)]
    quadlet_data.contract [OF assms(1,2)] queue_data.contract [OF assms(1,2)]
    address_data.contract [OF assms(1,2)] connect_data.contract [OF assms(1,2)]
    result_data.contract [OF assms(1,2)] byte_data_contract [OF assms]
  by simp

lemma ext_zero_event [simp]:
  "ext_ptr (zero_event\<lparr>ev_type := t\<rparr>) = 0" "ext_len (zero_event\<lparr>ev_type := t\<rparr>) = 0"
  "length_mode (zero_event\<lparr>ev_type := t\<rparr>) = SNDRV_SEQ_EVENT_LENGTH_FIXED"
  by (simp_all add: zero_event_def ext_ptr_def ext_len_def data_get_def get_at_def length_mode_def)
    code_simp+

lemma owns_blob_zero_event [simp]: "owns_blob h (zero_event\<lparr>ev_type := t\<rparr>)"
  by (simp add: owns_blob_def)

lemma blob_apart_zero_event [simp]: "blob_apart self (zero_event\<lparr>ev_type := t\<rparr>)"
  by (simp add: blob_apart_def)

lemma without_blob_zero_event [simp]: "without_blob h (zero_event\<lparr>ev_type := t\<rparr>) = h"
  by (simp add: without_blob_def)

theorem fixed_data_roundtrip_witness:
  "\<exists>ev'. alsaseq_event_set_note_data 64 Map.empty (zero_event\<lparr>ev_type := 6\<rparr>)
       \<lparr>note_channel = 1, note_note = 60, note_velocity = 100, note_off_velocity = 0,
        note_duration = 480\<rparr> = Ret (Map.empty, ev') \<and>
     alsaseq_event_get_note_data ev' =
       Ret \<lparr>note_channel = 1, note_note = 60, note_velocity = 100, note_off_velocity = 0,
            note_duration = 480\<rparr>"
  using fixed_data_roundtrip [THEN conjunct1, of Map.empty "zero_event\<lparr>ev_type := 6\<rparr>" 64 "replicate 12 0"
      "\<lparr>note_channel = 1, note_note = 60, note_velocity = 100, note_off_velocity = 0,
        note_duration = 480\<rparr>"]
  by (auto simp: fixed_data_contract_def seq_event_data_flags_def)

section \<open>Blobs\<close>

lemma set_blob_data_owned:
  assumes "owns_blob h ev" "blob_apart self ev" "data \<noteq> 0"
    and "seq_event_data_flags (ev_type ev) AND SEQ_EVENT_DATA_FLAG_BLOB \<noteq> 0"
    and "heap_read (without_blob h ev) data len = Some bs"
    and "heap_new malloc (without_blob h ev) bs = Ret (h', ptr)"
  shows "alsaseq_event_set_blob_data malloc self h ev data len =
    Ret (h', set_length_mode SNDRV_SEQ_EVENT_LENGTH_VARIABLE
      (data_put 0 (le_enc 4 (of_nat len :: u32)) (data_put 4 (le_enc 8 ptr) (ev\<lparr>ev_data := 0\<rparr>))))"
  using assms by (simp add: alsaseq_event_set_blob_data_def validate_event_type_def
      ensure_variable_length_event_def clear_data_fields_owned)

lemma set_blob_data_cases:
  assumes "alsaseq_event_set_blob_data malloc self h ev data len = Ret (h', ev')"
  obtains h1 bs ptr where
    "seq_event_data_flags (ev_type ev) AND SEQ_EVENT_DATA_FLAG_BLOB \<noteq> 0"
    "heap_read h1 data len = Some bs" "heap_new malloc h1 bs = Ret (h', ptr)"
    "ev' = set_length_mode SNDRV_SEQ_EVENT_LENGTH_VARIABLE
       (data_put 0 (le_enc 4 (of_nat len :: u32)) (data_put 4 (le_enc 8 ptr) (ev\<lparr>ev_data := 0\<rparr>)))"
  using assms by (auto simp: alsaseq_event_set_blob_data_def validate_event_type_def
      ensure_variable_length_event_def clear_data_fields_def split: if_splits option.splits)

lemma same_header_variable:
  "same_header (set_length_mode SNDRV_SEQ_EVENT_LENGTH_VARIABLE
     (data_put off bs (data_put off' cs (ev\<lparr>ev_data := d\<rparr>)))) ev"
  by (simp add: same_header_def set_length_mode_def set_masked_other)

lemma get_blob_variable:
  assumes "seq_event_data_flags (ev_type ev) AND SEQ_EVENT_DATA_FLAG_BLOB \<noteq> 0"
    and "length_mode ev = SNDRV_SEQ_EVENT_LENGTH_VARIABLE"
  shows "alsaseq_event_get_blob_data h ev = Ret (ext_ptr ev, unat (ext_len ev))"
  using assms by (simp add: alsaseq_event_get_blob_data_def validate_event_type_and_length_def
      validate_event_type_def expected_length_mode_def length_mode_def)

lemma unat_of_nat_u32: "unat (of_nat n :: u32) = n mod 2 ^ 32"
  by (simp add: unat_of_nat)

text \<open>
  C8: a blob handed to \<open>alsaseq_event_set_blob_data\<close> at an address which is not the blob the
  event owns is copied to a new block: the former blob is released, the header is kept apart
  from the length mode, every other block of the heap is left alone, and
  \<open>alsaseq_event_get_blob_data\<close> then returns the address and the length of a block that holds
  the bytes handed over. The event owns that block again.
\<close>

theorem blob_data_roundtrip:
  assumes "malloc_ok malloc" "owns_blob h ev" "blob_apart self ev"
    and "seq_event_data_flags (ev_type ev) AND SEQ_EVENT_DATA_FLAG_BLOB \<noteq> 0"
    and "data \<noteq> 0" "heap_read (without_blob h ev) data len = Some bs" "len < 2 ^ 32"
    and "malloc (without_blob h ev) len = Some ptr"
  shows "\<exists>h' ev'. alsaseq_event_set_blob_data malloc self h ev data len = Ret (h', ev') \<and>
    alsaseq_event_get_blob_data h' ev' = Ret (ptr, len) \<and> heap_read h' ptr len = Some bs \<and>
    owns_blob h' ev' \<and> same_header ev' ev \<and>
    (\<forall>q cs. without_blob h ev q = Some cs \<longrightarrow> h' q = Some cs)"
proof -
  let ?h = "without_blob h ev"
  let ?h' = "if bs = [] then ?h else ?h(ptr \<mapsto> bs)"
  let ?ev' = "set_length_mode SNDRV_SEQ_EVENT_LENGTH_VARIABLE
      (data_put 0 (le_enc 4 (of_nat len :: u32)) (data_put 4 (le_enc 8 ptr) (ev\<lparr>ev_data := 0\<rparr>)))"
  have len: "length bs = len" using assms(6) by (rule heap_read_length)
  have new: "heap_new malloc ?h bs = Ret (?h', ptr)"
    using assms(8) len by (simp add: heap_new_def)
  have set: "alsaseq_event_set_blob_data malloc self h ev data len = Ret (?h', ?ev')"
    using assms new by (intro set_blob_data_owned)
  have fields: "ext_ptr ?ev' = ptr" "unat (ext_len ?ev') = len"
    "length_mode ?ev' = SNDRV_SEQ_EVENT_LENGTH_VARIABLE"
    using assms(7) by (simp_all add: unat_of_nat_u32)
  have get: "alsaseq_event_get_blob_data ?h' ?ev' = Ret (ptr, len)"
    using get_blob_variable [of ?ev' ?h'] assms(4) fields by simp
  have "ext_len ?ev' = 0 \<longleftrightarrow> bs = []"
    using fields(2) len by (metis length_0_conv unat_eq_zero)
  moreover have "if bs = [] then ptr = 0 else ptr \<noteq> 0"
    using malloc_okD [OF assms(1)] assms(8) len by auto
  ultimately have "owns_blob ?h' ?ev'" using fields len by (auto simp: owns_blob_def)
  then show ?thesis
    using set get len same_header_variable heap_new_read [OF new] heap_new_frame [OF assms(1) new]
    by blast
qed

lemma set_blob_data_example:
  "heap_read [512 \<mapsto> [0xf0, 0x7e, 0xf7]] 512 3 = Some [0xf0, 0x7e, 0xf7 :: u8]"
  "bump_malloc [512 \<mapsto> [0xf0, 0x7e, 0xf7]] 3 = Some 1024"
  "seq_event_data_flags 130 AND SEQ_EVENT_DATA_FLAG_BLOB \<noteq> 0"
  by (simp_all add: heap_read_def bump_malloc_def seq_event_data_flags_def)

theorem blob_data_roundtrip_witness:
  "\<exists>h' ev'. alsaseq_event_set_blob_data bump_malloc 64 [512 \<mapsto> [0xf0, 0x7e, 0xf7]]
       (zero_event\<lparr>ev_type := 130\<rparr>) 512 3 = Ret (h', ev') \<and>
     alsaseq_event_get_blob_data h' ev' = Ret (1024, 3) \<and>
     heap_read h' 1024 3 = Some [0xf0, 0x7e, 0xf7]"
proof -
  have "\<exists>h' ev'. alsaseq_event_set_blob_data bump_malloc 64 [512 \<mapsto> [0xf0, 0x7e, 0xf7]]
       (zero_event\<lparr>ev_type := 130\<rparr>) 512 3 = Ret (h', ev') \<and>
     alsaseq_event_get_blob_data h' ev' = Ret (1024, 3) \<and>
     heap_read h' 1024 3 = Some [0xf0, 0x7e, 0xf7] \<and>
     owns_blob h' ev' \<and> same_header ev' (zero_event\<lparr>ev_type := 130\<rparr>) \<and>
     (\<forall>q cs. without_blob [512 \<mapsto> [0xf0, 0x7e, 0xf7]] (zero_event\<lparr>ev_type := 130\<rparr>) q = Some cs
        \<longrightarrow> h' q = Some cs)"
    by (rule blob_data_roundtrip [OF malloc_ok_bump])
      (simp_all add: set_blob_data_example)
  then show ?thesis by blast
qed

text \<open>
  C22: the boxed copy of an event whose blob lies on the heap, as \<open>alsaseq_event_set_blob_data\<close>
  leaves it, reads the blob from behind the structure instead of through the pointer, outside
  of the allocation of the event.
\<close>

theorem copy_of_heap_blob_undefined:
  assumes "alsaseq_event_set_blob_data malloc self h ev data len = Ret (h', ev')"
    and "0 < len" "len < 2 ^ 32"
  shows "seq_event_copy malloc2 h' (event_enc ev') = Undefined"
proof -
  obtain ptr :: u64 where "ev' = set_length_mode SNDRV_SEQ_EVENT_LENGTH_VARIABLE
      (data_put 0 (le_enc 4 (of_nat len :: u32)) (data_put 4 (le_enc 8 ptr) (ev\<lparr>ev_data := 0\<rparr>)))"
    using set_blob_data_cases [OF assms(1)] by metis
  then have "length_mode ev' = SNDRV_SEQ_EVENT_LENGTH_VARIABLE" "unat (ext_len ev') = len"
    using assms(3) by (simp_all add: unat_of_nat_u32)
  then show ?thesis using assms(2) by (simp add: seq_event_copy_def event_dec_enc)
qed

theorem copy_of_heap_blob_undefined_witness:
  "\<exists>h' ev'. alsaseq_event_set_blob_data bump_malloc 64 [512 \<mapsto> [0xf0, 0x7e, 0xf7]]
       (zero_event\<lparr>ev_type := 130\<rparr>) 512 3 = Ret (h', ev') \<and>
     seq_event_copy bump_malloc h' (event_enc ev') = Undefined"
proof -
  let ?ev = "zero_event\<lparr>ev_type := 130\<rparr>"
  obtain h' ptr where "heap_new bump_malloc (without_blob [512 \<mapsto> [0xf0, 0x7e, 0xf7]] ?ev)
      [0xf0, 0x7e, 0xf7] = Ret (h', ptr)"
    by (simp add: heap_new_def bump_malloc_def)
  then have "\<exists>ev'. alsaseq_event_set_blob_data bump_malloc 64 [512 \<mapsto> [0xf0, 0x7e, 0xf7]] ?ev 512 3
      = Ret (h', ev')"
    using set_blob_data_owned [of _ ?ev 64 512 3 "[0xf0, 0x7e, 0xf7]" bump_malloc h' ptr]
    by (simp add: set_blob_data_example)
  then obtain ev' where ev': "alsaseq_event_set_blob_data bump_malloc 64
      [512 \<mapsto> [0xf0, 0x7e, 0xf7]] ?ev 512 3 = Ret (h', ev')" by blast
  have "seq_event_copy bump_malloc h' (event_enc ev') = Undefined"
    by (rule copy_of_heap_blob_undefined [OF ev']) simp_all
  with ev' show ?thesis by blast
qed

text \<open>
  Handing the blob of an event, as \<open>alsaseq_event_get_blob_data\<close> returns it, back to
  \<open>alsaseq_event_set_blob_data\<close> of the same event reads the block after it was released.
\<close>

theorem set_own_blob_undefined:
  assumes "owns_blob h ev" "blob_apart self ev"
    and "alsaseq_event_get_blob_data h ev = Ret (data, len)" "0 < len"
  shows "alsaseq_event_set_blob_data malloc self h ev data len = Undefined"
proof -
  have type: "seq_event_data_flags (ev_type ev) AND SEQ_EVENT_DATA_FLAG_BLOB \<noteq> 0"
    and mode: "length_mode ev = SNDRV_SEQ_EVENT_LENGTH_VARIABLE"
    and data: "data = ext_ptr ev" "len = unat (ext_len ev)"
    using assms(3) ucast_u8_inject [of "ev_flags ev AND 12" 4]
    by (auto simp: alsaseq_event_get_blob_data_def validate_event_type_and_length_def
        validate_event_type_def expected_length_mode_def length_mode_def split: if_splits)
  then have "ext_ptr ev \<noteq> 0" using assms(1,4) by (auto simp: owns_blob_def split: if_splits)
  then show ?thesis using type mode data assms
    by (simp add: alsaseq_event_set_blob_data_def validate_event_type_def
        ensure_variable_length_event_def clear_data_fields_owned without_blob_def heap_read_def)
qed

definition blob_event :: snd_seq_event where
  "blob_event =
     data_put 4 (le_enc 8 (1024 :: u64)) (data_put 0 (le_enc 4 (2 :: u32))
       (zero_event\<lparr>ev_type := 130, ev_flags := SNDRV_SEQ_EVENT_LENGTH_VARIABLE\<rparr>))"

lemma blob_event [simp]:
  "ev_type blob_event = 130" "length_mode blob_event = SNDRV_SEQ_EVENT_LENGTH_VARIABLE"
  "ext_len blob_event = 2" "ext_ptr blob_event = 1024"
  by (simp_all add: blob_event_def) (simp add: length_mode_def)

theorem set_own_blob_undefined_witness:
  "alsaseq_event_set_blob_data bump_malloc 64 [1024 \<mapsto> [1, 2]] blob_event 1024 2 = Undefined"
  by (rule set_own_blob_undefined)
    (simp_all add: owns_blob_def blob_apart_def get_blob_variable set_blob_data_example)

section \<open>Time stamps and delivery\<close>

text \<open>
  A call for the time stamp in the mode the event does not have returns \<open>FALSE\<close> with no
  error set, for every accessor of event time and of time data.
\<close>

theorem tstamp_mode_mismatch_sets_no_error:
  shows "alsaseq_event_get_tstamp_mode ev = 0 \<and>
      alsaseq_event_get_real_time ev = FalseUnset \<and> alsaseq_event_set_real_time ev rt = FalseUnset \<and>
      alsaseq_event_get_tick_time ev = Ret (ts_sec (ev_time ev)) \<or>
    alsaseq_event_get_tstamp_mode ev = 1 \<and>
      alsaseq_event_get_tick_time ev = FalseUnset \<and> alsaseq_event_set_tick_time ev t = FalseUnset \<and>
      alsaseq_event_get_real_time ev = Ret (ts_sec (ev_time ev), ts_nsec (ev_time ev))"
proof -
  have "ev_flags ev AND 1 = 0 \<or> ev_flags ev AND 1 = 1"
    by (simp add: and_one_eq mod_2_eq_odd)
  then show ?thesis
    by (auto simp: alsaseq_event_get_tstamp_mode_def alsaseq_event_get_real_time_def
        alsaseq_event_set_real_time_def alsaseq_event_get_tick_time_def
        alsaseq_event_set_tick_time_def validate_event_tstamp_mode_def)
qed

lemma deliverable_type_iff:
  "(\<exists>ev. ev_type ev = t \<and> seq_event_is_deliverable ev) \<longleftrightarrow> seq_event_data_flags t AND SEQ_EVENT_DATA_FLAG_ANY \<noteq> 0"
proof -
  let ?f = "seq_event_data_flags t"
  let ?ev = "\<lambda>mode. zero_event\<lparr>ev_type := t, ev_flags := mode\<rparr>"
  have "?f AND SEQ_EVENT_DATA_FLAG_ANY = (?f AND SEQ_EVENT_DATA_FLAG_FIXED_ANY) OR
      (?f AND SEQ_EVENT_DATA_FLAG_VARIABLE_ANY) OR (?f AND SEQ_EVENT_DATA_FLAG_VARUSR_ANY)"
    by (simp flip: bit.conj_disj_distrib)
  then have split: "?f AND SEQ_EVENT_DATA_FLAG_ANY \<noteq> 0 \<longleftrightarrow> ?f AND SEQ_EVENT_DATA_FLAG_FIXED_ANY \<noteq> 0 \<or>
      ?f AND SEQ_EVENT_DATA_FLAG_VARIABLE_ANY \<noteq> 0 \<or> ?f AND SEQ_EVENT_DATA_FLAG_VARUSR_ANY \<noteq> 0"
    by (simp add: or_eq_0_iff)
  have note_flags: "t = 5 \<Longrightarrow> ?f = SEQ_EVENT_DATA_FLAG_NOTE" by (simp add: seq_event_data_flags_def)
  have modes: "length_mode (?ev SNDRV_SEQ_EVENT_LENGTH_FIXED) = SNDRV_SEQ_EVENT_LENGTH_FIXED"
      "length_mode (?ev SNDRV_SEQ_EVENT_LENGTH_VARIABLE) = SNDRV_SEQ_EVENT_LENGTH_VARIABLE"
      "length_mode ((?ev SNDRV_SEQ_EVENT_LENGTH_VARUSR)\<lparr>ev_queue := SNDRV_SEQ_QUEUE_DIRECT\<rparr>) = SNDRV_SEQ_EVENT_LENGTH_VARUSR"
    by (simp_all add: length_mode_def)
  show ?thesis
  proof
    assume "\<exists>ev. ev_type ev = t \<and> seq_event_is_deliverable ev"
    then show "?f AND SEQ_EVENT_DATA_FLAG_ANY \<noteq> 0"
      using note_flags by (auto simp: seq_event_is_deliverable_def split Let_def word_gt_0 split: if_splits)
  next
    assume "?f AND SEQ_EVENT_DATA_FLAG_ANY \<noteq> 0"
    then consider "?f AND SEQ_EVENT_DATA_FLAG_FIXED_ANY \<noteq> 0" | "?f AND SEQ_EVENT_DATA_FLAG_VARIABLE_ANY \<noteq> 0"
      | "?f AND SEQ_EVENT_DATA_FLAG_VARUSR_ANY \<noteq> 0" by (auto simp: split)
    then show "\<exists>ev. ev_type ev = t \<and> seq_event_is_deliverable ev"
    proof cases
      case 1
      then show ?thesis using modes(1) by (intro exI [of _ "?ev SNDRV_SEQ_EVENT_LENGTH_FIXED"])
        (simp add: seq_event_is_deliverable_def Let_def word_gt_0 zero_event_def)
    next
      case 2
      then show ?thesis using modes(2) by (intro exI [of _ "?ev SNDRV_SEQ_EVENT_LENGTH_VARIABLE"])
        (simp add: seq_event_is_deliverable_def Let_def word_gt_0 zero_event_def)
    next
      case 3
      then show ?thesis using modes(3)
        by (intro exI [of _ "(?ev SNDRV_SEQ_EVENT_LENGTH_VARUSR)\<lparr>ev_queue := SNDRV_SEQ_QUEUE_DIRECT\<rparr>"])
          (simp add: seq_event_is_deliverable_def Let_def word_gt_0 zero_event_def)
    qed
  qed
qed

text \<open>Of the types of the enumeration, those without data and the invalid one can never be delivered.\<close>

lemma deliverable_event_types:
  "(\<exists>ev. ev_type ev = seq_event_type_value t \<and> seq_event_is_deliverable ev) \<longleftrightarrow>
     t \<notin> {ALSASEQ_EVENT_TYPE_TUNE_REQUEST, ALSASEQ_EVENT_TYPE_RESET, ALSASEQ_EVENT_TYPE_SENSING, ALSASEQ_EVENT_TYPE_NONE}"
  unfolding deliverable_type_iff by (cases t) (simp_all add: seq_event_data_flags_def)

text \<open>
  C9: which events \<open>seq_event_is_deliverable\<close> accepts. In fixed length mode: a NOTE event that
  goes through a queue, and every other type apart from 40 to 49 (TUNE_REQUEST, RESET and
  SENSING among them, although they carry no data), 130 to 149 and 255. In variable length
  mode: types 50 to 59 and 130 to 254. With a pointer to user space: types 50 to 59 and 150
  to 254, dispatched directly. An event with both length bits set is refused. So among the types of
  the enumeration, TUNE_REQUEST, RESET, SENSING and NONE are those that no event can be delivered with.
\<close>

theorem seq_event_is_deliverable_iff:
  "(seq_event_is_deliverable ev \<longleftrightarrow>
     (let t = unat (ev_type ev) in
      (length_mode ev = SNDRV_SEQ_EVENT_LENGTH_FIXED \<and>
         (if t = 5 then ev_queue ev \<noteq> SNDRV_SEQ_QUEUE_DIRECT
          else \<not> (40 \<le> t \<and> t \<le> 49) \<and> \<not> (130 \<le> t \<and> t \<le> 149) \<and> t \<noteq> 255)) \<or>
      (length_mode ev = SNDRV_SEQ_EVENT_LENGTH_VARIABLE \<and>
         (50 \<le> t \<and> t \<le> 59 \<or> 130 \<le> t \<and> t \<le> 254)) \<or>
      (length_mode ev = SNDRV_SEQ_EVENT_LENGTH_VARUSR \<and>
         (50 \<le> t \<and> t \<le> 59 \<or> 150 \<le> t \<and> t \<le> 254) \<and> ev_queue ev = SNDRV_SEQ_QUEUE_DIRECT))) \<and>
   ((\<exists>ev'. ev_type ev' = seq_event_type_value type \<and> seq_event_is_deliverable ev') \<longleftrightarrow>
     type \<notin> {ALSASEQ_EVENT_TYPE_TUNE_REQUEST, ALSASEQ_EVENT_TYPE_RESET, ALSASEQ_EVENT_TYPE_SENSING, ALSASEQ_EVENT_TYPE_NONE})"
  (is "?deliverable \<and> ?types")
proof
  show ?types by (rule deliverable_event_types)
next
  have t: "unat (ev_type ev) \<le> 255" using unsigned_less [of "ev_type ev", where ?'a = nat] by simp
  have five: "ev_type ev = 5 \<longleftrightarrow> unat (ev_type ev) = 5" by (simp add: word_unat_eq_iff)
  show ?deliverable
    using t unfolding seq_event_is_deliverable_def seq_event_data_flags_def Let_def seq_event_type_value.simps five
      word_le_nat_alt
    by (auto split: if_splits)
qed

section \<open>Cells of the pool\<close>

text \<open>
  C21: the aligned length of an event is the least multiple of the 28 bytes of a cell that holds
  the structure and the blob, and the number of cells consumed is that multiple: at least one,
  and exactly one for an event without blob.
\<close>

theorem pool_consumption_least:
  "seq_event_calculate_flattened_length ev True
     = event_size * alsaseq_event_calculate_pool_consumption ev \<and>
   (\<forall>k. seq_event_calculate_flattened_length ev False \<le> event_size * k \<longleftrightarrow>
        alsaseq_event_calculate_pool_consumption ev \<le> k) \<and>
   1 \<le> alsaseq_event_calculate_pool_consumption ev \<and>
   (length_mode ev = SNDRV_SEQ_EVENT_LENGTH_VARIABLE \<or> alsaseq_event_calculate_pool_consumption ev = 1)"
proof -
  have "(n + 28 - 1) div 28 \<le> k \<longleftrightarrow> n \<le> 28 * k" for n k :: nat
    using div_less_iff_less_mult [of 28 "n + 27" "Suc k"] by auto
  from this [of "28 + unat (ext_len ev)"] show ?thesis
    by (auto simp: seq_event_calculate_flattened_length_def
        alsaseq_event_calculate_pool_consumption_def)
qed

end
