(* ===== verification/Seq_Event_Ops.thy ===== *)
theory Seq_Event_Ops
  imports Seq_Event
begin

text \<open>
  What an application sees of a sequencer event over its lifetime. The abstract event has a header and one
  payload, of the kind that was stored last; its operations are plain updates. The event of
  \<open>seq/event.c\<close> keeps the payload in a union of bytes and a block on the heap, and the mode of length in the flags.
  The theory shows that it implements the abstract event through any sequence of operations, and that the
  heap holds the blob of the event and nothing else of it, so that releasing the event gives all of it back.
\<close>

section \<open>The abstract event\<close>

datatype payload =
    NoData
  | NoteData snd_seq_ev_note
  | CtlData snd_seq_ev_ctrl
  | ByteData bytes
  | QuadletData "u32 \<times> u32 \<times> u32"
  | QueueData snd_seq_ev_queue_control
  | AddrData snd_seq_addr
  | ConnectData snd_seq_connect
  | ResultData snd_seq_result
  | TickTimeData u32
  | BlobData bytes
  | PointerData u64 nat

record event_spec =
  es_type :: u8
  es_time_mode :: seq_event_time_mode
  es_priority_mode :: seq_event_priority_mode
  es_tag :: u8
  es_queue :: u8
  es_time :: snd_seq_timestamp
  es_source :: snd_seq_addr
  es_dest :: snd_seq_addr
  es_payload :: payload

definition spec_new :: "u8 \<Rightarrow> event_spec" where
  "spec_new event_type =
     \<lparr>es_type = event_type, es_time_mode = ALSASEQ_EVENT_TIME_MODE_ABS, es_priority_mode = ALSASEQ_EVENT_PRIORITY_MODE_NORMAL,
      es_tag = 0, es_queue = 0, es_time = \<lparr>ts_sec = 0, ts_nsec = 0\<rparr>, es_source = \<lparr>addr_client = 0, addr_port = 0\<rparr>,
      es_dest = \<lparr>addr_client = 0, addr_port = 0\<rparr>, es_payload = NoData\<rparr>"

text \<open>
  The operations of an application on an event. There is none for the mode of the time stamp, so it stays the one of
  a new event, and operations on real time are refused.
\<close>

datatype event_op =
    SetTimeMode seq_event_time_mode
  | SetPriorityMode seq_event_priority_mode
  | SetTag u8
  | SetQueueId u8
  | SetSource snd_seq_addr
  | SetDestination snd_seq_addr
  | SetTickTime u32
  | SetRealTime "u32 \<times> u32"
  | SetNoteData snd_seq_ev_note
  | SetCtlData snd_seq_ev_ctrl
  | SetByteData bytes
  | SetQuadletData "u32 \<times> u32 \<times> u32"
  | SetQueueData snd_seq_ev_queue_control
  | SetAddrData snd_seq_addr
  | SetConnectData snd_seq_connect
  | SetResultData snd_seq_result
  | SetTickTimeData u32
  | SetRealTimeData "u32 \<times> u32"
  | SetBlobData u64 nat
  | SetPointerData u64 nat

text \<open>A payload is stored when the type of the event carries its kind; otherwise the operation is refused.\<close>

definition spec_store :: "u32 \<Rightarrow> payload \<Rightarrow> event_spec \<Rightarrow> event_spec" where
  "spec_store flag p s = (if seq_event_data_flags (es_type s) AND flag = 0 then s else s\<lparr>es_payload := p\<rparr>)"

text \<open>The bytes of a blob are those that the application has at the address it hands over.\<close>

fun spec_apply :: "heap \<Rightarrow> event_op \<Rightarrow> event_spec \<Rightarrow> event_spec" where
  "spec_apply frame (SetTimeMode m) s = s\<lparr>es_time_mode := m\<rparr>"
| "spec_apply frame (SetPriorityMode m) s = s\<lparr>es_priority_mode := m\<rparr>"
| "spec_apply frame (SetTag tag) s = s\<lparr>es_tag := tag\<rparr>"
| "spec_apply frame (SetQueueId q) s = s\<lparr>es_queue := q\<rparr>"
| "spec_apply frame (SetSource a) s = s\<lparr>es_source := a\<rparr>"
| "spec_apply frame (SetDestination a) s = s\<lparr>es_dest := a\<rparr>"
| "spec_apply frame (SetTickTime t) s = s\<lparr>es_time := (es_time s)\<lparr>ts_sec := t\<rparr>\<rparr>"
| "spec_apply frame (SetRealTime t) s = s"
| "spec_apply frame (SetNoteData d) s = spec_store SEQ_EVENT_DATA_FLAG_NOTE (NoteData d) s"
| "spec_apply frame (SetCtlData d) s = spec_store SEQ_EVENT_DATA_FLAG_CONTROL (CtlData d) s"
| "spec_apply frame (SetByteData d) s = spec_store SEQ_EVENT_DATA_FLAG_BYTE (ByteData d) s"
| "spec_apply frame (SetQuadletData d) s = spec_store SEQ_EVENT_DATA_FLAG_QUADLET (QuadletData d) s"
| "spec_apply frame (SetQueueData d) s = spec_store SEQ_EVENT_DATA_FLAG_QUEUE (QueueData d) s"
| "spec_apply frame (SetAddrData d) s = spec_store SEQ_EVENT_DATA_FLAG_ADDR (AddrData d) s"
| "spec_apply frame (SetConnectData d) s = spec_store SEQ_EVENT_DATA_FLAG_CONNECT (ConnectData d) s"
| "spec_apply frame (SetResultData d) s = spec_store SEQ_EVENT_DATA_FLAG_RESULT (ResultData d) s"
| "spec_apply frame (SetTickTimeData t) s = spec_store SEQ_EVENT_DATA_FLAG_TSTAMP (TickTimeData t) s"
| "spec_apply frame (SetRealTimeData t) s = s"
| "spec_apply frame (SetBlobData a n) s =
     (case heap_read frame a n of
        Some bs \<Rightarrow> if a = 0 then s else spec_store SEQ_EVENT_DATA_FLAG_BLOB (BlobData bs) s
      | None \<Rightarrow> s)"
| "spec_apply frame (SetPointerData a n) s =
     (if a = 0 \<or> n = 0 then s else spec_store SEQ_EVENT_DATA_FLAG_POINTER (PointerData a n) s)"

section \<open>The same operations on the event of the library\<close>

fun event_apply :: "allocator \<Rightarrow> u64 \<Rightarrow> event_op \<Rightarrow> heap \<Rightarrow> snd_seq_event \<Rightarrow> (heap \<times> snd_seq_event) outcome" where
  "event_apply malloc self (SetTimeMode m) h ev =
     Ret (h, alsaseq_event_set_time_mode ev (ucast (seq_event_time_mode_value m)))"
| "event_apply malloc self (SetPriorityMode m) h ev =
     Ret (h, alsaseq_event_set_priority_mode ev (ucast (seq_event_priority_mode_value m)))"
| "event_apply malloc self (SetTag tag) h ev = Ret (h, alsaseq_event_set_tag ev tag)"
| "event_apply malloc self (SetQueueId q) h ev = Ret (h, alsaseq_event_set_queue_id ev q)"
| "event_apply malloc self (SetSource a) h ev = Ret (h, alsaseq_event_set_source ev a)"
| "event_apply malloc self (SetDestination a) h ev = Ret (h, alsaseq_event_set_destination ev a)"
| "event_apply malloc self (SetTickTime t) h ev = obind (alsaseq_event_set_tick_time ev t) (\<lambda>ev'. Ret (h, ev'))"
| "event_apply malloc self (SetRealTime t) h ev = obind (alsaseq_event_set_real_time ev t) (\<lambda>ev'. Ret (h, ev'))"
| "event_apply malloc self (SetNoteData d) h ev = alsaseq_event_set_note_data self h ev d"
| "event_apply malloc self (SetCtlData d) h ev = alsaseq_event_set_ctl_data self h ev d"
| "event_apply malloc self (SetByteData d) h ev = alsaseq_event_set_byte_data self h ev d"
| "event_apply malloc self (SetQuadletData d) h ev = alsaseq_event_set_quadlet_data self h ev d"
| "event_apply malloc self (SetQueueData d) h ev = alsaseq_event_set_queue_data self h ev d"
| "event_apply malloc self (SetAddrData d) h ev = alsaseq_event_set_addr_data self h ev d"
| "event_apply malloc self (SetConnectData d) h ev = alsaseq_event_set_connect_data self h ev d"
| "event_apply malloc self (SetResultData d) h ev = alsaseq_event_set_result_data self h ev d"
| "event_apply malloc self (SetTickTimeData t) h ev = alsaseq_event_set_tick_time_data self h ev t"
| "event_apply malloc self (SetRealTimeData t) h ev = alsaseq_event_set_real_time_data self h ev t"
| "event_apply malloc self (SetBlobData a n) h ev = alsaseq_event_set_blob_data malloc self h ev a n"
| "event_apply malloc self (SetPointerData a n) h ev = alsaseq_event_set_pointer_data self h ev a n"

text \<open>
  A refused operation leaves the event as it was and the application goes on; running out of memory ends the process, and
  undefined behaviour ends what can be said of it.
\<close>

fun run_ops :: "allocator \<Rightarrow> u64 \<Rightarrow> event_op list \<Rightarrow> heap \<Rightarrow> snd_seq_event \<Rightarrow> (heap \<times> snd_seq_event) outcome" where
  "run_ops malloc self [] h ev = Ret (h, ev)"
| "run_ops malloc self (op # ops) h ev =
     (case event_apply malloc self op h ev of
        Ret (h', ev') \<Rightarrow> run_ops malloc self ops h' ev'
      | Abort \<Rightarrow> Abort
      | Undefined \<Rightarrow> Undefined
      | _ \<Rightarrow> run_ops malloc self ops h ev)"

text \<open>What is documented of the arguments: twelve bytes, readable blobs, lengths that fit the structure.\<close>

fun op_ok :: "heap \<Rightarrow> event_op \<Rightarrow> bool" where
  "op_ok frame (SetByteData d) \<longleftrightarrow> length d = 12"
| "op_ok frame (SetBlobData a n) \<longleftrightarrow> heap_read frame a n \<noteq> None \<and> n < 2 ^ 32"
| "op_ok frame (SetPointerData a n) \<longleftrightarrow> n < 2 ^ 32"
| "op_ok frame _ \<longleftrightarrow> True"

section \<open>The abstraction\<close>

fun payload_mode :: "payload \<Rightarrow> u8" where
  "payload_mode (BlobData bs) = seq_event_length_mode_value ALSASEQ_EVENT_LENGTH_MODE_VARIABLE"
| "payload_mode (PointerData a n) = seq_event_length_mode_value ALSASEQ_EVENT_LENGTH_MODE_POINTER"
| "payload_mode _ = seq_event_length_mode_value ALSASEQ_EVENT_LENGTH_MODE_FIXED"

text \<open>A payload is what the getter of its kind returns.\<close>

fun reads_payload :: "heap \<Rightarrow> snd_seq_event \<Rightarrow> payload \<Rightarrow> bool" where
  "reads_payload h ev NoData \<longleftrightarrow> ev_data ev = 0"
| "reads_payload h ev (NoteData d) \<longleftrightarrow> alsaseq_event_get_note_data ev = Ret d"
| "reads_payload h ev (CtlData d) \<longleftrightarrow> alsaseq_event_get_ctl_data ev = Ret d"
| "reads_payload h ev (ByteData d) \<longleftrightarrow> alsaseq_event_get_byte_data ev = Ret d"
| "reads_payload h ev (QuadletData d) \<longleftrightarrow> alsaseq_event_get_quadlet_data ev = Ret d"
| "reads_payload h ev (QueueData d) \<longleftrightarrow> alsaseq_event_get_queue_data ev = Ret d"
| "reads_payload h ev (AddrData d) \<longleftrightarrow> alsaseq_event_get_addr_data ev = Ret d"
| "reads_payload h ev (ConnectData d) \<longleftrightarrow> alsaseq_event_get_connect_data ev = Ret d"
| "reads_payload h ev (ResultData d) \<longleftrightarrow> alsaseq_event_get_result_data ev = Ret d"
| "reads_payload h ev (TickTimeData t) \<longleftrightarrow> alsaseq_event_get_tick_time_data ev = Ret t"
| "reads_payload h ev (BlobData bs) \<longleftrightarrow>
     (\<exists>ptr. alsaseq_event_get_blob_data h ev = Ret (ptr, length bs) \<and> heap_read h ptr (length bs) = Some bs)"
| "reads_payload h ev (PointerData a n) \<longleftrightarrow> alsaseq_event_get_pointer_data ev = Ret (a, n)"

definition same_fields :: "snd_seq_event \<Rightarrow> event_spec \<Rightarrow> bool" where
  "same_fields ev s \<longleftrightarrow> ev_type ev = es_type s \<and> ev_tag ev = es_tag s \<and> ev_queue ev = es_queue s \<and>
     ev_time ev = es_time s \<and> ev_source ev = es_source s \<and> ev_dest ev = es_dest s \<and>
     ev_flags ev = seq_event_time_mode_value (es_time_mode s) OR seq_event_priority_mode_value (es_priority_mode s) OR
       payload_mode (es_payload s)"

text \<open>
  The event at address \<open>self\<close>, over a heap that is the memory of the application, \<open>frame\<close>, and the blob of the event.
\<close>

definition represents :: "u64 \<Rightarrow> heap \<Rightarrow> heap \<Rightarrow> snd_seq_event \<Rightarrow> event_spec \<Rightarrow> bool" where
  "represents self frame h ev s \<longleftrightarrow> same_fields ev s \<and> reads_payload h ev (es_payload s) \<and>
     owns_blob h ev \<and> blob_apart self ev \<and> without_blob h ev = frame"

section \<open>Simulation\<close>

lemma spec_flags:
  "(seq_event_time_mode_value tm OR seq_event_priority_mode_value pm OR payload_mode p) AND SNDRV_SEQ_EVENT_LENGTH_MASK = payload_mode p"
  "(seq_event_time_mode_value tm OR seq_event_priority_mode_value pm OR payload_mode p) AND NOT SNDRV_SEQ_EVENT_LENGTH_MASK =
     seq_event_time_mode_value tm OR seq_event_priority_mode_value pm"
  "(seq_event_time_mode_value tm OR seq_event_priority_mode_value pm OR payload_mode p) AND SNDRV_SEQ_TIME_STAMP_MASK = 0"
  by (cases tm; cases pm; cases p; simp)+

lemma set_mode_flags:
  "set_masked SNDRV_SEQ_TIME_MODE_MASK (seq_event_time_mode_value tm')
     (seq_event_time_mode_value tm OR seq_event_priority_mode_value pm OR payload_mode p) =
   seq_event_time_mode_value tm' OR seq_event_priority_mode_value pm OR payload_mode p"
  "set_masked SNDRV_SEQ_PRIORITY_MASK (seq_event_priority_mode_value pm')
     (seq_event_time_mode_value tm OR seq_event_priority_mode_value pm OR payload_mode p) =
   seq_event_time_mode_value tm OR seq_event_priority_mode_value pm' OR payload_mode p"
  unfolding set_masked_def by (cases tm; cases tm'; cases pm; cases p; simp) (cases tm; cases pm'; cases pm; cases p; simp)

lemma same_fields_mode:
  "same_fields ev s \<Longrightarrow> length_mode ev = payload_mode (es_payload s)"
  "same_fields ev s \<Longrightarrow> ev_flags ev AND SNDRV_SEQ_TIME_STAMP_MASK = 0"
  by (simp_all add: same_fields_def length_mode_def spec_flags)

lemma reads_payload_cong:
  assumes "ev_type ev' = ev_type ev" "length_mode ev' = length_mode ev" "ev_data ev' = ev_data ev"
    and "ev_flags ev' AND SNDRV_SEQ_TIME_STAMP_MASK = ev_flags ev AND SNDRV_SEQ_TIME_STAMP_MASK"
  shows "reads_payload h ev' p = reads_payload h ev p"
proof -
  have "validate_event_type_and_length ev' = validate_event_type_and_length ev" "validate_event_type ev' = validate_event_type ev"
      "validate_event_tstamp_mode ev' = validate_event_tstamp_mode ev"
      "data_get off n ev' = data_get off n ev" "ext_len ev' = ext_len ev" "ext_ptr ev' = ext_ptr ev" for off n
    using assms by (simp_all add: fun_eq_iff validate_event_type_and_length_def validate_event_type_def
        validate_event_tstamp_mode_def data_get_def ext_len_def ext_ptr_def length_mode_def)
  then show ?thesis
    by (cases p) (simp_all add: assms alsaseq_event_get_note_data_def alsaseq_event_get_ctl_data_def alsaseq_event_get_byte_data_def
        alsaseq_event_get_quadlet_data_def alsaseq_event_get_queue_data_def alsaseq_event_get_addr_data_def
        alsaseq_event_get_connect_data_def alsaseq_event_get_result_data_def alsaseq_event_get_tick_time_data_def
        alsaseq_event_get_blob_data_def alsaseq_event_get_pointer_data_def)
qed

text \<open>Operations on the header leave the payload alone.\<close>

lemma represents_header:
  assumes "represents self frame h ev s" "same_fields ev' s'" "es_payload s' = es_payload s" "es_type s' = es_type s"
    and "ev_data ev' = ev_data ev"
  shows "represents self frame h ev' s'"
proof -
  have fields: "same_fields ev s" using assms(1) by (simp add: represents_def)
  have mode: "length_mode ev' = length_mode ev" "ev_flags ev' AND 1 = ev_flags ev AND 1"
    using same_fields_mode [OF fields] same_fields_mode [OF assms(2)] assms(3) by simp_all
  have "ev_type ev' = ev_type ev" using fields assms(2,4) by (simp add: same_fields_def)
  then have reads: "reads_payload h ev' p = reads_payload h ev p" for p
    using reads_payload_cong [of ev' ev h p] mode assms(5) by simp
  have "ext_ptr ev' = ext_ptr ev" "ext_len ev' = ext_len ev"
    using assms(5) by (simp_all add: ext_ptr_def ext_len_def data_get_def)
  then have "owns_blob h ev' = owns_blob h ev" "blob_apart self ev' = blob_apart self ev" "without_blob h ev' = without_blob h ev"
    using mode(1) by (simp_all add: owns_blob_def blob_apart_def without_blob_def)
  with reads show ?thesis using assms(1-3) by (simp add: represents_def)
qed

text \<open>Operations on the data keep the header and take the mode of length of the payload.\<close>

lemma represents_data:
  assumes "represents self frame h ev s" "same_header ev' ev" "length_mode ev' = payload_mode p" "reads_payload h' ev' p"
    and "owns_blob h' ev'" "blob_apart self ev'" "without_blob h' ev' = frame"
  shows "represents self frame h' ev' (s\<lparr>es_payload := p\<rparr>)"
proof -
  have fields: "same_fields ev s" using assms(1) by (simp add: represents_def)
  have "ev_flags ev' = (ev_flags ev' AND NOT 12) OR (ev_flags ev' AND 12)"
    by (simp flip: bit.conj_disj_distrib)
  also have "\<dots> = (ev_flags ev AND NOT 12) OR payload_mode p"
    using assms(2,3) by (simp add: same_header_def length_mode_def)
  also have "ev_flags ev AND NOT 12 = seq_event_time_mode_value (es_time_mode s) OR seq_event_priority_mode_value (es_priority_mode s)"
    using fields spec_flags(2) by (simp add: same_fields_def)
  finally have "same_fields ev' (s\<lparr>es_payload := p\<rparr>)"
    using fields assms(2) by (simp add: same_fields_def same_header_def or.assoc)
  then show ?thesis using assms(4-7) by (simp add: represents_def)
qed

lemma represents_fixed:
  assumes "represents self frame h ev s" "same_header ev' ev" "length_mode ev' = SNDRV_SEQ_EVENT_LENGTH_FIXED"
    and "payload_mode p = SNDRV_SEQ_EVENT_LENGTH_FIXED" "reads_payload frame ev' p"
  shows "represents self frame frame ev' (s\<lparr>es_payload := p\<rparr>)"
  by (rule represents_data [OF assms(1,2)]) (use assms(3-5) in \<open>simp_all add: owns_blob_def blob_apart_def without_blob_def\<close>)

text \<open>What one operation may do: keep the abstraction, refuse with no effect, or run out of memory.\<close>

definition simulates :: "u64 \<Rightarrow> heap \<Rightarrow> (heap \<times> snd_seq_event) outcome \<Rightarrow> event_spec \<Rightarrow> event_spec \<Rightarrow> bool" where
  "simulates self frame r s s' \<longleftrightarrow>
     (case r of
        Ret (h', ev') \<Rightarrow> represents self frame h' ev' s'
      | Abort \<Rightarrow> True
      | Undefined \<Rightarrow> False
      | _ \<Rightarrow> s' = s)"

lemma simulates_header:
  assumes "represents self frame h ev s" "same_fields ev' s'" "es_payload s' = es_payload s" "es_type s' = es_type s"
    and "ev_data ev' = ev_data ev"
  shows "simulates self frame (Ret (h, ev')) s s'"
  using represents_header [OF assms] by (simp add: simulates_def)

lemma simulates_fixed:
  assumes "represents self frame h ev s" "fixed_data_contract set_data get_data flag self h ev d"
    and "payload_mode p = SNDRV_SEQ_EVENT_LENGTH_FIXED" "\<And>ev'. get_data ev' = Ret d \<Longrightarrow> reads_payload frame ev' p"
  shows "simulates self frame (set_data self h ev d) s (spec_store flag p s)"
proof -
  have type: "ev_type ev = es_type s" and frame: "without_blob h ev = frame"
    using assms(1) by (simp_all add: represents_def same_fields_def)
  show ?thesis
  proof (cases "seq_event_data_flags (es_type s) AND flag = 0")
    case True
    then show ?thesis using assms(2) type by (simp add: fixed_data_contract_def simulates_def spec_store_def)
  next
    case False
    then obtain ev' where "set_data self h ev d = Ret (frame, ev')" "get_data ev' = Ret d" "same_header ev' ev"
        "length_mode ev' = SNDRV_SEQ_EVENT_LENGTH_FIXED"
      using assms(2) type frame by (auto simp: fixed_data_contract_def)
    with False represents_fixed [OF assms(1)] assms(3,4) show ?thesis by (simp add: simulates_def spec_store_def)
  qed
qed

lemma simulates_tick_time_data:
  assumes "represents self frame h ev s"
  shows "simulates self frame (alsaseq_event_set_tick_time_data self h ev t) s (spec_store SEQ_EVENT_DATA_FLAG_TSTAMP (TickTimeData t) s)"
proof -
  let ?ev' = "data_put 0 (le_enc 4 t) (set_length_mode SNDRV_SEQ_EVENT_LENGTH_FIXED (ev\<lparr>ev_data := 0\<rparr>))"
  have fields: "same_fields ev s" and own: "owns_blob h ev" "blob_apart self ev" and frame: "without_blob h ev = frame"
    using assms by (simp_all add: represents_def)
  have type: "ev_type ev = es_type s" and tick: "ev_flags ev AND 1 = 0"
    using fields same_fields_mode(2) [OF fields] by (simp_all add: same_fields_def)
  have mode: "length_mode ?ev' = SNDRV_SEQ_EVENT_LENGTH_FIXED" by simp
  show ?thesis
  proof (cases "seq_event_data_flags (es_type s) AND SEQ_EVENT_DATA_FLAG_TSTAMP = 0")
    case True
    then show ?thesis using type
      by (simp add: alsaseq_event_set_tick_time_data_def validate_event_type_def simulates_def spec_store_def)
  next
    case False
    have "alsaseq_event_get_tick_time_data ?ev' = Ret t"
      using False type tick mode by (simp add: alsaseq_event_get_tick_time_data_def validate_event_type_and_length_def
          validate_event_type_def validate_event_tstamp_mode_def expected_length_mode_def length_mode_def codec_simps)
    moreover have "same_header ?ev' ev" by (rule same_header_set_length_mode) simp
    ultimately have "represents self frame frame ?ev' (s\<lparr>es_payload := TickTimeData t\<rparr>)"
      using represents_fixed [OF assms, of ?ev' "TickTimeData t"] mode by simp
    with False type tick frame show ?thesis
      by (simp add: alsaseq_event_set_tick_time_data_def validate_event_type_def validate_event_tstamp_mode_def
          ensure_fixed_owned [OF own] simulates_def spec_store_def)
  qed
qed

lemma simulates_pointer_data:
  assumes "represents self frame h ev s" "len < 2 ^ 32"
  shows "simulates self frame (alsaseq_event_set_pointer_data self h ev data len) s (spec_apply frame (SetPointerData data len) s)"
proof -
  let ?ev' = "data_put 0 (le_enc 4 (of_nat len :: u32)) (data_put 4 (le_enc 8 data)
      (set_length_mode SNDRV_SEQ_EVENT_LENGTH_VARUSR (ev\<lparr>ev_data := 0\<rparr>)))"
  have own: "owns_blob h ev" "blob_apart self ev" and frame: "without_blob h ev = frame"
    and type: "ev_type ev = es_type s"
    using assms(1) by (simp_all add: represents_def same_fields_def)
  have mode: "length_mode ?ev' = SNDRV_SEQ_EVENT_LENGTH_VARUSR" by simp
  show ?thesis
  proof (cases "data = 0 \<or> len = 0 \<or> seq_event_data_flags (es_type s) AND SEQ_EVENT_DATA_FLAG_POINTER = 0")
    case True
    then show ?thesis using type
      by (auto simp: alsaseq_event_set_pointer_data_def validate_event_type_def simulates_def spec_store_def)
  next
    case False
    have "alsaseq_event_get_pointer_data ?ev' = Ret (data, len)"
      using False type mode assms(2) by (simp add: alsaseq_event_get_pointer_data_def validate_event_type_and_length_def
          validate_event_type_def expected_length_mode_def length_mode_def unat_of_nat_u32)
    moreover have "same_header ?ev' ev" by (simp add: same_header_def set_length_mode_def set_masked_other)
    ultimately have "represents self frame frame ?ev' (s\<lparr>es_payload := PointerData data len\<rparr>)"
      by (intro represents_data [OF assms(1)]) (use mode in \<open>simp_all add: owns_blob_def blob_apart_def without_blob_def\<close>)
    with False type frame show ?thesis
      by (simp add: alsaseq_event_set_pointer_data_def validate_event_type_def ensure_pointer_length_event_def
          clear_data_fields_owned [OF own] simulates_def spec_store_def)
  qed
qed

lemma simulates_blob_data:
  assumes "represents self frame h ev s" "len < 2 ^ 32" "heap_read frame data len = Some bs" "malloc_ok malloc"
    and "\<And>h n. malloc h n \<noteq> Some (self + of_nat event_size)"
  shows "simulates self frame (alsaseq_event_set_blob_data malloc self h ev data len) s (spec_apply frame (SetBlobData data len) s)"
proof -
  have own: "owns_blob h ev" "blob_apart self ev" and frame: "without_blob h ev = frame"
    and type: "ev_type ev = es_type s"
    using assms(1) by (simp_all add: represents_def same_fields_def)
  have len: "length bs = len" using assms(3) by (rule heap_read_length)
  show ?thesis
  proof (cases "data = 0 \<or> seq_event_data_flags (es_type s) AND SEQ_EVENT_DATA_FLAG_BLOB = 0")
    case True
    then show ?thesis using type assms(3)
      by (auto simp: alsaseq_event_set_blob_data_def validate_event_type_def simulates_def spec_store_def)
  next
    case stored: False
    show ?thesis
    proof (cases "malloc frame (length bs)")
      case None
      then show ?thesis using stored type assms(3) frame
        by (simp add: alsaseq_event_set_blob_data_def validate_event_type_def ensure_variable_length_event_def
            clear_data_fields_owned [OF own] heap_new_def simulates_def)
    next
      case (Some ptr)
      then obtain h' where new: "heap_new malloc frame bs = Ret (h', ptr)" by (simp add: heap_new_def)
      let ?ev' = "set_length_mode SNDRV_SEQ_EVENT_LENGTH_VARIABLE
          (data_put 0 (le_enc 4 (of_nat len :: u32)) (data_put 4 (le_enc 8 ptr) (ev\<lparr>ev_data := 0\<rparr>)))"
      have ext: "ext_ptr ?ev' = ptr" "unat (ext_len ?ev') = len" "length_mode ?ev' = SNDRV_SEQ_EVENT_LENGTH_VARIABLE"
        using assms(2) by (simp_all add: unat_of_nat_u32)
      have zero: "ext_len ?ev' = 0 \<longleftrightarrow> bs = []" using ext(2) len by (metis length_0_conv unat_eq_zero)
      have "represents self frame h' ?ev' (s\<lparr>es_payload := BlobData bs\<rparr>)"
      proof (rule represents_data [OF assms(1) same_header_variable])
        show "reads_payload h' ?ev' (BlobData bs)"
          using get_blob_variable [of ?ev' h'] stored type ext heap_new_read [OF new] len by simp
        show "owns_blob h' ?ev'" "without_blob h' ?ev' = frame"
          using heap_new_release [OF assms(4) new] zero ext len by (auto simp: owns_blob_def without_blob_def split: if_splits)
        show "blob_apart self ?ev'" using assms(5) [of frame "length bs"] Some ext by (simp add: blob_apart_def)
      qed (simp add: ext)
      moreover have "alsaseq_event_set_blob_data malloc self h ev data len = Ret (h', ?ev')"
        using stored type assms(3) frame new own by (intro set_blob_data_owned) simp_all
      ultimately show ?thesis using stored assms(3) by (simp add: simulates_def spec_store_def)
    qed
  qed
qed

lemmas simulates_fixed_data =
  simulates_fixed [OF _ note_data.contract, where p = "NoteData d" for d]
  simulates_fixed [OF _ ctl_data.contract, where p = "CtlData d" for d]
  simulates_fixed [OF _ byte_data_contract, where p = "ByteData d" for d]
  simulates_fixed [OF _ quadlet_data.contract, where p = "QuadletData d" for d]
  simulates_fixed [OF _ queue_data.contract, where p = "QueueData d" for d]
  simulates_fixed [OF _ address_data.contract, where p = "AddrData d" for d]
  simulates_fixed [OF _ connect_data.contract, where p = "ConnectData d" for d]
  simulates_fixed [OF _ result_data.contract, where p = "ResultData d" for d]

lemmas header_setters =
  alsaseq_event_set_time_mode_def alsaseq_event_set_priority_mode_def alsaseq_event_set_tag_def alsaseq_event_set_queue_id_def
  alsaseq_event_set_source_def alsaseq_event_set_destination_def

lemma event_apply_simulates:
  assumes "represents self frame h ev s" "op_ok frame op" "malloc_ok malloc"
    and "\<And>h n. malloc h n \<noteq> Some (self + of_nat event_size)"
  shows "simulates self frame (event_apply malloc self op h ev) s (spec_apply frame op s)"
proof -
  have fields: "same_fields ev s" and own: "owns_blob h ev" "blob_apart self ev"
    using assms(1) by (simp_all add: represents_def)
  have tick: "ev_flags ev AND 1 = 0" using same_fields_mode(2) [OF fields] .
  have flags: "ev_flags ev = seq_event_time_mode_value (es_time_mode s) OR seq_event_priority_mode_value (es_priority_mode s) OR
      payload_mode (es_payload s)" using fields by (simp add: same_fields_def)
  have header: "same_fields ev' s' \<Longrightarrow> es_payload s' = es_payload s \<Longrightarrow> es_type s' = es_type s \<Longrightarrow> ev_data ev' = ev_data ev \<Longrightarrow>
      simulates self frame (Ret (h, ev')) s s'" for ev' s' by (rule simulates_header [OF assms(1)])
  show ?thesis
  proof (cases op)
    case (SetTimeMode m)
    then show ?thesis using fields set_mode_flags(1) [of m] by (auto intro!: header simp: same_fields_def header_setters)
  next
    case (SetPriorityMode m)
    then show ?thesis using fields set_mode_flags(2) [of m] by (auto intro!: header simp: same_fields_def header_setters)
  next
    case (SetRealTime t)
    then show ?thesis using tick
      by (simp add: alsaseq_event_set_real_time_def validate_event_tstamp_mode_def simulates_def)
  next
    case (SetTickTime t)
    then show ?thesis using fields tick
      by (auto intro!: header simp: alsaseq_event_set_tick_time_def validate_event_tstamp_mode_def same_fields_def)
  next
    case (SetRealTimeData t)
    then show ?thesis using tick by (simp add: alsaseq_event_set_real_time_data_def validate_event_type_def
        validate_event_tstamp_mode_def simulates_def)
  next
    case (SetBlobData data len)
    then show ?thesis using assms simulates_blob_data by auto
  next
    case (SetPointerData data len)
    then show ?thesis using assms(1,2) simulates_pointer_data by simp
  qed (use fields assms(1,2) own in \<open>auto intro!: header simulates_fixed_data simulates_tick_time_data
      simp: same_fields_def header_setters\<close>)
qed

lemma run_ops_simulates:
  assumes "malloc_ok malloc" "\<And>h n. malloc h n \<noteq> Some (self + of_nat event_size)"
  shows "represents self frame h ev s \<Longrightarrow> list_all (op_ok frame) ops \<Longrightarrow>
    run_ops malloc self ops h ev = Abort \<or>
    (\<exists>h' ev'. run_ops malloc self ops h ev = Ret (h', ev') \<and> represents self frame h' ev' (fold (spec_apply frame) ops s))"
proof (induction ops arbitrary: h ev s)
  case (Cons op ops)
  have step: "simulates self frame (event_apply malloc self op h ev) s (spec_apply frame op s)"
    using event_apply_simulates [OF Cons.prems(1) _ assms] Cons.prems(2) by simp
  show ?case
  proof (cases "event_apply malloc self op h ev")
    case (Ret r)
    then obtain h' ev' where "event_apply malloc self op h ev = Ret (h', ev')" by (cases r) simp
    then show ?thesis using step Cons.IH [of h' ev' "spec_apply frame op s"] Cons.prems(2) by (simp add: simulates_def)
  qed (use step Cons.IH [OF Cons.prems(1)] Cons.prems(2) in \<open>simp_all add: simulates_def\<close>)
qed simp

lemma represents_new: "represents self frame frame (zero_event\<lparr>ev_type := t\<rparr>) (spec_new t)"
  by (simp add: represents_def same_fields_def) (simp add: spec_new_def zero_event_def)

lemma event_new: "alsaseq_event_new malloc h t = Ret (h, zero_event\<lparr>ev_type := ucast t\<rparr>)"
  by (simp add: alsaseq_event_new_def seq_event_copy_def event_dec_enc Let_def)

text \<open>
  C5: an event implements the abstract event over its lifetime. A new event of any type, put through any sequence of the
  setters of \<open>event.c\<close> with admissible arguments, refused ones included, has the header and the payload that the plain updates give, and
  every getter of the payload returns what was stored last. No sequence runs into undefined behaviour: the process ends only when memory runs out.
  And the heap is the memory of the application and the blob of the event: releasing the event gives it back as it was before.
\<close>

theorem event_refines_spec:
  assumes "malloc_ok malloc" "\<forall>h n. malloc h n \<noteq> Some (self + of_nat event_size)" "list_all (op_ok frame) ops"
  shows "\<exists>ev. alsaseq_event_new malloc frame event_type = Ret (frame, ev) \<and>
    (run_ops malloc self ops frame ev = Abort \<or>
     (\<exists>h' ev'. run_ops malloc self ops frame ev = Ret (h', ev') \<and>
        represents self frame h' ev' (fold (spec_apply frame) ops (spec_new (ucast event_type))) \<and>
        seq_event_free self h' ev' = Ret frame))"
proof -
  let ?ev = "zero_event\<lparr>ev_type := ucast event_type\<rparr>"
  have "run_ops malloc self ops frame ?ev = Abort \<or>
      (\<exists>h' ev'. run_ops malloc self ops frame ?ev = Ret (h', ev') \<and>
         represents self frame h' ev' (fold (spec_apply frame) ops (spec_new (ucast event_type))))"
    using run_ops_simulates [OF assms(1) _ represents_new assms(3)] assms(2) by blast
  moreover have "represents self frame h' ev' s \<Longrightarrow> seq_event_free self h' ev' = Ret frame" for h' ev' s
    using free_blob_data_owned [of h' ev' self] by (simp add: represents_def seq_event_free_def)
  ultimately show ?thesis unfolding event_new by blast
qed

text \<open>A SYSEX event refuses data of notes, takes a blob and a tag, and is released.\<close>

definition sysex_ops :: "event_op list" where
  "sysex_ops =
     [SetNoteData \<lparr>note_channel = 1, note_note = 60, note_velocity = 100, note_off_velocity = 0, note_duration = 480\<rparr>,
      SetBlobData 512 3, SetTag 7]"

theorem event_refines_spec_witness:
  "\<exists>ev h' ev'. alsaseq_event_new bump_malloc [512 \<mapsto> [0xf0, 0x7e, 0xf7]] 130 = Ret ([512 \<mapsto> [0xf0, 0x7e, 0xf7]], ev) \<and>
     run_ops bump_malloc 64 sysex_ops [512 \<mapsto> [0xf0, 0x7e, 0xf7]] ev = Ret (h', ev') \<and>
     represents 64 [512 \<mapsto> [0xf0, 0x7e, 0xf7]] h' ev' ((spec_new 130)\<lparr>es_payload := BlobData [0xf0, 0x7e, 0xf7], es_tag := 7\<rparr>) \<and>
     seq_event_free 64 h' ev' = Ret [512 \<mapsto> [0xf0, 0x7e, 0xf7]]"
proof -
  let ?frame = "[512 \<mapsto> [0xf0, 0x7e, 0xf7]] :: heap"
  let ?ev = "zero_event\<lparr>ev_type := 130\<rparr>"
  have ok: "list_all (op_ok ?frame) sysex_ops" by (simp add: sysex_ops_def set_blob_data_example)
  have apart: "\<forall>h n. bump_malloc h n \<noteq> Some (64 + of_nat event_size)" by (simp add: bump_malloc_def)
  have spec: "fold (spec_apply ?frame) sysex_ops (spec_new 130) =
      (spec_new 130)\<lparr>es_payload := BlobData [0xf0, 0x7e, 0xf7], es_tag := 7\<rparr>"
    by (simp add: sysex_ops_def set_blob_data_example spec_store_def spec_new_def seq_event_data_flags_def)
  obtain h' where "heap_new bump_malloc ?frame [0xf0, 0x7e, 0xf7] = Ret (h', 1024)"
    by (simp add: heap_new_def bump_malloc_def)
  then have "run_ops bump_malloc 64 sysex_ops ?frame ?ev \<noteq> Abort"
    using set_blob_data_owned [of ?frame ?ev 64 512 3 "[0xf0, 0x7e, 0xf7]" bump_malloc h' 1024]
    by (simp add: sysex_ops_def note_data.set_owned set_blob_data_example seq_event_data_flags_def)
  moreover note event_refines_spec [OF malloc_ok_bump apart ok, of 130]
  ultimately show ?thesis using spec by (simp add: event_new)
qed

end
