(* ===== verification/Seq_Event_Cntr.thy ===== *)
theory Seq_Event_Cntr
  imports Seq_Event_Ops
begin

text \<open>
  The container of \<open>seq/event-cntr.c\<close>: a batch of events in one flat buffer, each structure
  followed by its blob, with or without padding to the size of a cell. The container owns its
  buffer, which is a list of bytes here; \<open>None\<close> is the \<open>NULL\<close> of a container that was never
  filled. Lengths of type \<open>gsize\<close> are natural numbers: the blobs that are summed up lie in
  memory.
\<close>

record seq_event_cntr =
  cntr_buf :: "bytes option"
  cntr_length :: nat
  cntr_aligned :: bool

definition seq_event_cntr_copy :: "seq_event_cntr \<Rightarrow> seq_event_cntr outcome" where
  "seq_event_cntr_copy src =
     (case cntr_buf src of
        None \<Rightarrow> if cntr_length src = 0 then Ret src else Undefined
      | Some buf \<Rightarrow>
          if cntr_length src = 0 then Ret (src\<lparr>cntr_buf := None\<rparr>)
          else if length buf < cntr_length src then Undefined
          else Ret (src\<lparr>cntr_buf := Some (take (cntr_length src) buf)\<rparr>))"

section \<open>Iteration\<close>

record seq_event_iter =
  iter_buf :: "bytes option"
  iter_length :: nat
  iter_offset :: nat
  iter_aligned :: bool

definition seq_event_iter_init :: "bytes option \<Rightarrow> nat \<Rightarrow> bool \<Rightarrow> seq_event_iter" where
  "seq_event_iter_init buf len aligned =
     \<lparr>iter_buf = buf, iter_length = len, iter_offset = 0, iter_aligned = aligned\<rparr>"

text \<open>
  The length of the event at a position needs its flags, and for a variable length its
  \<open>data.ext.len\<close>: a buffer that ends in front of them is read outside of its allocation.
\<close>

definition flattened_length_at :: "bytes \<Rightarrow> bool \<Rightarrow> nat outcome" where
  "flattened_length_at mem aligned =
     (if length mem < 2 then Undefined
      else if length_mode (event_dec mem) = SNDRV_SEQ_EVENT_LENGTH_VARIABLE \<and> length mem < 20
      then Undefined
      else Ret (seq_event_calculate_flattened_length (event_dec mem) aligned))"

text \<open>
  A step yields the position of the event, and the memory from there on, with the iterator
  advanced, or \<open>None\<close> at the end.
\<close>

definition seq_event_iter_next ::
  "seq_event_iter \<Rightarrow> ((bytes \<times> seq_event_iter) option) outcome" where
  "seq_event_iter_next iter =
     (case iter_buf iter of
        None \<Rightarrow> Ret None
      | Some buf \<Rightarrow>
          if iter_offset iter < iter_length iter
          then obind (flattened_length_at (drop (iter_offset iter) buf) (iter_aligned iter))
                 (\<lambda>len. if iter_offset iter + len \<le> iter_length iter
                        then Ret (Some (drop (iter_offset iter) buf,
                               iter\<lparr>iter_offset := iter_offset iter + len\<rparr>))
                        else Ret None)
          else Ret None)"

section \<open>Serialisation\<close>

fun total_flattened_length :: "snd_seq_event list \<Rightarrow> bool \<Rightarrow> nat" where
  "total_flattened_length [] aligned = 0"
| "total_flattened_length (ev # events) aligned =
     seq_event_calculate_flattened_length ev aligned + total_flattened_length events aligned"

text \<open>The second loop fills the buffer from \<open>pos\<close> on.\<close>

fun copy_events :: "heap \<Rightarrow> snd_seq_event list \<Rightarrow> bool \<Rightarrow> bytes \<Rightarrow> nat \<Rightarrow> (bytes \<times> nat) outcome" where
  "copy_events h [] aligned buf pos = Ret (buf, pos)"
| "copy_events h (ev # events) aligned buf pos =
     (let len = seq_event_calculate_flattened_length ev aligned
      in obind (seq_event_copy_flattened h ev (drop pos buf) len)
           (\<lambda>rest. copy_events h events aligned (take pos buf @ rest) (pos + len)))"

definition seq_event_cntr_serialize ::
  "heap \<Rightarrow> seq_event_cntr \<Rightarrow> snd_seq_event list \<Rightarrow> bool \<Rightarrow> seq_event_cntr outcome" where
  "seq_event_cntr_serialize h self events aligned =
     (if events = [] then Critical
      else let total_length = total_flattened_length events aligned
           in if total_length = 0 then Ret self
              else obind (copy_events h events aligned (replicate total_length 0) 0)
                     (\<lambda>(buf, pos). if total_length \<noteq> pos then Critical
                        else Ret (self\<lparr>cntr_buf := Some buf, cntr_length := total_length,
                                       cntr_aligned := aligned\<rparr>)))"

section \<open>Deserialisation\<close>

lemma flattened_length_ge: "event_size \<le> seq_event_calculate_flattened_length ev aligned"
proof -
  have "28 \<le> (28 + n + 28 - 1) div 28 * 28" for n :: nat
    by simp
  from this [of 0] this [of "unat (ext_len ev)"] show ?thesis
    by (simp add: seq_event_calculate_flattened_length_def Let_def)
qed

lemma iter_next_Some:
  assumes "seq_event_iter_next iter = Ret (Some (mem, iter'))"
  shows "\<exists>buf len. iter_buf iter = Some buf \<and> mem = drop (iter_offset iter) buf \<and>
    iter' = iter\<lparr>iter_offset := iter_offset iter + len\<rparr> \<and> event_size \<le> len \<and>
    iter_offset iter + len \<le> iter_length iter"
  using assms flattened_length_ge
  by (auto simp: seq_event_iter_next_def flattened_length_at_def split: option.splits if_splits)

text \<open>The loop over the iterator. It ends because every event takes at least 28 bytes.\<close>

function deserialize_loop ::
  "allocator \<Rightarrow> heap \<Rightarrow> seq_event_iter \<Rightarrow> snd_seq_event list \<Rightarrow> (heap \<times> snd_seq_event list) outcome" where
  "deserialize_loop malloc h iter events =
     (case seq_event_iter_next iter of
        Ret None \<Rightarrow> Ret (h, events)
      | Ret (Some (mem, iter')) \<Rightarrow>
          (case seq_event_copy malloc h mem of
             Ret (h', event) \<Rightarrow> deserialize_loop malloc h' iter' (events @ [event])
           | Abort \<Rightarrow> Abort
           | _ \<Rightarrow> Undefined)
      | _ \<Rightarrow> Undefined)"
  by pat_completeness auto
termination
proof (relation "measure (\<lambda>(malloc, h, iter, events). iter_length iter - iter_offset iter)", goal_cases)
  case 1
  then show ?case by simp
next
  case (2 malloc h iter events x2 x2a mem iter' x2b h' event)
  then show ?case using iter_next_Some [of iter mem iter'] by force
qed

declare deserialize_loop.simps [simp del]

definition alsaseq_event_cntr_deserialize ::
  "allocator \<Rightarrow> heap \<Rightarrow> seq_event_cntr \<Rightarrow> snd_seq_event list \<Rightarrow> (heap \<times> snd_seq_event list) outcome" where
  "alsaseq_event_cntr_deserialize malloc h self events =
     deserialize_loop malloc h
       (seq_event_iter_init (cntr_buf self) (cntr_length self) (cntr_aligned self)) events"

lemma data_put_data_put:
  "length bs = length cs \<Longrightarrow> off + length bs \<le> 12 \<Longrightarrow> data_put off bs (data_put off cs ev) = data_put off bs ev"
  by (simp add: data_put_def le_enc_dec put_at_def)

section \<open>The flat layout\<close>

text \<open>
  What an event means apart from where its blob lies: the structure with the pointer cleared,
  and the bytes of the blob.
\<close>

definition event_content :: "heap \<Rightarrow> snd_seq_event \<Rightarrow> snd_seq_event \<times> bytes option" where
  "event_content h ev =
     (if length_mode ev = SNDRV_SEQ_EVENT_LENGTH_VARIABLE
      then (data_put 4 (le_enc 8 (0 :: u64)) ev, heap_read h (ext_ptr ev) (unat (ext_len ev)))
      else (ev, Some []))"

definition blob_readable :: "heap \<Rightarrow> snd_seq_event \<Rightarrow> bool" where
  "blob_readable h ev \<longleftrightarrow> snd (event_content h ev) \<noteq> None"

text \<open>The bytes one event takes in the buffer: structure, blob and padding.\<close>

definition flat :: "heap \<Rightarrow> bool \<Rightarrow> snd_seq_event \<Rightarrow> bytes" where
  "flat h aligned ev =
     (let bs = event_enc ev @ the (snd (event_content h ev))
      in bs @ replicate (seq_event_calculate_flattened_length ev aligned - length bs) 0)"

lemma flattened_length_blob:
  "event_size + (if length_mode ev = SNDRV_SEQ_EVENT_LENGTH_VARIABLE then unat (ext_len ev) else 0)
     \<le> seq_event_calculate_flattened_length ev aligned"
proof -
  have "n \<le> (n + 28 - 1) div 28 * 28" for n :: nat
    using div_mult_mod_eq [of "n + 27" 28] mod_less_divisor [of 28 "n + 27"] by linarith
  from this [of 28] this [of "28 + unat (ext_len ev)"] show ?thesis
    by (simp add: seq_event_calculate_flattened_length_def Let_def)
qed

lemma length_flat [simp]:
  assumes "blob_readable h ev"
  shows "length (flat h aligned ev) = seq_event_calculate_flattened_length ev aligned"
proof -
  have "length (the (snd (event_content h ev))) =
      (if length_mode ev = SNDRV_SEQ_EVENT_LENGTH_VARIABLE then unat (ext_len ev) else 0)"
    using assms by (auto simp: event_content_def blob_readable_def dest: heap_read_length)
  then show ?thesis using flattened_length_blob [of ev aligned] by (simp add: flat_def Let_def)
qed

lemma put_at_replicate:
  "put_at 0 bs (replicate n 0) = bs @ replicate (n - length bs) 0"
  "put_at (length as) bs (as @ replicate n 0) = as @ bs @ replicate (n - length bs) 0"
  by (simp_all add: put_at_def)

lemma copy_flattened_flat:
  assumes "blob_readable h ev" "seq_event_calculate_flattened_length ev aligned \<le> n"
  shows "seq_event_copy_flattened h ev (replicate n 0) (seq_event_calculate_flattened_length ev aligned)
    = Ret (flat h aligned ev @ replicate (n - seq_event_calculate_flattened_length ev aligned) 0)"
proof (cases "length_mode ev = SNDRV_SEQ_EVENT_LENGTH_VARIABLE")
  case True
  then obtain bs where bs: "heap_read h (ext_ptr ev) (unat (ext_len ev)) = Some bs"
    using assms(1) by (auto simp: event_content_def blob_readable_def)
  have len: "28 + length bs \<le> seq_event_calculate_flattened_length ev aligned" "28 \<le> n"
    using flattened_length_blob [of ev aligned] True heap_read_length [OF bs] assms(2)
    by simp_all
  have "put_at 28 bs (event_enc ev @ replicate (n - 28) 0) =
      event_enc ev @ bs @ replicate (n - 28 - length bs) 0"
    using put_at_replicate(2) [of "event_enc ev" bs] by simp
  then show ?thesis using True bs len assms(2) heap_read_length [OF bs]
    by (simp add: seq_event_copy_flattened_def Let_def put_at_replicate flat_def event_content_def
        replicate_add [symmetric])
next
  case False
  then show ?thesis using assms(2) flattened_length_ge [of ev aligned]
    by (simp add: seq_event_copy_flattened_def Let_def put_at_replicate flat_def event_content_def
        replicate_add [symmetric])
qed

lemma copy_events_flat:
  assumes "\<forall>ev\<in>set events. blob_readable h ev"
    and "n = total_flattened_length events aligned"
  shows "copy_events h events aligned (pre @ replicate n 0) (length pre)
    = Ret (pre @ concat (map (flat h aligned) events), length pre + n)"
  using assms
proof (induction events arbitrary: pre n)
  case (Cons ev events)
  let ?len = "seq_event_calculate_flattened_length ev aligned"
  let ?rest = "total_flattened_length events aligned"
  have "seq_event_copy_flattened h ev (replicate n 0) ?len = Ret (flat h aligned ev @ replicate ?rest 0)"
    using copy_flattened_flat [of h ev aligned n] Cons.prems by simp
  moreover have "length (flat h aligned ev) = ?len" using Cons.prems by simp
  ultimately show ?case
    using Cons.IH [of ?rest "pre @ flat h aligned ev"] Cons.prems by simp
qed simp

lemma serialize_flat:
  assumes "events \<noteq> []" "\<forall>ev\<in>set events. blob_readable h ev"
  shows "seq_event_cntr_serialize h self events aligned =
    Ret (self\<lparr>cntr_buf := Some (concat (map (flat h aligned) events)),
      cntr_length := total_flattened_length events aligned, cntr_aligned := aligned\<rparr>)"
proof -
  obtain ev events' where "events = ev # events'" using assms(1) by (cases events) auto
  then have "total_flattened_length events aligned \<noteq> 0"
    using flattened_length_ge [of ev aligned] by simp
  then show ?thesis
    using assms copy_events_flat [OF assms(2) refl, of aligned "[]"]
    by (simp add: seq_event_cntr_serialize_def Let_def)
qed

text \<open>A blob that cannot be read is not skipped: copying it is undefined.\<close>

lemma copy_flattened_unreadable:
  assumes "\<not> blob_readable h ev" "seq_event_calculate_flattened_length ev aligned \<le> n"
  shows "seq_event_copy_flattened h ev (replicate n 0) (seq_event_calculate_flattened_length ev aligned) = Undefined"
proof -
  have "length_mode ev = SNDRV_SEQ_EVENT_LENGTH_VARIABLE" "heap_read h (ext_ptr ev) (unat (ext_len ev)) = None"
    using assms(1) by (auto simp: blob_readable_def event_content_def split: if_splits)
  then show ?thesis using flattened_length_blob [of ev aligned] by (simp add: seq_event_copy_flattened_def Let_def)
qed

lemma copy_events_unreadable:
  assumes "\<not> list_all (blob_readable h) events" "n = total_flattened_length events aligned"
  shows "copy_events h events aligned (pre @ replicate n 0) (length pre) = Undefined"
  using assms
proof (induction events arbitrary: pre n)
  case (Cons ev events)
  let ?len = "seq_event_calculate_flattened_length ev aligned"
  let ?rest = "total_flattened_length events aligned"
  show ?case
  proof (cases "blob_readable h ev")
    case True
    then have "seq_event_copy_flattened h ev (replicate n 0) ?len = Ret (flat h aligned ev @ replicate ?rest 0)"
      using copy_flattened_flat [of h ev aligned n] Cons.prems by simp
    then show ?thesis using Cons.IH [of ?rest "pre @ flat h aligned ev"] Cons.prems True by simp
  next
    case False
    then show ?thesis using copy_flattened_unreadable [of h ev aligned n] Cons.prems by simp
  qed
qed simp

text \<open>
  C6: the two passes of \<open>seq_event_cntr_serialize\<close>, one that adds up lengths and one that copies into the buffer at a moving
  position, give the plain concatenation of the flat layouts of the events, of the length that was added up. The check at
  the end never fails. An empty list is refused, and the result is undefined exactly when the blob of an event cannot be read.
\<close>

theorem serialize_is_concat:
  "seq_event_cntr_serialize h self events aligned =
     (if events = [] then Critical
      else if list_all (blob_readable h) events
      then Ret (self\<lparr>cntr_buf := Some (concat (map (flat h aligned) events)),
                    cntr_length := length (concat (map (flat h aligned) events)), cntr_aligned := aligned\<rparr>)
      else Undefined)"
proof -
  have length: "length (concat (map (flat h aligned) events)) = total_flattened_length events aligned"
    if "list_all (blob_readable h) events" using that by (induction events) simp_all
  have "0 < total_flattened_length events aligned" if "events \<noteq> []"
    using that flattened_length_ge [of "hd events" aligned] by (cases events) simp_all
  then have "seq_event_cntr_serialize h self events aligned = Undefined" if "events \<noteq> []" "\<not> list_all (blob_readable h) events"
    using that copy_events_unreadable [OF that(2) refl, of aligned "[]"] by (simp add: seq_event_cntr_serialize_def Let_def)
  then show ?thesis using serialize_flat [of events h self aligned] length
    by (simp add: list_all_iff seq_event_cntr_serialize_def)
qed

section \<open>Reading the flat layout back\<close>

lemma event_dec_prefix: "event_dec (event_enc ev @ bs) = ev"
proof -
  have "get_at off n (event_enc ev @ bs) = get_at off n (event_enc ev)" if "off + n \<le> 28" for off n
    using that by (simp add: get_at_def)
  moreover have "(event_enc ev @ bs) ! i = event_enc ev ! i" if "i < 28" for i
    using that by (simp add: nth_append)
  ultimately have "event_dec (event_enc ev @ bs) = event_dec (event_enc ev)"
    by (simp add: event_dec_def)
  then show ?thesis by (simp add: event_dec_enc)
qed

lemma flat_eq: "\<exists>pad. flat h aligned ev = event_enc ev @ the (snd (event_content h ev)) @ pad"
  by (simp add: flat_def Let_def)

lemma flattened_length_at_flat:
  "flattened_length_at (flat h aligned ev @ rest) aligned =
     Ret (seq_event_calculate_flattened_length ev aligned)"
proof -
  obtain bs where "flat h aligned ev @ rest = event_enc ev @ bs"
    using flat_eq [of h aligned ev] by auto
  then show ?thesis by (simp add: flattened_length_at_def event_dec_prefix)
qed

text \<open>The allocator serves the next \<open>n\<close> requests.\<close>

fun malloc_room :: "allocator \<Rightarrow> nat \<Rightarrow> heap \<Rightarrow> bool" where
  "malloc_room malloc 0 h \<longleftrightarrow> True"
| "malloc_room malloc (Suc n) h \<longleftrightarrow>
     malloc_room malloc n h \<and> (\<forall>bs. \<exists>h' p. heap_new malloc h bs = Ret (h', p) \<and> malloc_room malloc n h')"

lemma copy_flat:
  assumes "malloc_ok malloc" "malloc_room malloc (Suc n) h1" "blob_readable h ev"
  shows "\<exists>h2 ev'. seq_event_copy malloc h1 (flat h aligned ev @ rest) = Ret (h2, ev') \<and>
    event_content h2 ev' = event_content h ev \<and> h1 \<subseteq>\<^sub>m h2 \<and> malloc_room malloc n h2"
proof -
  obtain pad where flat: "flat h aligned ev = event_enc ev @ the (snd (event_content h ev)) @ pad"
    using flat_eq by blast
  show ?thesis
  proof (cases "length_mode ev = SNDRV_SEQ_EVENT_LENGTH_VARIABLE")
    case True
    then obtain bs where bs: "heap_read h (ext_ptr ev) (unat (ext_len ev)) = Some bs"
      using assms(3) by (auto simp: event_content_def blob_readable_def)
    obtain h2 p where new: "heap_new malloc h1 bs = Ret (h2, p)" and room: "malloc_room malloc n h2"
      using assms(2) malloc_room.simps(2) by blast
    let ?ev' = "data_put 4 (le_enc 8 p) ev"
    have "seq_event_copy malloc h1 (flat h aligned ev @ rest) = Ret (h2, ?ev')"
      using True bs new flat heap_read_length [OF bs]
      by (simp add: seq_event_copy_def event_dec_enc event_content_def)
    moreover have "event_content h2 ?ev' = event_content h ev"
      using True bs heap_new_read [OF new] heap_read_length [OF bs]
      by (simp add: event_content_def data_put_data_put)
    moreover have "h1 \<subseteq>\<^sub>m h2"
      using heap_new_frame [OF assms(1) new] by (auto simp: map_le_def)
    ultimately show ?thesis using room by blast
  next
    case False
    then show ?thesis using flat assms(2)
      by (auto simp: seq_event_copy_def event_dec_enc event_content_def)
  qed
qed

lemma event_content_mono:
  assumes "h1 \<subseteq>\<^sub>m h2" "snd (event_content h1 ev) = Some bs"
  shows "event_content h2 ev = event_content h1 ev"
proof -
  have "heap_read h2 p n = Some cs" if "heap_read h1 p n = Some cs" for p n cs
    using that assms(1)
    by (auto simp: heap_read_def map_le_def dom_def split: if_splits option.splits)
  with assms(2) show ?thesis by (auto simp: event_content_def split: if_splits)
qed

lemma deserialize_loop_flat:
  assumes "malloc_ok malloc" "\<forall>ev\<in>set events. blob_readable h ev"
    and "malloc_room malloc (length events) h1"
  shows "\<exists>h2 events'. deserialize_loop malloc h1
      \<lparr>iter_buf = Some (pre @ concat (map (flat h aligned) events) @ rest),
       iter_length = length pre + total_flattened_length events aligned,
       iter_offset = length pre, iter_aligned = aligned\<rparr> acc = Ret (h2, acc @ events') \<and>
    map (event_content h2) events' = map (event_content h) events \<and> h1 \<subseteq>\<^sub>m h2"
  using assms(2,3)
proof (induction events arbitrary: pre h1 acc)
  case Nil
  then show ?case
    by (simp add: deserialize_loop.simps [of malloc h1] seq_event_iter_next_def)
next
  case (Cons ev events)
  let ?len = "seq_event_calculate_flattened_length ev aligned"
  obtain h2 ev' where copy: "seq_event_copy malloc h1 (flat h aligned ev @
        concat (map (flat h aligned) events) @ rest) = Ret (h2, ev')"
      and ev': "event_content h2 ev' = event_content h ev"
      and le: "h1 \<subseteq>\<^sub>m h2" and room: "malloc_room malloc (length events) h2"
    using copy_flat [OF assms(1), of "length events" h1 h ev] Cons.prems by fastforce
  obtain h3 events' where loop: "deserialize_loop malloc h2
      \<lparr>iter_buf = Some ((pre @ flat h aligned ev) @ concat (map (flat h aligned) events) @ rest),
       iter_length = length (pre @ flat h aligned ev) + total_flattened_length events aligned,
       iter_offset = length (pre @ flat h aligned ev), iter_aligned = aligned\<rparr> (acc @ [ev'])
        = Ret (h3, (acc @ [ev']) @ events')"
      and content: "map (event_content h3) events' = map (event_content h) events"
      and le': "h2 \<subseteq>\<^sub>m h3"
    using Cons.IH [OF _ room] Cons.prems(1) by (metis list.set_intros(2))
  have len: "length (flat h aligned ev) = ?len" using Cons.prems by simp
  have next_ev: "seq_event_iter_next
      \<lparr>iter_buf = Some (pre @ concat (map (flat h aligned) (ev # events)) @ rest),
       iter_length = length pre + total_flattened_length (ev # events) aligned,
       iter_offset = length pre, iter_aligned = aligned\<rparr> =
    Ret (Some (flat h aligned ev @ concat (map (flat h aligned) events) @ rest,
      \<lparr>iter_buf = Some (pre @ concat (map (flat h aligned) (ev # events)) @ rest),
       iter_length = length pre + total_flattened_length (ev # events) aligned,
       iter_offset = length pre + ?len, iter_aligned = aligned\<rparr>))"
    using flattened_length_ge [of ev aligned]
    by (simp add: seq_event_iter_next_def flattened_length_at_flat)
  have "event_content h3 ev' = event_content h ev"
    using event_content_mono [OF le'] ev' Cons.prems(1) by (auto simp: blob_readable_def)
  moreover have "deserialize_loop malloc h1
      \<lparr>iter_buf = Some (pre @ concat (map (flat h aligned) (ev # events)) @ rest),
       iter_length = length pre + total_flattened_length (ev # events) aligned,
       iter_offset = length pre, iter_aligned = aligned\<rparr> acc = Ret (h3, acc @ (ev' # events'))"
    using loop by (subst deserialize_loop.simps, subst next_ev) (simp add: copy len add.assoc)
  ultimately show ?case
    using content map_le_trans [OF le le'] by (intro exI conjI) (assumption | simp)+
qed

text \<open>
  C1: a batch of events survives the container. Whatever events are serialised, padded or not,
  the container can be deserialised again, and the result is the list of the same events in the
  same order, equal in every field and in the bytes of every blob, each blob in a block of its
  own; blocks in use before are left alone. The list handed in is extended.
\<close>

theorem cntr_roundtrip:
  assumes "malloc_ok malloc" "malloc_room malloc (length events) h1"
    and "events \<noteq> []" "\<forall>ev\<in>set events. blob_readable h ev"
  shows "\<exists>cntr h2 events'. seq_event_cntr_serialize h self events aligned = Ret cntr \<and>
    alsaseq_event_cntr_deserialize malloc h1 cntr acc = Ret (h2, acc @ events') \<and>
    map (event_content h2) events' = map (event_content h) events \<and> h1 \<subseteq>\<^sub>m h2"
  using deserialize_loop_flat [OF assms(1,4,2), of "[]" aligned "[]" acc] serialize_flat [OF assms(3,4)]
  by (simp add: alsaseq_event_cntr_deserialize_def seq_event_iter_init_def)

theorem cntr_roundtrip_witness:
  "\<exists>cntr h2 events'. seq_event_cntr_serialize [1024 \<mapsto> [1, 2]]
       \<lparr>cntr_buf = None, cntr_length = 0, cntr_aligned = False\<rparr> [blob_event] True = Ret cntr \<and>
     alsaseq_event_cntr_deserialize bump_malloc [1024 \<mapsto> [1, 2]] cntr [] = Ret (h2, [] @ events') \<and>
     map (event_content h2) events' = map (event_content [1024 \<mapsto> [1, 2]]) [blob_event] \<and>
     [1024 \<mapsto> [1, 2]] \<subseteq>\<^sub>m h2"
  by (rule cntr_roundtrip [OF malloc_ok_bump])
    (simp_all add: blob_readable_def event_content_def heap_read_def heap_new_def bump_malloc_def)

lemma copy_in_bounds:
  assumes "event_size \<le> length mem"
    and "seq_event_calculate_flattened_length (event_dec mem) aligned \<le> length mem"
  shows "\<exists>x. seq_event_copy malloc h mem = Ret x \<or> seq_event_copy malloc h mem = Abort"
proof -
  have "event_dec (take 28 mem) = event_dec mem"
    using event_dec_prefix [of "event_dec (take 28 mem)" "drop 28 mem"] assms(1)
    by (simp add: event_enc_dec)
  then show ?thesis
    using assms flattened_length_blob [of "event_dec mem" aligned]
    by (auto simp: seq_event_copy_def Let_def heap_new_def split: option.splits)
qed

lemma deserialize_loop_safe:
  assumes "iter_buf iter = Some buf" "iter_aligned iter" "iter_length iter \<le> length buf"
    and "28 dvd iter_length iter" "28 dvd iter_offset iter"
  shows "(\<exists>x. deserialize_loop malloc h iter acc = Ret x) \<or> deserialize_loop malloc h iter acc = Abort"
  using assms
proof (induction malloc h iter acc rule: deserialize_loop.induct)
  case (1 malloc h iter acc)
  let ?mem = "drop (iter_offset iter) buf"
  let ?len = "seq_event_calculate_flattened_length (event_dec ?mem) True"
  show ?case
  proof (cases "iter_offset iter < iter_length iter \<and> iter_offset iter + ?len \<le> iter_length iter")
    case True
    have ge: "28 \<le> length ?mem"
      using True "1.prems" flattened_length_ge [of "event_dec ?mem" True] by auto
    have dvd: "28 dvd ?len" by (simp add: seq_event_calculate_flattened_length_def)
    define iter' where "iter' = iter\<lparr>iter_offset := iter_offset iter + ?len\<rparr>"
    have step: "seq_event_iter_next iter = Ret (Some (?mem, iter'))"
      using True "1.prems" ge
      by (simp add: seq_event_iter_next_def flattened_length_at_def iter'_def)
    have "\<exists>x. seq_event_copy malloc h ?mem = Ret x \<or> seq_event_copy malloc h ?mem = Abort"
      using True "1.prems" ge by (intro copy_in_bounds [where aligned = True]) auto
    then consider (ok) h' event where "seq_event_copy malloc h ?mem = Ret (h', event)"
      | (abort) "seq_event_copy malloc h ?mem = Abort" by force
    then show ?thesis
    proof cases
      case ok
      have "(\<exists>x. deserialize_loop malloc h' iter' (acc @ [event]) = Ret x) \<or>
          deserialize_loop malloc h' iter' (acc @ [event]) = Abort"
        using "1.prems" dvd by (intro "1.IH" [OF step _ refl ok refl]) (simp_all add: iter'_def)
      then show ?thesis by (subst (1 2) deserialize_loop.simps) (simp add: step ok)
    next
      case abort
      then show ?thesis by (subst (1 2) deserialize_loop.simps) (simp add: step)
    qed
  next
    case False
    have "28 \<le> length ?mem" if less: "iter_offset iter < iter_length iter"
    proof -
      have "28 \<le> iter_length iter - iter_offset iter"
        using less "1.prems" by (intro dvd_imp_le dvd_diff_nat) simp_all
      then show ?thesis using "1.prems" by simp
    qed
    then have "seq_event_iter_next iter = Ret None"
      using False "1.prems" by (auto simp: seq_event_iter_next_def flattened_length_at_def)
    then show ?thesis by (subst (1 2) deserialize_loop.simps) simp
  qed
qed

text \<open>
  C10: an aligned container filled with whole cells, such as the ones the sequencer core
  delivers, is never read outside of its buffer, whatever its bytes are: deserialisation
  returns a list of events or the process runs out of memory.
\<close>

theorem deserialize_whole_cells_safe:
  assumes "cntr_buf self = Some buf" "cntr_length self \<le> length buf" "cntr_aligned self"
    and "28 dvd cntr_length self"
  shows "(\<exists>h' events'. alsaseq_event_cntr_deserialize malloc h self events = Ret (h', events')) \<or>
    alsaseq_event_cntr_deserialize malloc h self events = Abort"
  using deserialize_loop_safe [of "seq_event_iter_init (cntr_buf self) (cntr_length self) True" buf
      malloc h events] assms
  by (auto simp: alsaseq_event_cntr_deserialize_def seq_event_iter_init_def)

theorem deserialize_whole_cells_safe_witness:
  "(\<exists>h' events'. alsaseq_event_cntr_deserialize bump_malloc Map.empty
      \<lparr>cntr_buf = Some (replicate 64 255), cntr_length = 56, cntr_aligned = True\<rparr> [] = Ret (h', events')) \<or>
   alsaseq_event_cntr_deserialize bump_malloc Map.empty
      \<lparr>cntr_buf = Some (replicate 64 255), cntr_length = 56, cntr_aligned = True\<rparr> [] = Abort"
  by (rule deserialize_whole_cells_safe [of _ "replicate 64 255"]) simp_all

end
