(* ===== verification/Event_Loop.thy ===== *)
theory Event_Loop
  imports Utils
begin

text \<open>
  The sources of events in a main loop. A source reads what is pending on the descriptor of its object each
  time it is polled with success, and emits signals for it. The theory has the part of the loop of
  GLib that drives one source, what the kernel promises of a descriptor with pending batches, and the contract
  under which a source delivers all of them, in order.
\<close>

text \<open>
  One source in the loop, over the conditions that successive polls report. It is dispatched when its check function
  asks for that, and taken out of the loop once dispatching returns \<open>G_SOURCE_REMOVE\<close>.
\<close>

primrec run_source ::
  "(u32 \<Rightarrow> bool) \<Rightarrow> ('w \<Rightarrow> bytes \<Rightarrow> u32 \<Rightarrow> 'w \<times> bytes \<times> source_result \<times> 's list) \<Rightarrow> u32 list \<Rightarrow> 'w \<Rightarrow> bytes \<Rightarrow>
     'w \<times> bool \<times> 's list" where
  "run_source check dispatch [] w buf = (w, True, [])"
| "run_source check dispatch (c # cs) w buf =
     (if check c
      then (case dispatch w buf c of
              (w', buf', G_SOURCE_REMOVE, signals) \<Rightarrow> (w', False, signals)
            | (w', buf', G_SOURCE_CONTINUE, signals) \<Rightarrow>
                (case run_source check dispatch cs w' buf' of
                   (w'', in_loop, signals') \<Rightarrow> (w'', in_loop, signals @ signals')))
      else run_source check dispatch cs w buf)"

text \<open>
  A descriptor in non-blocking mode: reading returns the next pending batch, which fits the buffer, and
  fails with \<open>EAGAIN\<close> when there is none.
\<close>

definition delivers ::
  "('w, 'z) sys_scheme \<Rightarrow> int \<Rightarrow> nat \<Rightarrow> ('w \<Rightarrow> 'b list) \<Rightarrow> ('b \<Rightarrow> bytes) \<Rightarrow> ('b \<Rightarrow> bool) \<Rightarrow> bool" where
  "delivers sys fd buf_len pending enc valid \<longleftrightarrow> 0 \<le> fd \<and>
     (\<forall>w. (\<forall>b\<in>set (pending w). valid b \<and> length (enc b) \<le> buf_len) \<and>
          (case pending w of
             [] \<Rightarrow> sys_read sys w fd buf_len = (w, SysErr EAGAIN)
           | b # bs \<Rightarrow> \<exists>w'. sys_read sys w fd buf_len = (w', SysOk (enc b)) \<and> pending w' = bs))"

lemma delivers_none: "delivers sys fd buf_len pending enc valid \<Longrightarrow> pending w = [] \<Longrightarrow> sys_read sys w fd buf_len = (w, SysErr EAGAIN)"
  unfolding delivers_def by (auto split: list.splits)

lemma delivers_next:
  assumes "delivers sys fd buf_len pending enc valid" "pending w = b # bs"
  obtains w' where "sys_read sys w fd buf_len = (w', SysOk (enc b))" "pending w' = bs" "valid b" "length (enc b) \<le> buf_len"
proof -
  from assms(1) have "(\<forall>b\<in>set (pending w). valid b \<and> length (enc b) \<le> buf_len) \<and>
      (case pending w of [] \<Rightarrow> sys_read sys w fd buf_len = (w, SysErr EAGAIN)
       | b # bs \<Rightarrow> \<exists>w'. sys_read sys w fd buf_len = (w', SysOk (enc b)) \<and> pending w' = bs)"
    by (simp add: delivers_def)
  with assms(2) that show thesis by auto
qed

definition is_ready :: "u32 \<Rightarrow> bool" where
  "is_ready c \<longleftrightarrow> c AND G_IO_IN \<noteq> 0"

lemma ready_or_error: "c AND (G_IO_IN OR G_IO_ERR) \<noteq> 0 \<longleftrightarrow> c AND G_IO_IN \<noteq> 0 \<or> c AND G_IO_ERR \<noteq> 0"
proof -
  have "c AND (G_IO_IN OR G_IO_ERR) = (c AND G_IO_IN) OR (c AND G_IO_ERR)" by (rule bit.conj_disj_distrib)
  then show ?thesis by (simp only: or_eq_0_iff) blast
qed

lemma concat_map_concat: "concat (map f (concat xss)) = concat (map (\<lambda>xs. concat (map f xs)) xss)"
  by (induction xss) simp_all

text \<open>What the groups of signals of several dispatches add up to.\<close>

lemma groups_by_function: "list_all2 (\<lambda>signals b. signals = f b) groups bs \<Longrightarrow> concat groups = concat (map f bs)"
  by (induction rule: list_all2_induct) simp_all

lemma groups_of_one: "list_all2 (\<lambda>signals b. \<exists>s. signals = [s] \<and> P s b) groups bs \<Longrightarrow> list_all2 P (concat groups) bs"
  by (induction rule: list_all2_induct) auto

text \<open>
  The contract of a source, under a condition \<open>ok\<close> on the kernel: what the signals of one dispatch stand for is the
  batch that was pending; an idle dispatch changes nothing; an error ends the source with the signals \<open>hup\<close>.
\<close>

locale polled_source =
  fixes ok :: bool and buf_len :: nat and pending :: "'w \<Rightarrow> 'b list"
    and check :: "u32 \<Rightarrow> bool"
    and dispatch :: "'w \<Rightarrow> bytes \<Rightarrow> u32 \<Rightarrow> 'w \<times> bytes \<times> source_result \<times> 's list"
    and stands_for :: "'s list \<Rightarrow> 'b \<Rightarrow> bool" and hup :: "'s list"
  assumes check_iff: "check c \<longleftrightarrow> is_ready c \<or> c AND G_IO_ERR \<noteq> 0"
    and dispatch_next: "ok \<Longrightarrow> length buf = buf_len \<Longrightarrow> c AND G_IO_ERR = 0 \<Longrightarrow> pending w = b # bs \<Longrightarrow>
      \<exists>w' buf' signals. dispatch w buf c = (w', buf', G_SOURCE_CONTINUE, signals) \<and> pending w' = bs \<and>
        length buf' = buf_len \<and> stands_for signals b"
    and dispatch_idle: "ok \<Longrightarrow> length buf = buf_len \<Longrightarrow> c AND G_IO_ERR = 0 \<Longrightarrow> pending w = [] \<Longrightarrow>
      dispatch w buf c = (w, buf, G_SOURCE_CONTINUE, [])"
    and dispatch_error: "ok \<Longrightarrow> c AND G_IO_ERR \<noteq> 0 \<Longrightarrow> dispatch w buf c = (w, buf, G_SOURCE_REMOVE, hup)"
begin

text \<open>Polls without an error deliver one batch each, as long as there are any.\<close>

lemma run_delivers:
  assumes "ok" "length buf = buf_len" "\<forall>c\<in>set cs. c AND G_IO_ERR = 0"
  shows "\<exists>w' buf' groups. length buf' = buf_len \<and> pending w' = drop (length (filter is_ready cs)) (pending w) \<and>
    list_all2 stands_for groups (take (length (filter is_ready cs)) (pending w)) \<and>
    (\<forall>rest. run_source check dispatch (cs @ rest) w buf =
       (case run_source check dispatch rest w' buf' of
          (w'', in_loop, signals) \<Rightarrow> (w'', in_loop, concat groups @ signals)))"
  using assms(2,3)
proof (induction cs arbitrary: w buf)
  case Nil
  then show ?case by (intro exI [of _ w] exI [of _ buf] exI [of _ "[]"]) simp
next
  case (Cons c cs)
  then have c: "c AND G_IO_ERR = 0" and cs: "\<forall>c\<in>set cs. c AND G_IO_ERR = 0" by simp_all
  show ?case
  proof (cases "is_ready c")
    case False
    with c have "\<not> check c" by (simp add: check_iff)
    with False show ?thesis using Cons.IH [OF Cons.prems(1) cs, of w] by simp
  next
    case True
    then have "check c" by (simp add: check_iff)
    show ?thesis
    proof (cases "pending w")
      case Nil
      with Cons.IH [OF Cons.prems(1) cs, of w] dispatch_idle [OF assms(1) Cons.prems(1) c] True \<open>check c\<close>
      show ?thesis by (simp add: case_prod_unfold)
    next
      case (Cons b bs)
      obtain w1 buf1 signals where d: "dispatch w buf c = (w1, buf1, G_SOURCE_CONTINUE, signals)" "pending w1 = bs"
          "length buf1 = buf_len" "stands_for signals b"
        using dispatch_next [OF assms(1) Cons.prems(1) c Cons] by blast
      from Cons.IH [OF d(3) cs, of w1] obtain w' buf' groups where IH: "length buf' = buf_len"
          "pending w' = drop (length (filter is_ready cs)) bs"
          "list_all2 stands_for groups (take (length (filter is_ready cs)) bs)"
          "\<forall>rest. run_source check dispatch (cs @ rest) w1 buf1 =
             (case run_source check dispatch rest w' buf' of (w'', in_loop, ss) \<Rightarrow> (w'', in_loop, concat groups @ ss))"
        unfolding d(2) by blast
      show ?thesis
        using d IH True Cons \<open>check c\<close>
        by (intro exI [of _ w'] exI [of _ buf'] exI [of _ "signals # groups"]) (simp add: case_prod_unfold)
    qed
  qed
qed

text \<open>With as many polls as there are batches all of them are delivered; the error after that ends the source.\<close>

lemma run_to_error:
  assumes "ok" "length buf = buf_len" "\<forall>c\<in>set cs. c AND G_IO_ERR = 0" "length (pending w) \<le> length (filter is_ready cs)"
    and "c AND G_IO_ERR \<noteq> 0"
  shows "\<exists>w' groups. run_source check dispatch (cs @ c # rest) w buf = (w', False, concat groups @ hup) \<and>
    pending w' = [] \<and> list_all2 stands_for groups (pending w)"
proof -
  obtain w' buf' groups where "pending w' = []" "list_all2 stands_for groups (pending w)"
      "run_source check dispatch (cs @ c # rest) w buf =
         (case run_source check dispatch (c # rest) w' buf' of (w'', in_loop, ss) \<Rightarrow> (w'', in_loop, concat groups @ ss))"
    using run_delivers [OF assms(1-3), of w] assms(4) by force
  moreover have "run_source check dispatch (c # rest) w' buf' = (w', False, hup)"
    using dispatch_error [OF assms(1,5)] check_iff [of c] assms(5) by simp
  ultimately show ?thesis by auto
qed

end

end
