(* ===== verification/Seq_User_Client.thy ===== *)
theory Seq_User_Client
  imports Seq_Query Seq_Event_Cntr Event_Loop
begin

text \<open>
  The user client of \<open>seq/user-client.c\<close>: opening the sequencer, the requests on ports, pools,
  queues and subscriptions, scheduling of events, and the source that reads events. Operations
  that fill in a structure return it even when they fail, because the object it belongs to keeps
  what was written. The messages of the main loop reach the model as poll conditions.
\<close>

section \<open>State\<close>

record user_client =
  uc_fd :: int
  uc_devnode :: "bytes option"
  uc_client_id :: u32
  uc_proto_ver :: "u16 \<times> u16 \<times> u16"
  uc_refs :: nat

definition alsaseq_user_client_init :: user_client where
  "alsaseq_user_client_init =
     \<lparr>uc_fd = -1, uc_devnode = None, uc_client_id = 0, uc_proto_ver = (0, 0, 0), uc_refs = 1\<rparr>"

definition seq_user_client_finalize :: "'w seq_sys \<Rightarrow> 'w \<Rightarrow> user_client \<Rightarrow> 'w" where
  "seq_user_client_finalize sys w self = (if 0 \<le> uc_fd self then sys_close sys w (uc_fd self) else w)"

datatype seq_user_client_prop_type = SEQ_USER_CLIENT_PROP_CLIENT_ID

fun seq_user_client_props :: "seq_user_client_prop_type \<Rightarrow> pspec" where
  "seq_user_client_props SEQ_USER_CLIENT_PROP_CLIENT_ID =
     \<lparr>ps_name = ''client-id'', ps_type = TUChar, ps_min = 0, ps_max = 255, ps_readable = True, ps_writable = False, ps_construct_only = False\<rparr>"

fun seq_user_client_get_property :: "user_client \<Rightarrow> seq_user_client_prop_type \<Rightarrow> 'b gvalue \<Rightarrow> 'b gvalue" where
  "seq_user_client_get_property self SEQ_USER_CLIENT_PROP_CLIENT_ID val = g_value_set_uchar val (ucast (uc_client_id self))"

lemma seq_user_client_conforms: "getters_conform seq_user_client_get_property seq_user_client_props all_kept"
  apply (rule getters_conformI)
  subgoal for x p v by (cases p; cases v) (simp_all add: read_property_def split: option.splits)
  done

text \<open>Errors: a failed system call, the two permission errors and an undeliverable event.\<close>

definition client_err_msgs :: "string option list" where
  "client_err_msgs =
     [None,
      Some ''The operation fails due to access permission of port'',
      Some ''The operation fails due to access permission of queue'']"

definition client_local_error :: "seq_user_client_error \<Rightarrow> 'a outcome" where
  "client_local_error code = generate_local_error ALSASEQ_USER_CLIENT_ERROR client_err_msgs (seq_user_client_error_code code)"

definition client_syscall_error :: "'a outcome" where
  "client_syscall_error = Throw (GError ALSASEQ_USER_CLIENT_ERROR (seq_user_client_error_code ALSASEQ_USER_CLIENT_ERROR_FAILED))"

lemmas client_error_defs = client_local_error_def client_syscall_error_def client_err_msgs_def local_error_defs

text \<open>Every code of the enumeration has a message but the one for failed system calls, and the one for undeliverable events,
  which the table does not reach.\<close>

lemma client_local_error_throws:
  "client_local_error code =
     (if code = ALSASEQ_USER_CLIENT_ERROR_FAILED then Critical
      else if code = ALSASEQ_USER_CLIENT_ERROR_EVENT_UNDELIVERABLE then Undefined
      else Throw (GError ALSASEQ_USER_CLIENT_ERROR (seq_user_client_error_code code)))"
  by (cases code) (simp_all add: client_error_defs)

section \<open>Opening\<close>

definition alsaseq_user_client_open ::
  "'w seq_sys \<Rightarrow> 'w \<Rightarrow> user_client \<Rightarrow> u32 \<Rightarrow> 'w \<times> user_client \<times> unit outcome" where
  "alsaseq_user_client_open sys w self open_flag =
     (case alsaseq_get_seq_devnode sys of
        Ret devnode \<Rightarrow>
          (case sys_open sys w devnode (open_flag OR O_RDWR) of
             (w1, SysErr e) \<Rightarrow>
               let code = file_error sys e
               in (w1, self\<lparr>uc_fd := -1\<rparr>,
                   if code \<noteq> G_FILE_ERROR_FAILED then generate_file_error sys code
                   else client_syscall_error)
           | (w1, SysOk fd) \<Rightarrow>
               let self1 = self\<lparr>uc_fd := fd, uc_devnode := Some devnode\<rparr>
               in (case ioctl_CLIENT_ID sys w1 fd (uc_client_id self1) of
                     (w2, SysErr e) \<Rightarrow>
                       (sys_close sys w2 fd, self1\<lparr>uc_fd := -1\<rparr>, client_syscall_error)
                   | (w2, SysOk client_id) \<Rightarrow>
                       let self2 = self1\<lparr>uc_client_id := client_id\<rparr>
                       in (case ioctl_PVERSION sys w2 fd 0 of
                             (w3, SysErr e) \<Rightarrow>
                               (sys_close sys w3 fd, self2\<lparr>uc_fd := -1\<rparr>, client_syscall_error)
                           | (w3, SysOk proto_ver) \<Rightarrow>
                               (w3, self2\<lparr>uc_proto_ver := SNDRV_PROTOCOL_TRIPLET proto_ver\<rparr>, Ret ()))))
      | Throw e \<Rightarrow> (w, self, Throw e)
      | _ \<Rightarrow> (w, self, Undefined))"

definition alsaseq_user_client_get_protocol_version :: "user_client \<Rightarrow> (u16 \<times> u16 \<times> u16) outcome" where
  "alsaseq_user_client_get_protocol_version self =
     (if uc_fd self < 0 then Critical else Ret (uc_proto_ver self))"

section \<open>Requests\<close>

text \<open>A request on the descriptor of the client; every failure is reported as such.\<close>

definition client_request ::
  "('w, 'd) request \<Rightarrow> 'w \<Rightarrow> user_client \<Rightarrow> 'd \<Rightarrow> 'w \<times> 'd \<times> unit outcome" where
  "client_request ioctl w self data =
     (case ioctl w (uc_fd self) data of
        (w', SysErr e) \<Rightarrow> (w', data, client_syscall_error)
      | (w', SysOk data') \<Rightarrow> (w', data', Ret ()))"

text \<open>The same where missing permission has an error of its own.\<close>

definition client_request_perm ::
  "seq_user_client_error \<Rightarrow> ('w, 'd) request \<Rightarrow> 'w \<Rightarrow> user_client \<Rightarrow> 'd \<Rightarrow> 'w \<times> 'd \<times> unit outcome" where
  "client_request_perm code ioctl w self data =
     (case ioctl w (uc_fd self) data of
        (w', SysErr e) \<Rightarrow>
          (w', data, if e = EPERM then client_local_error code else client_syscall_error)
      | (w', SysOk data') \<Rightarrow> (w', data', Ret ()))"

abbreviation (input) USER_CLIENT :: u32 where "USER_CLIENT \<equiv> 1"

definition alsaseq_user_client_set_info ::
  "'w seq_sys \<Rightarrow> 'w \<Rightarrow> user_client \<Rightarrow> snd_seq_client_info \<Rightarrow> 'w \<times> snd_seq_client_info \<times> unit outcome" where
  "alsaseq_user_client_set_info sys w self info =
     client_request (ioctl_SET_CLIENT_INFO sys) w self
       (info\<lparr>ci_client := uc_client_id self, ci_type := USER_CLIENT\<rparr>)"

definition alsaseq_user_client_get_info ::
  "'w seq_sys \<Rightarrow> 'w \<Rightarrow> user_client \<Rightarrow> snd_seq_client_info \<Rightarrow> 'w \<times> snd_seq_client_info \<times> unit outcome" where
  "alsaseq_user_client_get_info sys w self info =
     client_request (ioctl_GET_CLIENT_INFO sys) w self (info\<lparr>ci_client := uc_client_id self\<rparr>)"

definition alsaseq_user_client_create_port ::
  "'w seq_sys \<Rightarrow> 'w \<Rightarrow> user_client \<Rightarrow> snd_seq_port_info \<Rightarrow> 'w \<times> snd_seq_port_info \<times> unit outcome" where
  "alsaseq_user_client_create_port sys w self info =
     client_request (ioctl_CREATE_PORT sys) w self
       (info\<lparr>pi_addr := (pi_addr info)\<lparr>addr_client := ucast (uc_client_id self)\<rparr>\<rparr>)"

definition alsaseq_user_client_create_port_at ::
  "'w seq_sys \<Rightarrow> 'w \<Rightarrow> user_client \<Rightarrow> snd_seq_port_info \<Rightarrow> u8 \<Rightarrow> 'w \<times> snd_seq_port_info \<times> unit outcome" where
  "alsaseq_user_client_create_port_at sys w self info port_id =
     alsaseq_user_client_create_port sys w self
       (info\<lparr>pi_addr := (pi_addr info)\<lparr>addr_port := port_id\<rparr>,
             pi_flags := pi_flags info OR SNDRV_SEQ_PORT_FLG_GIVEN_PORT\<rparr>)"

definition alsaseq_user_client_update_port ::
  "'w seq_sys \<Rightarrow> 'w \<Rightarrow> user_client \<Rightarrow> snd_seq_port_info \<Rightarrow> u8 \<Rightarrow> 'w \<times> snd_seq_port_info \<times> unit outcome" where
  "alsaseq_user_client_update_port sys w self info port_id =
     client_request (ioctl_SET_PORT_INFO sys) w self
       (info\<lparr>pi_addr := \<lparr>addr_client = ucast (uc_client_id self), addr_port = port_id\<rparr>\<rparr>)"

definition alsaseq_user_client_delete_port ::
  "'w seq_sys \<Rightarrow> 'w \<Rightarrow> user_client \<Rightarrow> u8 \<Rightarrow> 'w \<times> unit outcome" where
  "alsaseq_user_client_delete_port sys w self port_id =
     (case client_request (ioctl_DELETE_PORT sys) w self
             (blank_port_info\<lparr>pi_addr := \<lparr>addr_client = ucast (uc_client_id self), addr_port = port_id\<rparr>\<rparr>) of
        (w', _, r) \<Rightarrow> (w', r))"

definition alsaseq_user_client_set_pool ::
  "'w seq_sys \<Rightarrow> 'w \<Rightarrow> user_client \<Rightarrow> snd_seq_client_pool \<Rightarrow> 'w \<times> snd_seq_client_pool \<times> unit outcome" where
  "alsaseq_user_client_set_pool sys w self pool =
     client_request (ioctl_SET_CLIENT_POOL sys) w self (pool\<lparr>cp_client := uc_client_id self\<rparr>)"

definition alsaseq_user_client_get_pool ::
  "'w seq_sys \<Rightarrow> 'w \<Rightarrow> user_client \<Rightarrow> snd_seq_client_pool \<Rightarrow> 'w \<times> snd_seq_client_pool \<times> unit outcome" where
  "alsaseq_user_client_get_pool sys w self pool =
     client_request (ioctl_GET_CLIENT_POOL sys) w self (pool\<lparr>cp_client := uc_client_id self\<rparr>)"

definition alsaseq_user_client_operate_subscription ::
  "'w seq_sys \<Rightarrow> 'w \<Rightarrow> user_client \<Rightarrow> snd_seq_port_subscribe \<Rightarrow> bool \<Rightarrow>
     'w \<times> snd_seq_port_subscribe \<times> unit outcome" where
  "alsaseq_user_client_operate_subscription sys w self data establish =
     client_request_perm ALSASEQ_USER_CLIENT_ERROR_PORT_PERMISSION
       (if establish then ioctl_SUBSCRIBE_PORT sys else ioctl_UNSUBSCRIBE_PORT sys) w self data"

definition alsaseq_user_client_create_queue ::
  "'w seq_sys \<Rightarrow> 'w \<Rightarrow> user_client \<Rightarrow> snd_seq_queue_info \<Rightarrow> 'w \<times> snd_seq_queue_info \<times> unit outcome" where
  "alsaseq_user_client_create_queue sys w self info =
     client_request (ioctl_CREATE_QUEUE sys) w self info"

definition alsaseq_user_client_delete_queue ::
  "'w seq_sys \<Rightarrow> 'w \<Rightarrow> user_client \<Rightarrow> u8 \<Rightarrow> 'w \<times> unit outcome" where
  "alsaseq_user_client_delete_queue sys w self queue_id =
     (case client_request (ioctl_DELETE_QUEUE sys) w self
             (zero_queue_info\<lparr>qi_queue := ucast queue_id, qi_owner := uc_client_id self\<rparr>) of
        (w', _, r) \<Rightarrow> (w', r))"

definition alsaseq_user_client_update_queue ::
  "'w seq_sys \<Rightarrow> 'w \<Rightarrow> user_client \<Rightarrow> snd_seq_queue_info \<Rightarrow> 'w \<times> snd_seq_queue_info \<times> unit outcome" where
  "alsaseq_user_client_update_queue sys w self info =
     client_request_perm ALSASEQ_USER_CLIENT_ERROR_QUEUE_PERMISSION (ioctl_SET_QUEUE_INFO sys) w self info"

definition alsaseq_user_client_get_queue_usage ::
  "'w seq_sys \<Rightarrow> 'w \<Rightarrow> user_client \<Rightarrow> u8 \<Rightarrow> 'w \<times> bool outcome" where
  "alsaseq_user_client_get_queue_usage sys w self queue_id =
     (case client_request (ioctl_GET_QUEUE_CLIENT sys) w self
             \<lparr>qc_queue = ucast queue_id, qc_client = 0, qc_used = 0\<rparr> of
        (w', data, r) \<Rightarrow> (w', obind r (\<lambda>_. Ret (qc_used data \<noteq> 0))))"

definition alsaseq_user_client_set_queue_usage ::
  "'w seq_sys \<Rightarrow> 'w \<Rightarrow> user_client \<Rightarrow> u8 \<Rightarrow> bool \<Rightarrow> 'w \<times> unit outcome" where
  "alsaseq_user_client_set_queue_usage sys w self queue_id use_queue =
     (case client_request (ioctl_SET_QUEUE_CLIENT sys) w self
             \<lparr>qc_queue = ucast queue_id, qc_client = uc_client_id self, qc_used = (if use_queue then 1 else 0)\<rparr> of
        (w', _, r) \<Rightarrow> (w', r))"

definition alsaseq_user_client_set_queue_tempo ::
  "'w seq_sys \<Rightarrow> 'w \<Rightarrow> user_client \<Rightarrow> u8 \<Rightarrow> snd_seq_queue_tempo \<Rightarrow> 'w \<times> snd_seq_queue_tempo \<times> unit outcome" where
  "alsaseq_user_client_set_queue_tempo sys w self queue_id tempo =
     client_request_perm ALSASEQ_USER_CLIENT_ERROR_QUEUE_PERMISSION (ioctl_SET_QUEUE_TEMPO sys) w self
       (tempo\<lparr>qt_queue := ucast queue_id\<rparr>)"

definition alsaseq_user_client_get_queue_tempo ::
  "'w seq_sys \<Rightarrow> 'w \<Rightarrow> user_client \<Rightarrow> u8 \<Rightarrow> 'w \<times> snd_seq_queue_tempo outcome" where
  "alsaseq_user_client_get_queue_tempo sys w self queue_id =
     (case client_request (ioctl_GET_QUEUE_TEMPO sys) w self
             \<lparr>qt_queue = ucast queue_id, qt_tempo = 0, qt_ppq = 0, qt_skew_value = 0, qt_skew_base = 0\<rparr> of
        (w', tempo, r) \<Rightarrow> (w', obind r (\<lambda>_. Ret tempo)))"

abbreviation (input) SNDRV_SEQ_TIMER_ALSA :: u32 where "SNDRV_SEQ_TIMER_ALSA \<equiv> 0"

definition alsaseq_user_client_set_queue_timer ::
  "'w seq_sys \<Rightarrow> 'w \<Rightarrow> user_client \<Rightarrow> u8 \<Rightarrow> snd_seq_queue_timer \<Rightarrow> 'w \<times> snd_seq_queue_timer \<times> unit outcome" where
  "alsaseq_user_client_set_queue_timer sys w self queue_id timer =
     (if tm_type timer \<noteq> SNDRV_SEQ_TIMER_ALSA then (w, timer, Critical)
      else client_request_perm ALSASEQ_USER_CLIENT_ERROR_QUEUE_PERMISSION (ioctl_SET_QUEUE_TIMER sys) w self
             (timer\<lparr>tm_queue := ucast queue_id\<rparr>))"

definition alsaseq_user_client_get_queue_timer ::
  "'w seq_sys \<Rightarrow> 'w \<Rightarrow> user_client \<Rightarrow> u8 \<Rightarrow> 'w \<times> snd_seq_queue_timer outcome" where
  "alsaseq_user_client_get_queue_timer sys w self queue_id =
     (case client_request (ioctl_GET_QUEUE_TIMER sys) w self
             \<lparr>tm_queue = ucast queue_id, tm_type = 0,
              tm_id = zero_timer_id,
              tm_resolution = 0\<rparr> of
        (w', data, r) \<Rightarrow>
          (w', obind r (\<lambda>_. if tm_type data = SNDRV_SEQ_TIMER_ALSA then Ret data else Critical)))"

definition alsaseq_user_client_remove_events ::
  "'w seq_sys \<Rightarrow> 'w \<Rightarrow> user_client \<Rightarrow> snd_seq_remove_events \<Rightarrow> 'w \<times> snd_seq_remove_events \<times> unit outcome" where
  "alsaseq_user_client_remove_events sys w self filt =
     client_request (ioctl_REMOVE_EVENTS sys) w self filt"

section \<open>Scheduling\<close>

definition write_error :: "'w seq_sys \<Rightarrow> errno \<Rightarrow> 'a outcome" where
  "write_error sys e =
     (if file_error sys e \<noteq> G_FILE_ERROR_FAILED then generate_file_error sys e
      else client_syscall_error)"

definition alsaseq_user_client_schedule_event ::
  "'w seq_sys \<Rightarrow> 'w \<Rightarrow> heap \<Rightarrow> user_client \<Rightarrow> snd_seq_event \<Rightarrow> 'w \<times> unit outcome" where
  "alsaseq_user_client_schedule_event sys w h self event =
     (if \<not> seq_event_is_deliverable event
      then (w, Throw (GError ALSASEQ_USER_CLIENT_ERROR (seq_user_client_error_code ALSASEQ_USER_CLIENT_ERROR_EVENT_UNDELIVERABLE)))
      else let len = seq_event_calculate_flattened_length event False
           in (case (if len = event_size then Ret (event_enc event)
                     else seq_event_copy_flattened h event (replicate len 0) len) of
                 Ret buf \<Rightarrow>
                   (case sys_write sys w (uc_fd self) buf of
                      (w', SysErr e) \<Rightarrow> (w', write_error sys e)
                    | (w', SysOk result) \<Rightarrow> (w', if result = len then Ret () else Critical))
               | _ \<Rightarrow> (w, Undefined)))"

fun count_scheduled :: "snd_seq_event list \<Rightarrow> nat \<Rightarrow> nat \<Rightarrow> nat \<Rightarrow> nat \<times> nat" where
  "count_scheduled [] result pos scheduled = (pos, scheduled)"
| "count_scheduled (ev # events) result pos scheduled =
     (let pos' = pos + seq_event_calculate_flattened_length ev False
      in if result \<le> pos' then (pos', Suc scheduled)
         else count_scheduled events result pos' (Suc scheduled))"

text \<open>The number of events scheduled is \<open>None\<close> when it is not written.\<close>

definition alsaseq_user_client_schedule_events ::
  "'w seq_sys \<Rightarrow> 'w \<Rightarrow> heap \<Rightarrow> user_client \<Rightarrow> snd_seq_event list \<Rightarrow> 'w \<times> nat option outcome" where
  "alsaseq_user_client_schedule_events sys w h self events =
     (if \<exists>ev\<in>set events. \<not> seq_event_is_deliverable ev
      then (w, Throw (GError ALSASEQ_USER_CLIENT_ERROR (seq_user_client_error_code ALSASEQ_USER_CLIENT_ERROR_EVENT_UNDELIVERABLE)))
      else (case seq_event_cntr_serialize h \<lparr>cntr_buf = None, cntr_length = 0, cntr_aligned = False\<rparr> events False of
              Critical \<Rightarrow> (w, Ret None)
            | Ret cntr \<Rightarrow>
                if cntr_length cntr = 0 then (w, Ret None)
                else (case cntr_buf cntr of None \<Rightarrow> (w, Undefined)
                  | Some buf \<Rightarrow>
                      (case sys_write sys w (uc_fd self) buf of
                         (w', SysErr e) \<Rightarrow> (w', write_error sys e)
                       | (w', SysOk result) \<Rightarrow>
                           (case count_scheduled events result 0 0 of
                              (pos, scheduled) \<Rightarrow>
                                (w', if result = pos then Ret (Some scheduled) else Critical))))
            | _ \<Rightarrow> (w, Undefined)))"

section \<open>The event source\<close>

definition seq_user_client_check_src :: "u32 \<Rightarrow> bool" where
  "seq_user_client_check_src condition \<longleftrightarrow> condition AND (G_IO_IN OR G_IO_ERR) \<noteq> 0"

text \<open>
  Dispatching reads into the buffer of the source and emits the signal with a container on top of
  that buffer, marked as aligned.
\<close>

definition seq_user_client_dispatch_src ::
  "'w seq_sys \<Rightarrow> 'w \<Rightarrow> user_client \<Rightarrow> bytes \<Rightarrow> u32 \<Rightarrow>
     'w \<times> bytes \<times> source_result \<times> seq_event_cntr option" where
  "seq_user_client_dispatch_src sys w self buf condition =
     (if uc_fd self < 0 then (w, buf, G_SOURCE_REMOVE, None)
      else if condition AND G_IO_ERR \<noteq> 0 then (w, buf, G_SOURCE_REMOVE, None)
      else (case sys_read sys w (uc_fd self) (length buf) of
              (w', SysErr e) \<Rightarrow>
                (w', buf, if e = EAGAIN then G_SOURCE_CONTINUE else G_SOURCE_REMOVE, None)
            | (w', SysOk bs) \<Rightarrow>
                let buf' = put_at 0 bs buf
                in (w', buf', G_SOURCE_CONTINUE,
                    Some \<lparr>cntr_buf = Some buf', cntr_length = length bs, cntr_aligned = True\<rparr>)))"

text \<open>A source holds a reference to the client; the last reference finalises it.\<close>

definition seq_user_client_finalize_src :: "'w seq_sys \<Rightarrow> 'w \<Rightarrow> user_client \<Rightarrow> 'w \<times> user_client" where
  "seq_user_client_finalize_src sys w self =
     (let self' = self\<lparr>uc_refs := uc_refs self - 1\<rparr>
      in (if uc_refs self' = 0 then seq_user_client_finalize sys w self' else w, self'))"

definition alsaseq_user_client_create_source :: "nat \<Rightarrow> user_client \<Rightarrow> user_client \<times> bytes outcome" where
  "alsaseq_user_client_create_source page_size self =
     (if uc_fd self < 0 then (self, Critical)
      else (self\<lparr>uc_refs := uc_refs self + 1\<rparr>, Ret (replicate page_size 0)))"

interpretation seq_owner: descriptor_owner uc_refs uc_fd
  "\<lambda>w. alsaseq_user_client_create_source page_size" "seq_user_client_finalize_src sys" "sys_close sys"
  for page_size sys
  by unfold_locales (auto simp: succeeded_def alsaseq_user_client_create_source_def seq_user_client_finalize_src_def
      seq_user_client_finalize_def Let_def split: if_splits)

section \<open>Properties of opening\<close>

text \<open>
  C14: opening either succeeds with the descriptor, the node, the client number and the protocol
  version of the kernel recorded, or it leaves the client without descriptor and closes one that
  was opened. Whatever happens, an open client has a descriptor that the kernel handed out.
\<close>

theorem open_leaves_no_descriptor:
  assumes "alsaseq_get_seq_devnode sys = Ret devnode"
    and "sys_open sys w devnode (open_flag OR O_RDWR) = (w1, SysOk fd)"
    and "alsaseq_user_client_open sys w self open_flag = (w', self', result)"
  shows "if result = Ret ()
    then \<exists>w2 ver. ioctl_CLIENT_ID sys w1 fd (uc_client_id self) = (w2, SysOk (uc_client_id self')) \<and>
      ioctl_PVERSION sys w2 fd 0 = (w', SysOk ver) \<and> uc_fd self' = fd \<and>
      uc_devnode self' = Some devnode \<and> uc_proto_ver self' = SNDRV_PROTOCOL_TRIPLET ver
    else uc_fd self' = -1 \<and> result = Throw (GError ALSASEQ_USER_CLIENT_ERROR 0) \<and>
      (\<exists>w2. w' = sys_close sys w2 fd)"
  using assms
  by (auto simp: alsaseq_user_client_open_def client_error_defs Let_def
      split: prod.splits sysret.splits)

theorem open_leaves_no_descriptor_witness:
  "alsaseq_user_client_open (small_seq True) [] alsaseq_user_client_init 0 =
     ([], \<lparr>uc_fd = 7, uc_devnode = Some (ascii ''/dev/snd/seq''), uc_client_id = 128,
          uc_proto_ver = (1, 0, 2), uc_refs = 1\<rparr>, Ret ()) \<and>
   (\<exists>w2 ver. ioctl_PVERSION (small_seq True) w2 7 0 = ([], SysOk ver))"
proof -
  have *: "alsaseq_user_client_open (small_seq True) [] alsaseq_user_client_init 0 =
     ([], \<lparr>uc_fd = 7, uc_devnode = Some (ascii ''/dev/snd/seq''), uc_client_id = 128,
          uc_proto_ver = (1, 0, 2), uc_refs = 1\<rparr>, Ret ())"
    by (simp add: alsaseq_user_client_open_def small_seq_device small_seq_simps
        alsaseq_user_client_init_def SNDRV_PROTOCOL_TRIPLET_def)
  from open_leaves_no_descriptor [OF small_seq_device(1) small_seq_simps(1) *] * show ?thesis by auto
qed

text \<open>
  An error of opening the device node is reported through the wrong code: the error number
  is translated to a file error twice, so that a missing access permission becomes \<open>NOENT\<close>. The
  errors of writing are translated once.
\<close>

theorem open_error_translated_twice:
  assumes "alsaseq_get_seq_devnode sys = Ret devnode"
    and "sys_open sys w devnode (open_flag OR O_RDWR) = (w1, SysErr EACCES)"
    and "file_error sys EACCES = 2" "file_error sys ENOENT = 4"
  shows "alsaseq_user_client_open sys w self open_flag =
      (w1, self\<lparr>uc_fd := -1\<rparr>, Throw (GError G_FILE_ERROR 4)) \<and>
    write_error sys EACCES = (Throw (GError G_FILE_ERROR 2) :: unit outcome)"
  using assms
  by (simp add: alsaseq_user_client_open_def write_error_def generate_file_error_def Let_def)

theorem open_error_translated_twice_witness:
  "alsaseq_user_client_open ((small_seq True)\<lparr>sys_open := \<lambda>w d f. (w, SysErr EACCES)\<rparr>) []
     alsaseq_user_client_init 0 = ([], alsaseq_user_client_init, Throw (GError G_FILE_ERROR 4))"
proof -
  let ?sys = "(small_seq True)\<lparr>sys_open := \<lambda>w d f. (w, SysErr EACCES)\<rparr>"
  have "alsaseq_get_seq_devnode ?sys = alsaseq_get_seq_devnode (small_seq True)"
    by (simp add: alsaseq_get_seq_devnode_def generate_file_error_def cong: if_cong)
  then have "alsaseq_get_seq_devnode ?sys = Ret (ascii ''/dev/snd/seq'')" by (simp add: small_seq_device)
  from open_error_translated_twice [OF this, of "[]" 0 "[]" alsaseq_user_client_init] show ?thesis
    by (simp add: small_seq_simps alsaseq_user_client_init_def)
qed

text \<open>
  A refusal of the kernel for lack of permission is told apart from other failures for
  subscriptions and for changes of a queue, and the structure handed in stays as it was filled.
\<close>

theorem permission_errors:
  assumes "ioctl_SUBSCRIBE_PORT sys w (uc_fd self) data = (w1, SysErr e1)"
    and "ioctl_SET_QUEUE_TEMPO sys w (uc_fd self) (tempo\<lparr>qt_queue := ucast q\<rparr>) = (w2, SysErr e2)"
    and "ioctl_SET_QUEUE_INFO sys w (uc_fd self) info = (w3, SysErr e3)"
  shows "alsaseq_user_client_operate_subscription sys w self data True =
      (w1, data, Throw (GError ALSASEQ_USER_CLIENT_ERROR (if e1 = EPERM then 1 else 0))) \<and>
    alsaseq_user_client_set_queue_tempo sys w self q tempo =
      (w2, tempo\<lparr>qt_queue := ucast q\<rparr>, Throw (GError ALSASEQ_USER_CLIENT_ERROR (if e2 = EPERM then 2 else 0))) \<and>
    alsaseq_user_client_update_queue sys w self info =
      (w3, info, Throw (GError ALSASEQ_USER_CLIENT_ERROR (if e3 = EPERM then 2 else 0)))"
  using assms
  by (simp add: alsaseq_user_client_operate_subscription_def alsaseq_user_client_set_queue_tempo_def
      alsaseq_user_client_update_queue_def client_request_perm_def client_error_defs)

theorem permission_errors_witness:
  "alsaseq_user_client_operate_subscription (small_seq True) [] alsaseq_user_client_init
     \<lparr>sd_sender = \<lparr>addr_client = 1, addr_port = 2\<rparr>, sd_dest = \<lparr>addr_client = 3, addr_port = 4\<rparr>,
      sd_voices = 0, sd_flags = 0, sd_queue = 0\<rparr> True =
   ([], \<lparr>sd_sender = \<lparr>addr_client = 1, addr_port = 2\<rparr>, sd_dest = \<lparr>addr_client = 3, addr_port = 4\<rparr>,
      sd_voices = 0, sd_flags = 0, sd_queue = 0\<rparr>, Throw (GError ALSASEQ_USER_CLIENT_ERROR 1))"
  by (rule permission_errors [where ?e1.0 = EPERM and ?w2.0 = "[]" and ?w3.0 = "[]"
        and ?e2.0 = EINVAL and ?e3.0 = EINVAL, THEN conjunct1, simplified]) (simp_all add: small_seq_simps)

section \<open>Properties of scheduling\<close>

lemma length_event_bytes:
  assumes "blob_readable h ev"
  shows "length (flat h False ev) = seq_event_calculate_flattened_length ev False"
  using assms by simp

lemma flat_short:
  assumes "seq_event_calculate_flattened_length ev False = event_size"
  shows "flat h False ev = event_enc ev"
proof -
  have "length_mode ev \<noteq> SNDRV_SEQ_EVENT_LENGTH_VARIABLE \<or> unat (ext_len ev) = 0"
    using assms by (auto simp: seq_event_calculate_flattened_length_def split: if_splits)
  then have "snd (event_content h ev) = Some []"
    by (auto simp: event_content_def heap_read_def)
  then show ?thesis using assms by (simp add: flat_def Let_def)
qed

text \<open>
  C11: scheduling an event writes nothing when the event is not deliverable. Otherwise it hands
  the kernel exactly the flat layout of the event, structure and blob without padding, in one
  write, and succeeds exactly when the kernel took all of it.
\<close>

theorem schedule_event_writes_flat:
  assumes "blob_readable h event"
  shows "alsaseq_user_client_schedule_event sys w h self event =
    (if seq_event_is_deliverable event
     then (case sys_write sys w (uc_fd self) (flat h False event) of
             (w', SysErr e) \<Rightarrow> (w', write_error sys e)
           | (w', SysOk n) \<Rightarrow> (w', if n = length (flat h False event) then Ret () else Critical))
     else (w, Throw (GError ALSASEQ_USER_CLIENT_ERROR 3)))"
proof (cases "seq_event_calculate_flattened_length event False = event_size")
  case True
  show ?thesis unfolding flat_short [OF True] using True
    by (simp add: alsaseq_user_client_schedule_event_def client_error_defs
        split: prod.splits sysret.splits)
next
  case False
  have "seq_event_copy_flattened h event (replicate (seq_event_calculate_flattened_length event False) 0)
      (seq_event_calculate_flattened_length event False) = Ret (flat h False event)"
    using copy_flattened_flat [OF assms order_refl] by simp
  then show ?thesis using assms False
    by (simp add: alsaseq_user_client_schedule_event_def client_error_defs Let_def
        split: prod.splits sysret.splits)
qed

theorem schedule_event_writes_flat_witness:
  "alsaseq_user_client_schedule_event (small_seq True) [] [1024 \<mapsto> [1, 2]] alsaseq_user_client_init blob_event
     = ([], Ret ())"
proof -
  have "seq_event_is_deliverable blob_event"
    by (simp add: seq_event_is_deliverable_def seq_event_data_flags_def)
  moreover have "blob_readable [1024 \<mapsto> [1, 2]] blob_event"
    by (simp add: blob_readable_def event_content_def heap_read_def)
  ultimately show ?thesis
    using schedule_event_writes_flat [of "[1024 \<mapsto> [1, 2]]" blob_event "small_seq True" "[]"
        alsaseq_user_client_init]
    by (simp add: small_seq_simps)
qed

lemma count_scheduled_prefix:
  assumes "0 < k" "k \<le> length events"
    and "result = pos + total_flattened_length (take k events) False"
  shows "count_scheduled events result pos n = (result, n + k)"
  using assms
proof (induction events arbitrary: k pos n)
  case (Cons ev events)
  show ?case
  proof (cases "k = 1")
    case True
    with Cons.prems show ?thesis by simp
  next
    case False
    then have k: "0 < k - 1" "k - 1 \<le> length events" "take k (ev # events) = ev # take (k - 1) events"
      using Cons.prems by (auto simp: take_Cons split: nat.splits)
    have "0 < total_flattened_length (take (k - 1) events) False"
    proof -
      obtain e es where "take (k - 1) events = e # es" using k(1,2) by (cases events; cases "k - 1") auto
      then show ?thesis using flattened_length_ge [of e False] by simp
    qed
    then have "\<not> result \<le> pos + seq_event_calculate_flattened_length ev False"
      using Cons.prems(3) k(3) by simp
    with Cons.IH [OF k(1,2), of "pos + seq_event_calculate_flattened_length ev False" "Suc n"]
      Cons.prems k(1,3) show ?thesis by (simp add: add.assoc)
  qed
qed simp

text \<open>
  C4: scheduling a batch writes nothing when one of the events is not deliverable. Otherwise the
  kernel gets the flat events one behind the other in one write, and when it takes the first \<open>k\<close>
  of them the count returned is \<open>k\<close>.
\<close>

theorem schedule_events_count:
  assumes "events \<noteq> []" "\<forall>ev\<in>set events. blob_readable h ev"
    and "sys_write sys w (uc_fd self) (concat (map (flat h False) events)) =
      (w', SysOk (total_flattened_length (take k events) False))"
    and "0 < k" "k \<le> length events"
  shows "alsaseq_user_client_schedule_events sys w h self events =
    (if \<exists>ev\<in>set events. \<not> seq_event_is_deliverable ev
     then (w, Throw (GError ALSASEQ_USER_CLIENT_ERROR 3)) else (w', Ret (Some k)))"
proof -
  obtain ev events' where "events = ev # events'" using assms(1) by (cases events) auto
  then have "total_flattened_length events False \<noteq> 0"
    using flattened_length_ge [of ev False] by simp
  then show ?thesis
    using serialize_flat [OF assms(1,2)] assms(3) count_scheduled_prefix [OF assms(4,5), of _ 0 0]
    by (simp add: alsaseq_user_client_schedule_events_def client_error_defs)
qed

theorem schedule_events_count_witness:
  "alsaseq_user_client_schedule_events (small_seq True) [] [1024 \<mapsto> [1, 2]] alsaseq_user_client_init
     [blob_event, blob_event] = ([], Ret (Some 2))"
proof -
  let ?h = "[1024 \<mapsto> [1, 2]]" and ?es = "[blob_event, blob_event]"
  have r: "\<forall>ev\<in>set ?es. blob_readable ?h ev"
    by (simp add: blob_readable_def event_content_def heap_read_def)
  have "seq_event_is_deliverable blob_event"
    by (simp add: seq_event_is_deliverable_def seq_event_data_flags_def)
  then show ?thesis
    using schedule_events_count [OF _ r, of "small_seq True" "[]" alsaseq_user_client_init "[]" 2] r
    by (simp add: small_seq_simps)
qed

section \<open>Properties of receiving\<close>

lemma dispatch_container:
  assumes "0 \<le> uc_fd self" "condition AND G_IO_ERR = 0"
    and "sys_read sys w (uc_fd self) (length buf) = (w', SysOk bs)"
  shows "seq_user_client_dispatch_src sys w self buf condition =
    (w', put_at 0 bs buf, G_SOURCE_CONTINUE,
     Some \<lparr>cntr_buf = Some (put_at 0 bs buf), cntr_length = length bs, cntr_aligned = True\<rparr>)"
  using assms by (simp add: seq_user_client_dispatch_src_def Let_def)

text \<open>
  A container holds a batch of events when deserialisation returns those events, in order and with
  their blobs, each in a block of its own, whatever memory the handler has at that time.
\<close>

definition holds_events :: "heap \<Rightarrow> seq_event_cntr \<Rightarrow> snd_seq_event list \<Rightarrow> bool" where
  "holds_events h cntr events \<longleftrightarrow> (\<forall>malloc h1. malloc_ok malloc \<longrightarrow> malloc_room malloc (length events) h1 \<longrightarrow>
     (\<exists>h2 events'. alsaseq_event_cntr_deserialize malloc h1 cntr [] = Ret (h2, events') \<and>
        map (event_content h2) events' = map (event_content h) events))"

lemma flat_cells_hold_events:
  assumes "\<forall>ev\<in>set events. blob_readable h ev"
  shows "holds_events h \<lparr>cntr_buf = Some (put_at 0 (concat (map (flat h True) events)) buf),
    cntr_length = length (concat (map (flat h True) events)), cntr_aligned = True\<rparr> events"
  unfolding holds_events_def
proof (intro allI impI)
  fix malloc h1 assume malloc: "malloc_ok malloc" "malloc_room malloc (length events) h1"
  let ?bs = "concat (map (flat h True) events)"
  have "length ?bs = total_flattened_length events True"
    using assms by (induction events) simp_all
  then have len: "total_flattened_length events True = length ?bs" by simp
  obtain h2 events' where "deserialize_loop malloc h1
      \<lparr>iter_buf = Some (?bs @ drop (length ?bs) buf),
       iter_length = total_flattened_length events True, iter_offset = 0,
       iter_aligned = True\<rparr> [] = Ret (h2, events')"
      and "map (event_content h2) events' = map (event_content h) events"
    using deserialize_loop_flat [OF malloc(1) assms malloc(2), of "[]" True "drop (length ?bs) buf" "[]"]
    by auto
  then show "\<exists>h2 events'. alsaseq_event_cntr_deserialize malloc h1
      \<lparr>cntr_buf = Some (put_at 0 ?bs buf), cntr_length = length ?bs, cntr_aligned = True\<rparr> [] = Ret (h2, events') \<and>
      map (event_content h2) events' = map (event_content h) events"
    using len by (simp add: alsaseq_event_cntr_deserialize_def seq_event_iter_init_def put_at_def)
qed

text \<open>
  C2: what the sequencer core delivers is what a handler of the event signal gets. When reading
  gives a batch of events in the flat layout of whole cells, dispatching keeps the source and
  emits a container from which deserialisation returns those events, in order and with their
  blobs, each in a block of its own.
\<close>

theorem received_events:
  assumes "malloc_ok malloc" "malloc_room malloc (length events) h1"
    and "\<forall>ev\<in>set events. blob_readable h ev"
    and "0 \<le> uc_fd self" "condition AND G_IO_ERR = 0"
    and "sys_read sys w (uc_fd self) (length buf) = (w', SysOk (concat (map (flat h True) events)))"
  shows "\<exists>buf' cntr h2 events'.
    seq_user_client_dispatch_src sys w self buf condition = (w', buf', G_SOURCE_CONTINUE, Some cntr) \<and>
    alsaseq_event_cntr_deserialize malloc h1 cntr [] = Ret (h2, events') \<and>
    map (event_content h2) events' = map (event_content h) events"
  using dispatch_container [OF assms(4-6)] flat_cells_hold_events [OF assms(3), of buf] assms(1,2)
  unfolding holds_events_def by blast

text \<open>The signals of a dispatch as a list, of one container at most.\<close>

definition seq_source_dispatch ::
  "'w seq_sys \<Rightarrow> user_client \<Rightarrow> 'w \<Rightarrow> bytes \<Rightarrow> u32 \<Rightarrow> 'w \<times> bytes \<times> source_result \<times> seq_event_cntr list" where
  "seq_source_dispatch sys self w buf condition =
     (case seq_user_client_dispatch_src sys w self buf condition of
        (w', buf', result, cntr) \<Rightarrow> (w', buf', result, case cntr of None \<Rightarrow> [] | Some cntr \<Rightarrow> [cntr]))"

interpretation seq_source: polled_source
  "delivers sys (uc_fd self) buf_len pending (\<lambda>events. concat (map (flat h True) events))
     (\<lambda>events. \<forall>ev\<in>set events. blob_readable h ev)"
  buf_len pending seq_user_client_check_src "seq_source_dispatch sys self"
  "\<lambda>cntrs events. \<exists>cntr. cntrs = [cntr] \<and> holds_events h cntr events" "[]"
  for sys self buf_len pending h
proof (unfold_locales, goal_cases)
  case (1 c)
  show ?case unfolding seq_user_client_check_src_def is_ready_def by (rule ready_or_error)
next
  case (2 buf c w events rest)
  obtain w' where w': "sys_read sys w (uc_fd self) (length buf) = (w', SysOk (concat (map (flat h True) events)))"
      "pending w' = rest" "\<forall>ev\<in>set events. blob_readable h ev" "length (concat (map (flat h True) events)) \<le> length buf"
    using delivers_next [OF 2(1,4)] 2(2) by auto
  moreover have "0 \<le> uc_fd self" using 2(1) by (simp add: delivers_def)
  ultimately show ?case
    using dispatch_container [of self c sys w buf w' "concat (map (flat h True) events)"]
      flat_cells_hold_events [of events h buf] 2(2,3)
    by (simp add: seq_source_dispatch_def)
next
  case (3 buf c w)
  then show ?case
    using delivers_none [OF 3(1,4)] by (auto simp: seq_source_dispatch_def seq_user_client_dispatch_src_def delivers_def)
next
  case (4 c w buf)
  then show ?case by (simp add: seq_source_dispatch_def seq_user_client_dispatch_src_def delivers_def)
qed

theorem received_events_witness:
  "\<exists>buf' cntr h2 events'.
    seq_user_client_dispatch_src
      ((small_seq True)\<lparr>sys_read := \<lambda>w fd n. (w, SysOk (concat (map (flat [1024 \<mapsto> [1, 2]] True) [blob_event])))\<rparr>)
      [] (alsaseq_user_client_init\<lparr>uc_fd := 7\<rparr>) (replicate 4096 0) 1
      = ([], buf', G_SOURCE_CONTINUE, Some cntr) \<and>
    alsaseq_event_cntr_deserialize bump_malloc Map.empty cntr [] = Ret (h2, events') \<and>
    map (event_content h2) events' = map (event_content [1024 \<mapsto> [1, 2]]) [blob_event]"
  by (rule received_events [OF malloc_ok_bump])
    (simp_all add: blob_readable_def event_content_def heap_read_def heap_new_def bump_malloc_def)

end
