(* ===== verification/Ctl_Enum_Types.thy ===== *)
theory Ctl_Enum_Types
  imports Enum_Values
begin

text \<open>
  The enumerations of \<open>ctl/alsactl-enum-types.h\<close>, of controls: types, interfaces and access of elements, events and errors.
  The values are those of the kernel headers that the header names.
\<close>

datatype ctl_elem_type =
    ALSACTL_ELEM_TYPE_NONE | ALSACTL_ELEM_TYPE_BOOLEAN | ALSACTL_ELEM_TYPE_INTEGER
  | ALSACTL_ELEM_TYPE_ENUMERATED | ALSACTL_ELEM_TYPE_BYTES | ALSACTL_ELEM_TYPE_IEC60958
  | ALSACTL_ELEM_TYPE_INTEGER64

primrec ctl_elem_type_value :: "ctl_elem_type \<Rightarrow> u32" where
  "ctl_elem_type_value ALSACTL_ELEM_TYPE_NONE = 0" |
  "ctl_elem_type_value ALSACTL_ELEM_TYPE_BOOLEAN = 1" |
  "ctl_elem_type_value ALSACTL_ELEM_TYPE_INTEGER = 2" |
  "ctl_elem_type_value ALSACTL_ELEM_TYPE_ENUMERATED = 3" |
  "ctl_elem_type_value ALSACTL_ELEM_TYPE_BYTES = 4" |
  "ctl_elem_type_value ALSACTL_ELEM_TYPE_IEC60958 = 5" |
  "ctl_elem_type_value ALSACTL_ELEM_TYPE_INTEGER64 = 6"

definition all_ctl_elem_type :: "ctl_elem_type list" where
  "all_ctl_elem_type = [ALSACTL_ELEM_TYPE_NONE, ALSACTL_ELEM_TYPE_BOOLEAN, ALSACTL_ELEM_TYPE_INTEGER,
     ALSACTL_ELEM_TYPE_ENUMERATED, ALSACTL_ELEM_TYPE_BYTES, ALSACTL_ELEM_TYPE_IEC60958,
     ALSACTL_ELEM_TYPE_INTEGER64]"

lemma set_all_ctl_elem_type: "set all_ctl_elem_type = UNIV"
  using ctl_elem_type.exhaust by (auto simp: all_ctl_elem_type_def)

lemma distinct_all_ctl_elem_type: "distinct (map ctl_elem_type_value all_ctl_elem_type)"
  by (simp add: all_ctl_elem_type_def)

interpretation ctl_elem_type: enumeration ctl_elem_type_value all_ctl_elem_type
  by unfold_locales (fact set_all_ctl_elem_type distinct_all_ctl_elem_type)+

datatype ctl_elem_iface_type =
    ALSACTL_ELEM_IFACE_TYPE_CARD | ALSACTL_ELEM_IFACE_TYPE_HWDEP | ALSACTL_ELEM_IFACE_TYPE_MIXER
  | ALSACTL_ELEM_IFACE_TYPE_PCM | ALSACTL_ELEM_IFACE_TYPE_RAWMIDI | ALSACTL_ELEM_IFACE_TYPE_TIMER
  | ALSACTL_ELEM_IFACE_TYPE_SEQUENCER

primrec ctl_elem_iface_type_value :: "ctl_elem_iface_type \<Rightarrow> u32" where
  "ctl_elem_iface_type_value ALSACTL_ELEM_IFACE_TYPE_CARD = 0" |
  "ctl_elem_iface_type_value ALSACTL_ELEM_IFACE_TYPE_HWDEP = 1" |
  "ctl_elem_iface_type_value ALSACTL_ELEM_IFACE_TYPE_MIXER = 2" |
  "ctl_elem_iface_type_value ALSACTL_ELEM_IFACE_TYPE_PCM = 3" |
  "ctl_elem_iface_type_value ALSACTL_ELEM_IFACE_TYPE_RAWMIDI = 4" |
  "ctl_elem_iface_type_value ALSACTL_ELEM_IFACE_TYPE_TIMER = 5" |
  "ctl_elem_iface_type_value ALSACTL_ELEM_IFACE_TYPE_SEQUENCER = 6"

definition all_ctl_elem_iface_type :: "ctl_elem_iface_type list" where
  "all_ctl_elem_iface_type = [ALSACTL_ELEM_IFACE_TYPE_CARD, ALSACTL_ELEM_IFACE_TYPE_HWDEP,
     ALSACTL_ELEM_IFACE_TYPE_MIXER, ALSACTL_ELEM_IFACE_TYPE_PCM, ALSACTL_ELEM_IFACE_TYPE_RAWMIDI,
     ALSACTL_ELEM_IFACE_TYPE_TIMER, ALSACTL_ELEM_IFACE_TYPE_SEQUENCER]"

lemma set_all_ctl_elem_iface_type: "set all_ctl_elem_iface_type = UNIV"
  using ctl_elem_iface_type.exhaust by (auto simp: all_ctl_elem_iface_type_def)

lemma distinct_all_ctl_elem_iface_type: "distinct (map ctl_elem_iface_type_value all_ctl_elem_iface_type)"
  by (simp add: all_ctl_elem_iface_type_def)

interpretation ctl_elem_iface_type: enumeration ctl_elem_iface_type_value all_ctl_elem_iface_type
  by unfold_locales (fact set_all_ctl_elem_iface_type distinct_all_ctl_elem_iface_type)+

datatype ctl_elem_access_flag =
    ALSACTL_ELEM_ACCESS_FLAG_READ | ALSACTL_ELEM_ACCESS_FLAG_WRITE | ALSACTL_ELEM_ACCESS_FLAG_VOLATILE
  | ALSACTL_ELEM_ACCESS_FLAG_TLV_READ | ALSACTL_ELEM_ACCESS_FLAG_TLV_WRITE
  | ALSACTL_ELEM_ACCESS_FLAG_TLV_COMMAND | ALSACTL_ELEM_ACCESS_FLAG_INACTIVE | ALSACTL_ELEM_ACCESS_FLAG_LOCK
  | ALSACTL_ELEM_ACCESS_FLAG_OWNER | ALSACTL_ELEM_ACCESS_FLAG_TLV_CALLBACK | ALSACTL_ELEM_ACCESS_FLAG_USER

primrec ctl_elem_access_flag_value :: "ctl_elem_access_flag \<Rightarrow> u32" where
  "ctl_elem_access_flag_value ALSACTL_ELEM_ACCESS_FLAG_READ = 1" |
  "ctl_elem_access_flag_value ALSACTL_ELEM_ACCESS_FLAG_WRITE = 2" |
  "ctl_elem_access_flag_value ALSACTL_ELEM_ACCESS_FLAG_VOLATILE = 4" |
  "ctl_elem_access_flag_value ALSACTL_ELEM_ACCESS_FLAG_TLV_READ = 16" |
  "ctl_elem_access_flag_value ALSACTL_ELEM_ACCESS_FLAG_TLV_WRITE = 32" |
  "ctl_elem_access_flag_value ALSACTL_ELEM_ACCESS_FLAG_TLV_COMMAND = 64" |
  "ctl_elem_access_flag_value ALSACTL_ELEM_ACCESS_FLAG_INACTIVE = 256" |
  "ctl_elem_access_flag_value ALSACTL_ELEM_ACCESS_FLAG_LOCK = 512" |
  "ctl_elem_access_flag_value ALSACTL_ELEM_ACCESS_FLAG_OWNER = 1024" |
  "ctl_elem_access_flag_value ALSACTL_ELEM_ACCESS_FLAG_TLV_CALLBACK = 268435456" |
  "ctl_elem_access_flag_value ALSACTL_ELEM_ACCESS_FLAG_USER = 536870912"

definition all_ctl_elem_access_flag :: "ctl_elem_access_flag list" where
  "all_ctl_elem_access_flag = [ALSACTL_ELEM_ACCESS_FLAG_READ, ALSACTL_ELEM_ACCESS_FLAG_WRITE,
     ALSACTL_ELEM_ACCESS_FLAG_VOLATILE, ALSACTL_ELEM_ACCESS_FLAG_TLV_READ, ALSACTL_ELEM_ACCESS_FLAG_TLV_WRITE,
     ALSACTL_ELEM_ACCESS_FLAG_TLV_COMMAND, ALSACTL_ELEM_ACCESS_FLAG_INACTIVE, ALSACTL_ELEM_ACCESS_FLAG_LOCK,
     ALSACTL_ELEM_ACCESS_FLAG_OWNER, ALSACTL_ELEM_ACCESS_FLAG_TLV_CALLBACK, ALSACTL_ELEM_ACCESS_FLAG_USER]"

lemma set_all_ctl_elem_access_flag: "set all_ctl_elem_access_flag = UNIV"
  using ctl_elem_access_flag.exhaust by (auto simp: all_ctl_elem_access_flag_def)

lemma distinct_all_ctl_elem_access_flag: "distinct (map ctl_elem_access_flag_value all_ctl_elem_access_flag)"
  by (simp add: all_ctl_elem_access_flag_def)

interpretation ctl_elem_access_flag: flag_enumeration ctl_elem_access_flag_value all_ctl_elem_access_flag
proof unfold_locales
  fix a b :: ctl_elem_access_flag
  assume "a \<noteq> b"
  then show "ctl_elem_access_flag_value a AND ctl_elem_access_flag_value b = 0" by (cases a; cases b; simp)
next
  fix a :: ctl_elem_access_flag
  show "ctl_elem_access_flag_value a \<noteq> 0" by (cases a) simp_all
qed (fact set_all_ctl_elem_access_flag distinct_all_ctl_elem_access_flag)+

datatype ctl_event_type =
    ALSACTL_EVENT_TYPE_ELEM

primrec ctl_event_type_value :: "ctl_event_type \<Rightarrow> u32" where
  "ctl_event_type_value ALSACTL_EVENT_TYPE_ELEM = 0"

definition all_ctl_event_type :: "ctl_event_type list" where
  "all_ctl_event_type = [ALSACTL_EVENT_TYPE_ELEM]"

lemma set_all_ctl_event_type: "set all_ctl_event_type = UNIV"
  using ctl_event_type.exhaust by (auto simp: all_ctl_event_type_def)

lemma distinct_all_ctl_event_type: "distinct (map ctl_event_type_value all_ctl_event_type)"
  by (simp add: all_ctl_event_type_def)

interpretation ctl_event_type: enumeration ctl_event_type_value all_ctl_event_type
  by unfold_locales (fact set_all_ctl_event_type distinct_all_ctl_event_type)+

datatype ctl_elem_event_mask =
    ALSACTL_ELEM_EVENT_MASK_VALUE | ALSACTL_ELEM_EVENT_MASK_INFO | ALSACTL_ELEM_EVENT_MASK_ADD
  | ALSACTL_ELEM_EVENT_MASK_TLV | ALSACTL_ELEM_EVENT_MASK_REMOVE

primrec ctl_elem_event_mask_value :: "ctl_elem_event_mask \<Rightarrow> u32" where
  "ctl_elem_event_mask_value ALSACTL_ELEM_EVENT_MASK_VALUE = 1" |
  "ctl_elem_event_mask_value ALSACTL_ELEM_EVENT_MASK_INFO = 2" |
  "ctl_elem_event_mask_value ALSACTL_ELEM_EVENT_MASK_ADD = 4" |
  "ctl_elem_event_mask_value ALSACTL_ELEM_EVENT_MASK_TLV = 8" |
  "ctl_elem_event_mask_value ALSACTL_ELEM_EVENT_MASK_REMOVE = 16"

definition all_ctl_elem_event_mask :: "ctl_elem_event_mask list" where
  "all_ctl_elem_event_mask = [ALSACTL_ELEM_EVENT_MASK_VALUE, ALSACTL_ELEM_EVENT_MASK_INFO,
     ALSACTL_ELEM_EVENT_MASK_ADD, ALSACTL_ELEM_EVENT_MASK_TLV, ALSACTL_ELEM_EVENT_MASK_REMOVE]"

lemma set_all_ctl_elem_event_mask: "set all_ctl_elem_event_mask = UNIV"
  using ctl_elem_event_mask.exhaust by (auto simp: all_ctl_elem_event_mask_def)

lemma distinct_all_ctl_elem_event_mask: "distinct (map ctl_elem_event_mask_value all_ctl_elem_event_mask)"
  by (simp add: all_ctl_elem_event_mask_def)

interpretation ctl_elem_event_mask: flag_enumeration ctl_elem_event_mask_value all_ctl_elem_event_mask
proof unfold_locales
  fix a b :: ctl_elem_event_mask
  assume "a \<noteq> b"
  then show "ctl_elem_event_mask_value a AND ctl_elem_event_mask_value b = 0" by (cases a; cases b; simp)
next
  fix a :: ctl_elem_event_mask
  show "ctl_elem_event_mask_value a \<noteq> 0" by (cases a) simp_all
qed (fact set_all_ctl_elem_event_mask distinct_all_ctl_elem_event_mask)+

datatype ctl_card_error =
    ALSACTL_CARD_ERROR_FAILED | ALSACTL_CARD_ERROR_DISCONNECTED | ALSACTL_CARD_ERROR_ELEM_NOT_FOUND
  | ALSACTL_CARD_ERROR_ELEM_NOT_SUPPORTED | ALSACTL_CARD_ERROR_ELEM_OWNED | ALSACTL_CARD_ERROR_ELEM_EXIST

primrec ctl_card_error_code :: "ctl_card_error \<Rightarrow> int" where
  "ctl_card_error_code ALSACTL_CARD_ERROR_FAILED = 0" |
  "ctl_card_error_code ALSACTL_CARD_ERROR_DISCONNECTED = 1" |
  "ctl_card_error_code ALSACTL_CARD_ERROR_ELEM_NOT_FOUND = 2" |
  "ctl_card_error_code ALSACTL_CARD_ERROR_ELEM_NOT_SUPPORTED = 3" |
  "ctl_card_error_code ALSACTL_CARD_ERROR_ELEM_OWNED = 4" |
  "ctl_card_error_code ALSACTL_CARD_ERROR_ELEM_EXIST = 5"

definition all_ctl_card_error :: "ctl_card_error list" where
  "all_ctl_card_error = [ALSACTL_CARD_ERROR_FAILED, ALSACTL_CARD_ERROR_DISCONNECTED,
     ALSACTL_CARD_ERROR_ELEM_NOT_FOUND, ALSACTL_CARD_ERROR_ELEM_NOT_SUPPORTED, ALSACTL_CARD_ERROR_ELEM_OWNED,
     ALSACTL_CARD_ERROR_ELEM_EXIST]"

lemma set_all_ctl_card_error: "set all_ctl_card_error = UNIV"
  using ctl_card_error.exhaust by (auto simp: all_ctl_card_error_def)

lemma distinct_all_ctl_card_error: "distinct (map ctl_card_error_code all_ctl_card_error)"
  by (simp add: all_ctl_card_error_def)

interpretation ctl_card_error: enumeration ctl_card_error_code all_ctl_card_error
  by unfold_locales (fact set_all_ctl_card_error distinct_all_ctl_card_error)+

end
