(* ===== verification/Ctl_Elem.thy ===== *)
theory Ctl_Elem
  imports Ctl_Enum_Types GObject_Props
begin

text \<open>
  Identifiers and values of control elements: \<open>ctl/elem-id.c\<close> and \<open>ctl/elem-value.c\<close>. The
  structures are those of the UAPI header on a machine with 64 bit \<open>long\<close>: the value of an
  element is a union of 1024 bytes whose members overlay each other, so it is kept as bytes and
  every member is an array of words at an offset. An array in memory is the list of its elements.
\<close>

section \<open>Arrays in a structure\<close>

text \<open>Reading \<open>n\<close> words of \<open>sz\<close> bytes, and the loop that stores a list of words.\<close>

definition get_array :: "nat \<Rightarrow> nat \<Rightarrow> nat \<Rightarrow> bytes \<Rightarrow> 'a::len word list" where
  "get_array sz off n d = map (\<lambda>i. le_dec (get_at (off + sz * i) sz d)) [0..<n]"

fun fill_array :: "nat \<Rightarrow> nat \<Rightarrow> 'a::len word list \<Rightarrow> bytes \<Rightarrow> bytes" where
  "fill_array sz off [] d = d"
| "fill_array sz off (v # vs) d = fill_array sz (off + sz) vs (put_at off (le_enc sz v) d)"

text \<open>The setters clear the array with \<open>memset\<close> and store at most as many values as it holds.\<close>

definition set_array :: "nat \<Rightarrow> nat \<Rightarrow> nat \<Rightarrow> 'a::len word list \<Rightarrow> bytes \<Rightarrow> bytes" where
  "set_array sz off n vs d = fill_array sz off (take n vs) (put_at off (replicate (sz * n) 0) d)"

section \<open>Identifiers\<close>

record snd_ctl_elem_id =
  id_numid :: u32
  id_iface :: u32
  id_device :: u32
  id_subdevice :: u32
  id_name :: bytes
  id_index :: u32

definition zero_elem_id :: snd_ctl_elem_id where
  "zero_elem_id = \<lparr>id_numid = 0, id_iface = 0, id_device = 0, id_subdevice = 0,
     id_name = replicate 44 0, id_index = 0\<rparr>"

definition alsactl_elem_id_new_by_numid :: "u32 \<Rightarrow> snd_ctl_elem_id" where
  "alsactl_elem_id_new_by_numid numid = zero_elem_id\<lparr>id_numid := numid\<rparr>"

definition alsactl_elem_id_new_by_name ::
  "u32 \<Rightarrow> u32 \<Rightarrow> u32 \<Rightarrow> bytes option \<Rightarrow> u32 \<Rightarrow> snd_ctl_elem_id outcome" where
  "alsactl_elem_id_new_by_name iface device_id subdevice_id name index =
     (case name of
        None \<Rightarrow> Critical
      | Some s \<Rightarrow>
          if cstr s = [] then Critical
          else Ret (zero_elem_id\<lparr>id_iface := iface, id_device := device_id, id_subdevice := subdevice_id,
                 id_name := strlcpy (id_name zero_elem_id) s, id_index := index\<rparr>))"

definition alsactl_elem_id_get_numid :: "snd_ctl_elem_id \<Rightarrow> u32" where
  "alsactl_elem_id_get_numid self = id_numid self"

definition alsactl_elem_id_get_iface :: "snd_ctl_elem_id \<Rightarrow> u32" where
  "alsactl_elem_id_get_iface self = id_iface self"

definition alsactl_elem_id_get_device_id :: "snd_ctl_elem_id \<Rightarrow> u32" where
  "alsactl_elem_id_get_device_id self = id_device self"

definition alsactl_elem_id_get_subdevice_id :: "snd_ctl_elem_id \<Rightarrow> u32" where
  "alsactl_elem_id_get_subdevice_id self = id_subdevice self"

definition alsactl_elem_id_get_name :: "snd_ctl_elem_id \<Rightarrow> bytes" where
  "alsactl_elem_id_get_name self = cstr (id_name self)"

definition alsactl_elem_id_get_index :: "snd_ctl_elem_id \<Rightarrow> u32" where
  "alsactl_elem_id_get_index self = id_index self"

definition alsactl_elem_id_equal :: "snd_ctl_elem_id \<Rightarrow> snd_ctl_elem_id \<Rightarrow> bool" where
  "alsactl_elem_id_equal lhs rhs \<longleftrightarrow>
     id_numid lhs = id_numid rhs \<or>
     (id_iface lhs = id_iface rhs \<and>
      id_device lhs = id_device rhs \<and>
      id_subdevice lhs = id_subdevice rhs \<and>
      cstr (id_name lhs) = cstr (id_name rhs) \<and>
      id_index lhs = id_index rhs)"

text \<open>The 64 bytes of the structure.\<close>

definition elem_id_enc :: "snd_ctl_elem_id \<Rightarrow> bytes" where
  "elem_id_enc self = le_enc 4 (id_numid self) @ le_enc 4 (id_iface self) @ le_enc 4 (id_device self) @
     le_enc 4 (id_subdevice self) @ id_name self @ le_enc 4 (id_index self)"

definition elem_id_dec :: "bytes \<Rightarrow> snd_ctl_elem_id" where
  "elem_id_dec d = \<lparr>id_numid = le_dec (get_at 0 4 d), id_iface = le_dec (get_at 4 4 d),
     id_device = le_dec (get_at 8 4 d), id_subdevice = le_dec (get_at 12 4 d),
     id_name = get_at 16 44 d, id_index = le_dec (get_at 60 4 d)\<rparr>"

definition ctl_elem_id_copy :: "allocator \<Rightarrow> heap \<Rightarrow> snd_ctl_elem_id \<Rightarrow> (heap \<times> u64) outcome" where
  "ctl_elem_id_copy malloc h self = heap_new malloc h (elem_id_enc self)"

section \<open>Values\<close>

text \<open>
  \<open>vl_indirect\<close> is the bit field with its padding. The private structure has two more arrays, in
  which the getters for booleans and integers convert the words of the union.
\<close>

record snd_ctl_elem_value =
  vl_id :: snd_ctl_elem_id
  vl_indirect :: bytes
  vl_value :: bytes
  vl_reserved :: bytes

record elem_value =
  evl_value :: snd_ctl_elem_value
  evl_boolean :: "u32 list"
  evl_integer :: "u32 list"

definition alsactl_elem_value_new :: elem_value where
  "alsactl_elem_value_new =
     \<lparr>evl_value = \<lparr>vl_id = zero_elem_id, vl_indirect = replicate 8 0, vl_value = replicate 1024 0,
        vl_reserved = replicate 128 0\<rparr>,
      evl_boolean = replicate 128 0, evl_integer = replicate 128 0\<rparr>"

datatype ctl_elem_value_prop_type = CTL_ELEM_VALUE_PROP_ELEM_ID

fun ctl_elem_value_props :: "ctl_elem_value_prop_type \<Rightarrow> pspec" where
  "ctl_elem_value_props CTL_ELEM_VALUE_PROP_ELEM_ID =
     \<lparr>ps_name = ''elem-id'', ps_type = TBoxed, ps_min = 0, ps_max = 0, ps_readable = True, ps_writable = False, ps_construct_only = False\<rparr>"

fun ctl_elem_value_get_property ::
  "elem_value \<Rightarrow> ctl_elem_value_prop_type \<Rightarrow> snd_ctl_elem_id gvalue \<Rightarrow> snd_ctl_elem_id gvalue" where
  "ctl_elem_value_get_property self CTL_ELEM_VALUE_PROP_ELEM_ID val =
     g_value_set_static_boxed val (Some (vl_id (evl_value self)))"

lemma ctl_elem_value_conforms: "getters_conform ctl_elem_value_get_property ctl_elem_value_props all_kept"
  apply (rule getters_conformI)
  subgoal for x p v by (cases p) (simp_all add: read_property_def)
  done

definition update_union :: "(bytes \<Rightarrow> bytes) \<Rightarrow> elem_value \<Rightarrow> elem_value" where
  "update_union f self = self\<lparr>evl_value := (evl_value self)\<lparr>vl_value := f (vl_value (evl_value self))\<rparr>\<rparr>"

abbreviation (input) union_of :: "elem_value \<Rightarrow> bytes" where
  "union_of self \<equiv> vl_value (evl_value self)"

text \<open>A \<open>gboolean\<close> is an \<open>int\<close>; it is widened to \<open>long\<close> with its sign.\<close>

definition alsactl_elem_value_set_bool :: "u32 list \<Rightarrow> elem_value \<Rightarrow> elem_value" where
  "alsactl_elem_value_set_bool values self =
     update_union (set_array 8 0 128 (map (scast :: u32 \<Rightarrow> u64) values)) self"

definition alsactl_elem_value_get_bool :: "elem_value \<Rightarrow> elem_value \<times> u32 list" where
  "alsactl_elem_value_get_bool self =
     (let boolean = map (\<lambda>v :: u64. if 0 <s v then 1 else 0) (get_array 8 0 128 (union_of self))
      in (self\<lparr>evl_boolean := boolean\<rparr>, boolean))"

definition alsactl_elem_value_set_int :: "u32 list \<Rightarrow> elem_value \<Rightarrow> elem_value" where
  "alsactl_elem_value_set_int values self =
     update_union (set_array 8 0 128 (map (scast :: u32 \<Rightarrow> u64) values)) self"

definition alsactl_elem_value_get_int :: "elem_value \<Rightarrow> elem_value \<times> u32 list" where
  "alsactl_elem_value_get_int self =
     (let integer = map (ucast :: u64 \<Rightarrow> u32) (get_array 8 0 128 (union_of self))
      in (self\<lparr>evl_integer := integer\<rparr>, integer))"

definition alsactl_elem_value_set_enum :: "u32 list \<Rightarrow> elem_value \<Rightarrow> elem_value" where
  "alsactl_elem_value_set_enum values self = update_union (set_array 4 0 128 values) self"

definition alsactl_elem_value_get_enum :: "elem_value \<Rightarrow> u32 list" where
  "alsactl_elem_value_get_enum self = get_array 4 0 128 (union_of self)"

definition alsactl_elem_value_set_bytes :: "u8 list \<Rightarrow> elem_value \<Rightarrow> elem_value" where
  "alsactl_elem_value_set_bytes values self = update_union (set_array 1 0 512 values) self"

definition alsactl_elem_value_get_bytes :: "elem_value \<Rightarrow> u8 list" where
  "alsactl_elem_value_get_bytes self = get_array 1 0 512 (union_of self)"

definition alsactl_elem_value_set_iec60958_channel_status :: "u8 list \<Rightarrow> elem_value \<Rightarrow> elem_value" where
  "alsactl_elem_value_set_iec60958_channel_status status self = update_union (set_array 1 0 24 status) self"

definition alsactl_elem_value_get_iec60958_channel_status :: "elem_value \<Rightarrow> u8 list" where
  "alsactl_elem_value_get_iec60958_channel_status self = get_array 1 0 24 (union_of self)"

text \<open>The subcode follows the 24 bytes of the channel status.\<close>

definition alsactl_elem_value_set_iec60958_user_data :: "u8 list \<Rightarrow> elem_value \<Rightarrow> elem_value" where
  "alsactl_elem_value_set_iec60958_user_data data self = update_union (set_array 1 24 147 data) self"

definition alsactl_elem_value_get_iec60958_user_data :: "elem_value \<Rightarrow> u8 list" where
  "alsactl_elem_value_get_iec60958_user_data self = get_array 1 24 147 (union_of self)"

definition alsactl_elem_value_set_int64 :: "u64 list \<Rightarrow> elem_value \<Rightarrow> elem_value" where
  "alsactl_elem_value_set_int64 values self = update_union (set_array 8 0 64 values) self"

definition alsactl_elem_value_get_int64 :: "elem_value \<Rightarrow> u64 list" where
  "alsactl_elem_value_get_int64 self = get_array 8 0 64 (union_of self)"

text \<open>The comparison is \<open>memcmp\<close> over the whole structure.\<close>

definition elem_value_enc :: "snd_ctl_elem_value \<Rightarrow> bytes" where
  "elem_value_enc v = elem_id_enc (vl_id v) @ vl_indirect v @ vl_value v @ vl_reserved v"

definition alsactl_elem_value_equal :: "elem_value \<Rightarrow> elem_value \<Rightarrow> bool" where
  "alsactl_elem_value_equal self target \<longleftrightarrow> elem_value_enc (evl_value self) = elem_value_enc (evl_value target)"

section \<open>Arrays are stored and read back\<close>

lemma length_fill_array [simp]:
  "off + sz * length vs \<le> length d \<Longrightarrow> length (fill_array sz off vs d) = length d"
  by (induction vs arbitrary: off d) (simp_all add: algebra_simps)

lemma take_fits [simp]: "off + sz * n \<le> (k :: nat) \<Longrightarrow> off + sz * min m n \<le> k"
  using mult_le_mono2 [of "min m n" n sz] by linarith

lemma length_set_array [simp]: "off + sz * n \<le> length d \<Longrightarrow> length (set_array sz off n vs d) = length d"
  by (simp add: set_array_def)

lemma get_fill_outside:
  assumes "off + sz * length vs \<le> length d"
    and "k + n \<le> off \<or> off + sz * length vs \<le> k \<and> k + n \<le> length d"
  shows "get_at k n (fill_array sz off vs d) = get_at k n d"
  using assms
proof (induction vs arbitrary: off d)
  case (Cons v vs)
  have "get_at k n (put_at off (le_enc sz v) d) = get_at k n d"
    using Cons.prems by (auto intro: get_put_before get_put_after)
  then show ?case
    using Cons.prems Cons.IH [of "off + sz" "put_at off (le_enc sz v) d"] by (auto simp: algebra_simps)
qed simp

lemma get_fill_inside:
  assumes "off + sz * length vs \<le> length d" "i < length vs"
  shows "get_at (off + sz * i) sz (fill_array sz off vs d) = le_enc sz (vs ! i)"
  using assms
proof (induction vs arbitrary: off d i)
  case (Cons v vs)
  show ?case
  proof (cases i)
    case 0
    then show ?thesis
      using Cons.prems get_fill_outside [of "off + sz" sz vs "put_at off (le_enc sz v) d" off sz]
      by (simp add: get_put_same algebra_simps)
  next
    case (Suc j)
    then show ?thesis
      using Cons.prems Cons.IH [of "off + sz" "put_at off (le_enc sz v) d" j] by (simp add: algebra_simps)
  qed
qed simp

lemma le_dec_zeros [simp]: "le_dec (replicate n 0) = 0"
  by (induction n) simp_all

lemma get_zeroed:
  assumes "off + sz * n \<le> length d" "i < n"
  shows "get_at (off + sz * i) sz (put_at off (replicate (sz * n) 0) d) = replicate sz 0"
proof -
  have "sz * Suc i \<le> sz * n" using assms(2) by (intro mult_le_mono2) simp
  then have "sz \<le> sz * n - sz * i" by simp
  moreover have "sz = 0" if "length d \<le> off"
  proof -
    have "sz * n = 0" using that assms by linarith
    with assms show ?thesis by simp
  qed
  ultimately show ?thesis using assms
    by (auto simp: get_at_def put_at_def min_def)
qed

text \<open>The array holds the values stored, as many as fit, and zeros behind them.\<close>

lemma get_set_array:
  fixes vs :: "'a::len word list"
  assumes "LENGTH('a) = 8 * sz" "off + sz * n \<le> length d"
  shows "get_array sz off n (set_array sz off n vs d) = take n vs @ replicate (n - length vs) 0"
proof (rule nth_equalityI)
  show "length (get_array sz off n (set_array sz off n vs d)) = length (take n vs @ replicate (n - length vs) 0)"
    by (simp add: get_array_def)
next
  fix i assume "i < length (get_array sz off n (set_array sz off n vs d))"
  then have i: "i < n" by (simp add: get_array_def)
  let ?z = "put_at off (replicate (sz * n) 0) d"
  have fits: "off + sz * length (take n vs) \<le> length ?z"
    using assms(2) by simp
  show "get_array sz off n (set_array sz off n vs d) ! i = (take n vs @ replicate (n - length vs) 0) ! i"
  proof (cases "i < length vs")
    case True
    then show ?thesis using get_fill_inside [OF fits, of i] i
      by (simp add: get_array_def set_array_def nth_append le_dec_enc assms(1))
  next
    case False
    then have "sz * length vs \<le> sz * i" "sz * Suc i \<le> sz * n"
      using i by (simp, intro mult_le_mono2, simp)
    then have "get_at (off + sz * i) sz (fill_array sz off (take n vs) ?z) = get_at (off + sz * i) sz ?z"
      using False i assms(2) by (intro get_fill_outside [OF fits]) auto
    then show ?thesis using False i get_zeroed [OF assms(2) i]
      by (simp add: get_array_def set_array_def nth_append)
  qed
qed

lemma get_set_array_outside:
  assumes "off + sz * n \<le> length d" "k + m \<le> off \<or> off + sz * n \<le> k \<and> k + m \<le> length d"
  shows "get_at k m (set_array sz off n vs d) = get_at k m d"
proof -
  have "get_at k m (set_array sz off n vs d) = get_at k m (put_at off (replicate (sz * n) 0) d)"
    unfolding set_array_def using assms by (intro get_fill_outside) auto
  also have "\<dots> = get_at k m d" using assms by (auto intro: get_put_before get_put_after)
  finally show ?thesis .
qed

section \<open>Well-formed values\<close>

definition elem_id_wf :: "snd_ctl_elem_id \<Rightarrow> bool" where
  "elem_id_wf self \<longleftrightarrow> length (id_name self) = 44"

definition elem_value_wf :: "elem_value \<Rightarrow> bool" where
  "elem_value_wf self \<longleftrightarrow> elem_id_wf (vl_id (evl_value self)) \<and> length (vl_indirect (evl_value self)) = 8 \<and>
     length (union_of self) = 1024 \<and> length (vl_reserved (evl_value self)) = 128"

lemma elem_value_new_wf [simp]: "elem_value_wf alsactl_elem_value_new"
  by (simp add: elem_value_wf_def elem_id_wf_def alsactl_elem_value_new_def zero_elem_id_def)

lemma length_elem_id_enc [simp]: "elem_id_wf self \<Longrightarrow> length (elem_id_enc self) = 64"
  by (simp add: elem_id_wf_def elem_id_enc_def)

lemma elem_id_dec_enc: "elem_id_wf self \<Longrightarrow> elem_id_dec (elem_id_enc self @ tail) = self"
  by (simp add: elem_id_wf_def elem_id_enc_def elem_id_dec_def get_at_def codec_simps)

text \<open>The copy of an identifier is a block of its own with the same identifier.\<close>

lemma elem_id_copy_same:
  assumes "malloc_ok malloc" "elem_id_wf self" "ctl_elem_id_copy malloc h self = Ret (h', p)"
  shows "\<exists>bs. h p = None \<and> h' p = Some bs \<and> elem_id_dec bs = self \<and> g_free h' p = Ret h"
proof -
  have new: "heap_new malloc h (elem_id_enc self) = Ret (h', p)" using assms(3) by (simp add: ctl_elem_id_copy_def)
  have "length (elem_id_enc self) = 64" using assms(2) by (simp add: elem_id_wf_def elem_id_enc_def)
  then have "elem_id_enc self \<noteq> []" by auto
  with heap_new_release [OF assms(1) new] heap_new_fresh [OF assms(1) new] elem_id_dec_enc [OF assms(2), of "[]"] show ?thesis
    by (auto simp: g_free_def)
qed

lemma elem_id_wf_dec [simp]: "64 \<le> length d \<Longrightarrow> elem_id_wf (elem_id_dec d)"
  by (simp add: elem_id_wf_def elem_id_dec_def)

lemma elem_id_enc_inject:
  "elem_id_wf x \<Longrightarrow> elem_id_wf y \<Longrightarrow> elem_id_enc x = elem_id_enc y \<longleftrightarrow> x = y"
  by (metis append_Nil2 elem_id_dec_enc)

lemma update_union_wf:
  "elem_value_wf self \<Longrightarrow> (\<And>d. length d = 1024 \<Longrightarrow> length (f d) = 1024) \<Longrightarrow>
   elem_value_wf (update_union f self)"
  by (simp add: elem_value_wf_def update_union_def)

section \<open>The contract of a member of the union\<close>

text \<open>
  Storing values and reading them gives as many as the array of the member holds, each one
  normalised by \<open>norm\<close>, and zeros behind them. Nothing but the union changes.
\<close>

locale value_member =
  fixes set :: "'v::zero list \<Rightarrow> elem_value \<Rightarrow> elem_value" and get :: "elem_value \<Rightarrow> 'v list"
    and norm :: "'v \<Rightarrow> 'v" and n :: nat
  assumes set_wf: "elem_value_wf x \<Longrightarrow> elem_value_wf (set vs x)"
    and set_union: "\<exists>f. set vs x = update_union f x"
    and get_set: "elem_value_wf x \<Longrightarrow> get (set vs x) = map norm (take n vs) @ replicate (n - length vs) 0"
begin

lemma get_set_whole: "elem_value_wf x \<Longrightarrow> length vs = n \<Longrightarrow> get (set vs x) = map norm vs"
  by (simp add: get_set)

lemma set_keeps_id: "vl_id (evl_value (set vs x)) = vl_id (evl_value x)"
  using set_union [of vs x] by (auto simp: update_union_def)

lemma last_set_wins: "elem_value_wf x \<Longrightarrow> get (set vs (set ws x)) = get (set vs x)"
  by (simp add: get_set set_wf)

end

definition norm_bool :: "u32 \<Rightarrow> u32" where
  "norm_bool v = (if 0 <s v then 1 else 0)"

lemma scast_widen:
  "(0 <s (scast v :: u64)) = (0 <s (v :: u32))" "ucast (scast v :: u64) = (v :: u32)"
proof -
  show *: "ucast (scast v :: u64) = (v :: u32)"
    by (rule bit_word_eqI) (simp add: bit_simps)
  show "(0 <s (scast v :: u64)) = (0 <s (v :: u32))"
    by (simp add: word_sless_alt is_up sint_up_scast)
qed

lemma ucast_scast_comp: "(ucast :: u64 \<Rightarrow> u32) \<circ> scast = id"
  by (simp add: fun_eq_iff scast_widen)

lemma get_set_long:
  "length d = 1024 \<Longrightarrow> get_array 8 0 128 (set_array 8 0 128 (map (scast :: u32 \<Rightarrow> u64) vs) d) =
     map scast (take 128 vs) @ replicate (128 - length vs) (0 :: u64)"
  using get_set_array [of 8 0 128 d "map (scast :: u32 \<Rightarrow> u64) vs"] by (simp add: take_map)

interpretation val_bool: value_member alsactl_elem_value_set_bool "\<lambda>x. snd (alsactl_elem_value_get_bool x)" norm_bool 128
  by unfold_locales (auto simp: alsactl_elem_value_set_bool_def alsactl_elem_value_get_bool_def Let_def
      get_set_long elem_value_wf_def update_union_def norm_bool_def scast_widen)

interpretation val_int: value_member alsactl_elem_value_set_int "\<lambda>x. snd (alsactl_elem_value_get_int x)" "\<lambda>v. v" 128
  by unfold_locales (auto simp: alsactl_elem_value_set_int_def alsactl_elem_value_get_int_def Let_def
      get_set_long elem_value_wf_def update_union_def ucast_scast_comp)

interpretation val_enum: value_member alsactl_elem_value_set_enum alsactl_elem_value_get_enum "\<lambda>v. v" 128
  by unfold_locales (auto simp: alsactl_elem_value_set_enum_def alsactl_elem_value_get_enum_def
      get_set_array elem_value_wf_def update_union_def)

interpretation val_bytes: value_member alsactl_elem_value_set_bytes alsactl_elem_value_get_bytes "\<lambda>v. v" 512
  by unfold_locales (auto simp: alsactl_elem_value_set_bytes_def alsactl_elem_value_get_bytes_def
      get_set_array elem_value_wf_def update_union_def)

interpretation val_status: value_member alsactl_elem_value_set_iec60958_channel_status
    alsactl_elem_value_get_iec60958_channel_status "\<lambda>v. v" 24
  by unfold_locales (auto simp: alsactl_elem_value_set_iec60958_channel_status_def
      alsactl_elem_value_get_iec60958_channel_status_def get_set_array elem_value_wf_def update_union_def)

interpretation val_user_data: value_member alsactl_elem_value_set_iec60958_user_data
    alsactl_elem_value_get_iec60958_user_data "\<lambda>v. v" 147
  by unfold_locales (auto simp: alsactl_elem_value_set_iec60958_user_data_def
      alsactl_elem_value_get_iec60958_user_data_def get_set_array elem_value_wf_def update_union_def)

interpretation val_int64: value_member alsactl_elem_value_set_int64 alsactl_elem_value_get_int64 "\<lambda>v. v" 64
  by unfold_locales (auto simp: alsactl_elem_value_set_int64_def alsactl_elem_value_get_int64_def
      get_set_array elem_value_wf_def update_union_def)

lemma iec60958_members_disjoint:
  assumes "elem_value_wf x"
  shows "alsactl_elem_value_get_iec60958_user_data (alsactl_elem_value_set_iec60958_channel_status vs x) =
      alsactl_elem_value_get_iec60958_user_data x"
    and "alsactl_elem_value_get_iec60958_channel_status (alsactl_elem_value_set_iec60958_user_data vs x) =
      alsactl_elem_value_get_iec60958_channel_status x"
  using assms
  by (auto simp: alsactl_elem_value_set_iec60958_channel_status_def
      alsactl_elem_value_get_iec60958_channel_status_def alsactl_elem_value_set_iec60958_user_data_def
      alsactl_elem_value_get_iec60958_user_data_def update_union_def get_array_def elem_value_wf_def
      intro!: arg_cong [where f = le_dec] get_set_array_outside)

section \<open>Properties\<close>

text \<open>
  C26: values stored in an element value are read back by the getter of the same type, as many as
  the array of the structure holds and zeros behind them; a \<open>gboolean\<close> comes back as one exactly when
  it is positive. The channel status and the user data of IEC 60958 do not disturb each other.
\<close>

theorem elem_value_roundtrip:
  assumes "elem_value_wf self"
  shows "snd (alsactl_elem_value_get_bool (alsactl_elem_value_set_bool bools self)) =
      map norm_bool (take 128 bools) @ replicate (128 - length bools) 0 \<and>
    snd (alsactl_elem_value_get_int (alsactl_elem_value_set_int ints self)) =
      take 128 ints @ replicate (128 - length ints) 0 \<and>
    alsactl_elem_value_get_enum (alsactl_elem_value_set_enum items self) =
      take 128 items @ replicate (128 - length items) 0 \<and>
    alsactl_elem_value_get_bytes (alsactl_elem_value_set_bytes data self) =
      take 512 data @ replicate (512 - length data) 0 \<and>
    alsactl_elem_value_get_int64 (alsactl_elem_value_set_int64 longs self) =
      take 64 longs @ replicate (64 - length longs) 0 \<and>
    (let self' = alsactl_elem_value_set_iec60958_user_data user
           (alsactl_elem_value_set_iec60958_channel_status status self)
         in alsactl_elem_value_get_iec60958_channel_status self' =
              take 24 status @ replicate (24 - length status) 0 \<and>
             alsactl_elem_value_get_iec60958_user_data self' =
              take 147 user @ replicate (147 - length user) 0)"
  using assms val_bool.get_set val_int.get_set val_enum.get_set val_bytes.get_set val_int64.get_set
    val_status.get_set val_status.set_wf val_user_data.get_set iec60958_members_disjoint
  by (simp_all add: Let_def)

theorem elem_value_roundtrip_witness:
  "take 3 (snd (alsactl_elem_value_get_int (alsactl_elem_value_set_int [-5, 7] alsactl_elem_value_new))) = [-5, 7, 0] \<and>
   take 3 (snd (alsactl_elem_value_get_bool (alsactl_elem_value_set_bool [-5, 7] alsactl_elem_value_new))) = [0, 1, 0]"
  using elem_value_roundtrip [of alsactl_elem_value_new "[-5, 7]" "[-5, 7]" "[]" "[]" "[]" "[]" "[]"]
  by (simp add: norm_bool_def word_sless_alt)

text \<open>An identifier made from a name gives back what it was made from, the name cut to 43 bytes.\<close>

lemma elem_id_by_name_reads_back:
  assumes "alsactl_elem_id_new_by_name iface device_id subdevice_id name index = Ret self"
  shows "alsactl_elem_id_get_numid self = 0" "alsactl_elem_id_get_iface self = iface"
    "alsactl_elem_id_get_device_id self = device_id" "alsactl_elem_id_get_subdevice_id self = subdevice_id"
    "alsactl_elem_id_get_index self = index" "elem_id_wf self"
    "\<exists>s. name = Some s \<and> cstr s \<noteq> [] \<and> alsactl_elem_id_get_name self = take 43 (cstr s)"
  using assms
  by (auto simp: alsactl_elem_id_new_by_name_def alsactl_elem_id_get_numid_def
      alsactl_elem_id_get_iface_def alsactl_elem_id_get_device_id_def alsactl_elem_id_get_subdevice_id_def
      alsactl_elem_id_get_index_def alsactl_elem_id_get_name_def zero_elem_id_def elem_id_wf_def cstr_strlcpy
      split: option.splits if_splits)

text \<open>
  C31: the comparison of identifiers accepts equal numeric identifiers before it looks at anything
  else, and identifiers made from names all have the numeric identifier zero: any two of them
  compare as the same element, whatever they name. Identifiers with different numeric identifiers
  are told apart by the name and the other fields.
\<close>

theorem elem_ids_by_name_all_equal:
  assumes "alsactl_elem_id_new_by_name iface device_id subdevice_id name index = Ret self"
    and "alsactl_elem_id_new_by_name iface' device_id' subdevice_id' name' index' = Ret target"
  shows "alsactl_elem_id_equal self target \<and>
    (numid \<noteq> numid' \<longrightarrow>
      alsactl_elem_id_equal (self\<lparr>id_numid := numid\<rparr>) (target\<lparr>id_numid := numid'\<rparr>) \<longleftrightarrow>
        (iface, device_id, subdevice_id, alsactl_elem_id_get_name self, index) =
        (iface', device_id', subdevice_id', alsactl_elem_id_get_name target, index'))"
  using elem_id_by_name_reads_back [OF assms(1)] elem_id_by_name_reads_back [OF assms(2)]
  by (auto simp: alsactl_elem_id_equal_def alsactl_elem_id_get_numid_def alsactl_elem_id_get_iface_def
      alsactl_elem_id_get_device_id_def alsactl_elem_id_get_subdevice_id_def
      alsactl_elem_id_get_index_def alsactl_elem_id_get_name_def)

theorem elem_ids_by_name_all_equal_witness:
  "\<exists>self target. alsactl_elem_id_new_by_name 2 0 0 (Some [80]) 0 = Ret self \<and>
     alsactl_elem_id_new_by_name 3 1 0 (Some [81, 82]) 4 = Ret target \<and>
     alsactl_elem_id_equal self target \<and>
     \<not> alsactl_elem_id_equal (self\<lparr>id_numid := 1\<rparr>) (target\<lparr>id_numid := 2\<rparr>)"
proof -
  obtain self target where ids: "alsactl_elem_id_new_by_name 2 0 0 (Some [80]) 0 = Ret self"
      "alsactl_elem_id_new_by_name 3 1 0 (Some [81, 82]) 4 = Ret target"
    by (auto simp: alsactl_elem_id_new_by_name_def cstr_def)
  from elem_ids_by_name_all_equal [OF this, of 1 2] ids
  show ?thesis by auto
qed

text \<open>
  Two element values compare as equal exactly when the whole structures agree, the
  identifier of the element included: equal values of different elements are not equal.
\<close>

theorem elem_value_equal_iff:
  assumes "elem_value_wf self" "elem_value_wf target"
  shows "alsactl_elem_value_equal self target \<longleftrightarrow>
    vl_id (evl_value self) = vl_id (evl_value target) \<and>
    vl_indirect (evl_value self) = vl_indirect (evl_value target) \<and>
    union_of self = union_of target \<and> vl_reserved (evl_value self) = vl_reserved (evl_value target)"
  using assms elem_id_enc_inject [of "vl_id (evl_value self)" "vl_id (evl_value target)"]
  by (simp add: alsactl_elem_value_equal_def elem_value_enc_def elem_value_wf_def)

theorem elem_value_equal_iff_witness:
  "alsactl_elem_value_equal alsactl_elem_value_new
     (alsactl_elem_value_new\<lparr>evl_value := evl_value alsactl_elem_value_new\<lparr>vl_id := zero_elem_id\<lparr>id_numid := 3\<rparr>\<rparr>\<rparr>) = False"
  using elem_value_equal_iff [of alsactl_elem_value_new
      "alsactl_elem_value_new\<lparr>evl_value := evl_value alsactl_elem_value_new\<lparr>vl_id := zero_elem_id\<lparr>id_numid := 3\<rparr>\<rparr>\<rparr>"]
    elem_value_new_wf
  by (simp add: elem_value_wf_def elem_id_wf_def
      alsactl_elem_value_new_def zero_elem_id_def)

end
