(* ===== verification/Ctl_Infos.thy ===== *)
theory Ctl_Infos
  imports Ctl_Elem
begin

text \<open>
  The information of a control element (\<open>ctl/elem-info-*.c\<close>) and of a sound card
  (\<open>ctl/card-info.c\<close>). The six classes of element information wrap the same structure. Each one
  handles the properties of its own and hands the others on to the single-array interface, and
  that to the common interface, so a property of a class is one of its own or one of the
  interface below. The value of the information is a union of 128 bytes.
\<close>

section \<open>The structure\<close>

record snd_ctl_elem_info =
  inf_id :: snd_ctl_elem_id
  inf_type :: u32
  inf_access :: u32
  inf_count :: u32
  inf_owner :: u32
  inf_value :: bytes

definition zero_elem_info :: snd_ctl_elem_info where
  "zero_elem_info = \<lparr>inf_id = zero_elem_id, inf_type = 0, inf_access = 0, inf_count = 0, inf_owner = 0,
     inf_value = replicate 128 0\<rparr>"

abbreviation (input) SNDRV_CTL_ELEM_TYPE_BOOLEAN :: u32 where "SNDRV_CTL_ELEM_TYPE_BOOLEAN \<equiv> 1"
abbreviation (input) SNDRV_CTL_ELEM_TYPE_INTEGER :: u32 where "SNDRV_CTL_ELEM_TYPE_INTEGER \<equiv> 2"
abbreviation (input) SNDRV_CTL_ELEM_TYPE_ENUMERATED :: u32 where "SNDRV_CTL_ELEM_TYPE_ENUMERATED \<equiv> 3"
abbreviation (input) SNDRV_CTL_ELEM_TYPE_BYTES :: u32 where "SNDRV_CTL_ELEM_TYPE_BYTES \<equiv> 4"
abbreviation (input) SNDRV_CTL_ELEM_TYPE_IEC958 :: u32 where "SNDRV_CTL_ELEM_TYPE_IEC958 \<equiv> 5"
abbreviation (input) SNDRV_CTL_ELEM_TYPE_INTEGER64 :: u32 where "SNDRV_CTL_ELEM_TYPE_INTEGER64 \<equiv> 6"

text \<open>
  Members of the union: minimum, maximum and step of an integer are words of 64 bits at 0, 8 and
  16; an enumeration has the number of items and the index of an item, words of 32 bits at 0 and
  4, the name of the item at 8, and the address and the length of all names at 72 and 80.
\<close>

definition info_get :: "nat \<Rightarrow> nat \<Rightarrow> snd_ctl_elem_info \<Rightarrow> 'a::len word" where
  "info_get off sz data = le_dec (get_at off sz (inf_value data))"

definition info_put :: "nat \<Rightarrow> nat \<Rightarrow> 'a::len word \<Rightarrow> snd_ctl_elem_info \<Rightarrow> snd_ctl_elem_info" where
  "info_put off sz v data = data\<lparr>inf_value := put_at off (le_enc sz v) (inf_value data)\<rparr>"

datatype ctl_boxed = BoxElemId snd_ctl_elem_id | BoxStrv "bytes list"

section \<open>The common interface\<close>

datatype elem_info_common_prop_type =
    ELEM_INFO_COMMON_PROP_ELEM_ID
  | ELEM_INFO_COMMON_PROP_ELEM_TYPE
  | ELEM_INFO_COMMON_PROP_ACCESS
  | ELEM_INFO_COMMON_PROP_OWNER

fun elem_info_common_props :: "elem_info_common_prop_type \<Rightarrow> pspec" where
  "elem_info_common_props ELEM_INFO_COMMON_PROP_ELEM_ID =
     \<lparr>ps_name = ''elem-id'', ps_type = TBoxed, ps_min = 0, ps_max = 0, ps_readable = True, ps_writable = False, ps_construct_only = False\<rparr>"
| "elem_info_common_props ELEM_INFO_COMMON_PROP_ELEM_TYPE =
     \<lparr>ps_name = ''elem-type'', ps_type = TEnum, ps_min = 0, ps_max = 0, ps_readable = True, ps_writable = True, ps_construct_only = True\<rparr>"
| "elem_info_common_props ELEM_INFO_COMMON_PROP_ACCESS =
     \<lparr>ps_name = ''access'', ps_type = TFlags, ps_min = 0, ps_max = 0, ps_readable = True, ps_writable = True, ps_construct_only = False\<rparr>"
| "elem_info_common_props ELEM_INFO_COMMON_PROP_OWNER =
     \<lparr>ps_name = ''owner'', ps_type = TInt, ps_min = -2147483648, ps_max = 2147483647, ps_readable = True, ps_writable = False, ps_construct_only = False\<rparr>"

fun elem_info_common_set_property ::
  "snd_ctl_elem_info \<Rightarrow> elem_info_common_prop_type \<Rightarrow> ctl_boxed gvalue \<Rightarrow> snd_ctl_elem_info outcome" where
  "elem_info_common_set_property data ELEM_INFO_COMMON_PROP_ELEM_ID val =
     (case g_value_get_boxed val of Some (BoxElemId src) \<Rightarrow> Ret (data\<lparr>inf_id := src\<rparr>) | _ \<Rightarrow> Undefined)"
| "elem_info_common_set_property data ELEM_INFO_COMMON_PROP_ELEM_TYPE val =
     Ret (data\<lparr>inf_type := g_value_get_enum val\<rparr>)"
| "elem_info_common_set_property data ELEM_INFO_COMMON_PROP_ACCESS val =
     Ret (data\<lparr>inf_access := g_value_get_flags val\<rparr>)"
| "elem_info_common_set_property data ELEM_INFO_COMMON_PROP_OWNER val =
     Ret (data\<lparr>inf_owner := g_value_get_int val\<rparr>)"

fun elem_info_common_get_property ::
  "snd_ctl_elem_info \<Rightarrow> elem_info_common_prop_type \<Rightarrow> ctl_boxed gvalue \<Rightarrow> ctl_boxed gvalue" where
  "elem_info_common_get_property data ELEM_INFO_COMMON_PROP_ELEM_ID val =
     g_value_set_static_boxed val (Some (BoxElemId (inf_id data)))"
| "elem_info_common_get_property data ELEM_INFO_COMMON_PROP_ELEM_TYPE val =
     g_value_set_enum val (inf_type data)"
| "elem_info_common_get_property data ELEM_INFO_COMMON_PROP_ACCESS val =
     g_value_set_flags val (inf_access data)"
| "elem_info_common_get_property data ELEM_INFO_COMMON_PROP_OWNER val =
     g_value_set_int val (inf_owner data)"

section \<open>The single-array interface\<close>

datatype elem_info_single_array_prop_type =
    ELEM_INFO_SINGLE_ARRAY_PROP_VALUE_COUNT
  | CommonProp elem_info_common_prop_type

fun elem_info_single_array_props :: "elem_info_single_array_prop_type \<Rightarrow> pspec" where
  "elem_info_single_array_props ELEM_INFO_SINGLE_ARRAY_PROP_VALUE_COUNT =
     \<lparr>ps_name = ''value-count'', ps_type = TUInt, ps_min = 0, ps_max = 4294967295, ps_readable = True, ps_writable = True, ps_construct_only = False\<rparr>"
| "elem_info_single_array_props (CommonProp p) = elem_info_common_props p"

fun elem_info_single_array_set_property ::
  "snd_ctl_elem_info \<Rightarrow> elem_info_single_array_prop_type \<Rightarrow> ctl_boxed gvalue \<Rightarrow> snd_ctl_elem_info outcome" where
  "elem_info_single_array_set_property data ELEM_INFO_SINGLE_ARRAY_PROP_VALUE_COUNT val =
     Ret (data\<lparr>inf_count := g_value_get_uint val\<rparr>)"
| "elem_info_single_array_set_property data (CommonProp p) val = elem_info_common_set_property data p val"

fun elem_info_single_array_get_property ::
  "snd_ctl_elem_info \<Rightarrow> elem_info_single_array_prop_type \<Rightarrow> ctl_boxed gvalue \<Rightarrow> ctl_boxed gvalue" where
  "elem_info_single_array_get_property data ELEM_INFO_SINGLE_ARRAY_PROP_VALUE_COUNT val =
     g_value_set_uint val (inf_count data)"
| "elem_info_single_array_get_property data (CommonProp p) val = elem_info_common_get_property data p val"

text \<open>The construction of an object sets the property for the type.\<close>

abbreviation (input) ElemType :: elem_info_single_array_prop_type where
  "ElemType \<equiv> CommonProp ELEM_INFO_COMMON_PROP_ELEM_TYPE"

section \<open>Boolean, bytes and IEC 60958\<close>

definition ctl_elem_info_boolean_set_property ::
  "snd_ctl_elem_info \<Rightarrow> elem_info_single_array_prop_type \<Rightarrow> ctl_boxed gvalue \<Rightarrow> snd_ctl_elem_info outcome" where
  "ctl_elem_info_boolean_set_property = elem_info_single_array_set_property"

definition ctl_elem_info_boolean_get_property ::
  "snd_ctl_elem_info \<Rightarrow> elem_info_single_array_prop_type \<Rightarrow> ctl_boxed gvalue \<Rightarrow> ctl_boxed gvalue" where
  "ctl_elem_info_boolean_get_property = elem_info_single_array_get_property"

definition alsactl_elem_info_boolean_new :: "snd_ctl_elem_info outcome" where
  "alsactl_elem_info_boolean_new =
     ctl_elem_info_boolean_set_property zero_elem_info ElemType (VEnum SNDRV_CTL_ELEM_TYPE_BOOLEAN)"

definition ctl_elem_info_bytes_set_property ::
  "snd_ctl_elem_info \<Rightarrow> elem_info_single_array_prop_type \<Rightarrow> ctl_boxed gvalue \<Rightarrow> snd_ctl_elem_info outcome" where
  "ctl_elem_info_bytes_set_property = elem_info_single_array_set_property"

definition ctl_elem_info_bytes_get_property ::
  "snd_ctl_elem_info \<Rightarrow> elem_info_single_array_prop_type \<Rightarrow> ctl_boxed gvalue \<Rightarrow> ctl_boxed gvalue" where
  "ctl_elem_info_bytes_get_property = elem_info_single_array_get_property"

definition alsactl_elem_info_bytes_new :: "snd_ctl_elem_info outcome" where
  "alsactl_elem_info_bytes_new =
     ctl_elem_info_bytes_set_property zero_elem_info ElemType (VEnum SNDRV_CTL_ELEM_TYPE_BYTES)"

definition ctl_elem_info_iec60958_set_property ::
  "snd_ctl_elem_info \<Rightarrow> elem_info_common_prop_type \<Rightarrow> ctl_boxed gvalue \<Rightarrow> snd_ctl_elem_info outcome" where
  "ctl_elem_info_iec60958_set_property = elem_info_common_set_property"

definition ctl_elem_info_iec60958_get_property ::
  "snd_ctl_elem_info \<Rightarrow> elem_info_common_prop_type \<Rightarrow> ctl_boxed gvalue \<Rightarrow> ctl_boxed gvalue" where
  "ctl_elem_info_iec60958_get_property = elem_info_common_get_property"

definition alsactl_elem_info_iec60958_init :: snd_ctl_elem_info where
  "alsactl_elem_info_iec60958_init = zero_elem_info\<lparr>inf_count := 1\<rparr>"

definition alsactl_elem_info_iec60958_new :: "snd_ctl_elem_info outcome" where
  "alsactl_elem_info_iec60958_new =
     ctl_elem_info_iec60958_set_property alsactl_elem_info_iec60958_init
       ELEM_INFO_COMMON_PROP_ELEM_TYPE (VEnum SNDRV_CTL_ELEM_TYPE_IEC958)"

section \<open>Integers\<close>

datatype elem_info_integer_prop_type =
    ELEM_INFO_INTEGER_PROP_MIN
  | ELEM_INFO_INTEGER_PROP_MAX
  | ELEM_INFO_INTEGER_PROP_STEP
  | IntegerProp elem_info_single_array_prop_type

text \<open>Limits are \<open>int\<close> in the properties, widened to \<open>long\<close> in the structure and cut on the way back.\<close>

fun elem_info_integer_props :: "elem_info_integer_prop_type \<Rightarrow> pspec" where
  "elem_info_integer_props ELEM_INFO_INTEGER_PROP_MIN =
     \<lparr>ps_name = ''value-min'', ps_type = TInt, ps_min = -2147483648, ps_max = 2147483647, ps_readable = True, ps_writable = True, ps_construct_only = False\<rparr>"
| "elem_info_integer_props ELEM_INFO_INTEGER_PROP_MAX =
     \<lparr>ps_name = ''value-max'', ps_type = TInt, ps_min = -2147483648, ps_max = 2147483647, ps_readable = True, ps_writable = True, ps_construct_only = False\<rparr>"
| "elem_info_integer_props ELEM_INFO_INTEGER_PROP_STEP =
     \<lparr>ps_name = ''value-step'', ps_type = TInt, ps_min = -2147483648, ps_max = 2147483647, ps_readable = True, ps_writable = True, ps_construct_only = False\<rparr>"
| "elem_info_integer_props (IntegerProp p) = elem_info_single_array_props p"

fun ctl_elem_info_integer_set_property ::
  "snd_ctl_elem_info \<Rightarrow> elem_info_integer_prop_type \<Rightarrow> ctl_boxed gvalue \<Rightarrow> snd_ctl_elem_info outcome" where
  "ctl_elem_info_integer_set_property data ELEM_INFO_INTEGER_PROP_MIN val =
     Ret (info_put 0 8 (scast (g_value_get_int val) :: u64) data)"
| "ctl_elem_info_integer_set_property data ELEM_INFO_INTEGER_PROP_MAX val =
     Ret (info_put 8 8 (scast (g_value_get_int val) :: u64) data)"
| "ctl_elem_info_integer_set_property data ELEM_INFO_INTEGER_PROP_STEP val =
     Ret (info_put 16 8 (scast (g_value_get_int val) :: u64) data)"
| "ctl_elem_info_integer_set_property data (IntegerProp p) val = elem_info_single_array_set_property data p val"

fun ctl_elem_info_integer_get_property ::
  "snd_ctl_elem_info \<Rightarrow> elem_info_integer_prop_type \<Rightarrow> ctl_boxed gvalue \<Rightarrow> ctl_boxed gvalue" where
  "ctl_elem_info_integer_get_property data ELEM_INFO_INTEGER_PROP_MIN val =
     g_value_set_int val (ucast (info_get 0 8 data :: u64))"
| "ctl_elem_info_integer_get_property data ELEM_INFO_INTEGER_PROP_MAX val =
     g_value_set_int val (ucast (info_get 8 8 data :: u64))"
| "ctl_elem_info_integer_get_property data ELEM_INFO_INTEGER_PROP_STEP val =
     g_value_set_int val (ucast (info_get 16 8 data :: u64))"
| "ctl_elem_info_integer_get_property data (IntegerProp p) val = elem_info_single_array_get_property data p val"

definition alsactl_elem_info_integer_new :: "snd_ctl_elem_info outcome" where
  "alsactl_elem_info_integer_new =
     ctl_elem_info_integer_set_property zero_elem_info (IntegerProp ElemType) (VEnum SNDRV_CTL_ELEM_TYPE_INTEGER)"

datatype elem_info_integer64_prop_type =
    ELEM_INFO_INTEGER64_PROP_MIN
  | ELEM_INFO_INTEGER64_PROP_MAX
  | ELEM_INFO_INTEGER64_PROP_STEP
  | Integer64Prop elem_info_single_array_prop_type

fun elem_info_integer64_props :: "elem_info_integer64_prop_type \<Rightarrow> pspec" where
  "elem_info_integer64_props ELEM_INFO_INTEGER64_PROP_MIN =
     \<lparr>ps_name = ''value-min'', ps_type = TInt64, ps_min = -9223372036854775808, ps_max = 9223372036854775807, ps_readable = True, ps_writable = True, ps_construct_only = False\<rparr>"
| "elem_info_integer64_props ELEM_INFO_INTEGER64_PROP_MAX =
     \<lparr>ps_name = ''value-max'', ps_type = TInt64, ps_min = -9223372036854775808, ps_max = 9223372036854775807, ps_readable = True, ps_writable = True, ps_construct_only = False\<rparr>"
| "elem_info_integer64_props ELEM_INFO_INTEGER64_PROP_STEP =
     \<lparr>ps_name = ''value-step'', ps_type = TInt64, ps_min = -9223372036854775808, ps_max = 9223372036854775807, ps_readable = True, ps_writable = True, ps_construct_only = False\<rparr>"
| "elem_info_integer64_props (Integer64Prop p) = elem_info_single_array_props p"

fun ctl_elem_info_integer64_set_property ::
  "snd_ctl_elem_info \<Rightarrow> elem_info_integer64_prop_type \<Rightarrow> ctl_boxed gvalue \<Rightarrow> snd_ctl_elem_info outcome" where
  "ctl_elem_info_integer64_set_property data ELEM_INFO_INTEGER64_PROP_MIN val =
     Ret (info_put 0 8 (g_value_get_int64 val) data)"
| "ctl_elem_info_integer64_set_property data ELEM_INFO_INTEGER64_PROP_MAX val =
     Ret (info_put 8 8 (g_value_get_int64 val) data)"
| "ctl_elem_info_integer64_set_property data ELEM_INFO_INTEGER64_PROP_STEP val =
     Ret (info_put 16 8 (g_value_get_int64 val) data)"
| "ctl_elem_info_integer64_set_property data (Integer64Prop p) val = elem_info_single_array_set_property data p val"

fun ctl_elem_info_integer64_get_property ::
  "snd_ctl_elem_info \<Rightarrow> elem_info_integer64_prop_type \<Rightarrow> ctl_boxed gvalue \<Rightarrow> ctl_boxed gvalue" where
  "ctl_elem_info_integer64_get_property data ELEM_INFO_INTEGER64_PROP_MIN val =
     g_value_set_int64 val (info_get 0 8 data)"
| "ctl_elem_info_integer64_get_property data ELEM_INFO_INTEGER64_PROP_MAX val =
     g_value_set_int64 val (info_get 8 8 data)"
| "ctl_elem_info_integer64_get_property data ELEM_INFO_INTEGER64_PROP_STEP val =
     g_value_set_int64 val (info_get 16 8 data)"
| "ctl_elem_info_integer64_get_property data (Integer64Prop p) val = elem_info_single_array_get_property data p val"

definition alsactl_elem_info_integer64_new :: "snd_ctl_elem_info outcome" where
  "alsactl_elem_info_integer64_new =
     ctl_elem_info_integer64_set_property zero_elem_info (Integer64Prop ElemType) (VEnum SNDRV_CTL_ELEM_TYPE_INTEGER64)"

section \<open>Enumerations\<close>

record elem_info_enumerated =
  ie_data :: snd_ctl_elem_info
  ie_labels :: "bytes list option"

datatype elem_info_enumerated_prop_type =
    ELEM_INFO_ENUMERATED_PROP_LABELS
  | EnumeratedProp elem_info_single_array_prop_type

fun elem_info_enumerated_props :: "elem_info_enumerated_prop_type \<Rightarrow> pspec" where
  "elem_info_enumerated_props ELEM_INFO_ENUMERATED_PROP_LABELS =
     \<lparr>ps_name = ''labels'', ps_type = TBoxed, ps_min = 0, ps_max = 0, ps_readable = True, ps_writable = True, ps_construct_only = False\<rparr>"
| "elem_info_enumerated_props (EnumeratedProp p) = elem_info_single_array_props p"

fun ctl_elem_info_enumerated_set_property ::
  "elem_info_enumerated \<Rightarrow> elem_info_enumerated_prop_type \<Rightarrow> ctl_boxed gvalue \<Rightarrow> elem_info_enumerated outcome" where
  "ctl_elem_info_enumerated_set_property self ELEM_INFO_ENUMERATED_PROP_LABELS val =
     (case g_value_get_boxed val of
        None \<Rightarrow> Ret (self\<lparr>ie_labels := None\<rparr>)
      | Some (BoxStrv labels) \<Rightarrow> Ret (self\<lparr>ie_labels := Some labels\<rparr>)
      | _ \<Rightarrow> Undefined)"
| "ctl_elem_info_enumerated_set_property self (EnumeratedProp p) val =
     obind (elem_info_single_array_set_property (ie_data self) p val)
       (\<lambda>data. Ret (self\<lparr>ie_data := data\<rparr>))"

fun ctl_elem_info_enumerated_get_property ::
  "elem_info_enumerated \<Rightarrow> elem_info_enumerated_prop_type \<Rightarrow> ctl_boxed gvalue \<Rightarrow> ctl_boxed gvalue" where
  "ctl_elem_info_enumerated_get_property self ELEM_INFO_ENUMERATED_PROP_LABELS val =
     g_value_set_static_boxed val (map_option BoxStrv (ie_labels self))"
| "ctl_elem_info_enumerated_get_property self (EnumeratedProp p) val =
     elem_info_single_array_get_property (ie_data self) p val"

definition alsactl_elem_info_enumerated_new :: "elem_info_enumerated outcome" where
  "alsactl_elem_info_enumerated_new =
     ctl_elem_info_enumerated_set_property \<lparr>ie_data = zero_elem_info, ie_labels = None\<rparr>
       (EnumeratedProp ElemType) (VEnum SNDRV_CTL_ELEM_TYPE_ENUMERATED)"

section \<open>Card information\<close>

record snd_ctl_card_info =
  cdi_card :: u32
  cdi_id :: bytes
  cdi_driver :: bytes
  cdi_name :: bytes
  cdi_longname :: bytes
  cdi_mixername :: bytes
  cdi_components :: bytes

definition zero_card_info :: snd_ctl_card_info where
  "zero_card_info = \<lparr>cdi_card = 0, cdi_id = replicate 16 0, cdi_driver = replicate 16 0,
     cdi_name = replicate 32 0, cdi_longname = replicate 80 0, cdi_mixername = replicate 80 0,
     cdi_components = replicate 128 0\<rparr>"

datatype ctl_card_info_prop_type =
    CTL_CARD_INFO_PROP_CARD_ID
  | CTL_CARD_INFO_PROP_ID
  | CTL_CARD_INFO_PROP_DRIVER
  | CTL_CARD_INFO_PROP_NAME
  | CTL_CARD_INFO_PROP_LONG_NAME
  | CTL_CARD_INFO_PROP_MIXER_NAME
  | CTL_CARD_INFO_PROP_COMPONENTS

fun ctl_card_info_props :: "ctl_card_info_prop_type \<Rightarrow> pspec" where
  "ctl_card_info_props CTL_CARD_INFO_PROP_CARD_ID =
     \<lparr>ps_name = ''card-id'', ps_type = TInt, ps_min = -2147483648, ps_max = 2147483647, ps_readable = True, ps_writable = False, ps_construct_only = False\<rparr>"
| "ctl_card_info_props CTL_CARD_INFO_PROP_ID =
     \<lparr>ps_name = ''id'', ps_type = TString, ps_min = 0, ps_max = 0, ps_readable = True, ps_writable = False, ps_construct_only = False\<rparr>"
| "ctl_card_info_props CTL_CARD_INFO_PROP_DRIVER =
     \<lparr>ps_name = ''driver'', ps_type = TString, ps_min = 0, ps_max = 0, ps_readable = True, ps_writable = False, ps_construct_only = False\<rparr>"
| "ctl_card_info_props CTL_CARD_INFO_PROP_NAME =
     \<lparr>ps_name = ''name'', ps_type = TString, ps_min = 0, ps_max = 0, ps_readable = True, ps_writable = False, ps_construct_only = False\<rparr>"
| "ctl_card_info_props CTL_CARD_INFO_PROP_LONG_NAME =
     \<lparr>ps_name = ''long-name'', ps_type = TString, ps_min = 0, ps_max = 0, ps_readable = True, ps_writable = False, ps_construct_only = False\<rparr>"
| "ctl_card_info_props CTL_CARD_INFO_PROP_MIXER_NAME =
     \<lparr>ps_name = ''mixer-name'', ps_type = TString, ps_min = 0, ps_max = 0, ps_readable = True, ps_writable = False, ps_construct_only = False\<rparr>"
| "ctl_card_info_props CTL_CARD_INFO_PROP_COMPONENTS =
     \<lparr>ps_name = ''components'', ps_type = TString, ps_min = 0, ps_max = 0, ps_readable = True, ps_writable = False, ps_construct_only = False\<rparr>"

fun ctl_card_info_get_property ::
  "snd_ctl_card_info \<Rightarrow> ctl_card_info_prop_type \<Rightarrow> 'b gvalue \<Rightarrow> 'b gvalue" where
  "ctl_card_info_get_property info CTL_CARD_INFO_PROP_CARD_ID val = g_value_set_int val (cdi_card info)"
| "ctl_card_info_get_property info CTL_CARD_INFO_PROP_ID val = g_value_set_string val (cstr (cdi_id info))"
| "ctl_card_info_get_property info CTL_CARD_INFO_PROP_DRIVER val = g_value_set_string val (cstr (cdi_driver info))"
| "ctl_card_info_get_property info CTL_CARD_INFO_PROP_NAME val = g_value_set_string val (cstr (cdi_name info))"
| "ctl_card_info_get_property info CTL_CARD_INFO_PROP_LONG_NAME val =
     g_value_set_string val (cstr (cdi_longname info))"
| "ctl_card_info_get_property info CTL_CARD_INFO_PROP_MIXER_NAME val =
     g_value_set_string val (cstr (cdi_mixername info))"
| "ctl_card_info_get_property info CTL_CARD_INFO_PROP_COMPONENTS val =
     g_value_set_string val (cstr (cdi_components info))"

section \<open>The classes keep the contract of properties\<close>

definition elem_info_wf :: "snd_ctl_elem_info \<Rightarrow> bool" where
  "elem_info_wf data \<longleftrightarrow> length (inf_value data) = 128"

lemma elem_info_wf_simps [simp]:
  "elem_info_wf zero_elem_info" "elem_info_wf (data\<lparr>inf_id := i\<rparr>) = elem_info_wf data"
  "elem_info_wf (data\<lparr>inf_type := t\<rparr>) = elem_info_wf data"
  "elem_info_wf (data\<lparr>inf_access := a\<rparr>) = elem_info_wf data"
  "elem_info_wf (data\<lparr>inf_count := c\<rparr>) = elem_info_wf data"
  "elem_info_wf (data\<lparr>inf_owner := c\<rparr>) = elem_info_wf data"
  by (simp_all add: elem_info_wf_def zero_elem_info_def)

lemma info_put_wf [simp]: "off + sz \<le> 128 \<Longrightarrow> elem_info_wf data \<Longrightarrow> elem_info_wf (info_put off sz v data)"
  by (simp add: elem_info_wf_def info_put_def)

lemma info_get_put [simp]:
  "elem_info_wf data \<Longrightarrow> off + sz \<le> 128 \<Longrightarrow> LENGTH('a) = 8 * sz \<Longrightarrow>
   info_get off sz (info_put off sz (v :: 'a::len word) data) = v"
  by (simp add: elem_info_wf_def info_get_def info_put_def get_put_same le_dec_enc)

lemma info_get_put_other [simp]:
  "elem_info_wf data \<Longrightarrow> off + sz \<le> k \<and> k \<le> 128 \<or> k + n \<le> off \<and> off \<le> 128 \<Longrightarrow>
   info_get k n (info_put off sz v data) = info_get k n data"
  by (auto simp: elem_info_wf_def info_get_def info_put_def get_put_after get_put_before)

lemma info_get_upd [simp]:
  "info_get k n (data\<lparr>inf_id := i\<rparr>) = info_get k n data" "info_get k n (data\<lparr>inf_type := t\<rparr>) = info_get k n data"
  "info_get k n (data\<lparr>inf_access := a\<rparr>) = info_get k n data" "info_get k n (data\<lparr>inf_count := c\<rparr>) = info_get k n data"
  "info_get k n (data\<lparr>inf_owner := w\<rparr>) = info_get k n data"
  by (simp_all add: info_get_def)

lemma info_put_fields [simp]:
  "inf_id (info_put off sz v data) = inf_id data" "inf_type (info_put off sz v data) = inf_type data"
  "inf_access (info_put off sz v data) = inf_access data" "inf_count (info_put off sz v data) = inf_count data"
  "inf_owner (info_put off sz v data) = inf_owner data"
  by (simp_all add: info_put_def)

definition ctl_accepts :: "('p \<Rightarrow> pspec) \<Rightarrow> 'p \<Rightarrow> ctl_boxed gvalue \<Rightarrow> bool" where
  "ctl_accepts props p v \<longleftrightarrow> pspec_accepts (props p) v \<and> (\<forall>x. v \<noteq> VBoxed (Some (BoxElemId x)))"

lemma common_set_other:
  "elem_info_common_set_property x p v = Ret y \<Longrightarrow> p \<noteq> q \<Longrightarrow>
   elem_info_common_get_property y q u = elem_info_common_get_property x q u"
  "elem_info_common_set_property x p v = Ret y \<Longrightarrow> inf_count y = inf_count x \<and> inf_value y = inf_value x"
  by (cases p; cases q; auto split: option.splits ctl_boxed.splits)
    (cases p; auto split: option.splits ctl_boxed.splits)

lemma common_get_upd [simp]:
  "elem_info_common_get_property (x\<lparr>inf_count := c\<rparr>) q u = elem_info_common_get_property x q u"
  "elem_info_common_get_property (info_put off sz v x) q u = elem_info_common_get_property x q u"
  by (cases q; simp)+

interpretation elem_info_common: gobject_properties elem_info_common_set_property
  elem_info_common_get_property elem_info_common_props elem_info_wf "ctl_accepts elem_info_common_props" all_kept
proof (unfold_locales, goal_cases)
  case (1 x p v)
  then show ?case by (cases p; cases v) (auto simp: ctl_accepts_def property_simps)
next
  case (2 x p v y)
  then show ?case by (cases p; cases v) (auto simp: ctl_accepts_def property_simps)
next
  case (3 x p v q y)
  then show ?case by (simp add: read_property_def common_set_other)
qed

interpretation elem_info_single_array: gobject_properties elem_info_single_array_set_property
  elem_info_single_array_get_property elem_info_single_array_props elem_info_wf
  "ctl_accepts elem_info_single_array_props" all_kept
proof (unfold_locales, goal_cases)
  case (1 x p v)
  then show ?case
    using elem_info_common.set_ok [of x _ v] by (cases p) (auto simp: ctl_accepts_def)
next
  case (2 x p v y)
  then show ?case
    using elem_info_common.set_get [of x _ v y]
    by (cases p; cases v) (auto simp: ctl_accepts_def property_simps)
next
  case (3 x p v q y)
  then show ?case
    using elem_info_common.set_other [of x _ v _ y] common_set_other(2) [of x _ v y]
    by (cases p; cases q) (auto simp: ctl_accepts_def read_property_def common_set_other)
qed

lemma single_array_get_put [simp]:
  "elem_info_single_array_get_property (info_put off sz v x) q u = elem_info_single_array_get_property x q u"
  by (cases q) simp_all

lemma single_array_set_value:
  "elem_info_single_array_set_property x p v = Ret y \<Longrightarrow> inf_value y = inf_value x"
  by (cases p) (auto dest: common_set_other(2))

interpretation elem_info_integer: gobject_properties ctl_elem_info_integer_set_property
  ctl_elem_info_integer_get_property elem_info_integer_props elem_info_wf
  "ctl_accepts elem_info_integer_props" all_kept
proof (unfold_locales, goal_cases)
  case (1 x p v)
  then show ?case
    using elem_info_single_array.set_ok [of x _ v] by (cases p) (auto simp: ctl_accepts_def)
next
  case (2 x p v y)
  then show ?case
    using elem_info_single_array.set_get [of x _ v y]
    by (cases p; cases v) (auto simp: ctl_accepts_def property_simps scast_widen)
next
  case (3 x p v q y)
  show ?case
  proof (cases "\<exists>p'. p = IntegerProp p'")
    case True
    then obtain p' where p': "p = IntegerProp p'" by blast
    with 3 show ?thesis
      using elem_info_single_array.set_other [of x p' v _ y] single_array_set_value [of x p' v y]
      by (cases q) (simp_all add: ctl_accepts_def read_property_def all_kept_def info_get_def)
  next
    case False
    with 3 show ?thesis
      by (cases p; cases q) (auto simp: read_property_def)
  qed
qed

interpretation elem_info_integer64: gobject_properties ctl_elem_info_integer64_set_property
  ctl_elem_info_integer64_get_property elem_info_integer64_props elem_info_wf
  "ctl_accepts elem_info_integer64_props" all_kept
proof (unfold_locales, goal_cases)
  case (1 x p v)
  then show ?case
    using elem_info_single_array.set_ok [of x _ v] by (cases p) (auto simp: ctl_accepts_def)
next
  case (2 x p v y)
  then show ?case
    using elem_info_single_array.set_get [of x _ v y]
    by (cases p; cases v) (auto simp: ctl_accepts_def property_simps)
next
  case (3 x p v q y)
  show ?case
  proof (cases "\<exists>p'. p = Integer64Prop p'")
    case True
    then obtain p' where p': "p = Integer64Prop p'" by blast
    with 3 show ?thesis
      using elem_info_single_array.set_other [of x p' v _ y] single_array_set_value [of x p' v y]
      by (cases q) (simp_all add: ctl_accepts_def read_property_def all_kept_def info_get_def)
  next
    case False
    with 3 show ?thesis
      by (cases p; cases q) (auto simp: read_property_def)
  qed
qed

fun elem_info_enumerated_wf :: "elem_info_enumerated \<Rightarrow> bool" where
  "elem_info_enumerated_wf self \<longleftrightarrow> elem_info_wf (ie_data self)"

interpretation elem_info_enumerated: gobject_properties ctl_elem_info_enumerated_set_property
  ctl_elem_info_enumerated_get_property elem_info_enumerated_props elem_info_enumerated_wf
  "ctl_accepts elem_info_enumerated_props" all_kept
proof (unfold_locales, goal_cases)
  case (1 x p v)
  show ?case
  proof (cases p)
    case ELEM_INFO_ENUMERATED_PROP_LABELS
    with 1 show ?thesis
      by (cases v) (auto simp: ctl_accepts_def pspec_accepts_def split: option.splits ctl_boxed.splits)
  next
    case (EnumeratedProp p')
    with 1 obtain y where "elem_info_single_array_set_property (ie_data x) p' v = Ret y" "elem_info_wf y"
      using elem_info_single_array.set_ok [of "ie_data x" p' v] by (auto simp: ctl_accepts_def)
    with EnumeratedProp show ?thesis by simp
  qed
next
  case (2 x p v y)
  then show ?case
    using elem_info_single_array.set_get [of "ie_data x" _ v "ie_data y"]
    by (cases p; cases v) (auto simp: ctl_accepts_def property_simps split: option.splits ctl_boxed.splits)
next
  case (3 x p v q y)
  then show ?case
    using elem_info_single_array.set_other [of "ie_data x" _ v _ "ie_data y"]
    by (cases p; cases q)
      (auto simp: ctl_accepts_def read_property_def all_kept_def split: option.splits ctl_boxed.splits)
qed

section \<open>Properties\<close>

text \<open>
  Writing any list of distinct properties with legal values to the information of an integer
  element succeeds, every property written is read back, negative limits included although they
  pass through a wider field of the structure, and every other property keeps its value. The type of the element
  is written while the object is constructed and keeps its value afterwards.
\<close>

theorem elem_info_integer_write_read:
  assumes "elem_info_wf data" "distinct (map fst pvs)"
    and "\<forall>(p, v)\<in>set pvs. pspec_accepts (elem_info_integer_props p) v \<and> (\<forall>x. v \<noteq> VBoxed (Some (BoxElemId x)))"
  shows "\<exists>data'. write_properties ctl_elem_info_integer_set_property elem_info_integer_props constructing pvs data = Ret data' \<and> elem_info_wf data' \<and>
    (\<forall>(p, v)\<in>set pvs. read_property ctl_elem_info_integer_get_property elem_info_integer_props data' p =
       (if ps_construct_only (elem_info_integer_props p) \<and> \<not> constructing
        then read_property ctl_elem_info_integer_get_property elem_info_integer_props data p else v)) \<and>
    (\<forall>p. p \<notin> fst ` set pvs \<longrightarrow>
       read_property ctl_elem_info_integer_get_property elem_info_integer_props data' p =
       read_property ctl_elem_info_integer_get_property elem_info_integer_props data p)"
  using elem_info_integer.write_read [OF assms(1,2)] assms(3) by (simp add: ctl_accepts_def all_kept_def)

theorem elem_info_integer_write_read_witness:
  "\<exists>data data'. alsactl_elem_info_integer_new = Ret data \<and>
     write_properties ctl_elem_info_integer_set_property elem_info_integer_props False
       [(ELEM_INFO_INTEGER_PROP_MIN, VInt (-3)), (ELEM_INFO_INTEGER_PROP_MAX, VInt 9)] data = Ret data' \<and>
     read_property ctl_elem_info_integer_get_property elem_info_integer_props data' ELEM_INFO_INTEGER_PROP_MIN = VInt (-3) \<and>
     read_property ctl_elem_info_integer_get_property elem_info_integer_props data' (IntegerProp ElemType) = VEnum 2"
proof -
  let ?pvs = "[(ELEM_INFO_INTEGER_PROP_MIN, VInt (-3)), (ELEM_INFO_INTEGER_PROP_MAX, VInt 9)] :: (_ \<times> ctl_boxed gvalue) list"
  have new: "alsactl_elem_info_integer_new = Ret (zero_elem_info\<lparr>inf_type := 2\<rparr>)"
    by (simp add: alsactl_elem_info_integer_new_def)
  have "elem_info_wf (zero_elem_info\<lparr>inf_type := 2\<rparr>)" "distinct (map fst ?pvs)"
    "\<forall>(p, v)\<in>set ?pvs. pspec_accepts (elem_info_integer_props p) v \<and> (\<forall>x. v \<noteq> VBoxed (Some (BoxElemId x)))"
    by (simp_all add: pspec_accepts_def)
  from elem_info_integer_write_read [OF this, of False] new show ?thesis
    by (auto simp: read_property_def g_object_set_def)
qed

section \<open>Getters conform to their specifications\<close>

lemma elem_info_common_conforms: "getters_conform elem_info_common_get_property elem_info_common_props all_kept"
  apply (rule getters_conformI)
  subgoal for x p v by (cases p) (simp_all add: read_property_def)
  done

lemma elem_info_single_array_conforms: "getters_conform elem_info_single_array_get_property elem_info_single_array_props all_kept"
proof (rule getters_conformI)
  fix x p and v :: "ctl_boxed gvalue" assume v: "value_type v = ps_type (elem_info_single_array_props p)"
  show "elem_info_single_array_get_property x p v = read_property elem_info_single_array_get_property elem_info_single_array_props x p \<and>
      value_type (elem_info_single_array_get_property x p v) = ps_type (elem_info_single_array_props p)"
  proof (cases p)
    case (CommonProp q)
    with v getters_conformD [OF elem_info_common_conforms, of q v "x"] show ?thesis by (simp add: read_property_def all_kept_def)
  qed (use v in \<open>simp_all add: read_property_def\<close>)
qed

lemma ctl_elem_info_integer_conforms: "getters_conform ctl_elem_info_integer_get_property elem_info_integer_props all_kept"
proof (rule getters_conformI)
  fix x p and v :: "ctl_boxed gvalue" assume v: "value_type v = ps_type (elem_info_integer_props p)"
  show "ctl_elem_info_integer_get_property x p v = read_property ctl_elem_info_integer_get_property elem_info_integer_props x p \<and>
      value_type (ctl_elem_info_integer_get_property x p v) = ps_type (elem_info_integer_props p)"
  proof (cases p)
    case (IntegerProp q)
    with v getters_conformD [OF elem_info_single_array_conforms, of q v "x"] show ?thesis by (simp add: read_property_def all_kept_def)
  qed (use v in \<open>simp_all add: read_property_def\<close>)
qed

lemma ctl_elem_info_integer64_conforms: "getters_conform ctl_elem_info_integer64_get_property elem_info_integer64_props all_kept"
proof (rule getters_conformI)
  fix x p and v :: "ctl_boxed gvalue" assume v: "value_type v = ps_type (elem_info_integer64_props p)"
  show "ctl_elem_info_integer64_get_property x p v = read_property ctl_elem_info_integer64_get_property elem_info_integer64_props x p \<and>
      value_type (ctl_elem_info_integer64_get_property x p v) = ps_type (elem_info_integer64_props p)"
  proof (cases p)
    case (Integer64Prop q)
    with v getters_conformD [OF elem_info_single_array_conforms, of q v "x"] show ?thesis by (simp add: read_property_def all_kept_def)
  qed (use v in \<open>simp_all add: read_property_def\<close>)
qed

lemma ctl_elem_info_enumerated_conforms: "getters_conform ctl_elem_info_enumerated_get_property elem_info_enumerated_props all_kept"
proof (rule getters_conformI)
  fix x p and v :: "ctl_boxed gvalue" assume v: "value_type v = ps_type (elem_info_enumerated_props p)"
  show "ctl_elem_info_enumerated_get_property x p v = read_property ctl_elem_info_enumerated_get_property elem_info_enumerated_props x p \<and>
      value_type (ctl_elem_info_enumerated_get_property x p v) = ps_type (elem_info_enumerated_props p)"
  proof (cases p)
    case (EnumeratedProp q)
    with v getters_conformD [OF elem_info_single_array_conforms, of q v "ie_data x"] show ?thesis by (simp add: read_property_def all_kept_def)
  qed (use v in \<open>simp_all add: read_property_def\<close>)
qed

lemma ctl_card_info_conforms: "getters_conform ctl_card_info_get_property ctl_card_info_props all_kept"
  apply (rule getters_conformI)
  subgoal for x p v by (cases p) (simp_all add: read_property_def)
  done

end
