(* ===== verification/Ctl_Card.thy ===== *)
theory Ctl_Card
  imports Ctl_Infos Utils
begin

text \<open>
  Sound cards: \<open>ctl/card.c\<close> and the queries of \<open>ctl/query.c\<close>. The kernel is the argument \<open>sys\<close>
  with one function for each request of the control interface. An operation of the card returns
  the new state of the world, the objects it changes and how the call ends. Reference counts of
  GObject are modelled where a source of events keeps the card alive. Memory that is only leaked
  (the packet of a TLV operation on its error paths) does not show in the results.
\<close>

section \<open>The control interface\<close>

record snd_ctl_elem_list =
  el_offset :: u32
  el_space :: u32
  el_used :: u32
  el_count :: u32

record snd_ctl_tlv =
  tlv_numid :: u32
  tlv_length :: u32
  tlv_data :: bytes

text \<open>
  A request for the list of elements also yields the identifiers written at the address in the
  structure. A request to add elements reads the names of items from the memory of the process.
\<close>

record 'w ctl_sys = "'w sys" +
  ctl_libc :: libc
  ctl_udev :: udev
  ctl_udev_again :: udev
  CTL_IOCTL_PVERSION :: "('w, u32) request"
  CTL_IOCTL_CARD_INFO :: "('w, snd_ctl_card_info) request"
  CTL_IOCTL_ELEM_LIST :: "'w \<Rightarrow> int \<Rightarrow> snd_ctl_elem_list \<Rightarrow> 'w \<times> (snd_ctl_elem_list \<times> snd_ctl_elem_id list) sysret"
  CTL_IOCTL_ELEM_INFO :: "('w, snd_ctl_elem_info) request"
  CTL_IOCTL_ELEM_READ :: "('w, snd_ctl_elem_value) request"
  CTL_IOCTL_ELEM_WRITE :: "('w, snd_ctl_elem_value) request"
  CTL_IOCTL_ELEM_LOCK :: "'w \<Rightarrow> int \<Rightarrow> snd_ctl_elem_id \<Rightarrow> 'w \<times> unit sysret"
  CTL_IOCTL_ELEM_UNLOCK :: "'w \<Rightarrow> int \<Rightarrow> snd_ctl_elem_id \<Rightarrow> 'w \<times> unit sysret"
  CTL_IOCTL_SUBSCRIBE_EVENTS :: "('w, u32) request"
  CTL_IOCTL_ELEM_ADD :: "'w \<Rightarrow> int \<Rightarrow> heap \<Rightarrow> snd_ctl_elem_info \<Rightarrow> 'w \<times> snd_ctl_elem_info sysret"
  CTL_IOCTL_ELEM_REPLACE :: "'w \<Rightarrow> int \<Rightarrow> heap \<Rightarrow> snd_ctl_elem_info \<Rightarrow> 'w \<times> snd_ctl_elem_info sysret"
  CTL_IOCTL_ELEM_REMOVE :: "'w \<Rightarrow> int \<Rightarrow> snd_ctl_elem_id \<Rightarrow> 'w \<times> unit sysret"
  CTL_IOCTL_TLV_READ :: "('w, snd_ctl_tlv) request"
  CTL_IOCTL_TLV_WRITE :: "('w, snd_ctl_tlv) request"
  CTL_IOCTL_TLV_COMMAND :: "('w, snd_ctl_tlv) request"

section \<open>Queries\<close>

definition alsactl_get_card_id_list :: "'w ctl_sys \<Rightarrow> (u32 list option \<times> nat option) outcome" where
  "alsactl_get_card_id_list sys =
     obind (generate_card_sysnum_list (ctl_libc sys) (ctl_udev sys) (ctl_udev_again sys))
       (\<lambda>(err, entries, entry_count).
          if err < 0 then generate_file_error sys (- err) else Ret (entries, entry_count))"

definition alsactl_get_card_sysname :: "'w ctl_sys \<Rightarrow> u32 \<Rightarrow> bytes outcome" where
  "alsactl_get_card_sysname sys card_id =
     obind (lookup_and_allocate_card_sysname (ctl_libc sys) (ctl_udev sys) card_id)
       (\<lambda>(err, sysname). if err < 0 then generate_file_error sys (- err)
          else (case sysname of None \<Rightarrow> Undefined | Some s \<Rightarrow> Ret s))"

definition alsactl_get_control_sysname :: "'w ctl_sys \<Rightarrow> u32 \<Rightarrow> bytes outcome" where
  "alsactl_get_control_sysname sys card_id =
     obind (lookup_and_allocate_control_sysname (ctl_libc sys) (ctl_udev sys) card_id)
       (\<lambda>(err, sysname). if err < 0 then generate_file_error sys (- err)
          else (case sysname of None \<Rightarrow> Undefined | Some s \<Rightarrow> Ret s))"

definition alsactl_get_control_devnode :: "'w ctl_sys \<Rightarrow> u32 \<Rightarrow> bytes outcome" where
  "alsactl_get_control_devnode sys card_id =
     obind (lookup_and_allocate_control_devname (ctl_libc sys) (ctl_udev sys) card_id)
       (\<lambda>(err, devnode). if err < 0 then generate_file_error sys (- err)
          else (case devnode of None \<Rightarrow> Undefined | Some s \<Rightarrow> Ret s))"

section \<open>The card\<close>

text \<open>\<open>card_refs\<close> is the reference count of the object.\<close>

record ctl_card =
  card_fd :: int
  card_devnode :: "bytes option"
  card_subscribers :: int
  card_proto_ver :: "u16 \<times> u16 \<times> u16"
  card_refs :: nat

definition alsactl_card_init :: ctl_card where
  "alsactl_card_init = \<lparr>card_fd = -1, card_devnode = None, card_subscribers = 0,
     card_proto_ver = (0, 0, 0), card_refs = 1\<rparr>"

datatype ctl_card_prop_type = CTL_CARD_PROP_DEVNODE | CTL_CARD_PROP_SUBSCRIBED

fun ctl_card_props :: "ctl_card_prop_type \<Rightarrow> pspec" where
  "ctl_card_props CTL_CARD_PROP_DEVNODE =
     \<lparr>ps_name = ''devnode'', ps_type = TString, ps_min = 0, ps_max = 0, ps_readable = True, ps_writable = False, ps_construct_only = False\<rparr>"
| "ctl_card_props CTL_CARD_PROP_SUBSCRIBED =
     \<lparr>ps_name = ''subscribed'', ps_type = TBool, ps_min = 0, ps_max = 0, ps_readable = True, ps_writable = False, ps_construct_only = False\<rparr>"

fun ctl_card_get_property :: "ctl_card \<Rightarrow> ctl_card_prop_type \<Rightarrow> 'b gvalue \<Rightarrow> 'b gvalue" where
  "ctl_card_get_property self CTL_CARD_PROP_DEVNODE val =
     (case card_devnode self of
        None \<Rightarrow> (case val of VString _ \<Rightarrow> VString None | _ \<Rightarrow> val)
      | Some s \<Rightarrow> g_value_set_string val s)"
| "ctl_card_get_property self CTL_CARD_PROP_SUBSCRIBED val =
     g_value_set_boolean val (0 < card_subscribers self)"

lemma ctl_card_conforms: "getters_conform ctl_card_get_property ctl_card_props all_kept"
  apply (rule getters_conformI)
  subgoal for x p v by (cases p; cases v) (simp_all add: read_property_def split: option.splits)
  done

definition ctl_card_finalize :: "'w ctl_sys \<Rightarrow> 'w \<Rightarrow> ctl_card \<Rightarrow> 'w" where
  "ctl_card_finalize sys w self = (if 0 \<le> card_fd self then sys_close sys w (card_fd self) else w)"

text \<open>The last reference to an object finalises it.\<close>

definition card_unref :: "'w ctl_sys \<Rightarrow> 'w \<Rightarrow> ctl_card \<Rightarrow> 'w \<times> ctl_card" where
  "card_unref sys w self =
     (let self' = self\<lparr>card_refs := card_refs self - 1\<rparr>
      in (if card_refs self' = 0 then ctl_card_finalize sys w self' else w, self'))"

text \<open>Errors of the domain of the card.\<close>

definition card_err_msgs :: "string option list" where
  "card_err_msgs =
     [None,
      Some ''The card associated to the instance is in disconnect state'',
      Some ''The control element not found in the card'',
      Some ''The operation is not supported by the control element.'',
      Some ''The control element is owned by the other process.'',
      Some ''The control element already exists.'']"

definition card_local_error :: "ctl_card_error \<Rightarrow> 'a outcome" where
  "card_local_error code = generate_local_error ALSACTL_CARD_ERROR card_err_msgs (ctl_card_error_code code)"

definition card_syscall_error :: "'a outcome" where
  "card_syscall_error = Throw (GError ALSACTL_CARD_ERROR (ctl_card_error_code ALSACTL_CARD_ERROR_FAILED))"

lemmas card_error_defs = card_local_error_def card_syscall_error_def card_err_msgs_def local_error_defs

text \<open>Every code of the enumeration has a message but the one for failed system calls.\<close>

lemma card_local_error_throws:
  "card_local_error code =
     (if code = ALSACTL_CARD_ERROR_FAILED then Critical
      else Throw (GError ALSACTL_CARD_ERROR (ctl_card_error_code code)))"
  by (cases code) (simp_all add: card_error_defs)

text \<open>The handling of errors that most requests share: only a disconnection has a code of its own.\<close>

definition ioctl_error :: "errno \<Rightarrow> 'a outcome" where
  "ioctl_error e =
     (if e = ENODEV then card_local_error ALSACTL_CARD_ERROR_DISCONNECTED else card_syscall_error)"

section \<open>Opening\<close>

definition alsactl_card_open ::
  "'w ctl_sys \<Rightarrow> 'w \<Rightarrow> ctl_card \<Rightarrow> u32 \<Rightarrow> u32 \<Rightarrow> 'w \<times> ctl_card \<times> unit outcome" where
  "alsactl_card_open sys w self card_id open_flag =
     (case alsactl_get_control_devnode sys card_id of
        Ret devnode \<Rightarrow>
          (case sys_open sys w devnode (open_flag OR O_RDONLY) of
             (w1, SysErr e) \<Rightarrow>
               (w1, self\<lparr>card_fd := -1\<rparr>,
                if e = ENODEV then card_local_error ALSACTL_CARD_ERROR_DISCONNECTED
                else let code = file_error sys e
                     in if code \<noteq> G_FILE_ERROR_FAILED then generate_file_error sys code
                        else card_syscall_error)
           | (w1, SysOk fd) \<Rightarrow>
               (case CTL_IOCTL_PVERSION sys w1 fd 0 of
                  (w2, SysErr e) \<Rightarrow> (sys_close sys w2 fd, self\<lparr>card_fd := -1\<rparr>, ioctl_error e)
                | (w2, SysOk proto_ver) \<Rightarrow>
                    (w2, self\<lparr>card_fd := fd, card_devnode := Some devnode,
                           card_proto_ver := SNDRV_PROTOCOL_TRIPLET proto_ver\<rparr>, Ret ())))
      | Throw e \<Rightarrow> (w, self, Throw e)
      | _ \<Rightarrow> (w, self, Undefined))"

definition alsactl_card_get_protocol_version :: "ctl_card \<Rightarrow> (u16 \<times> u16 \<times> u16) outcome" where
  "alsactl_card_get_protocol_version self =
     (if card_fd self < 0 then Critical else Ret (card_proto_ver self))"

definition alsactl_card_get_info :: "'w ctl_sys \<Rightarrow> 'w \<Rightarrow> ctl_card \<Rightarrow> 'w \<times> snd_ctl_card_info outcome" where
  "alsactl_card_get_info sys w self =
     (case CTL_IOCTL_CARD_INFO sys w (card_fd self) zero_card_info of
        (w', SysErr e) \<Rightarrow> (w', ioctl_error e)
      | (w', SysOk info) \<Rightarrow> (w', Ret info))"

section \<open>The list of elements\<close>

text \<open>
  The array for the identifiers has as many entries as the kernel reported at first; \<open>None\<close> is an
  entry not written. The loop asks for at most a thousand identifiers at a time, from the offset
  on, and reads the count again that each request writes back: when elements were added in
  between, the kernel is told to write past the array. Nothing bounds the loop if the kernel
  wrote back a space of zero.
\<close>

definition write_ids :: "nat \<Rightarrow> snd_ctl_elem_id list \<Rightarrow> snd_ctl_elem_id option list \<Rightarrow> snd_ctl_elem_id option list outcome" where
  "write_ids off new ids =
     (if off + length new \<le> length ids
      then Ret (take off ids @ map Some new @ drop (off + length new) ids)
      else Undefined)"

partial_function (option) fetch_elem_ids ::
  "'w ctl_sys \<Rightarrow> int \<Rightarrow> 'w \<Rightarrow> snd_ctl_elem_list \<Rightarrow> snd_ctl_elem_id option list \<Rightarrow>
     ('w \<times> (snd_ctl_elem_list \<times> snd_ctl_elem_id option list) outcome) option" where
  "fetch_elem_ids sys fd w list ids =
     (if el_offset list < el_count list
      then (case CTL_IOCTL_ELEM_LIST sys w fd (list\<lparr>el_space := min (el_count list - el_offset list) 1000\<rparr>) of
              (w', SysErr e) \<Rightarrow> Some (w', ioctl_error e)
            | (w', SysOk (list', new)) \<Rightarrow>
                (case write_ids (unat (el_offset list)) new ids of
                   Ret ids' \<Rightarrow>
                     fetch_elem_ids sys fd w' (list'\<lparr>el_offset := el_offset list' + el_space list'\<rparr>) ids'
                 | _ \<Rightarrow> Some (w', Undefined)))
      else Some (w, Ret (list\<lparr>el_space := el_count list\<rparr>, ids)))"

definition allocate_elem_ids ::
  "'w ctl_sys \<Rightarrow> int \<Rightarrow> 'w \<Rightarrow> ('w \<times> (snd_ctl_elem_list \<times> snd_ctl_elem_id option list) outcome) option" where
  "allocate_elem_ids sys fd w =
     (case CTL_IOCTL_ELEM_LIST sys w fd \<lparr>el_offset = 0, el_space = 0, el_used = 0, el_count = 0\<rparr> of
        (w', SysErr e) \<Rightarrow> Some (w', ioctl_error e)
      | (w', SysOk (list, _)) \<Rightarrow>
          if el_count list = 0 then Some (w', Ret (list, []))
          else fetch_elem_ids sys fd w' (list\<lparr>el_offset := 0\<rparr>) (replicate (unat (el_count list)) None))"

text \<open>The copy of the first \<open>cnt\<close> entries: outside of the array, or not written, is undefined.\<close>

definition copy_ids :: "nat \<Rightarrow> snd_ctl_elem_id option list \<Rightarrow> snd_ctl_elem_id list outcome" where
  "copy_ids cnt ids =
     (if cnt \<le> length ids \<and> None \<notin> set (take cnt ids) then Ret (map the (take cnt ids)) else Undefined)"

definition alsactl_card_get_elem_id_list ::
  "'w ctl_sys \<Rightarrow> 'w \<Rightarrow> ctl_card \<Rightarrow> snd_ctl_elem_id list \<Rightarrow> ('w \<times> snd_ctl_elem_id list outcome) option" where
  "alsactl_card_get_elem_id_list sys w self entries =
     Option.bind (allocate_elem_ids sys (card_fd self) w)
       (\<lambda>(w', r). Some (w', obind r (\<lambda>(list, ids).
          obind (copy_ids (unat (el_count list)) ids) (\<lambda>new. Ret (entries @ new)))))"

section \<open>Locking, removing, reading and writing\<close>

definition alsactl_card_lock_elem ::
  "'w ctl_sys \<Rightarrow> 'w \<Rightarrow> ctl_card \<Rightarrow> snd_ctl_elem_id \<Rightarrow> bool \<Rightarrow> 'w \<times> unit outcome" where
  "alsactl_card_lock_elem sys w self elem_id lock =
     (case (if lock then CTL_IOCTL_ELEM_LOCK sys else CTL_IOCTL_ELEM_UNLOCK sys) w (card_fd self) elem_id of
        (w', SysErr e) \<Rightarrow>
          (w', if e = ENODEV then card_local_error ALSACTL_CARD_ERROR_DISCONNECTED
               else if e = ENOENT then card_local_error ALSACTL_CARD_ERROR_ELEM_NOT_FOUND
               else if e = EBUSY \<and> lock \<or> e = EPERM \<and> \<not> lock then card_local_error ALSACTL_CARD_ERROR_ELEM_OWNED
               else card_syscall_error)
      | (w', SysOk _) \<Rightarrow> (w', Ret ()))"

definition alsactl_card_remove_elems ::
  "'w ctl_sys \<Rightarrow> 'w \<Rightarrow> ctl_card \<Rightarrow> snd_ctl_elem_id \<Rightarrow> 'w \<times> unit outcome" where
  "alsactl_card_remove_elems sys w self elem_id =
     (case CTL_IOCTL_ELEM_REMOVE sys w (card_fd self) elem_id of
        (w', SysErr e) \<Rightarrow>
          (w', if e = ENODEV then card_local_error ALSACTL_CARD_ERROR_DISCONNECTED
               else if e = ENOENT then card_local_error ALSACTL_CARD_ERROR_ELEM_NOT_FOUND
               else if e = EBUSY then card_local_error ALSACTL_CARD_ERROR_ELEM_OWNED
               else card_syscall_error)
      | (w', SysOk _) \<Rightarrow> (w', Ret ()))"

definition value_error :: "errno \<Rightarrow> 'a outcome" where
  "value_error e =
     (if e = ENODEV then card_local_error ALSACTL_CARD_ERROR_DISCONNECTED
      else if e = ENOENT then card_local_error ALSACTL_CARD_ERROR_ELEM_NOT_FOUND
      else if e = EPERM then card_local_error ALSACTL_CARD_ERROR_ELEM_NOT_SUPPORTED
      else card_syscall_error)"

text \<open>Both store the identifier in the value of the caller before the request.\<close>

definition alsactl_card_write_elem_value ::
  "'w ctl_sys \<Rightarrow> 'w \<Rightarrow> ctl_card \<Rightarrow> snd_ctl_elem_id \<Rightarrow> elem_value \<Rightarrow> 'w \<times> elem_value \<times> unit outcome" where
  "alsactl_card_write_elem_value sys w self elem_id elem_value =
     (let value = (evl_value elem_value)\<lparr>vl_id := elem_id\<rparr>
      in case CTL_IOCTL_ELEM_WRITE sys w (card_fd self) value of
           (w', SysErr e) \<Rightarrow> (w', elem_value\<lparr>evl_value := value\<rparr>, value_error e)
         | (w', SysOk value') \<Rightarrow> (w', elem_value\<lparr>evl_value := value'\<rparr>, Ret ()))"

definition alsactl_card_read_elem_value ::
  "'w ctl_sys \<Rightarrow> 'w \<Rightarrow> ctl_card \<Rightarrow> snd_ctl_elem_id \<Rightarrow> elem_value \<Rightarrow> 'w \<times> elem_value \<times> unit outcome" where
  "alsactl_card_read_elem_value sys w self elem_id elem_value =
     (let value = (evl_value elem_value)\<lparr>vl_id := elem_id\<rparr>
      in case CTL_IOCTL_ELEM_READ sys w (card_fd self) value of
           (w', SysErr e) \<Rightarrow> (w', elem_value\<lparr>evl_value := value\<rparr>, value_error e)
         | (w', SysOk value') \<Rightarrow> (w', elem_value\<lparr>evl_value := value'\<rparr>, Ret ()))"

section \<open>Information of an element\<close>

text \<open>An object of one of the six classes.\<close>

datatype elem_info =
    InfoBoolean snd_ctl_elem_info
  | InfoInteger snd_ctl_elem_info
  | InfoBytes snd_ctl_elem_info
  | InfoIec60958 snd_ctl_elem_info
  | InfoInteger64 snd_ctl_elem_info
  | InfoEnumerated elem_info_enumerated

fun parse_enum_names ::
  "'w ctl_sys \<Rightarrow> int \<Rightarrow> nat \<Rightarrow> nat \<Rightarrow> 'w \<Rightarrow> snd_ctl_elem_info \<Rightarrow> bytes list \<Rightarrow>
     'w \<times> (snd_ctl_elem_info \<times> bytes list) outcome" where
  "parse_enum_names sys fd i 0 w data labels = (w, Ret (data, labels))"
| "parse_enum_names sys fd i (Suc n) w data labels =
     (case CTL_IOCTL_ELEM_INFO sys w fd (info_put 4 4 (of_nat i :: u32) data) of
        (w', SysErr e) \<Rightarrow> (w', ioctl_error e)
      | (w', SysOk data') \<Rightarrow>
          let name = get_at 8 64 (inf_value data')
          in if 0 \<in> set name
             then parse_enum_names sys fd (Suc i) n w' data' (labels @ [cstr name])
             else (w', Undefined))"

definition alsactl_card_get_elem_info ::
  "'w ctl_sys \<Rightarrow> 'w \<Rightarrow> ctl_card \<Rightarrow> snd_ctl_elem_id \<Rightarrow> 'w \<times> elem_info outcome" where
  "alsactl_card_get_elem_info sys w self elem_id =
     (case CTL_IOCTL_ELEM_INFO sys w (card_fd self) (zero_elem_info\<lparr>inf_id := elem_id\<rparr>) of
        (w', SysErr e) \<Rightarrow>
          (w', if e = ENODEV then card_local_error ALSACTL_CARD_ERROR_DISCONNECTED
               else if e = ENOENT then card_local_error ALSACTL_CARD_ERROR_ELEM_NOT_FOUND
               else card_syscall_error)
      | (w', SysOk data) \<Rightarrow>
          if inf_type data = SNDRV_CTL_ELEM_TYPE_BOOLEAN then (w', Ret (InfoBoolean data))
          else if inf_type data = SNDRV_CTL_ELEM_TYPE_INTEGER then (w', Ret (InfoInteger data))
          else if inf_type data = SNDRV_CTL_ELEM_TYPE_BYTES then (w', Ret (InfoBytes data))
          else if inf_type data = SNDRV_CTL_ELEM_TYPE_IEC958 then (w', Ret (InfoIec60958 data))
          else if inf_type data = SNDRV_CTL_ELEM_TYPE_INTEGER64 then (w', Ret (InfoInteger64 data))
          else if inf_type data = SNDRV_CTL_ELEM_TYPE_ENUMERATED
          then (case parse_enum_names sys (card_fd self) 0 (unat (info_get 0 4 data :: u32)) w' data [] of
                  (w'', r) \<Rightarrow> (w'', obind r (\<lambda>(data', labels).
                     Ret (InfoEnumerated \<lparr>ie_data = data', ie_labels = Some labels\<rparr>))))
          else (w', Critical))"

section \<open>Threshold level data\<close>

text \<open>
  The packet carries the quadlets of the caller. After reading, as many bytes as the packet says
  are copied back over the quadlets.
\<close>

definition tlv_quadlets_enc :: "u32 list \<Rightarrow> bytes" where
  "tlv_quadlets_enc container = concat (map (le_enc 4) container)"

definition tlv_packet :: "snd_ctl_elem_id \<Rightarrow> nat \<Rightarrow> bytes \<Rightarrow> snd_ctl_tlv" where
  "tlv_packet elem_id container_size bs =
     \<lparr>tlv_numid = id_numid elem_id, tlv_length = of_nat container_size, tlv_data = bs\<rparr>"

definition tlv_copy_back :: "u32 list \<Rightarrow> snd_ctl_tlv \<Rightarrow> (u32 list \<times> nat) outcome" where
  "tlv_copy_back container packet =
     (let len = unat (tlv_length packet); container_size = 4 * length container
      in if len \<le> container_size \<and> len \<le> length (tlv_data packet)
         then Ret (get_array 4 0 (length container)
                (put_at 0 (take len (tlv_data packet)) (tlv_quadlets_enc container)), len div 4)
         else Undefined)"

definition alsactl_card_write_elem_tlv ::
  "'w ctl_sys \<Rightarrow> 'w \<Rightarrow> ctl_card \<Rightarrow> snd_ctl_elem_id \<Rightarrow> u32 list \<Rightarrow> 'w \<times> unit outcome" where
  "alsactl_card_write_elem_tlv sys w self elem_id container =
     (if length container < 2 then (w, Critical)
      else case CTL_IOCTL_TLV_WRITE sys w (card_fd self)
             (tlv_packet elem_id (4 * length container) (tlv_quadlets_enc container)) of
        (w', SysErr e) \<Rightarrow>
          (w', if e = ENODEV then card_local_error ALSACTL_CARD_ERROR_DISCONNECTED
               else if e = ENOENT then card_local_error ALSACTL_CARD_ERROR_ELEM_NOT_FOUND
               else if e = EPERM then card_local_error ALSACTL_CARD_ERROR_ELEM_OWNED
               else card_syscall_error)
      | (w', SysOk _) \<Rightarrow> (w', Ret ()))"

definition alsactl_card_read_elem_tlv ::
  "'w ctl_sys \<Rightarrow> 'w \<Rightarrow> ctl_card \<Rightarrow> snd_ctl_elem_id \<Rightarrow> u32 list \<Rightarrow> 'w \<times> (u32 list \<times> nat) outcome" where
  "alsactl_card_read_elem_tlv sys w self elem_id container =
     (if length container < 2 then (w, Critical)
      else case CTL_IOCTL_TLV_READ sys w (card_fd self)
             (tlv_packet elem_id (4 * length container) (replicate (4 * length container) 0)) of
        (w', SysErr e) \<Rightarrow>
          (w', if e = ENODEV then card_local_error ALSACTL_CARD_ERROR_DISCONNECTED
               else if e = ENOENT then card_local_error ALSACTL_CARD_ERROR_ELEM_NOT_FOUND
               else card_syscall_error)
      | (w', SysOk packet) \<Rightarrow> (w', tlv_copy_back container packet))"

definition alsactl_card_command_elem_tlv ::
  "'w ctl_sys \<Rightarrow> 'w \<Rightarrow> ctl_card \<Rightarrow> snd_ctl_elem_id \<Rightarrow> u32 list \<Rightarrow> 'w \<times> (u32 list \<times> nat) outcome" where
  "alsactl_card_command_elem_tlv sys w self elem_id container =
     (if length container < 2 then (w, Critical)
      else case CTL_IOCTL_TLV_COMMAND sys w (card_fd self)
             (tlv_packet elem_id (4 * length container) (tlv_quadlets_enc container)) of
        (w', SysErr e) \<Rightarrow>
          (w', if e = ENODEV then card_local_error ALSACTL_CARD_ERROR_DISCONNECTED
               else if e = ENOENT then card_local_error ALSACTL_CARD_ERROR_ELEM_NOT_FOUND
               else if e = EPERM then card_local_error ALSACTL_CARD_ERROR_ELEM_OWNED
               else card_syscall_error)
      | (w', SysOk packet) \<Rightarrow> (w', tlv_copy_back container packet))"

section \<open>Adding and replacing elements\<close>

text \<open>
  The names of the items of an enumeration are joined, each one terminated, in a block of memory
  whose address and length go into the information. The length is a sum of 32 bit words.
\<close>

fun sum_lengths :: "bytes list \<Rightarrow> u32 \<Rightarrow> u32 outcome" where
  "sum_lengths [] len = Ret len"
| "sum_lengths (label # labels) len =
     (if 64 \<le> length label then Critical else sum_lengths labels (len + of_nat (length label + 1)))"

definition enum_names :: "bytes list \<Rightarrow> bytes" where
  "enum_names labels = concat (map (\<lambda>label. label @ [0]) labels)"

definition prepare_enum_names ::
  "allocator \<Rightarrow> heap \<Rightarrow> snd_ctl_elem_info \<Rightarrow> bytes list option \<Rightarrow> (heap \<times> snd_ctl_elem_info) outcome" where
  "prepare_enum_names malloc h info labels =
     (case labels of None \<Rightarrow> Undefined
      | Some ls \<Rightarrow>
          obind (sum_lengths ls 0) (\<lambda>len.
            if 64 * 1024 < len then Critical
            else if unat len < length (enum_names ls) then Undefined
            else obind (heap_new malloc h (enum_names ls)) (\<lambda>(h', pos).
              Ret (h', info_put 0 4 (of_nat (length ls) :: u32)
                     (info_put 80 4 len (info_put 72 8 pos info))))))"

fun info_data :: "elem_info \<Rightarrow> snd_ctl_elem_info" where
  "info_data (InfoBoolean data) = data"
| "info_data (InfoInteger data) = data"
| "info_data (InfoBytes data) = data"
| "info_data (InfoIec60958 data) = data"
| "info_data (InfoInteger64 data) = data"
| "info_data (InfoEnumerated self) = ie_data self"

fun with_info_data :: "elem_info \<Rightarrow> snd_ctl_elem_info \<Rightarrow> elem_info" where
  "with_info_data (InfoBoolean _) data = InfoBoolean data"
| "with_info_data (InfoInteger _) data = InfoInteger data"
| "with_info_data (InfoBytes _) data = InfoBytes data"
| "with_info_data (InfoIec60958 _) data = InfoIec60958 data"
| "with_info_data (InfoInteger64 _) data = InfoInteger64 data"
| "with_info_data (InfoEnumerated self) data = InfoEnumerated (self\<lparr>ie_data := data\<rparr>)"

fun class_type :: "elem_info \<Rightarrow> u32" where
  "class_type (InfoBoolean _) = SNDRV_CTL_ELEM_TYPE_BOOLEAN"
| "class_type (InfoInteger _) = SNDRV_CTL_ELEM_TYPE_INTEGER"
| "class_type (InfoBytes _) = SNDRV_CTL_ELEM_TYPE_BYTES"
| "class_type (InfoIec60958 _) = SNDRV_CTL_ELEM_TYPE_IEC958"
| "class_type (InfoInteger64 _) = SNDRV_CTL_ELEM_TYPE_INTEGER64"
| "class_type (InfoEnumerated _) = SNDRV_CTL_ELEM_TYPE_ENUMERATED"

text \<open>
  The guards on the limits of an integer of \<open>n\<close> bits; the sum overflows outside of the type, which
  is undefined for signed integers.
\<close>

definition check_limits :: "nat \<Rightarrow> int \<Rightarrow> int \<Rightarrow> int \<Rightarrow> unit outcome" where
  "check_limits n mn mx step =
     (if mx < mn then Critical
      else if mn + step < - (2 ^ (n - 1)) \<or> 2 ^ (n - 1) \<le> mn + step then Undefined
      else if mx < mn + step then Critical
      else Ret ())"

text \<open>
  The switch over the type of the element. An object whose type property does not belong to its
  class is cast to the wrong class.
\<close>

definition check_elem_info :: "elem_info \<Rightarrow> unit outcome" where
  "check_elem_info obj =
     (let data = info_data obj; elem_type = inf_type data
      in if elem_type \<notin> {1..6} then Critical
         else if elem_type \<noteq> class_type obj then Undefined
         else obind
           (if elem_type = SNDRV_CTL_ELEM_TYPE_INTEGER
            then check_limits 32 (sint (ucast (info_get 0 8 data :: u64) :: u32))
                   (sint (ucast (info_get 8 8 data :: u64) :: u32)) (sint (ucast (info_get 16 8 data :: u64) :: u32))
            else if elem_type = SNDRV_CTL_ELEM_TYPE_INTEGER64
            then check_limits 64 (sint (info_get 0 8 data :: u64)) (sint (info_get 8 8 data :: u64))
                   (sint (info_get 16 8 data :: u64))
            else Ret ())
           (\<lambda>_. if inf_access data = 0 then Critical
                else if inf_count data = 0 then Critical else Ret ()))"

definition enum_labels :: "elem_info \<Rightarrow> bytes list option" where
  "enum_labels obj = (case obj of InfoEnumerated self \<Rightarrow> ie_labels self | _ \<Rightarrow> None)"

definition add_error :: "bool \<Rightarrow> errno \<Rightarrow> 'a outcome" where
  "add_error replace e =
     (if e = ENODEV then card_local_error ALSACTL_CARD_ERROR_DISCONNECTED
      else if e = ENOENT then card_local_error ALSACTL_CARD_ERROR_ELEM_NOT_FOUND
      else if e = EBUSY
      then if replace then card_local_error ALSACTL_CARD_ERROR_ELEM_OWNED else card_local_error ALSACTL_CARD_ERROR_ELEM_EXIST
      else card_syscall_error)"

text \<open>The identifiers handed out count up from the one the kernel wrote back.\<close>

definition consecutive_ids :: "snd_ctl_elem_id \<Rightarrow> nat \<Rightarrow> snd_ctl_elem_id list" where
  "consecutive_ids src n =
     map (\<lambda>i. src\<lparr>id_numid := id_numid src + of_nat i, id_index := id_index src + of_nat i\<rparr>) [0..<n]"

definition add_or_replace_elems ::
  "'w ctl_sys \<Rightarrow> allocator \<Rightarrow> 'w \<Rightarrow> heap \<Rightarrow> int \<Rightarrow> snd_ctl_elem_id \<Rightarrow> u32 \<Rightarrow> elem_info \<Rightarrow> bool \<Rightarrow>
     snd_ctl_elem_id list \<Rightarrow> 'w \<times> (heap \<times> elem_info) outcome \<times> snd_ctl_elem_id list outcome" where
  "add_or_replace_elems sys malloc w h fd elem_id elem_count obj replace entries =
     (let enumerated = (inf_type (info_data obj) = SNDRV_CTL_ELEM_TYPE_ENUMERATED)
      in case obind (check_elem_info obj) (\<lambda>_.
             if enumerated then prepare_enum_names malloc h (info_data obj) (enum_labels obj)
             else Ret (h, info_put 72 8 (0 :: u64) (info_data obj))) of
           Ret (h1, info) \<Rightarrow>
             (let data = info\<lparr>inf_id := elem_id, inf_owner := elem_count\<rparr>
              in case (if replace then CTL_IOCTL_ELEM_REPLACE sys else CTL_IOCTL_ELEM_ADD sys) w fd h1 data of
                   (w', r) \<Rightarrow>
                     (let data' = (case r of SysOk d \<Rightarrow> d | SysErr _ \<Rightarrow> data)
                      in (w',
                          (if enumerated
                           then obind (g_free h1 (info_get 72 8 data'))
                                  (\<lambda>h2. Ret (h2, with_info_data obj (info_put 72 8 (0 :: u64) data')))
                           else Ret (h1, with_info_data obj data')),
                          (case r of
                             SysErr e \<Rightarrow> add_error replace e
                           | SysOk _ \<Rightarrow>
                               if 2 ^ 31 < unat elem_count then Undefined
                               else Ret (entries @ consecutive_ids (inf_id data') (unat elem_count))))))
         | Critical \<Rightarrow> (w, Ret (h, obj), Critical)
         | Abort \<Rightarrow> (w, Abort, Abort)
         | _ \<Rightarrow> (w, Undefined, Undefined))"

definition alsactl_card_add_elems ::
  "'w ctl_sys \<Rightarrow> allocator \<Rightarrow> 'w \<Rightarrow> heap \<Rightarrow> ctl_card \<Rightarrow> snd_ctl_elem_id \<Rightarrow> u32 \<Rightarrow> elem_info \<Rightarrow>
     snd_ctl_elem_id list \<Rightarrow> 'w \<times> (heap \<times> elem_info) outcome \<times> snd_ctl_elem_id list outcome" where
  "alsactl_card_add_elems sys malloc w h self elem_id elem_count obj entries =
     (if elem_count = 0 then (w, Ret (h, obj), Critical)
      else add_or_replace_elems sys malloc w h (card_fd self) elem_id elem_count obj False entries)"

definition alsactl_card_replace_elems ::
  "'w ctl_sys \<Rightarrow> allocator \<Rightarrow> 'w \<Rightarrow> heap \<Rightarrow> ctl_card \<Rightarrow> snd_ctl_elem_id \<Rightarrow> u32 \<Rightarrow> elem_info \<Rightarrow>
     snd_ctl_elem_id list \<Rightarrow> 'w \<times> (heap \<times> elem_info) outcome \<times> snd_ctl_elem_id list outcome" where
  "alsactl_card_replace_elems sys malloc w h self elem_id elem_count obj entries =
     (if elem_count = 0 then (w, Ret (h, obj), Critical)
      else add_or_replace_elems sys malloc w h (card_fd self) elem_id elem_count obj True entries)"

section \<open>The list of elements is complete\<close>

text \<open>
  A kernel with the elements \<open>all\<close> answers a request with the part asked for and the count. Nothing is said of
  requests with room for more than a thousand identifiers, which the kernel may refuse.
\<close>

definition lists_elems :: "'w ctl_sys \<Rightarrow> int \<Rightarrow> snd_ctl_elem_id list \<Rightarrow> bool" where
  "lists_elems sys fd all \<longleftrightarrow> length all < 2 ^ 32 \<and>
     (\<forall>w list. el_space list \<le> 1000 \<longrightarrow> (\<exists>used. CTL_IOCTL_ELEM_LIST sys w fd list =
        (w, SysOk (list\<lparr>el_used := used, el_count := of_nat (length all)\<rparr>,
                   take (unat (el_space list)) (drop (unat (el_offset list)) all)))))"

lemma lists_elemsD:
  assumes "lists_elems sys fd all" "el_space list \<le> 1000"
  obtains used where "CTL_IOCTL_ELEM_LIST sys w fd list =
      (w, SysOk (list\<lparr>el_used := used, el_count := of_nat (length all)\<rparr>,
         take (unat (el_space list)) (drop (unat (el_offset list)) all)))"
  using assms unfolding lists_elems_def by blast

lemma write_ids_next:
  assumes "off + k \<le> length all"
  shows "write_ids off (take k (drop off all)) (map Some (take off all) @ replicate (length all - off) None) =
    Ret (map Some (take (off + k) all) @ replicate (length all - (off + k)) None)"
  using assms by (auto simp: write_ids_def take_add [symmetric] min_def map_append [symmetric] simp del: map_append)

lemma fetch_elem_ids_complete:
  assumes "lists_elems sys fd all" "off \<le> length all"
    and "el_offset list = of_nat off" "el_count list = of_nat (length all)"
  shows "\<exists>list'. fetch_elem_ids sys fd w list (map Some (take off all) @ replicate (length all - off) None) =
    Some (w, Ret (list', map Some all)) \<and> el_count list' = of_nat (length all)"
  using assms(2-)
proof (induction "length all - off" arbitrary: off list rule: less_induct)
  case less
  have n: "length all < 2 ^ 32" using assms(1) by (simp add: lists_elems_def)
  have u: "unat (of_nat off :: u32) = off" "unat (of_nat (length all) :: u32) = length all"
    using n less.prems by (simp_all add: unat_of_nat)
  show ?case
  proof (cases "off = length all")
    case True
    then show ?thesis using less.prems by (simp add: fetch_elem_ids.simps)
  next
    case False
    define k where "k = min (length all - off) 1000"
    have k: "0 < k" "off + k \<le> length all" using False less.prems by (auto simp: k_def)
    have space: "unat (min (el_count list - el_offset list) 1000) = k"
      using less.prems u n by (simp add: k_def min_def word_le_nat_alt unat_sub)
    let ?req = "list\<lparr>el_space := min (el_count list - el_offset list) 1000\<rparr>"
    obtain used where req: "CTL_IOCTL_ELEM_LIST sys w fd ?req = (w, SysOk (?req\<lparr>el_used := used,
        el_count := of_nat (length all)\<rparr>, take k (drop off all)))"
      using lists_elemsD [OF assms(1), of ?req w] space less.prems u by auto
    let ?list = "list\<lparr>el_space := min (el_count list - el_offset list) 1000, el_used := used,
          el_count := of_nat (length all), el_offset := of_nat (off + k)\<rparr>"
    have "min (el_count list - el_offset list) 1000 = (of_nat k :: u32)"
      using arg_cong [OF space, of "of_nat :: nat \<Rightarrow> u32"] by simp
    then have step: "fetch_elem_ids sys fd w list (map Some (take off all) @ replicate (length all - off) None) =
        fetch_elem_ids sys fd w ?list (map Some (take (off + k) all) @ replicate (length all - (off + k)) None)"
      using less.prems u n False k(2) req write_ids_next [OF k(2)]
      by (subst fetch_elem_ids.simps) (simp add: word_less_nat_alt)
    show ?thesis
      unfolding step using less.hyps [of "off + k" ?list] k less.prems by simp
  qed
qed

text \<open>
  C25: when the set of elements does not change during the call, and the kernel answers requests for up to a thousand identifiers, the list of identifiers holds
  every element of the card in the order of the kernel, however many requests of a thousand it
  takes, appended to the list of the caller; in particular the loop ends.
\<close>

theorem elem_id_list_complete:
  assumes "lists_elems sys (card_fd self) all"
  shows "alsactl_card_get_elem_id_list sys w self entries = Some (w, Ret (entries @ all))"
proof -
  have n: "length all < 2 ^ 32" using assms by (simp add: lists_elems_def)
  obtain used where first: "CTL_IOCTL_ELEM_LIST sys w (card_fd self) \<lparr>el_offset = 0, el_space = 0, el_used = 0, el_count = 0\<rparr> =
      (w, SysOk (\<lparr>el_offset = 0, el_space = 0, el_used = used, el_count = of_nat (length all)\<rparr>, []))"
    using lists_elemsD [OF assms, of "\<lparr>el_offset = 0, el_space = 0, el_used = 0, el_count = 0\<rparr>" w] by auto
  let ?list = "\<lparr>el_offset = 0, el_space = 0, el_used = used, el_count = of_nat (length all) :: u32\<rparr>"
  have u: "unat (of_nat (length all) :: u32) = length all" using n by (simp add: unat_of_nat)
  show ?thesis
  proof (cases "all = []")
    case True
    with first show ?thesis
      by (simp add: alsactl_card_get_elem_id_list_def allocate_elem_ids_def copy_ids_def)
  next
    case False
    with u have "(of_nat (length all) :: u32) \<noteq> 0" by (metis length_0_conv unat_0)
    moreover obtain list' where "fetch_elem_ids sys (card_fd self) w ?list (replicate (length all) None) =
        Some (w, Ret (list', map Some all))" "el_count list' = of_nat (length all)"
      using fetch_elem_ids_complete [OF assms, of 0 ?list w] by auto
    ultimately show ?thesis using first u
      by (simp add: alsactl_card_get_elem_id_list_def allocate_elem_ids_def copy_ids_def comp_def)
  qed
qed

text \<open>
  C30: when elements are added between the requests, the identifiers of the new ones are written
  behind the array that was allocated for the old count: after a first count of \<open>c\<close> and a
  second request that fills the array and reports a greater count, a third request writes out of
  bounds.
\<close>

theorem elem_list_growth_overflows:
  assumes "CTL_IOCTL_ELEM_LIST sys w (card_fd self) \<lparr>el_offset = 0, el_space = 0, el_used = 0, el_count = 0\<rparr> =
      (w1, SysOk (list1, []))"
    and "el_count list1 = c" "0 < c" "c \<le> 1000"
    and "CTL_IOCTL_ELEM_LIST sys w1 (card_fd self) (list1\<lparr>el_offset := 0, el_space := c\<rparr>) = (w2, SysOk (list2, new1))"
    and "el_offset list2 = 0" "el_space list2 = c" "c < el_count list2" "length new1 = unat c"
    and "CTL_IOCTL_ELEM_LIST sys w2 (card_fd self)
      (list2\<lparr>el_offset := c, el_space := min (el_count list2 - c) 1000\<rparr>) = (w3, SysOk (list3, new2))"
    and "new2 \<noteq> []"
  shows "alsactl_card_get_elem_id_list sys w self entries = Some (w3, Undefined)"
proof -
  have "c \<noteq> 0" using assms(3) by auto
  have one: "write_ids 0 new1 (replicate (unat c) None) = Ret (map Some new1)"
    using assms(9) by (simp add: write_ids_def)
  have two: "write_ids (unat c) new2 (map Some new1) = Undefined"
    using assms(9,11) by (simp add: write_ids_def)
  have "fetch_elem_ids sys (card_fd self) w2 (list2\<lparr>el_offset := c\<rparr>) (map Some new1) = Some (w3, Undefined)"
    using assms(8,10) two by (subst fetch_elem_ids.simps) (simp add: min_def)
  then have "fetch_elem_ids sys (card_fd self) w1 (list1\<lparr>el_offset := 0\<rparr>) (replicate (unat c) None) = Some (w3, Undefined)"
    using assms(2-7) one by (subst fetch_elem_ids.simps) (simp add: min_def)
  then show ?thesis using assms(1,2) \<open>c \<noteq> 0\<close>
    by (simp add: alsactl_card_get_elem_id_list_def allocate_elem_ids_def)
qed

section \<open>Names of the items of an enumeration\<close>

text \<open>
  What a request for the information does for an enumeration with the items \<open>names\<close>: it writes
  the name of the item whose index is in the structure.
\<close>

definition names_items :: "'w ctl_sys \<Rightarrow> int \<Rightarrow> bytes list \<Rightarrow> bool" where
  "names_items sys fd names \<longleftrightarrow>
     (\<forall>w data. elem_info_wf data \<and> unat (info_get 4 4 data :: u32) < length names \<longrightarrow>
        (\<exists>data'. CTL_IOCTL_ELEM_INFO sys w fd data = (w, SysOk data') \<and> elem_info_wf data' \<and>
           0 \<in> set (get_at 8 64 (inf_value data')) \<and>
           cstr (get_at 8 64 (inf_value data')) = names ! unat (info_get 4 4 data :: u32)))"

lemma parse_enum_names_complete:
  assumes "names_items sys fd names" "length names < 2 ^ 32" "elem_info_wf data" "i + n = length names"
  shows "\<exists>data'. parse_enum_names sys fd i n w data labels = (w, Ret (data', labels @ drop i names))"
  using assms(3-)
proof (induction n arbitrary: i data labels)
  case (Suc n)
  have i: "unat (of_nat i :: u32) = i" using Suc.prems assms(2) by (simp add: unat_of_nat)
  let ?data = "info_put 4 4 (of_nat i :: u32) data"
  have item: "unat (info_get 4 4 ?data :: u32) = i" and "elem_info_wf ?data"
    using Suc.prems i by simp_all
  then have "elem_info_wf ?data \<and> unat (info_get 4 4 ?data :: u32) < length names"
    using Suc.prems by simp
  then obtain data' where "CTL_IOCTL_ELEM_INFO sys w fd ?data = (w, SysOk data')" "elem_info_wf data'"
      "0 \<in> set (get_at 8 64 (inf_value data'))"
      "cstr (get_at 8 64 (inf_value data')) = names ! unat (info_get 4 4 ?data :: u32)"
    using assms(1) unfolding names_items_def by blast
  then show ?case
    using Suc.IH [of data' "Suc i" "labels @ [names ! i]"] Suc.prems item
    by (auto simp: Cons_nth_drop_Suc [symmetric])
qed simp

text \<open>
  C28: the information of an enumerated element has the label of every item, in the order of the
  items, one request for each.
\<close>

theorem enum_info_labels:
  assumes "CTL_IOCTL_ELEM_INFO sys w (card_fd self) (zero_elem_info\<lparr>inf_id := elem_id\<rparr>) = (w, SysOk data)"
    and "elem_info_wf data" "inf_type data = SNDRV_CTL_ELEM_TYPE_ENUMERATED"
    and "unat (info_get 0 4 data :: u32) = length names" "names_items sys (card_fd self) names"
  shows "\<exists>data'. alsactl_card_get_elem_info sys w self elem_id =
    (w, Ret (InfoEnumerated \<lparr>ie_data = data', ie_labels = Some names\<rparr>))"
proof -
  have "length names < 2 ^ 32"
    using assms(4) unsigned_less [of "info_get 0 4 data :: u32", where ?'a = nat] by simp
  then obtain data' where "parse_enum_names sys (card_fd self) 0 (length names) w data [] = (w, Ret (data', names))"
    using parse_enum_names_complete [OF assms(5) _ assms(2), of 0 "length names" w "[]"] by auto
  then show ?thesis using assms by (simp add: alsactl_card_get_elem_info_def)
qed

text \<open>The names joined in memory: their length is the sum, and splitting them gives them back.\<close>

fun split_names :: "bytes \<Rightarrow> bytes \<Rightarrow> bytes list" where
  "split_names acc [] = []"
| "split_names acc (b # bs) = (if b = 0 then rev acc # split_names [] bs else split_names (b # acc) bs)"

lemma split_names_one: "0 \<notin> set l \<Longrightarrow> split_names acc (l @ 0 # rest) = (rev acc @ l) # split_names [] rest"
  by (induction l arbitrary: acc) auto

lemma split_enum_names: "\<forall>l\<in>set labels. 0 \<notin> set l \<Longrightarrow> split_names [] (enum_names labels) = labels"
  by (induction labels) (simp_all add: enum_names_def split_names_one)

lemma sum_lengths_ok:
  "\<forall>l\<in>set labels. length l < 64 \<Longrightarrow> sum_lengths labels len = Ret (len + of_nat (length (enum_names labels)))"
  by (induction labels arbitrary: len) (simp_all add: enum_names_def algebra_simps)

lemma sum_lengths_long: "\<exists>l\<in>set labels. 64 \<le> length l \<Longrightarrow> sum_lengths labels len = Critical"
  by (induction labels arbitrary: len) auto

lemma prepare_enum_names_ok:
  assumes "\<forall>l\<in>set labels. length l < 64" "length (enum_names labels) \<le> 65536"
    and "heap_new malloc h (enum_names labels) = Ret (h', p)"
  shows "prepare_enum_names malloc h info (Some labels) =
    Ret (h', info_put 0 4 (of_nat (length labels) :: u32)
      (info_put 80 4 (of_nat (length (enum_names labels)) :: u32) (info_put 72 8 p info)))"
proof -
  have u: "unat (of_nat (length (enum_names labels)) :: u32) = length (enum_names labels)"
    using assms(2) by (simp add: unat_of_nat)
  then have "\<not> (64 * 1024 :: u32) < of_nat (length (enum_names labels))"
    using assms(2) by (simp add: word_less_nat_alt)
  then show ?thesis using assms(3) u
    by (simp add: prepare_enum_names_def sum_lengths_ok [OF assms(1)])
qed

lemma check_enumerated: "check_elem_info (InfoEnumerated info) = Ret () \<Longrightarrow> inf_type (ie_data info) = 3"
  by (auto simp: check_elem_info_def Let_def split: if_splits)

text \<open>
  C27: adding a set of enumerated elements hands the kernel the labels in one block of memory, each
  one terminated, from which they can be split again, with their number and the length of the block;
  the block is released afterwards, and the identifiers returned count up from the first one the
  kernel assigned.
\<close>

theorem add_enumerated_elems:
  assumes "malloc_ok malloc" "check_elem_info (InfoEnumerated info) = Ret ()" "elem_info_wf (ie_data info)"
    and "ie_labels info = Some labels" "labels \<noteq> []" "\<forall>l\<in>set labels. 0 \<notin> set l \<and> length l < 64"
    and "length (enum_names labels) \<le> 65536" "malloc h (length (enum_names labels)) = Some p"
    and "0 < elem_count" "elem_count \<le> 0x80000000"
    and "\<And>data. inf_id data = elem_id \<Longrightarrow> inf_owner data = elem_count \<Longrightarrow>
      unat (info_get 0 4 data :: u32) = length (split_names [] (enum_names labels)) \<Longrightarrow> info_get 72 8 data = p \<Longrightarrow>
      unat (info_get 80 4 data :: u32) = length (enum_names labels) \<Longrightarrow>
      CTL_IOCTL_ELEM_ADD sys w (card_fd self) (h(p \<mapsto> enum_names labels)) data =
        (w', SysOk (data\<lparr>inf_id := elem_id\<lparr>id_numid := numid\<rparr>\<rparr>))"
  shows "split_names [] (enum_names labels) = labels \<and>
    (\<exists>info'. alsactl_card_add_elems sys malloc w h self elem_id elem_count (InfoEnumerated info) entries =
      (w', Ret (h, InfoEnumerated info'), Ret (entries @ consecutive_ids (elem_id\<lparr>id_numid := numid\<rparr>) (unat elem_count))))"
proof -
  let ?names = "enum_names labels"
  have split: "split_names [] ?names = labels" using assms(6) by (simp add: split_enum_names)
  have "?names \<noteq> []" using assms(5) by (cases labels) (simp_all add: enum_names_def)
  then have new: "heap_new malloc h ?names = Ret (h(p \<mapsto> ?names), p)" and p: "p \<noteq> 0" "h p = None"
    using assms(8) malloc_okD(1) [OF assms(1,8)] by (simp_all add: heap_new_def)
  have free: "g_free (h(p \<mapsto> ?names)) p = Ret h"
    using p by (simp add: g_free_def fun_upd_idem)
  have "length labels \<le> length ?names"
    by (induction labels) (simp_all add: enum_names_def)
  then have u: "unat (of_nat (length labels) :: u32) = length labels" "unat (of_nat (length ?names) :: u32) = length ?names"
    using assms(7) by (simp_all add: unat_of_nat)
  define data where "data = (info_put 0 4 (of_nat (length labels) :: u32)
      (info_put 80 4 (of_nat (length ?names) :: u32) (info_put 72 8 p (ie_data info))))\<lparr>inf_id := elem_id, inf_owner := elem_count\<rparr>"
  have get: "info_get 72 8 data = p" "unat (info_get 0 4 data :: u32) = length labels"
      "unat (info_get 80 4 data :: u32) = length ?names"
    using assms(3) u by (simp_all add: data_def)
  have req: "CTL_IOCTL_ELEM_ADD sys w (card_fd self) (h(p \<mapsto> ?names)) data =
      (w', SysOk (data\<lparr>inf_id := elem_id\<lparr>id_numid := numid\<rparr>\<rparr>))"
    using assms(11) [of data] get split by (simp add: data_def)
  have count: "\<not> 2 ^ 31 < unat elem_count" "elem_count \<noteq> 0"
    using assms(9,10) by (auto simp: word_le_nat_alt)
  have "prepare_enum_names malloc h (ie_data info) (Some labels) = Ret (h(p \<mapsto> ?names), info_put 0 4 (of_nat (length labels) :: u32)
      (info_put 80 4 (of_nat (length ?names) :: u32) (info_put 72 8 p (ie_data info))))"
    using prepare_enum_names_ok [OF _ assms(7) new] assms(6) by blast
  then show ?thesis
    using check_enumerated [OF assms(2)] assms(2,4) split count req free get(1)
    by (simp add: alsactl_card_add_elems_def add_or_replace_elems_def enum_labels_def Let_def data_def [symmetric])
qed

section \<open>Threshold level data is read back\<close>

lemma quadlets_get: "i < length xs \<Longrightarrow> get_at (4 * i) 4 (tlv_quadlets_enc xs) = le_enc 4 (xs ! i)"
proof (induction xs arbitrary: i)
  case (Cons x xs)
  then show ?case by (cases i) (simp_all add: tlv_quadlets_enc_def get_at_def)
qed simp

lemma length_tlv_quadlets_enc [simp]: "length (tlv_quadlets_enc xs) = 4 * length xs"
  by (induction xs) (simp_all add: tlv_quadlets_enc_def)

lemma tlv_quadlets_dec_enc: "get_array 4 0 (length xs) (tlv_quadlets_enc xs) = xs"
  by (auto intro!: nth_equalityI simp: get_array_def quadlets_get le_dec_enc)

lemma quadlets_append: "tlv_quadlets_enc (xs @ ys) = tlv_quadlets_enc xs @ tlv_quadlets_enc ys"
  by (simp add: tlv_quadlets_enc_def)

text \<open>
  Reading threshold level data gives the quadlets that the kernel wrote in place of the first
  ones of the caller, with their number; less than two quadlets of space are refused, and a kernel
  that reports more data than it was given space for makes the copy overrun.
\<close>

theorem read_elem_tlv_quadlets:
  assumes "2 \<le> length container"
    and "CTL_IOCTL_TLV_READ sys w (card_fd self)
      (tlv_packet elem_id (4 * length container) (replicate (4 * length container) 0)) = (w', SysOk packet)"
    and "tlv_data packet = tlv_quadlets_enc new @ pad" "unat (tlv_length packet) = 4 * length new"
  shows "alsactl_card_read_elem_tlv sys w self elem_id container =
    (w', if length new \<le> length container then Ret (new @ drop (length new) container, length new) else Undefined)"
proof -
  have "put_at 0 (tlv_quadlets_enc new) (tlv_quadlets_enc container) = tlv_quadlets_enc (new @ drop (length new) container)"
    if "length new \<le> length container"
    using quadlets_append [of "take (length new) container" "drop (length new) container"] that
    by (simp add: put_at_def quadlets_append)
  then show ?thesis
    using assms tlv_quadlets_dec_enc [of "new @ drop (length new) container"]
    by (auto simp: alsactl_card_read_elem_tlv_def tlv_copy_back_def Let_def)
qed

section \<open>Errors of requests for elements\<close>

text \<open>
  A table of the error numbers that mean something of their own to a request; a disconnected card and a missing element mean the
  same to all of them, and any other number is a failure of the system call.
\<close>

definition elem_failure :: "(errno \<times> ctl_card_error) list \<Rightarrow> errno \<Rightarrow> 'a outcome" where
  "elem_failure own e =
     Throw (GError ALSACTL_CARD_ERROR (ctl_card_error_code
       (case map_of ((ENODEV, ALSACTL_CARD_ERROR_DISCONNECTED) # (ENOENT, ALSACTL_CARD_ERROR_ELEM_NOT_FOUND) # own) e of
          Some code \<Rightarrow> code | None \<Rightarrow> ALSACTL_CARD_ERROR_FAILED)))"

text \<open>
  C29: how the nine requests for one element report a refusal of the kernel, each in any state of the kernel and for any error
  number. A disconnected card and a missing element have codes of their own for every request. Besides, a locked element is reported by the
  lock, a foreign lock by the unlock, an element in use by the removal, an access that the element lacks by reading and writing its value, and a foreign
  lock by writing and commanding threshold level data. Reading and writing leave the identifier in the value all the same.
\<close>

theorem element_errors:
  assumes "2 \<le> length container"
  shows "(\<forall>w w' e. CTL_IOCTL_ELEM_LOCK sys w (card_fd self) elem_id = (w', SysErr e) \<longrightarrow>
       alsactl_card_lock_elem sys w self elem_id True = (w', elem_failure [(EBUSY, ALSACTL_CARD_ERROR_ELEM_OWNED)] e)) \<and>
     (\<forall>w w' e. CTL_IOCTL_ELEM_UNLOCK sys w (card_fd self) elem_id = (w', SysErr e) \<longrightarrow>
       alsactl_card_lock_elem sys w self elem_id False = (w', elem_failure [(EPERM, ALSACTL_CARD_ERROR_ELEM_OWNED)] e)) \<and>
     (\<forall>w w' e. CTL_IOCTL_ELEM_REMOVE sys w (card_fd self) elem_id = (w', SysErr e) \<longrightarrow>
       alsactl_card_remove_elems sys w self elem_id = (w', elem_failure [(EBUSY, ALSACTL_CARD_ERROR_ELEM_OWNED)] e)) \<and>
     (\<forall>w w' e. CTL_IOCTL_ELEM_READ sys w (card_fd self) ((evl_value value)\<lparr>vl_id := elem_id\<rparr>) = (w', SysErr e) \<longrightarrow>
       alsactl_card_read_elem_value sys w self elem_id value = (w', value\<lparr>evl_value := (evl_value value)\<lparr>vl_id := elem_id\<rparr>\<rparr>, elem_failure [(EPERM, ALSACTL_CARD_ERROR_ELEM_NOT_SUPPORTED)] e)) \<and>
     (\<forall>w w' e. CTL_IOCTL_ELEM_WRITE sys w (card_fd self) ((evl_value value)\<lparr>vl_id := elem_id\<rparr>) = (w', SysErr e) \<longrightarrow>
       alsactl_card_write_elem_value sys w self elem_id value = (w', value\<lparr>evl_value := (evl_value value)\<lparr>vl_id := elem_id\<rparr>\<rparr>, elem_failure [(EPERM, ALSACTL_CARD_ERROR_ELEM_NOT_SUPPORTED)] e)) \<and>
     (\<forall>w w' e. CTL_IOCTL_ELEM_INFO sys w (card_fd self) (zero_elem_info\<lparr>inf_id := elem_id\<rparr>) = (w', SysErr e) \<longrightarrow>
       alsactl_card_get_elem_info sys w self elem_id = (w', elem_failure [] e)) \<and>
     (\<forall>w w' e. CTL_IOCTL_TLV_WRITE sys w (card_fd self) (tlv_packet elem_id (4 * length container) (tlv_quadlets_enc container)) = (w', SysErr e) \<longrightarrow>
       alsactl_card_write_elem_tlv sys w self elem_id container = (w', elem_failure [(EPERM, ALSACTL_CARD_ERROR_ELEM_OWNED)] e)) \<and>
     (\<forall>w w' e. CTL_IOCTL_TLV_READ sys w (card_fd self) (tlv_packet elem_id (4 * length container) (replicate (4 * length container) 0)) = (w', SysErr e) \<longrightarrow>
       alsactl_card_read_elem_tlv sys w self elem_id container = (w', elem_failure [] e)) \<and>
     (\<forall>w w' e. CTL_IOCTL_TLV_COMMAND sys w (card_fd self) (tlv_packet elem_id (4 * length container) (tlv_quadlets_enc container)) = (w', SysErr e) \<longrightarrow>
       alsactl_card_command_elem_tlv sys w self elem_id container = (w', elem_failure [(EPERM, ALSACTL_CARD_ERROR_ELEM_OWNED)] e))"
  using assms
  by (intro conjI allI impI)
    (simp_all add: elem_failure_def alsactl_card_lock_elem_def alsactl_card_remove_elems_def alsactl_card_read_elem_value_def
      alsactl_card_write_elem_value_def alsactl_card_get_elem_info_def alsactl_card_write_elem_tlv_def alsactl_card_read_elem_tlv_def
      alsactl_card_command_elem_tlv_def value_error_def card_error_defs Let_def)

section \<open>A small card\<close>

text \<open>A kernel that refuses every request, for the examples to build on.\<close>

definition refusing_ctl :: "'w ctl_sys" where
  "refusing_ctl = \<lparr>sys_open = (\<lambda>w d f. (w, SysOk 7)), sys_close = (\<lambda>w fd. w), sys_read = (\<lambda>w fd n. (w, SysErr EAGAIN)),
     sys_write = (\<lambda>w fd bs. (w, SysErr EBADFD)), file_error = (\<lambda>e. if e = EACCES then 2 else G_FILE_ERROR_FAILED),
     ctl_libc = plain_libc, ctl_udev = one_card, ctl_udev_again = one_card,
     CTL_IOCTL_PVERSION = (\<lambda>w fd d. (w, SysErr ENODEV)), CTL_IOCTL_CARD_INFO = (\<lambda>w fd d. (w, SysErr ENODEV)),
     CTL_IOCTL_ELEM_LIST = (\<lambda>w fd d. (w, SysErr ENODEV)), CTL_IOCTL_ELEM_INFO = (\<lambda>w fd d. (w, SysErr ENODEV)),
     CTL_IOCTL_ELEM_READ = (\<lambda>w fd d. (w, SysErr EPERM)), CTL_IOCTL_ELEM_WRITE = (\<lambda>w fd d. (w, SysErr EPERM)),
     CTL_IOCTL_ELEM_LOCK = (\<lambda>w fd d. (w, SysErr EBUSY)), CTL_IOCTL_ELEM_UNLOCK = (\<lambda>w fd d. (w, SysErr EPERM)),
     CTL_IOCTL_SUBSCRIBE_EVENTS = (\<lambda>w fd d. (w, SysErr ENODEV)),
     CTL_IOCTL_ELEM_ADD = (\<lambda>w fd h d. (w, SysErr EBUSY)), CTL_IOCTL_ELEM_REPLACE = (\<lambda>w fd h d. (w, SysErr EBUSY)),
     CTL_IOCTL_ELEM_REMOVE = (\<lambda>w fd d. (w, SysErr ENOENT)), CTL_IOCTL_TLV_READ = (\<lambda>w fd d. (w, SysErr ENOENT)),
     CTL_IOCTL_TLV_WRITE = (\<lambda>w fd d. (w, SysErr ENOENT)), CTL_IOCTL_TLV_COMMAND = (\<lambda>w fd d. (w, SysErr ENOENT))\<rparr>"

definition small_elems :: "snd_ctl_elem_id list" where
  "small_elems = map alsactl_elem_id_new_by_numid [1, 2, 3]"

definition small_ctl :: "unit ctl_sys" where
  "small_ctl = refusing_ctl\<lparr>CTL_IOCTL_ELEM_LIST := (\<lambda>w fd list. (w, SysOk (list\<lparr>el_used := 0, el_count := 3\<rparr>,
     take (unat (el_space list)) (drop (unat (el_offset list)) small_elems))))\<rparr>"

lemma small_ctl_elems: "lists_elems small_ctl fd small_elems"
  by (auto simp: lists_elems_def small_ctl_def small_elems_def)

theorem elem_id_list_complete_witness:
  "alsactl_card_get_elem_id_list small_ctl () alsactl_card_init [zero_elem_id] = Some ((), Ret (zero_elem_id # small_elems))"
  using elem_id_list_complete [of small_ctl alsactl_card_init small_elems "()" "[zero_elem_id]"] small_ctl_elems by simp

text \<open>A kernel in which an element is added before every request.\<close>

definition growing_ctl :: "nat ctl_sys" where
  "growing_ctl = refusing_ctl\<lparr>CTL_IOCTL_ELEM_LIST := (\<lambda>n fd list. (Suc n, SysOk (list\<lparr>el_used := 0, el_count := of_nat (Suc n)\<rparr>,
     replicate (unat (el_space list)) zero_elem_id)))\<rparr>"

theorem elem_list_growth_overflows_witness:
  "alsactl_card_get_elem_id_list growing_ctl 0 alsactl_card_init [] = Some (3, Undefined)"
  using elem_list_growth_overflows [of growing_ctl 0 alsactl_card_init 1
      "\<lparr>el_offset = 0, el_space = 0, el_used = 0, el_count = 1\<rparr>" 1 2
      "\<lparr>el_offset = 0, el_space = 1, el_used = 0, el_count = 2\<rparr>" "[zero_elem_id]" 3
      "\<lparr>el_offset = 1, el_space = 1, el_used = 0, el_count = 3\<rparr>" "[zero_elem_id]" "[]"]
  by (simp add: growing_ctl_def alsactl_card_init_def)

text \<open>A card whose element is locked by another process and cannot be read.\<close>

theorem element_errors_witness:
  "alsactl_card_lock_elem small_ctl () alsactl_card_init zero_elem_id True = ((), Throw (GError ALSACTL_CARD_ERROR 4)) \<and>
   alsactl_card_remove_elems small_ctl () alsactl_card_init zero_elem_id = ((), Throw (GError ALSACTL_CARD_ERROR 2)) \<and>
   snd (snd (alsactl_card_read_elem_value small_ctl () alsactl_card_init zero_elem_id alsactl_elem_value_new)) =
     Throw (GError ALSACTL_CARD_ERROR 3)"
  using element_errors [of "[0, 0]" small_ctl alsactl_card_init zero_elem_id alsactl_elem_value_new]
  by (simp add: elem_failure_def) (simp add: small_ctl_def refusing_ctl_def)

theorem read_elem_tlv_quadlets_witness:
  "alsactl_card_read_elem_tlv (small_ctl\<lparr>CTL_IOCTL_TLV_READ := (\<lambda>w fd p. (w, SysOk (p\<lparr>tlv_length := 8, tlv_data := tlv_quadlets_enc [5, 6] @ [0, 0, 0, 0]\<rparr>)))\<rparr>)
     () alsactl_card_init zero_elem_id [1, 2, 3] = ((), Ret ([5, 6, 3], 2))"
  using read_elem_tlv_quadlets [of "[1, 2, 3]" "small_ctl\<lparr>CTL_IOCTL_TLV_READ :=
      (\<lambda>w fd p. (w, SysOk (p\<lparr>tlv_length := 8, tlv_data := tlv_quadlets_enc [5, 6] @ [0, 0, 0, 0]\<rparr>)))\<rparr>" "()" alsactl_card_init zero_elem_id "()"
      "\<lparr>tlv_numid = 0, tlv_length = 8, tlv_data = tlv_quadlets_enc [5, 6] @ [0, 0, 0, 0]\<rparr>" "[5, 6]" "[0, 0, 0, 0]"]
  by (simp add: tlv_packet_def zero_elem_id_def)

text \<open>A card with one enumeration of two items.\<close>

definition switch_names :: "bytes list" where
  "switch_names = [[79, 102, 102], [79, 110]]"

definition switch_info :: snd_ctl_elem_info where
  "switch_info = info_put 0 4 (2 :: u32) (zero_elem_info\<lparr>inf_type := 3, inf_access := 3, inf_count := 1\<rparr>)"

definition switch_ctl :: "unit ctl_sys" where
  "switch_ctl = refusing_ctl\<lparr>
     CTL_IOCTL_ELEM_INFO := (\<lambda>w fd data.
       (w, SysOk (switch_info\<lparr>inf_value := put_at 8 (switch_names ! unat (info_get 4 4 data :: u32) @ [0]) (inf_value switch_info)\<rparr>))),
     CTL_IOCTL_ELEM_ADD := (\<lambda>w fd h data. (w, SysOk (data\<lparr>inf_id := zero_elem_id\<lparr>id_numid := 9\<rparr>\<rparr>)))\<rparr>"

lemma switch_item_wf: "elem_info_wf (switch_info\<lparr>inf_value := put_at 8 (switch_names ! k @ [0]) (inf_value switch_info)\<rparr>)" if "k < 2"
  using less_2_cases [OF that]
  by (auto simp: switch_info_def elem_info_wf_def info_put_def zero_elem_info_def switch_names_def put_at_def)

lemma switch_items: "names_items switch_ctl fd switch_names"
proof -
  have name: "0 \<in> set (get_at 8 64 (put_at 8 (switch_names ! k @ [0]) (inf_value switch_info)))"
    "cstr (get_at 8 64 (put_at 8 (switch_names ! k @ [0]) (inf_value switch_info))) = switch_names ! k" if "k < 2" for k
    using less_2_cases [OF that]
    by (auto simp: switch_info_def info_put_def zero_elem_info_def switch_names_def get_at_def put_at_def cstr_def)
  have "length switch_names = 2" by (simp add: switch_names_def)
  with name switch_item_wf show ?thesis by (simp add: names_items_def switch_ctl_def)
qed

theorem enum_info_labels_witness:
  "\<exists>data'. alsactl_card_get_elem_info switch_ctl () alsactl_card_init zero_elem_id =
     ((), Ret (InfoEnumerated \<lparr>ie_data = data', ie_labels = Some [[79, 102, 102], [79, 110]]\<rparr>))"
proof -
  let ?data = "switch_info\<lparr>inf_value := put_at 8 ([79, 102, 102] @ [0]) (inf_value switch_info)\<rparr>"
  have "CTL_IOCTL_ELEM_INFO switch_ctl () (card_fd alsactl_card_init) (zero_elem_info\<lparr>inf_id := zero_elem_id\<rparr>) = ((), SysOk ?data)"
    by (simp add: switch_ctl_def switch_names_def zero_elem_info_def info_get_def get_at_def)
  moreover have "elem_info_wf ?data" "inf_type ?data = 3" "unat (info_get 0 4 ?data :: u32) = length switch_names"
    by (simp_all add: switch_info_def elem_info_wf_def info_put_def zero_elem_info_def info_get_def get_at_def put_at_def
        switch_names_def le_enc_def upt_rec)
  ultimately show ?thesis
    using enum_info_labels [of switch_ctl "()" alsactl_card_init zero_elem_id ?data switch_names] switch_items
    by (simp add: switch_names_def)
qed

theorem add_enumerated_elems_witness:
  "\<exists>info'. alsactl_card_add_elems switch_ctl bump_malloc () Map.empty alsactl_card_init zero_elem_id 2
      (InfoEnumerated \<lparr>ie_data = switch_info, ie_labels = Some switch_names\<rparr>) [] =
     ((), Ret (Map.empty, InfoEnumerated info'), Ret [zero_elem_id\<lparr>id_numid := 9\<rparr>, zero_elem_id\<lparr>id_numid := 10, id_index := 1\<rparr>])"
proof -
  let ?info = "\<lparr>ie_data = switch_info, ie_labels = Some switch_names\<rparr>"
  have "check_elem_info (InfoEnumerated ?info) = Ret ()" "elem_info_wf (ie_data ?info)"
    by (simp_all add: check_elem_info_def switch_info_def)
  moreover have "length (enum_names switch_names) = 7" "\<forall>l\<in>set switch_names. 0 \<notin> set l \<and> length l < 64" "switch_names \<noteq> []"
    by (simp_all add: enum_names_def switch_names_def)
  ultimately have "split_names [] (enum_names switch_names) = switch_names \<and>
    (\<exists>info'. alsactl_card_add_elems switch_ctl bump_malloc () Map.empty alsactl_card_init zero_elem_id 2 (InfoEnumerated ?info) [] =
      ((), Ret (Map.empty, InfoEnumerated info'), Ret ([] @ consecutive_ids (zero_elem_id\<lparr>id_numid := 9\<rparr>) (unat (2 :: u32)))))"
    by (intro add_enumerated_elems [OF malloc_ok_bump, where p = 1024]) (simp_all add: bump_malloc_def switch_ctl_def)
  then show ?thesis
    by (simp add: consecutive_ids_def zero_elem_id_def numeral_2_eq_2 [symmetric] upt_rec)
qed

end
