(* ===== verification/Ctl_Source.thy ===== *)
theory Ctl_Source
  imports Ctl_Card Event_Loop
begin

text \<open>
  Events of a sound card: the source of \<open>ctl/card.c\<close> that reads them from the descriptor and emits
  the signals of the card, and the subscription that the sources of a card share. The sources of a
  card are a state machine: they are created and finalised in any order, each one holds a reference
  to the card, and the number of live sources says what the subscription has to be.
\<close>

section \<open>Events\<close>

text \<open>
  An event has 72 bytes: its type, the mask and the identifier of the element. The mask for a
  removal is translated to a flag of the library.
\<close>

datatype ctl_signal = HandleElemEvent snd_ctl_elem_id u32 | HandleDisconnection

abbreviation (input) ctl_event_size :: nat where "ctl_event_size \<equiv> 72"
abbreviation (input) SNDRV_CTL_EVENT_ELEM :: u32 where "SNDRV_CTL_EVENT_ELEM \<equiv> 0"
abbreviation (input) SNDRV_CTL_EVENT_MASK_REMOVE :: u32 where "SNDRV_CTL_EVENT_MASK_REMOVE \<equiv> 0xffffffff"

definition handle_elem_event :: "bytes \<Rightarrow> ctl_signal" where
  "handle_elem_event ev =
     (let msk = le_dec (get_at 4 4 ev)
      in HandleElemEvent (elem_id_dec (get_at 8 64 ev))
           (if msk \<noteq> SNDRV_CTL_EVENT_MASK_REMOVE then msk else ctl_elem_event_mask_value ALSACTL_ELEM_EVENT_MASK_REMOVE))"

definition ctl_card_check_src :: "u32 \<Rightarrow> bool" where
  "ctl_card_check_src condition \<longleftrightarrow> condition AND (G_IO_IN OR G_IO_ERR) \<noteq> 0"

function emit_events :: "nat \<Rightarrow> bytes \<Rightarrow> ctl_signal list" where
  "emit_events len ev =
     (if ctl_event_size \<le> len
      then (if le_dec (get_at 0 4 ev) = SNDRV_CTL_EVENT_ELEM then [handle_elem_event ev] else []) @
           emit_events (len - ctl_event_size) (drop ctl_event_size ev)
      else [])"
  by pat_completeness auto
termination by (relation "measure fst") simp_all

declare emit_events.simps [simp del]

definition ctl_card_dispatch_src ::
  "'w ctl_sys \<Rightarrow> 'w \<Rightarrow> ctl_card \<Rightarrow> bytes \<Rightarrow> u32 \<Rightarrow> 'w \<times> bytes \<times> source_result \<times> ctl_signal list" where
  "ctl_card_dispatch_src sys w self buf condition =
     (if card_fd self < 0 then (w, buf, G_SOURCE_REMOVE, [])
      else if condition AND G_IO_ERR \<noteq> 0 then (w, buf, G_SOURCE_REMOVE, [HandleDisconnection])
      else (case sys_read sys w (card_fd self) (length buf) of
              (w', SysErr e) \<Rightarrow> (w', buf, if e = EAGAIN then G_SOURCE_CONTINUE else G_SOURCE_REMOVE, [])
            | (w', SysOk bs) \<Rightarrow>
                let buf' = put_at 0 bs buf
                in (w', buf', G_SOURCE_CONTINUE, emit_events (length bs) buf')))"

section \<open>Sources\<close>

text \<open>
  A source holds a reference to the card and counts as a subscriber. The first request of a
  source subscribes the descriptor to events; the last source that goes away unsubscribes it.
\<close>

definition ctl_card_finalize_src :: "'w ctl_sys \<Rightarrow> 'w \<Rightarrow> ctl_card \<Rightarrow> 'w \<times> ctl_card" where
  "ctl_card_finalize_src sys w self =
     (let self1 = self\<lparr>card_subscribers := card_subscribers self - 1\<rparr>;
          w1 = (if card_subscribers self1 = 0
                then fst (CTL_IOCTL_SUBSCRIBE_EVENTS sys w (card_fd self1) 0) else w)
      in card_unref sys w1 self1)"

definition alsactl_card_create_source ::
  "'w ctl_sys \<Rightarrow> nat \<Rightarrow> 'w \<Rightarrow> ctl_card \<Rightarrow> 'w \<times> ctl_card \<times> bytes outcome" where
  "alsactl_card_create_source sys page_size w self =
     (if card_fd self < 0 then (w, self, Critical)
      else let self1 = self\<lparr>card_refs := card_refs self + 1, card_subscribers := card_subscribers self + 1\<rparr>
           in case CTL_IOCTL_SUBSCRIBE_EVENTS sys w (card_fd self1) 1 of
                (w', SysErr e) \<Rightarrow>
                  (case ctl_card_finalize_src sys w' self1 of (w'', self2) \<Rightarrow> (w'', self2, ioctl_error e))
              | (w', SysOk _) \<Rightarrow> (w', self1, Ret (replicate page_size 0)))"

section \<open>Events are delivered in order\<close>

definition ctl_event_enc :: "u32 \<times> u32 \<times> snd_ctl_elem_id \<Rightarrow> bytes" where
  "ctl_event_enc ev = (case ev of (type, msk, elem_id) \<Rightarrow> le_enc 4 type @ le_enc 4 msk @ elem_id_enc elem_id)"

definition ctl_event_signals :: "u32 \<times> u32 \<times> snd_ctl_elem_id \<Rightarrow> ctl_signal list" where
  "ctl_event_signals ev = (case ev of (type, msk, elem_id) \<Rightarrow>
     if type = 0 then [HandleElemEvent elem_id (if msk = 0xffffffff then 16 else msk)] else [])"

definition handle_ctl_event :: "bytes \<Rightarrow> ctl_signal list" where
  "handle_ctl_event ev = (if le_dec (get_at 0 4 ev) = SNDRV_CTL_EVENT_ELEM then [handle_elem_event ev] else [])"

interpretation ctl_events: record_walk emit_events handle_ctl_event 72
proof (unfold_locales, goal_cases)
  case (2 len buf)
  then show ?case
    by (simp add: emit_events.simps [of len] handle_ctl_event_def handle_elem_event_def get_at_take)
qed (simp_all add: emit_events.simps)

lemma handle_ctl_event_enc:
  "elem_id_wf elem_id \<Longrightarrow> handle_ctl_event (ctl_event_enc (type, msk, elem_id)) = ctl_event_signals (type, msk, elem_id)"
  using elem_id_dec_enc [of elem_id "[]"]
  by (simp add: handle_ctl_event_def ctl_event_enc_def ctl_event_signals_def handle_elem_event_def
      get_at_def codec_simps Let_def)

text \<open>
  When the descriptor yields a sequence of events, possibly followed by an incomplete one, the
  dispatch of the source emits one signal for each element event, in the order of the events, with
  the identifier of the element and the mask; the mask for a removal, all bits set, becomes the flag
  of the library. Other events are skipped and the source stays active.
\<close>

lemma ctl_dispatch_batch:
  assumes "0 \<le> card_fd self" "condition AND G_IO_ERR = 0"
    and "sys_read sys w (card_fd self) (length buf) = (w', SysOk (concat (map ctl_event_enc evs) @ part))"
    and "\<forall>(type, msk, elem_id)\<in>set evs. elem_id_wf elem_id" "length part < 72"
  shows "ctl_card_dispatch_src sys w self buf condition =
    (w', put_at 0 (concat (map ctl_event_enc evs) @ part) buf, G_SOURCE_CONTINUE, concat (map ctl_event_signals evs))"
proof -
  let ?rs = "map ctl_event_enc evs"
  have size: "\<forall>r\<in>set ?rs. length r = 72"
    using assms(4) by (auto simp: ctl_event_enc_def)
  then have "length (concat ?rs) = 72 * length ?rs" by (induction evs) auto
  moreover have "emit_events (72 * length ?rs + length part) (concat ?rs @ part @ rest) = concat (map handle_ctl_event ?rs)" for rest
    using ctl_events.emit_records [OF size assms(5), of "part @ rest"] .
  moreover have "map handle_ctl_event ?rs = map ctl_event_signals evs"
    using assms(4) by (auto simp: handle_ctl_event_enc)
  ultimately show ?thesis using assms(1-3)
    by (simp add: ctl_card_dispatch_src_def put_at_def Let_def comp_def cong: map_cong)
qed

definition ctl_batch_wf :: "(u32 \<times> u32 \<times> snd_ctl_elem_id) list \<Rightarrow> bool" where
  "ctl_batch_wf evs \<longleftrightarrow> (\<forall>(type, msk, elem_id)\<in>set evs. elem_id_wf elem_id)"

interpretation ctl_source: polled_source
  "delivers sys (card_fd self) buf_len pending (\<lambda>evs. concat (map ctl_event_enc evs)) ctl_batch_wf"
  buf_len pending ctl_card_check_src "\<lambda>w. ctl_card_dispatch_src sys w self"
  "\<lambda>signals evs. signals = concat (map ctl_event_signals evs)" "[HandleDisconnection]"
  for sys self buf_len pending
proof (unfold_locales, goal_cases)
  case (1 c)
  show ?case unfolding ctl_card_check_src_def is_ready_def by (rule ready_or_error)
next
  case (2 buf c w evs rest)
  obtain w' where w': "sys_read sys w (card_fd self) (length buf) = (w', SysOk (concat (map ctl_event_enc evs)))"
      "pending w' = rest" "ctl_batch_wf evs" "length (concat (map ctl_event_enc evs)) \<le> length buf"
    using delivers_next [OF 2(1,4)] 2(2) by auto
  moreover have "0 \<le> card_fd self" using 2(1) by (simp add: delivers_def)
  ultimately show ?case
    using ctl_dispatch_batch [of self c sys w buf w' evs "[]"] 2(2,3) by (simp add: ctl_batch_wf_def length_put_at)
next
  case (3 buf c w)
  then show ?case
    using delivers_none [OF 3(1,4)] by (auto simp: ctl_card_dispatch_src_def delivers_def)
next
  case (4 c w buf)
  then show ?case by (simp add: ctl_card_dispatch_src_def delivers_def)
qed

section \<open>The subscription of a card\<close>

text \<open>
  The state around a card: how many of its sources are alive and how many references the
  application holds. A step creates a source, fails to, finalises one, or takes or drops a reference.
\<close>

record 'w card_state =
  cs_world :: 'w
  cs_card :: ctl_card
  cs_sources :: nat
  cs_holds :: nat

datatype source_op = CreateSource | CreateSourceFails | FinalizeSource | HoldCard | ReleaseCard

inductive card_step :: "'w ctl_sys \<Rightarrow> nat \<Rightarrow> source_op \<Rightarrow> 'w card_state \<Rightarrow> 'w card_state \<Rightarrow> bool" for sys page_size where
  create: "0 < card_refs (cs_card s) \<Longrightarrow>
    alsactl_card_create_source sys page_size (cs_world s) (cs_card s) = (w', card', Ret buf) \<Longrightarrow>
    card_step sys page_size CreateSource s (s\<lparr>cs_world := w', cs_card := card', cs_sources := Suc (cs_sources s)\<rparr>)"
| create_fails: "0 < card_refs (cs_card s) \<Longrightarrow>
    alsactl_card_create_source sys page_size (cs_world s) (cs_card s) = (w', card', Throw e) \<Longrightarrow>
    card_step sys page_size CreateSourceFails s (s\<lparr>cs_world := w', cs_card := card'\<rparr>)"
| finalize: "cs_sources s = Suc n \<Longrightarrow>
    ctl_card_finalize_src sys (cs_world s) (cs_card s) = (w', card') \<Longrightarrow>
    card_step sys page_size FinalizeSource s (s\<lparr>cs_world := w', cs_card := card', cs_sources := n\<rparr>)"
| hold: "0 < card_refs (cs_card s) \<Longrightarrow>
    card_step sys page_size HoldCard s
      (s\<lparr>cs_card := (cs_card s)\<lparr>card_refs := card_refs (cs_card s) + 1\<rparr>, cs_holds := Suc (cs_holds s)\<rparr>)"
| release: "cs_holds s = Suc n \<Longrightarrow> card_unref sys (cs_world s) (cs_card s) = (w', card') \<Longrightarrow>
    card_step sys page_size ReleaseCard s (s\<lparr>cs_world := w', cs_card := card', cs_holds := n\<rparr>)"

definition opened_card :: "int \<Rightarrow> ('w \<Rightarrow> bool) \<Rightarrow> 'w card_state \<Rightarrow> bool" where
  "opened_card fd subscribed s \<longleftrightarrow> 0 \<le> fd \<and> card_fd (cs_card s) = fd \<and> card_subscribers (cs_card s) = 0 \<and>
     card_refs (cs_card s) = 1 \<and> cs_sources s = 0 \<and> cs_holds s = 1 \<and> \<not> subscribed (cs_world s)"

inductive card_reachable ::
  "'w ctl_sys \<Rightarrow> nat \<Rightarrow> int \<Rightarrow> ('w \<Rightarrow> bool) \<Rightarrow> 'w card_state \<Rightarrow> bool" for sys page_size fd subscribed where
  start: "opened_card fd subscribed s \<Longrightarrow> card_reachable sys page_size fd subscribed s"
| step: "card_reachable sys page_size fd subscribed s \<Longrightarrow> card_step sys page_size op s t \<Longrightarrow>
    card_reachable sys page_size fd subscribed t"

text \<open>
  \<open>subscribed\<close> reads the flag of the descriptor in the kernel: the request with one sets it when it
  succeeds and leaves it when it fails, the request with zero clears it.
\<close>

definition keeps_subscription :: "'w ctl_sys \<Rightarrow> int \<Rightarrow> ('w \<Rightarrow> bool) \<Rightarrow> bool" where
  "keeps_subscription sys fd subscribed \<longleftrightarrow>
     (\<forall>w. (case CTL_IOCTL_SUBSCRIBE_EVENTS sys w fd 1 of
             (w', SysOk _) \<Rightarrow> subscribed w' | (w', SysErr _) \<Rightarrow> subscribed w' = subscribed w) \<and>
          \<not> subscribed (fst (CTL_IOCTL_SUBSCRIBE_EVENTS sys w fd 0)))"

definition card_inv :: "int \<Rightarrow> ('w \<Rightarrow> bool) \<Rightarrow> 'w card_state \<Rightarrow> bool" where
  "card_inv fd subscribed s \<longleftrightarrow> 0 \<le> fd \<and> card_fd (cs_card s) = fd \<and>
     card_subscribers (cs_card s) = int (cs_sources s) \<and>
     card_refs (cs_card s) = cs_holds s + cs_sources s \<and>
     (0 < card_refs (cs_card s) \<longrightarrow> (subscribed (cs_world s) \<longleftrightarrow> 0 < cs_sources s))"

lemma card_step_inv:
  assumes "keeps_subscription sys fd subscribed" "card_step sys page_size op s t" "card_inv fd subscribed s"
  shows "card_inv fd subscribed t"
proof -
  have on: "subscribed w'" if "CTL_IOCTL_SUBSCRIBE_EVENTS sys w fd 1 = (w', SysOk d)" for w w' d
    using assms(1) that unfolding keeps_subscription_def by (metis (mono_tags, lifting) case_prod_conv sysret.simps(5))
  have err: "subscribed w' = subscribed w" if "CTL_IOCTL_SUBSCRIBE_EVENTS sys w fd 1 = (w', SysErr e)" for w w' e
    using assms(1) that unfolding keeps_subscription_def by (metis (mono_tags, lifting) case_prod_conv sysret.simps(6))
  have off: "\<forall>w. \<not> subscribed (fst (CTL_IOCTL_SUBSCRIBE_EVENTS sys w fd 0))"
    using assms(1) by (simp add: keeps_subscription_def)
  from assms(2,3) off show ?thesis
    by cases (auto simp: card_inv_def alsactl_card_create_source_def ctl_card_finalize_src_def card_unref_def
        Let_def on err ioctl_error_def card_error_defs dest: on err split: prod.splits sysret.splits if_splits)
qed

lemma card_reachable_inv:
  assumes "keeps_subscription sys fd subscribed" "card_reachable sys page_size fd subscribed s"
  shows "card_inv fd subscribed s"
  using assms(2)
proof induction
  case (start s)
  then show ?case by (auto simp: opened_card_def card_inv_def)
next
  case (step s t)
  then show ?case using card_step_inv [OF assms(1)] by blast
qed

text \<open>
  C24: however sources of a card are created and finalised, the counter of subscribers is the number
  of live sources, so that the property for the subscription is right; as long as the card lives, the
  descriptor is subscribed to events exactly while there is a source; and the card outlives every
  one of its sources.
\<close>

theorem subscription_invariant:
  assumes "keeps_subscription sys fd subscribed" "card_reachable sys page_size fd subscribed s"
  shows "card_subscribers (cs_card s) = int (cs_sources s) \<and>
    ctl_card_get_property (cs_card s) CTL_CARD_PROP_SUBSCRIBED (VBool b) = VBool (0 < cs_sources s) \<and>
    (0 < card_refs (cs_card s) \<longrightarrow> (subscribed (cs_world s) \<longleftrightarrow> 0 < cs_sources s)) \<and>
    (card_refs (cs_card s) = 0 \<longrightarrow> cs_sources s = 0)"
  using card_reachable_inv [OF assms] by (simp add: card_inv_def)

section \<open>A card with events\<close>

text \<open>The world is the flag of the subscription; reading yields a change of a value and a removal.\<close>

definition event_ctl :: "bool ctl_sys" where
  "event_ctl = refusing_ctl\<lparr>
     CTL_IOCTL_SUBSCRIBE_EVENTS := (\<lambda>w fd d. (d = 1, SysOk d)),
     sys_read := (\<lambda>w fd n. (w, SysOk (concat (map ctl_event_enc
       [(0, 1, zero_elem_id\<lparr>id_numid := 4\<rparr>), (5, 0, zero_elem_id), (0, 0xffffffff, zero_elem_id\<lparr>id_numid := 5\<rparr>)]) @ [1, 2])))\<rparr>"

lemma event_ctl_subscription: "keeps_subscription event_ctl 7 (\<lambda>w. w)"
  by (simp add: keeps_subscription_def event_ctl_def)

definition event_start :: "bool card_state" where
  "event_start = \<lparr>cs_world = False, cs_card = alsactl_card_init\<lparr>card_fd := 7\<rparr>, cs_sources = 0, cs_holds = 1\<rparr>"

definition event_one :: "bool card_state" where
  "event_one = \<lparr>cs_world = True, cs_card = alsactl_card_init\<lparr>card_fd := 7, card_refs := 2, card_subscribers := 1\<rparr>,
     cs_sources = 1, cs_holds = 1\<rparr>"

lemma event_run:
  "card_reachable event_ctl 4096 7 (\<lambda>w. w) event_start" "card_step event_ctl 4096 CreateSource event_start event_one"
proof -
  show "card_reachable event_ctl 4096 7 (\<lambda>w. w) event_start"
    by (rule card_reachable.start) (simp add: opened_card_def event_start_def alsactl_card_init_def)
  have one: "event_one = event_start\<lparr>cs_world := True,
      cs_card := alsactl_card_init\<lparr>card_fd := 7, card_refs := 2, card_subscribers := 1\<rparr>, cs_sources := Suc (cs_sources event_start)\<rparr>"
    by (simp add: event_one_def event_start_def)
  show "card_step event_ctl 4096 CreateSource event_start event_one"
    unfolding one
    by (rule card_step.create [where buf = "replicate 4096 0"])
      (simp_all add: event_start_def alsactl_card_init_def alsactl_card_create_source_def event_ctl_def)
qed

theorem subscription_invariant_witness:
  "ctl_card_get_property (cs_card event_one) CTL_CARD_PROP_SUBSCRIBED (VBool False) = (VBool True :: ctl_boxed gvalue)"
  using subscription_invariant [OF event_ctl_subscription card_reachable.step [OF event_run], of False]
  by (simp add: event_one_def)

end
