(* ===== verification/Timer_Infos.thy ===== *)
theory Timer_Infos
  imports GObject_Props Timer_Device_Id
begin

text \<open>
  The data of the timer part (\<open>timer/\<close>): the two kinds of event, and the GObject classes for the information, parameters and status of a device and of an
  instance. The lemmas show that events survive their layout in memory, that the filter of events
  reads back as the increasing list of what was written, and the contract of the writable classes.
\<close>

section \<open>Events\<close>

text \<open>
  An event of the tick time has the resolution and the number of ticks, eight bytes. An event of
  the real time has the type, the time and a value, with four bytes of padding behind the type
  and behind the value, 32 bytes.
\<close>

record snd_timer_read =
  tr_resolution :: u32
  tr_ticks :: u32

record snd_timer_tread =
  tt_event :: u32
  tt_tv_sec :: u64
  tt_tv_nsec :: u64
  tt_val :: u32

definition timer_read_dec :: "bytes \<Rightarrow> snd_timer_read" where
  "timer_read_dec bs = \<lparr>tr_resolution = le_dec (get_at 0 4 bs), tr_ticks = le_dec (get_at 4 4 bs)\<rparr>"

definition timer_read_enc :: "snd_timer_read \<Rightarrow> bytes" where
  "timer_read_enc ev = le_enc 4 (tr_resolution ev) @ le_enc 4 (tr_ticks ev)"

definition timer_tread_dec :: "bytes \<Rightarrow> snd_timer_tread" where
  "timer_tread_dec bs = \<lparr>tt_event = le_dec (get_at 0 4 bs), tt_tv_sec = le_dec (get_at 8 8 bs),
     tt_tv_nsec = le_dec (get_at 16 8 bs), tt_val = le_dec (get_at 24 4 bs)\<rparr>"

definition timer_tread_enc :: "u32 \<Rightarrow> u32 \<Rightarrow> snd_timer_tread \<Rightarrow> bytes" where
  "timer_tread_enc pad1 pad2 ev = le_enc 4 (tt_event ev) @ le_enc 4 pad1 @ le_enc 8 (tt_tv_sec ev) @
     le_enc 8 (tt_tv_nsec ev) @ le_enc 4 (tt_val ev) @ le_enc 4 pad2"

definition timer_tick_time_event_copy :: "snd_timer_read \<Rightarrow> snd_timer_read" where
  "timer_tick_time_event_copy self = self"

definition alsatimer_tick_time_event_get_resolution :: "snd_timer_read \<Rightarrow> u32" where
  "alsatimer_tick_time_event_get_resolution self = tr_resolution self"

definition alsatimer_tick_time_event_get_ticks :: "snd_timer_read \<Rightarrow> u32" where
  "alsatimer_tick_time_event_get_ticks self = tr_ticks self"

definition timer_real_time_event_copy :: "snd_timer_tread \<Rightarrow> snd_timer_tread" where
  "timer_real_time_event_copy self = self"

definition alsatimer_real_time_event_get_event :: "snd_timer_tread \<Rightarrow> u32" where
  "alsatimer_real_time_event_get_event self = tt_event self"

definition alsatimer_real_time_event_get_time :: "snd_timer_tread \<Rightarrow> u64 \<times> u64" where
  "alsatimer_real_time_event_get_time self = (tt_tv_sec self, tt_tv_nsec self)"

definition alsatimer_real_time_event_get_val :: "snd_timer_tread \<Rightarrow> u32" where
  "alsatimer_real_time_event_get_val self = tt_val self"

section \<open>Information of a timer device\<close>

record snd_timer_ginfo =
  gi_tid :: snd_timer_id
  gi_flags :: u32
  gi_card :: u32
  gi_id :: bytes
  gi_name :: bytes
  gi_resolution :: u64
  gi_resolution_min :: u64
  gi_resolution_max :: u64
  gi_clients :: u32

definition zero_timer_ginfo :: snd_timer_ginfo where
  "zero_timer_ginfo = \<lparr>gi_tid = zero_timer_id, gi_flags = 0, gi_card = 0, gi_id = replicate 64 0,
     gi_name = replicate 80 0, gi_resolution = 0, gi_resolution_min = 0, gi_resolution_max = 0, gi_clients = 0\<rparr>"

datatype timer_device_info_prop_type =
    TIMER_DEVICE_INFO_PROP_FLAGS
  | TIMER_DEVICE_INFO_PROP_CARD_ID
  | TIMER_DEVICE_INFO_PROP_ID
  | TIMER_DEVICE_INFO_PROP_NAME
  | TIMER_DEVICE_INFO_PROP_RESOLUTION
  | TIMER_DEVICE_INFO_PROP_RESOLUTION_MIN
  | TIMER_DEVICE_INFO_PROP_RESOLUTION_MAX
  | TIMER_DEVICE_INFO_PROP_INSTANCE_COUNT

fun timer_device_info_props :: "timer_device_info_prop_type \<Rightarrow> pspec" where
  "timer_device_info_props TIMER_DEVICE_INFO_PROP_FLAGS =
     \<lparr>ps_name = ''flags'', ps_type = TFlags, ps_min = 0, ps_max = 0, ps_readable = True, ps_writable = False, ps_construct_only = False\<rparr>"
| "timer_device_info_props TIMER_DEVICE_INFO_PROP_CARD_ID =
     \<lparr>ps_name = ''card-id'', ps_type = TInt, ps_min = -2147483648, ps_max = 2147483647, ps_readable = True, ps_writable = False, ps_construct_only = False\<rparr>"
| "timer_device_info_props TIMER_DEVICE_INFO_PROP_ID =
     \<lparr>ps_name = ''id'', ps_type = TString, ps_min = 0, ps_max = 0, ps_readable = True, ps_writable = False, ps_construct_only = False\<rparr>"
| "timer_device_info_props TIMER_DEVICE_INFO_PROP_NAME =
     \<lparr>ps_name = ''name'', ps_type = TString, ps_min = 0, ps_max = 0, ps_readable = True, ps_writable = False, ps_construct_only = False\<rparr>"
| "timer_device_info_props TIMER_DEVICE_INFO_PROP_RESOLUTION =
     \<lparr>ps_name = ''resolution'', ps_type = TUInt64, ps_min = 0, ps_max = 18446744073709551615, ps_readable = True, ps_writable = False, ps_construct_only = False\<rparr>"
| "timer_device_info_props TIMER_DEVICE_INFO_PROP_RESOLUTION_MIN =
     \<lparr>ps_name = ''resolution-min'', ps_type = TUInt64, ps_min = 0, ps_max = 18446744073709551615, ps_readable = True, ps_writable = False, ps_construct_only = False\<rparr>"
| "timer_device_info_props TIMER_DEVICE_INFO_PROP_RESOLUTION_MAX =
     \<lparr>ps_name = ''resolution-max'', ps_type = TUInt64, ps_min = 0, ps_max = 18446744073709551615, ps_readable = True, ps_writable = False, ps_construct_only = False\<rparr>"
| "timer_device_info_props TIMER_DEVICE_INFO_PROP_INSTANCE_COUNT =
     \<lparr>ps_name = ''instance-count'', ps_type = TUInt, ps_min = 0, ps_max = 4294967295, ps_readable = True, ps_writable = False, ps_construct_only = False\<rparr>"

fun timer_device_info_get_property :: "snd_timer_ginfo \<Rightarrow> timer_device_info_prop_type \<Rightarrow> unit gvalue \<Rightarrow> unit gvalue" where
  "timer_device_info_get_property info TIMER_DEVICE_INFO_PROP_FLAGS val =
     g_value_set_flags val (gi_flags info)"
| "timer_device_info_get_property info TIMER_DEVICE_INFO_PROP_CARD_ID val =
     g_value_set_int val (gi_card info)"
| "timer_device_info_get_property info TIMER_DEVICE_INFO_PROP_ID val =
     g_value_set_string val (cstr (gi_id info))"
| "timer_device_info_get_property info TIMER_DEVICE_INFO_PROP_NAME val =
     g_value_set_string val (cstr (gi_name info))"
| "timer_device_info_get_property info TIMER_DEVICE_INFO_PROP_RESOLUTION val =
     g_value_set_uint64 val (gi_resolution info)"
| "timer_device_info_get_property info TIMER_DEVICE_INFO_PROP_RESOLUTION_MIN val =
     g_value_set_uint64 val (gi_resolution_min info)"
| "timer_device_info_get_property info TIMER_DEVICE_INFO_PROP_RESOLUTION_MAX val =
     g_value_set_uint64 val (gi_resolution_max info)"
| "timer_device_info_get_property info TIMER_DEVICE_INFO_PROP_INSTANCE_COUNT val =
     g_value_set_uint val (gi_clients info)"

section \<open>Parameters of a timer device\<close>

record snd_timer_gparams =
  gp_tid :: snd_timer_id
  gp_period_num :: u64
  gp_period_den :: u64

definition alsatimer_device_params_new :: snd_timer_gparams where
  "alsatimer_device_params_new = \<lparr>gp_tid = zero_timer_id, gp_period_num = 0, gp_period_den = 0\<rparr>"

datatype timer_device_params_prop_type =
    TIMER_DEVICE_PARAMS_PROP_PERIOD_NUM
  | TIMER_DEVICE_PARAMS_PROP_PERIOD_DEN

fun timer_device_params_props :: "timer_device_params_prop_type \<Rightarrow> pspec" where
  "timer_device_params_props TIMER_DEVICE_PARAMS_PROP_PERIOD_NUM =
     \<lparr>ps_name = ''period-numerator'', ps_type = TUInt64, ps_min = 0, ps_max = 18446744073709551615, ps_readable = True, ps_writable = True, ps_construct_only = False\<rparr>"
| "timer_device_params_props TIMER_DEVICE_PARAMS_PROP_PERIOD_DEN =
     \<lparr>ps_name = ''period-denominator'', ps_type = TUInt64, ps_min = 0, ps_max = 18446744073709551615, ps_readable = True, ps_writable = True, ps_construct_only = False\<rparr>"

fun timer_device_params_set_property :: "snd_timer_gparams \<Rightarrow> timer_device_params_prop_type \<Rightarrow> unit gvalue \<Rightarrow> snd_timer_gparams outcome" where
  "timer_device_params_set_property info TIMER_DEVICE_PARAMS_PROP_PERIOD_NUM val =
     Ret (info\<lparr>gp_period_num := g_value_get_uint64 val\<rparr>)"
| "timer_device_params_set_property info TIMER_DEVICE_PARAMS_PROP_PERIOD_DEN val =
     Ret (info\<lparr>gp_period_den := g_value_get_uint64 val\<rparr>)"

fun timer_device_params_get_property :: "snd_timer_gparams \<Rightarrow> timer_device_params_prop_type \<Rightarrow> unit gvalue \<Rightarrow> unit gvalue" where
  "timer_device_params_get_property info TIMER_DEVICE_PARAMS_PROP_PERIOD_NUM val =
     g_value_set_uint64 val (gp_period_num info)"
| "timer_device_params_get_property info TIMER_DEVICE_PARAMS_PROP_PERIOD_DEN val =
     g_value_set_uint64 val (gp_period_den info)"

section \<open>Status of a timer device\<close>

record snd_timer_gstatus =
  gs_tid :: snd_timer_id
  gs_resolution :: u64
  gs_resolution_num :: u64
  gs_resolution_den :: u64

definition alsatimer_device_status_new :: snd_timer_gstatus where
  "alsatimer_device_status_new =
     \<lparr>gs_tid = zero_timer_id, gs_resolution = 0, gs_resolution_num = 0, gs_resolution_den = 0\<rparr>"

datatype timer_device_status_prop_type =
    TIMER_DEVICE_STATUS_PROP_RESOLUTION
  | TIMER_DEVICE_STATUS_PROP_RESOLUTION_NUM
  | TIMER_DEVICE_STATUS_PROP_RESOLUTION_DEN

fun timer_device_status_props :: "timer_device_status_prop_type \<Rightarrow> pspec" where
  "timer_device_status_props TIMER_DEVICE_STATUS_PROP_RESOLUTION =
     \<lparr>ps_name = ''resolution'', ps_type = TUInt64, ps_min = 0, ps_max = 18446744073709551615, ps_readable = True, ps_writable = False, ps_construct_only = False\<rparr>"
| "timer_device_status_props TIMER_DEVICE_STATUS_PROP_RESOLUTION_NUM =
     \<lparr>ps_name = ''resolution-numerator'', ps_type = TUInt64, ps_min = 0, ps_max = 18446744073709551615, ps_readable = True, ps_writable = False, ps_construct_only = False\<rparr>"
| "timer_device_status_props TIMER_DEVICE_STATUS_PROP_RESOLUTION_DEN =
     \<lparr>ps_name = ''resolution-denominator'', ps_type = TUInt64, ps_min = 0, ps_max = 18446744073709551615, ps_readable = True, ps_writable = False, ps_construct_only = False\<rparr>"

fun timer_device_status_get_property :: "snd_timer_gstatus \<Rightarrow> timer_device_status_prop_type \<Rightarrow> unit gvalue \<Rightarrow> unit gvalue" where
  "timer_device_status_get_property info TIMER_DEVICE_STATUS_PROP_RESOLUTION val =
     g_value_set_uint64 val (gs_resolution info)"
| "timer_device_status_get_property info TIMER_DEVICE_STATUS_PROP_RESOLUTION_NUM val =
     g_value_set_uint64 val (gs_resolution_num info)"
| "timer_device_status_get_property info TIMER_DEVICE_STATUS_PROP_RESOLUTION_DEN val =
     g_value_set_uint64 val (gs_resolution_den info)"

section \<open>Information of an instance\<close>

record snd_timer_info =
  tn_flags :: u32
  tn_card :: u32
  tn_id :: bytes
  tn_name :: bytes
  tn_resolution :: u64

definition zero_timer_info :: snd_timer_info where
  "zero_timer_info = \<lparr>tn_flags = 0, tn_card = 0, tn_id = replicate 64 0, tn_name = replicate 80 0, tn_resolution = 0\<rparr>"

datatype timer_instance_info_prop_type =
    TIMER_INSTANCE_INFO_PROP_FLAGS
  | TIMER_INSTANCE_INFO_PROP_CARD_ID
  | TIMER_INSTANCE_INFO_PROP_ID
  | TIMER_INSTANCE_INFO_PROP_NAME
  | TIMER_INSTANCE_INFO_PROP_RESOLUTION

fun timer_instance_info_props :: "timer_instance_info_prop_type \<Rightarrow> pspec" where
  "timer_instance_info_props TIMER_INSTANCE_INFO_PROP_FLAGS =
     \<lparr>ps_name = ''flags'', ps_type = TFlags, ps_min = 0, ps_max = 0, ps_readable = True, ps_writable = False, ps_construct_only = False\<rparr>"
| "timer_instance_info_props TIMER_INSTANCE_INFO_PROP_CARD_ID =
     \<lparr>ps_name = ''card-id'', ps_type = TInt, ps_min = -2147483648, ps_max = 2147483647, ps_readable = True, ps_writable = False, ps_construct_only = False\<rparr>"
| "timer_instance_info_props TIMER_INSTANCE_INFO_PROP_ID =
     \<lparr>ps_name = ''id'', ps_type = TString, ps_min = 0, ps_max = 0, ps_readable = True, ps_writable = False, ps_construct_only = False\<rparr>"
| "timer_instance_info_props TIMER_INSTANCE_INFO_PROP_NAME =
     \<lparr>ps_name = ''name'', ps_type = TString, ps_min = 0, ps_max = 0, ps_readable = True, ps_writable = False, ps_construct_only = False\<rparr>"
| "timer_instance_info_props TIMER_INSTANCE_INFO_PROP_RESOLUTION =
     \<lparr>ps_name = ''resolution'', ps_type = TUInt64, ps_min = 0, ps_max = 18446744073709551615, ps_readable = True, ps_writable = False, ps_construct_only = False\<rparr>"

fun timer_instance_info_get_property :: "snd_timer_info \<Rightarrow> timer_instance_info_prop_type \<Rightarrow> unit gvalue \<Rightarrow> unit gvalue" where
  "timer_instance_info_get_property info TIMER_INSTANCE_INFO_PROP_FLAGS val =
     g_value_set_flags val (tn_flags info)"
| "timer_instance_info_get_property info TIMER_INSTANCE_INFO_PROP_CARD_ID val =
     g_value_set_int val (tn_card info)"
| "timer_instance_info_get_property info TIMER_INSTANCE_INFO_PROP_ID val =
     g_value_set_string val (cstr (tn_id info))"
| "timer_instance_info_get_property info TIMER_INSTANCE_INFO_PROP_NAME val =
     g_value_set_string val (cstr (tn_name info))"
| "timer_instance_info_get_property info TIMER_INSTANCE_INFO_PROP_RESOLUTION val =
     g_value_set_uint64 val (tn_resolution info)"

section \<open>Parameters of an instance\<close>

record snd_timer_params =
  tp_flags :: u32
  tp_ticks :: u32
  tp_queue_size :: u32
  tp_filter :: u32

definition alsatimer_instance_params_new :: snd_timer_params where
  "alsatimer_instance_params_new = \<lparr>tp_flags = 0, tp_ticks = 0, tp_queue_size = 0, tp_filter = 0\<rparr>"

datatype timer_instance_params_prop_type =
    TIMER_INSTANCE_PARAMS_PROP_FLAGS
  | TIMER_INSTANCE_PARAMS_PROP_INTERVAL
  | TIMER_INSTANCE_PARAMS_PROP_QUEUE_SIZE

fun timer_instance_params_props :: "timer_instance_params_prop_type \<Rightarrow> pspec" where
  "timer_instance_params_props TIMER_INSTANCE_PARAMS_PROP_FLAGS =
     \<lparr>ps_name = ''flags'', ps_type = TFlags, ps_min = 0, ps_max = 0, ps_readable = True, ps_writable = True, ps_construct_only = False\<rparr>"
| "timer_instance_params_props TIMER_INSTANCE_PARAMS_PROP_INTERVAL =
     \<lparr>ps_name = ''interval'', ps_type = TUInt, ps_min = 0, ps_max = 4294967295, ps_readable = True, ps_writable = True, ps_construct_only = False\<rparr>"
| "timer_instance_params_props TIMER_INSTANCE_PARAMS_PROP_QUEUE_SIZE =
     \<lparr>ps_name = ''queue-size'', ps_type = TUInt, ps_min = 0, ps_max = 4294967295, ps_readable = True, ps_writable = True, ps_construct_only = False\<rparr>"

fun timer_instance_params_set_property :: "snd_timer_params \<Rightarrow> timer_instance_params_prop_type \<Rightarrow> unit gvalue \<Rightarrow> snd_timer_params outcome" where
  "timer_instance_params_set_property info TIMER_INSTANCE_PARAMS_PROP_FLAGS val =
     Ret (info\<lparr>tp_flags := g_value_get_flags val\<rparr>)"
| "timer_instance_params_set_property info TIMER_INSTANCE_PARAMS_PROP_INTERVAL val =
     Ret (info\<lparr>tp_ticks := g_value_get_uint val\<rparr>)"
| "timer_instance_params_set_property info TIMER_INSTANCE_PARAMS_PROP_QUEUE_SIZE val =
     Ret (info\<lparr>tp_queue_size := g_value_get_uint val\<rparr>)"

fun timer_instance_params_get_property :: "snd_timer_params \<Rightarrow> timer_instance_params_prop_type \<Rightarrow> unit gvalue \<Rightarrow> unit gvalue" where
  "timer_instance_params_get_property info TIMER_INSTANCE_PARAMS_PROP_FLAGS val =
     g_value_set_flags val (tp_flags info)"
| "timer_instance_params_get_property info TIMER_INSTANCE_PARAMS_PROP_INTERVAL val =
     g_value_set_uint val (tp_ticks info)"
| "timer_instance_params_get_property info TIMER_INSTANCE_PARAMS_PROP_QUEUE_SIZE val =
     g_value_set_uint val (tp_queue_size info)"

text \<open>
  The filter of events is a set of bits. Setting it clears the old filter first, so that a value
  that is no event leaves an empty filter behind.
\<close>

abbreviation (input) SNDRV_TIMER_EVENT_RESOLUTION :: int where "SNDRV_TIMER_EVENT_RESOLUTION \<equiv> 0"
abbreviation (input) SNDRV_TIMER_EVENT_RESUME :: int where "SNDRV_TIMER_EVENT_RESUME \<equiv> 8"
abbreviation (input) SNDRV_TIMER_EVENT_MSTART :: int where "SNDRV_TIMER_EVENT_MSTART \<equiv> 12"
abbreviation (input) SNDRV_TIMER_EVENT_MRESUME :: int where "SNDRV_TIMER_EVENT_MRESUME \<equiv> 18"

fun timer_filter_bits :: "int list \<Rightarrow> u32 \<Rightarrow> u32 option" where
  "timer_filter_bits [] bits = Some bits"
| "timer_filter_bits (val # entries) bits =
     (if val < SNDRV_TIMER_EVENT_RESOLUTION \<or>
         (val > SNDRV_TIMER_EVENT_RESUME \<and> val < SNDRV_TIMER_EVENT_MSTART) \<or>
         val > SNDRV_TIMER_EVENT_MRESUME
      then None
      else timer_filter_bits entries (bits OR push_bit (nat val) 1))"

definition alsatimer_instance_params_set_event_filter ::
  "snd_timer_params \<Rightarrow> int list \<Rightarrow> snd_timer_params \<times> unit outcome" where
  "alsatimer_instance_params_set_event_filter self entries =
     (let self1 = self\<lparr>tp_filter := 0\<rparr>
      in if entries = [] then (self1, Ret ())
         else case timer_filter_bits entries 0 of
                None \<Rightarrow> (self1, Critical)
              | Some bits \<Rightarrow> (self1\<lparr>tp_filter := bits\<rparr>, Ret ()))"

text \<open>Without any bit the call succeeds and writes neither the list nor its length.\<close>

fun timer_filter_count :: "u32 \<Rightarrow> nat \<Rightarrow> nat \<Rightarrow> nat" where
  "timer_filter_count bits i 0 = 0"
| "timer_filter_count bits i (Suc n) =
     (if push_bit i 1 AND bits \<noteq> 0 then 1 else 0) + timer_filter_count bits (Suc i) n"

fun timer_filter_list :: "u32 \<Rightarrow> nat \<Rightarrow> nat \<Rightarrow> nat \<Rightarrow> int list \<Rightarrow> int list" where
  "timer_filter_list bits cnt i 0 list = list"
| "timer_filter_list bits cnt i (Suc n) list =
     (if push_bit i 1 AND bits \<noteq> 0
      then (if cnt \<le> length (list @ [int i]) then list @ [int i]
            else timer_filter_list bits cnt (Suc i) n (list @ [int i]))
      else timer_filter_list bits cnt (Suc i) n list)"

definition alsatimer_instance_params_get_event_filter ::
  "snd_timer_params \<Rightarrow> (int list \<times> nat) option" where
  "alsatimer_instance_params_get_event_filter self =
     (let cnt = timer_filter_count (tp_filter self) 0 32
      in if cnt = 0 then None else Some (timer_filter_list (tp_filter self) cnt 0 32 [], cnt))"

section \<open>Status of an instance\<close>

text \<open>
  The object keeps a copy of the time stamp, whose address it hands out.
\<close>

record snd_timer_status =
  ts_tv_sec :: u64
  ts_tv_nsec :: u64
  ts_resolution :: u32
  ts_lost :: u32
  ts_overrun :: u32
  ts_queue :: u32

record timer_instance_status =
  is_status :: snd_timer_status
  is_tstamp :: "u64 \<times> u64"

definition alsatimer_instance_status_new :: timer_instance_status where
  "alsatimer_instance_status_new = \<lparr>is_status =
     \<lparr>ts_tv_sec = 0, ts_tv_nsec = 0, ts_resolution = 0, ts_lost = 0, ts_overrun = 0, ts_queue = 0\<rparr>, is_tstamp = (0, 0)\<rparr>"

datatype timer_instance_status_prop_type =
    TIMER_INSTANCE_STATUS_PROP_INTERVAL
  | TIMER_INSTANCE_STATUS_PROP_LOST
  | TIMER_INSTANCE_STATUS_PROP_OVERRUN
  | TIMER_INSTANCE_STATUS_PROP_QUEUE_SIZE

fun timer_instance_status_props :: "timer_instance_status_prop_type \<Rightarrow> pspec" where
  "timer_instance_status_props TIMER_INSTANCE_STATUS_PROP_INTERVAL =
     \<lparr>ps_name = ''interval'', ps_type = TUInt, ps_min = 0, ps_max = 4294967295, ps_readable = True, ps_writable = False, ps_construct_only = False\<rparr>"
| "timer_instance_status_props TIMER_INSTANCE_STATUS_PROP_LOST =
     \<lparr>ps_name = ''lost'', ps_type = TUInt, ps_min = 0, ps_max = 4294967295, ps_readable = True, ps_writable = False, ps_construct_only = False\<rparr>"
| "timer_instance_status_props TIMER_INSTANCE_STATUS_PROP_OVERRUN =
     \<lparr>ps_name = ''overrun'', ps_type = TUInt, ps_min = 0, ps_max = 4294967295, ps_readable = True, ps_writable = False, ps_construct_only = False\<rparr>"
| "timer_instance_status_props TIMER_INSTANCE_STATUS_PROP_QUEUE_SIZE =
     \<lparr>ps_name = ''queue-size'', ps_type = TUInt, ps_min = 0, ps_max = 4294967295, ps_readable = True, ps_writable = False, ps_construct_only = False\<rparr>"

fun timer_instance_status_get_property :: "timer_instance_status \<Rightarrow> timer_instance_status_prop_type \<Rightarrow> unit gvalue \<Rightarrow> unit gvalue" where
  "timer_instance_status_get_property info TIMER_INSTANCE_STATUS_PROP_INTERVAL val =
     g_value_set_uint val (ts_resolution (is_status info))"
| "timer_instance_status_get_property info TIMER_INSTANCE_STATUS_PROP_LOST val =
     g_value_set_uint val (ts_lost (is_status info))"
| "timer_instance_status_get_property info TIMER_INSTANCE_STATUS_PROP_OVERRUN val =
     g_value_set_uint val (ts_overrun (is_status info))"
| "timer_instance_status_get_property info TIMER_INSTANCE_STATUS_PROP_QUEUE_SIZE val =
     g_value_set_uint val (ts_queue (is_status info))"

definition alsatimer_instance_status_get_time :: "timer_instance_status \<Rightarrow> timer_instance_status \<times> (u64 \<times> u64)" where
  "alsatimer_instance_status_get_time self =
     (let self1 = self\<lparr>is_tstamp := (ts_tv_sec (is_status self), ts_tv_nsec (is_status self))\<rparr>
      in (self1, is_tstamp self1))"

section \<open>Events in memory\<close>

interpretation timer_read: byte_layout timer_read_enc timer_read_dec 8
proof (unfold_locales, goal_cases)
  case (3 bs)
  then have "take 4 bs @ take 4 (drop 4 bs) = bs"
    by (metis append_take_drop_id length_drop take_all_iff diff_le_mono le_refl numeral_Bit0 add_diff_cancel_left')
  with 3 show ?case
    by (simp add: timer_read_enc_def timer_read_dec_def get_at_def codec_simps)
qed (simp_all add: timer_read_enc_def timer_read_dec_def get_at_def codec_simps)

interpretation timer_tread: byte_codec "timer_tread_enc pad1 pad2" timer_tread_dec 32
  for pad1 pad2
  by unfold_locales (simp_all add: timer_tread_enc_def timer_tread_dec_def get_at_def codec_simps)

section \<open>The filter of events\<close>

definition timer_event :: "int \<Rightarrow> bool" where
  "timer_event val \<longleftrightarrow> 0 \<le> val \<and> val \<le> 8 \<or> 12 \<le> val \<and> val \<le> 18"

lemma exp_and_eq_0_iff: "2 ^ i AND (bits :: u32) = 0 \<longleftrightarrow> \<not> bit bits i"
  using and_exp_eq_0_iff_not_bit [of bits i] by (simp add: and.commute)

lemma timer_filter_bits_events:
  "list_all timer_event entries \<Longrightarrow>
     \<exists>bits'. timer_filter_bits entries bits = Some bits' \<and>
       (\<forall>i < 32. bit bits' i \<longleftrightarrow> bit bits i \<or> int i \<in> set entries)"
proof (induction entries arbitrary: bits)
  case (Cons val entries)
  then have val: "0 \<le> val" "val \<le> 18" "val \<le> 8 \<or> 12 \<le> val" by (auto simp: timer_event_def)
  obtain bits' where "timer_filter_bits entries (bits OR push_bit (nat val) 1) = Some bits'"
      and "\<forall>i < 32. bit bits' i \<longleftrightarrow> bit (bits OR push_bit (nat val) 1) i \<or> int i \<in> set entries"
    using Cons.IH [of "bits OR push_bit (nat val) 1"] Cons.prems by auto
  with val show ?case by (auto simp: bit_simps)
qed simp

lemma timer_filter_bits_None:
  "\<not> list_all timer_event entries \<Longrightarrow> timer_filter_bits entries bits = None"
  by (induction entries arbitrary: bits) (auto simp: timer_event_def)

lemma timer_filter_count_eq:
  "i + n \<le> 32 \<Longrightarrow> timer_filter_count bits i n = length (filter (bit bits) [i..<i + n])"
  by (induction n arbitrary: i) (auto simp: exp_and_eq_0_iff upt_conv_Cons simp del: upt_Suc)

lemma timer_filter_list_eq:
  "i + n \<le> 32 \<Longrightarrow> cnt = length list + length (filter (bit bits) [i..<i + n]) \<Longrightarrow>
     timer_filter_list bits cnt i n list = list @ map int (filter (bit bits) [i..<i + n])"
proof (induction n arbitrary: i list)
  case (Suc n)
  then have "[i..<i + Suc n] = i # [Suc i..<Suc i + n]" by (simp add: upt_conv_Cons)
  with Suc.IH [of "Suc i" "list @ [int i]"] Suc.IH [of "Suc i" list] Suc.prems show ?case
    by (auto simp: exp_and_eq_0_iff simp del: upt_Suc)
qed simp

lemma get_event_filter_eq:
  "alsatimer_instance_params_get_event_filter self =
     (let events = map int (filter (bit (tp_filter self)) [0..<32])
      in if events = [] then None else Some (events, length events))"
  using timer_filter_list_eq [of 0 32 "timer_filter_count (tp_filter self) 0 32" "[]" "tp_filter self"]
  by (simp add: alsatimer_instance_params_get_event_filter_def timer_filter_count_eq Let_def)

text \<open>
  C33: the filter of an instance for events of real time. When every entry is an event, the list read
  back has exactly the events of the list written, increasing and each once, whatever the filter was
  before; an empty list reads back as nothing. An entry that is no event fails the call, and leaves
  an empty filter in place of the old one.
\<close>

theorem timer_event_filter_roundtrip:
  "if list_all timer_event entries
   then \<exists>self'. alsatimer_instance_params_set_event_filter self entries = (self', Ret ()) \<and>
     alsatimer_instance_params_get_event_filter self' =
       (if entries = [] then None
        else Some (sorted_list_of_set (set entries), card (set entries)))
   else alsatimer_instance_params_set_event_filter self entries = (self\<lparr>tp_filter := 0\<rparr>, Critical) \<and>
     alsatimer_instance_params_get_event_filter (self\<lparr>tp_filter := 0\<rparr>) = None"
proof (cases "list_all timer_event entries")
  case True
  then obtain bits where bits: "timer_filter_bits entries 0 = Some bits"
      "\<forall>i < 32. bit bits i \<longleftrightarrow> int i \<in> set entries"
    using timer_filter_bits_events [of entries 0] by auto
  let ?l = "map int (filter (bit bits) [0..<32])"
  have l: "set ?l = set entries"
  proof (intro equalityI subsetI)
    fix x assume x: "x \<in> set entries"
    then have "timer_event x" using True by (simp add: list_all_iff)
    then have "x = int (nat x)" "nat x < 32" by (auto simp: timer_event_def)
    moreover from this x bits(2) have "bit bits (nat x)" by metis
    ultimately show "x \<in> set ?l" by (auto intro!: image_eqI [where x = "nat x"])
  qed (use bits(2) in auto)
  then have ne: "?l = [] \<longleftrightarrow> entries = []" by (metis set_empty)
  have "sorted ?l" "distinct ?l"
    by (simp_all add: sorted_map sorted_wrt_filter distinct_map)
  with l have *: "?l = sorted_list_of_set (set entries)" "length ?l = card (set entries)"
    using sorted_list_of_set.idem_if_sorted_distinct [of ?l] distinct_card [of ?l] by metis+
  have "alsatimer_instance_params_get_event_filter (self\<lparr>tp_filter := bits\<rparr>) =
      (if entries = [] then None else Some (?l, length ?l))"
    using ne by (simp add: get_event_filter_eq Let_def)
  with True bits(1) show ?thesis unfolding *
    by (auto simp: alsatimer_instance_params_set_event_filter_def get_event_filter_eq)
qed (auto simp: alsatimer_instance_params_set_event_filter_def get_event_filter_eq timer_filter_bits_None Let_def)

section \<open>The contract of the classes\<close>

interpretation timer_device_params: gobject_properties timer_device_params_set_property
  timer_device_params_get_property timer_device_params_props any_info
  "\<lambda>p. pspec_accepts (timer_device_params_props p)" all_kept
proof (unfold_locales, goal_cases)
  case (1 x p v) then show ?case by (cases p; cases v) (auto simp: property_simps any_info_def)
next
  case (2 x p v y) then show ?case by (cases p; cases v) (auto simp: property_simps)
next
  case (3 x p v q y) then show ?case by (cases p; cases q) (auto simp: property_simps)
qed

interpretation timer_instance_params: gobject_properties timer_instance_params_set_property
  timer_instance_params_get_property timer_instance_params_props any_info
  "\<lambda>p. pspec_accepts (timer_instance_params_props p)" all_kept
proof (unfold_locales, goal_cases)
  case (1 x p v) then show ?case by (cases p; cases v) (auto simp: property_simps any_info_def)
next
  case (2 x p v y) then show ?case by (cases p; cases v) (auto simp: property_simps)
next
  case (3 x p v q y) then show ?case by (cases p; cases q) (auto simp: property_simps)
qed

section \<open>Getters conform to their specifications\<close>

lemma timer_device_info_conforms: "getters_conform timer_device_info_get_property timer_device_info_props all_kept"
  apply (rule getters_conformI)
  subgoal for x p v by (cases p) (simp_all add: read_property_def)
  done

lemma timer_device_params_conforms: "getters_conform timer_device_params_get_property timer_device_params_props all_kept"
  apply (rule getters_conformI)
  subgoal for x p v by (cases p) (simp_all add: read_property_def)
  done

lemma timer_device_status_conforms: "getters_conform timer_device_status_get_property timer_device_status_props all_kept"
  apply (rule getters_conformI)
  subgoal for x p v by (cases p) (simp_all add: read_property_def)
  done

lemma timer_instance_info_conforms: "getters_conform timer_instance_info_get_property timer_instance_info_props all_kept"
  apply (rule getters_conformI)
  subgoal for x p v by (cases p) (simp_all add: read_property_def)
  done

lemma timer_instance_params_conforms: "getters_conform timer_instance_params_get_property timer_instance_params_props all_kept"
  apply (rule getters_conformI)
  subgoal for x p v by (cases p) (simp_all add: read_property_def)
  done

lemma timer_instance_status_conforms: "getters_conform timer_instance_status_get_property timer_instance_status_props all_kept"
  apply (rule getters_conformI)
  subgoal for x p v by (cases p) (simp_all add: read_property_def)
  done

end
