(* ===== verification/Timer_Query.thy ===== *)
theory Timer_Query
  imports Timer_Infos Utils
begin

text \<open>
  The queries of \<open>timer/query.c\<close> and the requests of the timer core they issue. The list of
  devices is the result of a loop that ends when the kernel reports no further device, so it is a
  partial function, and that it returns is proved for a kernel with finitely many devices. The
  clock of the events of real time is read from a parameter of a kernel module, as text.
\<close>

section \<open>The timer core\<close>

record snd_timer_select =
  sel_id :: snd_timer_id

record 'w timer_sys = "'w sys" +
  timer_libc :: libc
  timer_udev :: udev
  TIMER_IOCTL_PVERSION :: "('w, u32) request"
  TIMER_IOCTL_NEXT_DEVICE :: "('w, snd_timer_id) request"
  TIMER_IOCTL_TREAD :: "('w, u32) request"
  TIMER_IOCTL_GINFO :: "('w, snd_timer_ginfo) request"
  TIMER_IOCTL_GPARAMS :: "('w, snd_timer_gparams) request"
  TIMER_IOCTL_GSTATUS :: "('w, snd_timer_gstatus) request"
  TIMER_IOCTL_SELECT :: "('w, snd_timer_select) request"
  TIMER_IOCTL_INFO :: "('w, snd_timer_info) request"
  TIMER_IOCTL_PARAMS :: "('w, snd_timer_params) request"
  TIMER_IOCTL_STATUS :: "('w, snd_timer_status) request"
  TIMER_IOCTL_START :: "('w, unit) request"
  TIMER_IOCTL_STOP :: "('w, unit) request"
  TIMER_IOCTL_CONTINUE :: "('w, unit) request"
  TIMER_IOCTL_PAUSE :: "('w, unit) request"

abbreviation (input) SNDRV_TIMER_CLASS_NONE :: u32 where "SNDRV_TIMER_CLASS_NONE \<equiv> -1"
abbreviation (input) SNDRV_TIMER_CLASS_SLAVE :: u32 where "SNDRV_TIMER_CLASS_SLAVE \<equiv> 0"

section \<open>The device\<close>

definition alsatimer_get_sysname :: "'w timer_sys \<Rightarrow> bytes outcome" where
  "alsatimer_get_sysname sys =
     obind (lookup_and_allocate_timer_sysname (timer_libc sys) (timer_udev sys))
       (\<lambda>(err, sysname). if err < 0 then generate_file_error sys (- err)
          else (case sysname of None \<Rightarrow> Undefined | Some s \<Rightarrow> Ret s))"

definition alsatimer_get_devnode :: "'w timer_sys \<Rightarrow> bytes outcome" where
  "alsatimer_get_devnode sys =
     obind (lookup_and_allocate_timer_devname (timer_libc sys) (timer_udev sys))
       (\<lambda>(err, devnode). if err < 0 then generate_file_error sys (- err)
          else (case devnode of None \<Rightarrow> Undefined | Some s \<Rightarrow> Ret s))"

text \<open>As in the sequencer, minus one is returned when the device is not found.\<close>

definition timer_open_fd :: "'w timer_sys \<Rightarrow> 'w \<Rightarrow> 'w \<times> (int option \<times> int \<times> gerror option) outcome" where
  "timer_open_fd sys w =
     (case alsatimer_get_devnode sys of
        Throw e \<Rightarrow> (w, Ret (None, -1, Some e))
      | Ret devname \<Rightarrow>
          (case sys_open sys w devname O_RDONLY of
             (w', SysErr e) \<Rightarrow> (w', Ret (Some (-1), 0, Some (GError G_FILE_ERROR (file_error sys e))))
           | (w', SysOk fd) \<Rightarrow> (w', Ret (Some fd, 1, None)))
      | _ \<Rightarrow> (w, Undefined))"

section \<open>The list of devices\<close>

text \<open>
  The devices are appended to the list of the caller, which keeps those found when a request fails.
\<close>

partial_function (option) next_devices ::
  "'w timer_sys \<Rightarrow> int \<Rightarrow> 'w \<Rightarrow> snd_timer_id \<Rightarrow> snd_timer_id list \<Rightarrow>
     ('w \<times> snd_timer_id list \<times> unit outcome) option" where
  "next_devices sys fd w tid entries =
     (case TIMER_IOCTL_NEXT_DEVICE sys w fd tid of
        (w', SysErr e) \<Rightarrow> Some (w', entries, generate_file_error sys e)
      | (w', SysOk tid') \<Rightarrow>
          if tid_dev_class tid' = SNDRV_TIMER_CLASS_NONE then Some (w', entries, Ret ())
          else next_devices sys fd w' tid' (entries @ [timer_device_id_copy tid']))"

definition alsatimer_get_device_id_list ::
  "'w timer_sys \<Rightarrow> 'w \<Rightarrow> snd_timer_id list \<Rightarrow> ('w \<times> snd_timer_id list \<times> unit outcome) option" where
  "alsatimer_get_device_id_list sys w entries =
     (case timer_open_fd sys w of
        (w1, Ret (fd, result, err)) \<Rightarrow>
          if result = 0 then Some (w1, entries, case err of Some e \<Rightarrow> Throw e | None \<Rightarrow> FalseUnset)
          else (case fd of None \<Rightarrow> Some (w1, entries, Undefined) | Some fd \<Rightarrow>
            Option.bind (next_devices sys fd w1 (zero_timer_id\<lparr>tid_dev_class := -1\<rparr>) entries)
              (\<lambda>(w2, entries', r). Some (sys_close sys w2 fd, entries', r)))
      | (w1, _) \<Rightarrow> Some (w1, entries, Undefined))"

section \<open>Queries for one device\<close>

definition alsatimer_get_device_info ::
  "'w timer_sys \<Rightarrow> 'w \<Rightarrow> snd_timer_id \<Rightarrow> 'w \<times> snd_timer_ginfo outcome" where
  "alsatimer_get_device_info sys w device_id =
     with_opened (timer_open_fd sys w)
       (request_and_close sys (TIMER_IOCTL_GINFO sys) (zero_timer_ginfo\<lparr>gi_tid := device_id\<rparr>))"

text \<open>
  The object for the status belongs to the caller: it is given with the number of references to it,
  one of which the call drops when the request fails.
\<close>

record 'a gobject =
  go_refs :: nat
  go_data :: 'a

definition g_object_unref :: "'a gobject \<Rightarrow> 'a gobject" where
  "g_object_unref obj = obj\<lparr>go_refs := go_refs obj - 1\<rparr>"

definition alsatimer_get_device_status ::
  "'w timer_sys \<Rightarrow> 'w \<Rightarrow> snd_timer_id \<Rightarrow> snd_timer_gstatus gobject \<Rightarrow>
     'w \<times> (snd_timer_gstatus gobject \<times> gerror option) outcome" where
  "alsatimer_get_device_status sys w device_id device_status =
     with_opened (timer_open_fd sys w) (\<lambda>w1 fd.
       let status = (go_data device_status)\<lparr>gs_tid := device_id\<rparr>
       in case TIMER_IOCTL_GSTATUS sys w1 fd status of
            (w2, SysErr e) \<Rightarrow>
              (sys_close sys w2 fd, Ret (g_object_unref (device_status\<lparr>go_data := status\<rparr>),
                 Some (GError G_FILE_ERROR (file_error sys e))))
          | (w2, SysOk status') \<Rightarrow> (sys_close sys w2 fd, Ret (device_status\<lparr>go_data := status'\<rparr>, None)))"

text \<open>The identifier is written into the parameters of the caller.\<close>

definition alsatimer_set_device_params ::
  "'w timer_sys \<Rightarrow> 'w \<Rightarrow> snd_timer_id \<Rightarrow> snd_timer_gparams \<Rightarrow> 'w \<times> (snd_timer_gparams \<times> gerror option) outcome" where
  "alsatimer_set_device_params sys w device_id device_params =
     with_opened (timer_open_fd sys w) (\<lambda>w1 fd.
       let params = device_params\<lparr>gp_tid := device_id\<rparr>
       in case TIMER_IOCTL_GPARAMS sys w1 fd params of
            (w2, SysErr e) \<Rightarrow>
              (sys_close sys w2 fd, Ret (params, Some (GError G_FILE_ERROR (file_error sys e))))
          | (w2, SysOk params') \<Rightarrow> (sys_close sys w2 fd, Ret (params', None)))"

section \<open>The clock of real time\<close>

text \<open>
  \<open>strtol\<close> stops at the first character that is no digit. In a buffer without a NUL where there is no
  such character it goes on behind the end.
\<close>

definition strtol_stops :: "bytes \<Rightarrow> bool" where
  "strtol_stops buf \<longleftrightarrow> 0 \<in> set buf \<or>
     (let s = dropWhile isspace buf; t = (if s \<noteq> [] \<and> (hd s = 45 \<or> hd s = 43) then tl s else s)
      in dropWhile isdigit t \<noteq> [])"

definition timer_get_node_param_value ::
  "'w timer_sys \<Rightarrow> 'w \<Rightarrow> bytes \<Rightarrow> bytes \<Rightarrow> 'w \<times> int outcome" where
  "timer_get_node_param_value sys w param_name buf =
     (let literal = take 63 (ascii ''/sys/module/snd_timer/parameters/'' @ param_name)
      in case sys_open sys w literal O_RDONLY of
           (w1, SysErr e) \<Rightarrow> (w1, generate_file_error sys e)
         | (w1, SysOk fd) \<Rightarrow>
             (case sys_read sys w1 fd (length buf) of
                (w2, SysErr e) \<Rightarrow> (sys_close sys w2 fd, generate_file_error sys e)
              | (w2, SysOk bs) \<Rightarrow>
                  let buf' = put_at 0 bs buf
                  in if \<not> strtol_stops buf' then (w2, Undefined)
                     else (sys_close sys w2 fd,
                       case long_from_string buf' of
                         (err, None) \<Rightarrow> generate_file_error sys (- err)
                       | (err, Some v) \<Rightarrow> Ret (sint (word_of_int v :: u32)))))"

function count_digits :: "int \<Rightarrow> nat" where
  "count_digits val = (if 0 < val then Suc (count_digits (val div 10)) else 0)"
  by pat_completeness auto
termination by (relation "measure nat") (auto simp: nat_div_distrib)

declare count_digits.simps [simp del]

abbreviation (input) CLOCK_REALTIME :: int where "CLOCK_REALTIME \<equiv> 0"
abbreviation (input) CLOCK_MONOTONIC :: int where "CLOCK_MONOTONIC \<equiv> 1"

definition alsatimer_get_real_time_clock_id :: "'w timer_sys \<Rightarrow> 'w \<Rightarrow> 'w \<times> int outcome" where
  "alsatimer_get_real_time_clock_id sys w =
     (let size = count_digits 2147483647 + 2
      in case timer_get_node_param_value sys w (ascii ''timer_tstamp_monotonic'') (replicate size 0) of
           (w', r) \<Rightarrow> (w', obind r (\<lambda>val.
             if val = 0 then Ret CLOCK_REALTIME
             else if val = 1 then Ret CLOCK_MONOTONIC
             else generate_file_error sys EPROTO)))"

section \<open>The list of devices is complete\<close>

text \<open>
  The kernel walks through the devices \<open>ids\<close> from \<open>tid\<close> on: asked with one it answers with the next,
  and with the class for none after the last.
\<close>

fun enumerates_devices :: "'w timer_sys \<Rightarrow> int \<Rightarrow> snd_timer_id \<Rightarrow> snd_timer_id list \<Rightarrow> bool" where
  "enumerates_devices sys fd tid [] \<longleftrightarrow>
     (\<forall>w. \<exists>tid'. TIMER_IOCTL_NEXT_DEVICE sys w fd tid = (w, SysOk tid') \<and>
        tid_dev_class tid' = SNDRV_TIMER_CLASS_NONE)"
| "enumerates_devices sys fd tid (d # ids) \<longleftrightarrow>
     (\<forall>w. TIMER_IOCTL_NEXT_DEVICE sys w fd tid = (w, SysOk d)) \<and>
     tid_dev_class d \<noteq> SNDRV_TIMER_CLASS_NONE \<and> enumerates_devices sys fd d ids"

lemma next_devices_complete:
  "enumerates_devices sys fd tid ids \<Longrightarrow> next_devices sys fd w tid entries = Some (w, entries @ ids, Ret ())"
proof (induction ids arbitrary: tid entries)
  case Nil
  then obtain tid' where "TIMER_IOCTL_NEXT_DEVICE sys w fd tid = (w, SysOk tid')"
      "tid_dev_class tid' = SNDRV_TIMER_CLASS_NONE"
    by auto
  then show ?case by (subst next_devices.simps) simp
next
  case (Cons d ids)
  then show ?case by (subst next_devices.simps) (simp add: timer_device_id_copy_def)
qed

text \<open>
  C34: with a kernel that has finitely many timer devices the loop for the list of devices ends, and
  the call appends every one of them, in the order of the kernel, to the list of the caller, and
  closes the descriptor it opened.
\<close>

theorem device_id_list_complete:
  assumes "alsatimer_get_devnode sys = Ret devnode" "sys_open sys w devnode O_RDONLY = (w1, SysOk fd)"
    and "enumerates_devices sys fd (zero_timer_id\<lparr>tid_dev_class := -1\<rparr>) ids"
  shows "alsatimer_get_device_id_list sys w entries = Some (sys_close sys w1 fd, entries @ ids, Ret ())"
  using assms next_devices_complete [OF assms(3)]
  by (simp add: alsatimer_get_device_id_list_def timer_open_fd_def)

text \<open>
  A query for the status of a device that fails drops a reference to the object of the
  caller, which the caller does not know of.
\<close>

theorem failed_status_drops_reference:
  assumes "alsatimer_get_devnode sys = Ret devnode" "sys_open sys w devnode O_RDONLY = (w1, SysOk fd)"
    and "TIMER_IOCTL_GSTATUS sys w1 fd ((go_data obj)\<lparr>gs_tid := device_id\<rparr>) = (w2, SysErr e)"
  shows "\<exists>obj'. alsatimer_get_device_status sys w device_id obj =
    (sys_close sys w2 fd, Ret (obj', Some (GError G_FILE_ERROR (file_error sys e)))) \<and>
    go_refs obj' = go_refs obj - 1"
  using assms
  by (simp add: alsatimer_get_device_status_def with_opened_def timer_open_fd_def g_object_unref_def Let_def)

section \<open>The parameter of the module\<close>

text \<open>The text of a parameter of type \<open>int\<close> in sysfs.\<close>

definition print_int :: "int \<Rightarrow> bytes" where
  "print_int v = (if v < 0 then [45] else []) @ dec_repr (nat \<bar>v\<bar>) @ [10]"

lemma print_int_scan:
  "dropWhile isspace (print_int v @ rest) = print_int v @ rest"
  "(if hd (print_int v @ rest) = 45 \<or> hd (print_int v @ rest) = 43 then tl (print_int v @ rest) else print_int v @ rest) =
     dec_repr (nat \<bar>v\<bar>) @ 10 # rest"
  "hd (print_int v @ rest) = 45 \<longleftrightarrow> v < 0"
proof -
  let ?d = "dec_repr (nat \<bar>v\<bar>)"
  have d: "?d \<noteq> []" "hd ?d \<in> set ?d" using dec_repr_digits(1) by auto
  then have hd: "\<not> isspace (hd ?d)" "hd ?d \<noteq> 45" "hd ?d \<noteq> 43"
    using dec_repr_char [of "hd ?d" "nat \<bar>v\<bar>"] by auto
  show "dropWhile isspace (print_int v @ rest) = print_int v @ rest"
    using hd(1) d(1) by (cases ?d) (auto simp: print_int_def isspace_def)
  show "(if hd (print_int v @ rest) = 45 \<or> hd (print_int v @ rest) = 43 then tl (print_int v @ rest)
      else print_int v @ rest) = ?d @ 10 # rest" "hd (print_int v @ rest) = 45 \<longleftrightarrow> v < 0"
    using hd d(1) by (auto simp: print_int_def hd_append)
qed

lemma dec_repr_scan:
  "takeWhile isdigit (dec_repr n @ 10 # rest) = dec_repr n"
  "dropWhile isdigit (dec_repr n @ 10 # rest) = 10 # rest"
  using dec_repr_char [of _ n] by (auto simp: takeWhile_append2 dropWhile_append2 isdigit_def)

lemma print_int_nonempty: "print_int v \<noteq> []"
  by (simp add: print_int_def)

lemma strtol_print_int:
  assumes "LONG_MIN \<le> v" "v \<le> LONG_MAX"
  shows "strtol (print_int v) = Some (v, [10])"
proof -
  let ?d = "dec_repr (nat \<bar>v\<bar>)"
  have d: "digits_val ?d 0 = \<bar>v\<bar>" "?d \<noteq> []" using dec_repr_digits by auto
  show ?thesis
  proof (cases "v < 0")
    case True
    then have "print_int v = 45 # ?d @ [10]" by (simp add: print_int_def)
    with print_int_scan(1) [of v "[]"] True assms d show ?thesis
      by (simp add: strtol_def Let_def dec_repr_scan)
  next
    case False
    then have "print_int v = ?d @ [10]" "hd (?d @ [10]) \<noteq> 45" "hd (?d @ [10]) \<noteq> 43"
      using dec_repr_char [of "hd ?d" "nat \<bar>v\<bar>"] d(2) by (auto simp: print_int_def)
    with print_int_scan(1) [of v "[]"] False assms d show ?thesis
      by (simp add: strtol_def Let_def dec_repr_scan)
  qed
qed

lemma length_dec_repr: "n < 10 ^ k \<Longrightarrow> 0 < k \<Longrightarrow> length (dec_repr n) \<le> k"
proof (induction k arbitrary: n)
  case (Suc k)
  show ?case
  proof (cases "n < 10")
    case False
    then have "0 < k" "n div 10 < 10 ^ k" using Suc.prems by (cases k; auto)+
    then have "length (dec_repr (n div 10)) \<le> k" using Suc.IH by blast
    then show ?thesis using False by (simp add: dec_repr.simps [of n])
  qed (simp add: dec_repr.simps)
qed simp

lemma count_digits_INT_MAX: "count_digits 2147483647 = 10"
  by (simp add: count_digits.simps)

lemma print_int_no_NUL: "0 \<notin> set (print_int v)"
  using dec_repr_char [of 0 "nat \<bar>v\<bar>"] by (auto simp: print_int_def)

lemma cstr_padded: "0 \<notin> set s \<Longrightarrow> cstr (s @ replicate n 0) = s"
  by (cases n) (simp_all add: cstr_simps)

lemma long_from_string_print_int:
  assumes "LONG_MIN \<le> v" "v \<le> LONG_MAX"
  shows "long_from_string (print_int v @ replicate n 0) = (0, Some v)"
proof -
  have "print_int v \<noteq> [10]" using dec_repr_digits(1) [of "nat \<bar>v\<bar>"] by (auto simp: print_int_def)
  then show ?thesis
    using strtol_print_int [OF assms]
    by (simp add: long_from_string_def cstr_padded [OF print_int_no_NUL])
qed

lemma strtol_stops_print_int: "strtol_stops (print_int v @ rest)"
  using print_int_scan [of v rest] dec_repr_scan(2) [of "nat \<bar>v\<bar>" rest] print_int_nonempty [of v]
  by (simp add: strtol_stops_def Let_def del: dropWhile_eq_Nil_conv split: if_splits)

text \<open>
  C35: the buffer for the parameter of the module is large enough for every \<open>int\<close> the kernel prints, with
  its sign and the line feed, and parsing never leaves it; the clock is \<open>CLOCK_REALTIME\<close> for zero and
  \<open>CLOCK_MONOTONIC\<close> for one, and any other value is a protocol error. The descriptor is closed.
\<close>

theorem real_time_clock_of_parameter:
  assumes "sys_open sys w (ascii ''/sys/module/snd_timer/parameters/timer_tstamp_monotonic'') O_RDONLY = (w1, SysOk fd)"
    and "sys_read sys w1 fd 12 = (w2, SysOk (print_int v))"
    and "-2147483648 \<le> v" "v \<le> 2147483647"
  shows "length (print_int v) \<le> 12 \<and>
    alsatimer_get_real_time_clock_id sys w =
      (sys_close sys w2 fd,
       if v = 0 then Ret CLOCK_REALTIME else if v = 1 then Ret CLOCK_MONOTONIC
       else Throw (GError G_FILE_ERROR (file_error sys EPROTO)))"
proof -
  have "length (dec_repr (nat \<bar>v\<bar>)) \<le> 10" using assms(3,4) by (intro length_dec_repr) auto
  then have len: "length (print_int v) \<le> 12" by (auto simp: print_int_def)
  have path: "take 63 (ascii ''/sys/module/snd_timer/parameters/'' @ ascii ''timer_tstamp_monotonic'') =
      ascii ''/sys/module/snd_timer/parameters/timer_tstamp_monotonic''"
    by (simp add: ascii_def)
  have buf: "put_at 0 (print_int v) (replicate 12 0) = print_int v @ replicate (12 - length (print_int v)) 0"
    by (simp add: put_at_def)
  have int: "sint (word_of_int v :: u32) = v"
    using assms(3,4) by (simp add: signed_of_int signed_take_bit_int_eq_self)
  have "timer_get_node_param_value sys w (ascii ''timer_tstamp_monotonic'') (replicate 12 0) =
      (sys_close sys w2 fd, Ret v)"
    using assms long_from_string_print_int [of v] strtol_stops_print_int
    by (simp add: timer_get_node_param_value_def path buf int Let_def del: take_append)
  then show ?thesis
    by (simp add: alsatimer_get_real_time_clock_id_def count_digits_INT_MAX len generate_file_error_def)
qed

end
