(* ===== verification/Timer_User_Instance.thy ===== *)
theory Timer_User_Instance
  imports Timer_Query Event_Loop
begin

text \<open>
  The user instance of \<open>timer/user-instance.c\<close>: opening the timer device, the choice of the kind of
  event, attaching to a device or to another instance, the control of the timer, and the source that
  reads events. The instance keeps the kind of event it chose, and the source parses what it reads by
  it: an invariant of the step relation of the instance says that it is the kind the kernel writes.
\<close>

section \<open>State\<close>

record timer_instance =
  ui_fd :: int
  ui_event_type :: u32
  ui_proto_ver :: "u16 \<times> u16 \<times> u16"
  ui_refs :: nat

definition alsatimer_user_instance_init :: timer_instance where
  "alsatimer_user_instance_init = \<lparr>ui_fd = -1, ui_event_type = 0, ui_proto_ver = (0, 0, 0), ui_refs = 1\<rparr>"

definition timer_user_instance_finalize :: "'w timer_sys \<Rightarrow> 'w \<Rightarrow> timer_instance \<Rightarrow> 'w" where
  "timer_user_instance_finalize sys w self = (if 0 \<le> ui_fd self then sys_close sys w (ui_fd self) else w)"

definition timer_instance_unref :: "'w timer_sys \<Rightarrow> 'w \<Rightarrow> timer_instance \<Rightarrow> 'w \<times> timer_instance" where
  "timer_instance_unref sys w self =
     (let self' = self\<lparr>ui_refs := ui_refs self - 1\<rparr>
      in (if ui_refs self' = 0 then timer_user_instance_finalize sys w self' else w, self'))"



definition instance_err_msgs :: "string option list" where
  "instance_err_msgs =
     [None,
      Some ''The timer instance is not found'',
      Some ''The timer instance is not attached to any timer device or the other instance'',
      Some ''The timer instance is already attached to timer device or the other instance'']"

definition instance_local_error :: "timer_user_instance_error \<Rightarrow> 'a outcome" where
  "instance_local_error code = generate_local_error ALSATIMER_USER_INSTANCE_ERROR instance_err_msgs (timer_user_instance_error_code code)"

definition instance_syscall_error :: "'a outcome" where
  "instance_syscall_error = Throw (GError ALSATIMER_USER_INSTANCE_ERROR (timer_user_instance_error_code ALSATIMER_USER_INSTANCE_ERROR_FAILED))"

lemmas instance_error_defs = instance_local_error_def instance_syscall_error_def instance_err_msgs_def local_error_defs

text \<open>Every code of the enumeration has a message but the one for failed system calls.\<close>

lemma instance_local_error_throws:
  "instance_local_error code =
     (if code = ALSATIMER_USER_INSTANCE_ERROR_FAILED then Critical
      else Throw (GError ALSATIMER_USER_INSTANCE_ERROR (timer_user_instance_error_code code)))"
  by (cases code) (simp_all add: instance_error_defs)

section \<open>Opening\<close>

definition alsatimer_user_instance_open ::
  "'w timer_sys \<Rightarrow> 'w \<Rightarrow> timer_instance \<Rightarrow> u32 \<Rightarrow> 'w \<times> timer_instance \<times> unit outcome" where
  "alsatimer_user_instance_open sys w self open_flag =
     (case alsatimer_get_devnode sys of
        Ret devnode \<Rightarrow>
          (case sys_open sys w devnode (open_flag OR O_RDONLY) of
             (w1, SysErr e) \<Rightarrow>
               let code = file_error sys e
               in (w1, self\<lparr>ui_fd := -1\<rparr>,
                   if code \<noteq> G_FILE_ERROR_FAILED then generate_file_error sys code
                   else instance_syscall_error)
           | (w1, SysOk fd) \<Rightarrow>
               (case TIMER_IOCTL_PVERSION sys w1 fd 0 of
                  (w2, SysErr e) \<Rightarrow>
                    (sys_close sys w2 fd, self\<lparr>ui_fd := -1\<rparr>, instance_syscall_error)
                | (w2, SysOk proto_ver) \<Rightarrow>
                    (w2, self\<lparr>ui_fd := fd, ui_proto_ver := SNDRV_PROTOCOL_TRIPLET proto_ver\<rparr>, Ret ())))
      | Throw e \<Rightarrow> (w, self, Throw e)
      | _ \<Rightarrow> (w, self, Undefined))"

definition alsatimer_user_instance_get_protocol_version :: "timer_instance \<Rightarrow> (u16 \<times> u16 \<times> u16) outcome" where
  "alsatimer_user_instance_get_protocol_version self =
     (if ui_fd self < 0 then Critical else Ret (ui_proto_ver self))"

section \<open>Requests\<close>

text \<open>
  A request on the descriptor of the instance, where one error number has an error of its own: the
  number and the code of the error are arguments.
\<close>

definition instance_request ::
  "errno \<Rightarrow> timer_user_instance_error \<Rightarrow> ('w, 'd) request \<Rightarrow> 'w \<Rightarrow> timer_instance \<Rightarrow> 'd \<Rightarrow> 'w \<times> 'd \<times> unit outcome" where
  "instance_request err code ioctl w self data =
     (case ioctl w (ui_fd self) data of
        (w', SysErr e) \<Rightarrow>
          (w', data, if e = err then instance_local_error code else instance_syscall_error)
      | (w', SysOk data') \<Rightarrow> (w', data', Ret ()))"

definition alsatimer_user_instance_choose_event_type ::
  "'w timer_sys \<Rightarrow> 'w \<Rightarrow> timer_instance \<Rightarrow> u32 \<Rightarrow> 'w \<times> timer_instance \<times> unit outcome" where
  "alsatimer_user_instance_choose_event_type sys w self event_type =
     (case instance_request EBUSY ALSATIMER_USER_INSTANCE_ERROR_ATTACHED (TIMER_IOCTL_TREAD sys) w self event_type of
        (w', _, Ret _) \<Rightarrow> (w', self\<lparr>ui_event_type := event_type\<rparr>, Ret ())
      | (w', _, r) \<Rightarrow> (w', self, r))"

definition alsatimer_user_instance_attach ::
  "'w timer_sys \<Rightarrow> 'w \<Rightarrow> timer_instance \<Rightarrow> snd_timer_id \<Rightarrow> 'w \<times> unit outcome" where
  "alsatimer_user_instance_attach sys w self device_id =
     (case instance_request ENODEV ALSATIMER_USER_INSTANCE_ERROR_TIMER_NOT_FOUND (TIMER_IOCTL_SELECT sys) w self
             \<lparr>sel_id = device_id\<rparr> of
        (w', _, r) \<Rightarrow> (w', r))"

definition alsatimer_user_instance_attach_as_slave ::
  "'w timer_sys \<Rightarrow> 'w \<Rightarrow> timer_instance \<Rightarrow> u32 \<Rightarrow> u32 \<Rightarrow> 'w \<times> unit outcome" where
  "alsatimer_user_instance_attach_as_slave sys w self slave_class slave_id =
     (case TIMER_IOCTL_SELECT sys w (ui_fd self)
             \<lparr>sel_id = zero_timer_id\<lparr>tid_dev_class := SNDRV_TIMER_CLASS_SLAVE,
                tid_dev_sclass := slave_class, tid_device := slave_id\<rparr>\<rparr> of
        (w', SysErr e) \<Rightarrow> (w', instance_syscall_error)
      | (w', SysOk _) \<Rightarrow> (w', Ret ()))"

text \<open>The requests that need an attached instance.\<close>

definition attached_request ::
  "('w, 'd) request \<Rightarrow> 'w \<Rightarrow> timer_instance \<Rightarrow> 'd \<Rightarrow> 'w \<times> 'd \<times> unit outcome" where
  "attached_request ioctl w self data =
     instance_request EBADFD ALSATIMER_USER_INSTANCE_ERROR_NOT_ATTACHED ioctl w self data"

definition alsatimer_user_instance_get_info ::
  "'w timer_sys \<Rightarrow> 'w \<Rightarrow> timer_instance \<Rightarrow> 'w \<times> snd_timer_info outcome" where
  "alsatimer_user_instance_get_info sys w self =
     (case attached_request (TIMER_IOCTL_INFO sys) w self zero_timer_info of
        (w', info, r) \<Rightarrow> (w', obind r (\<lambda>_. Ret info)))"

definition alsatimer_user_instance_set_params ::
  "'w timer_sys \<Rightarrow> 'w \<Rightarrow> timer_instance \<Rightarrow> snd_timer_params \<Rightarrow> 'w \<times> snd_timer_params \<times> unit outcome" where
  "alsatimer_user_instance_set_params sys w self params = attached_request (TIMER_IOCTL_PARAMS sys) w self params"

definition alsatimer_user_instance_get_status ::
  "'w timer_sys \<Rightarrow> 'w \<Rightarrow> timer_instance \<Rightarrow> timer_instance_status \<Rightarrow> 'w \<times> timer_instance_status \<times> unit outcome" where
  "alsatimer_user_instance_get_status sys w self instance_status =
     (case attached_request (TIMER_IOCTL_STATUS sys) w self (is_status instance_status) of
        (w', status, r) \<Rightarrow> (w', instance_status\<lparr>is_status := status\<rparr>, r))"

definition alsatimer_user_instance_start :: "'w timer_sys \<Rightarrow> 'w \<Rightarrow> timer_instance \<Rightarrow> 'w \<times> unit outcome" where
  "alsatimer_user_instance_start sys w self =
     (case attached_request (TIMER_IOCTL_START sys) w self () of (w', _, r) \<Rightarrow> (w', r))"

definition alsatimer_user_instance_stop :: "'w timer_sys \<Rightarrow> 'w \<Rightarrow> timer_instance \<Rightarrow> 'w \<times> unit outcome" where
  "alsatimer_user_instance_stop sys w self =
     (case attached_request (TIMER_IOCTL_STOP sys) w self () of (w', _, r) \<Rightarrow> (w', r))"

definition alsatimer_user_instance_pause :: "'w timer_sys \<Rightarrow> 'w \<Rightarrow> timer_instance \<Rightarrow> 'w \<times> unit outcome" where
  "alsatimer_user_instance_pause sys w self =
     (case attached_request (TIMER_IOCTL_PAUSE sys) w self () of (w', _, r) \<Rightarrow> (w', r))"

definition alsatimer_user_instance_continue :: "'w timer_sys \<Rightarrow> 'w \<Rightarrow> timer_instance \<Rightarrow> 'w \<times> unit outcome" where
  "alsatimer_user_instance_continue sys w self =
     (case attached_request (TIMER_IOCTL_CONTINUE sys) w self () of (w', _, r) \<Rightarrow> (w', r))"

section \<open>The source of events\<close>

datatype timer_signal =
    HandleTickTimeEvent snd_timer_read
  | HandleRealTimeEvent snd_timer_tread
  | HandleTimerDisconnection

definition timer_user_instance_check_src :: "u32 \<Rightarrow> bool" where
  "timer_user_instance_check_src condition \<longleftrightarrow> condition AND (G_IO_IN OR G_IO_ERR) \<noteq> 0"

function dispatch_tick_time_events :: "nat \<Rightarrow> bytes \<Rightarrow> timer_signal list" where
  "dispatch_tick_time_events len buf =
     (if 8 \<le> len
      then [HandleTickTimeEvent (timer_read_dec buf)] @ dispatch_tick_time_events (len - 8) (drop 8 buf)
      else [])"
  by pat_completeness auto
termination by (relation "measure fst") simp_all

function dispatch_real_time_events :: "nat \<Rightarrow> bytes \<Rightarrow> timer_signal list" where
  "dispatch_real_time_events len buf =
     (if 32 \<le> len
      then [HandleRealTimeEvent (timer_tread_dec buf)] @ dispatch_real_time_events (len - 32) (drop 32 buf)
      else [])"
  by pat_completeness auto
termination by (relation "measure fst") simp_all

declare dispatch_tick_time_events.simps [simp del] dispatch_real_time_events.simps [simp del]

definition timer_user_instance_dispatch_src ::
  "'w timer_sys \<Rightarrow> 'w \<Rightarrow> timer_instance \<Rightarrow> bytes \<Rightarrow> u32 \<Rightarrow> 'w \<times> bytes \<times> source_result \<times> timer_signal list" where
  "timer_user_instance_dispatch_src sys w self buf condition =
     (if ui_fd self < 0 then (w, buf, G_SOURCE_REMOVE, [])
      else if condition AND G_IO_ERR \<noteq> 0 then (w, buf, G_SOURCE_REMOVE, [HandleTimerDisconnection])
      else (case sys_read sys w (ui_fd self) (length buf) of
              (w', SysErr e) \<Rightarrow> (w', buf, if e = EAGAIN then G_SOURCE_CONTINUE else G_SOURCE_REMOVE, [])
            | (w', SysOk bs) \<Rightarrow>
                let buf' = put_at 0 bs buf
                in (w', buf', G_SOURCE_CONTINUE,
                    if ui_event_type self = timer_event_type_value ALSATIMER_EVENT_TYPE_TICK_TIME
                    then dispatch_tick_time_events (length bs) buf'
                    else if ui_event_type self = timer_event_type_value ALSATIMER_EVENT_TYPE_REAL_TIME
                    then dispatch_real_time_events (length bs) buf' else [])))"

definition timer_user_instance_finalize_src :: "'w timer_sys \<Rightarrow> 'w \<Rightarrow> timer_instance \<Rightarrow> 'w \<times> timer_instance" where
  "timer_user_instance_finalize_src sys w self = timer_instance_unref sys w self"

definition alsatimer_user_instance_create_source ::
  "nat \<Rightarrow> timer_instance \<Rightarrow> timer_instance \<times> bytes outcome" where
  "alsatimer_user_instance_create_source page_size self =
     (if ui_fd self < 0 then (self, Critical)
      else (self\<lparr>ui_refs := ui_refs self + 1\<rparr>, Ret (replicate page_size 0)))"

interpretation timer_owner: descriptor_owner ui_refs ui_fd
  "\<lambda>w. alsatimer_user_instance_create_source page_size" "timer_user_instance_finalize_src sys" "sys_close sys"
  for page_size sys
  by unfold_locales (auto simp: succeeded_def alsatimer_user_instance_create_source_def timer_user_instance_finalize_src_def
      timer_instance_unref_def timer_user_instance_finalize_def Let_def split: if_splits)

section \<open>Events are delivered in order\<close>

interpretation tick_events: record_walk dispatch_tick_time_events
  "\<lambda>r. [HandleTickTimeEvent (timer_read_dec r)]" 8
proof (unfold_locales, goal_cases)
  case (2 len buf)
  then show ?case by (simp add: dispatch_tick_time_events.simps [of len] timer_read_dec_def get_at_take)
qed (simp_all add: dispatch_tick_time_events.simps)

interpretation real_events: record_walk dispatch_real_time_events
  "\<lambda>r. [HandleRealTimeEvent (timer_tread_dec r)]" 32
proof (unfold_locales, goal_cases)
  case (2 len buf)
  then show ?case by (simp add: dispatch_real_time_events.simps [of len] timer_tread_dec_def get_at_take)
qed (simp_all add: dispatch_real_time_events.simps)

text \<open>What the kernel writes for a batch of events: the records of the kind that was chosen.\<close>

datatype timer_batch =
    TickBatch "snd_timer_read list"
  | RealBatch "(u32 \<times> u32 \<times> snd_timer_tread) list"

fun batch_enc :: "timer_batch \<Rightarrow> bytes" where
  "batch_enc (TickBatch evs) = concat (map timer_read_enc evs)"
| "batch_enc (RealBatch evs) = concat (map (\<lambda>(p, q, ev). timer_tread_enc p q ev) evs)"

fun batch_type :: "timer_batch \<Rightarrow> u32" where
  "batch_type (TickBatch evs) = 0"
| "batch_type (RealBatch evs) = 1"

fun batch_size :: "timer_batch \<Rightarrow> nat" where
  "batch_size (TickBatch evs) = 8"
| "batch_size (RealBatch evs) = 32"

fun batch_signals :: "timer_batch \<Rightarrow> timer_signal list" where
  "batch_signals (TickBatch evs) = map HandleTickTimeEvent evs"
| "batch_signals (RealBatch evs) = map (\<lambda>(p, q, ev). HandleRealTimeEvent ev) evs"

lemma batch_dispatched:
  "length part < 8 \<Longrightarrow>
     dispatch_tick_time_events (length (batch_enc (TickBatch ticks)) + length part) (batch_enc (TickBatch ticks) @ part @ rest) =
       batch_signals (TickBatch ticks)"
  "length part < 32 \<Longrightarrow>
     dispatch_real_time_events (length (batch_enc (RealBatch reals)) + length part) (batch_enc (RealBatch reals) @ part @ rest) =
       batch_signals (RealBatch reals)"
proof -
  assume part: "length part < 8"
  let ?rs = "map timer_read_enc ticks"
  have "length (concat ?rs) = 8 * length ?rs" by (induction ticks) (auto simp: timer_read.length_enc)
  with part show "dispatch_tick_time_events (length (batch_enc (TickBatch ticks)) + length part)
      (batch_enc (TickBatch ticks) @ part @ rest) = batch_signals (TickBatch ticks)"
    using tick_events.emit_records [of ?rs "length part" "part @ rest"]
    by (simp add: timer_read.length_enc timer_read.dec_enc comp_def)
next
  assume part: "length part < 32"
  let ?rs = "map (\<lambda>(p, q, ev). timer_tread_enc p q ev) reals"
  have "length (concat ?rs) = 32 * length ?rs" by (induction reals) (auto simp: timer_tread.length_enc)
  with part show "dispatch_real_time_events (length (batch_enc (RealBatch reals)) + length part)
      (batch_enc (RealBatch reals) @ part @ rest) = batch_signals (RealBatch reals)"
    using real_events.emit_records [of ?rs "length part" "part @ rest"]
    by (auto simp: timer_tread.length_enc timer_tread.dec_enc comp_def case_prod_unfold)
qed

lemma dispatch_batch:
  assumes "0 \<le> ui_fd self" "condition AND G_IO_ERR = 0" "ui_event_type self = batch_type batch"
    and "sys_read sys w (ui_fd self) (length buf) = (w', SysOk (batch_enc batch @ part))"
    and "length part < batch_size batch"
  shows "timer_user_instance_dispatch_src sys w self buf condition =
    (w', put_at 0 (batch_enc batch @ part) buf, G_SOURCE_CONTINUE, batch_signals batch)"
  using assms batch_dispatched
  by (cases batch) (auto simp: timer_user_instance_dispatch_src_def put_at_def Let_def
      simp del: batch_enc.simps batch_signals.simps)

interpretation timer_source: polled_source
  "delivers sys (ui_fd self) buf_len pending batch_enc (\<lambda>batch. batch_type batch = ui_event_type self)"
  buf_len pending timer_user_instance_check_src "\<lambda>w. timer_user_instance_dispatch_src sys w self"
  "\<lambda>signals batch. signals = batch_signals batch" "[HandleTimerDisconnection]"
  for sys self buf_len pending
proof (unfold_locales, goal_cases)
  case (1 c)
  show ?case unfolding timer_user_instance_check_src_def is_ready_def by (rule ready_or_error)
next
  case (2 buf c w batch rest)
  obtain w' where w': "sys_read sys w (ui_fd self) (length buf) = (w', SysOk (batch_enc batch))" "pending w' = rest"
      "batch_type batch = ui_event_type self" "length (batch_enc batch) \<le> length buf"
    using delivers_next [OF 2(1,4)] 2(2) by auto
  moreover have "0 \<le> ui_fd self" using 2(1) by (simp add: delivers_def)
  moreover have "0 < batch_size batch" by (cases batch) simp_all
  ultimately show ?case
    using dispatch_batch [of self c batch sys w buf w' "[]"] 2(2,3) by simp
next
  case (3 buf c w)
  then show ?case
    using delivers_none [OF 3(1,4)] by (auto simp: timer_user_instance_dispatch_src_def delivers_def)
next
  case (4 c w buf)
  then show ?case by (simp add: timer_user_instance_dispatch_src_def delivers_def)
qed

section \<open>The kind of events is the kind the kernel writes\<close>

text \<open>The operations of an application on an open instance, in any order.\<close>

datatype instance_op =
    ChooseEventType u32
  | Attach snd_timer_id
  | AttachAsSlave u32 u32
  | GetInfo
  | SetParams snd_timer_params
  | GetStatus timer_instance_status
  | Start
  | Stop
  | Pause
  | Continue
  | Dispatch bytes u32

fun instance_apply ::
  "'w timer_sys \<Rightarrow> instance_op \<Rightarrow> 'w \<times> timer_instance \<Rightarrow> 'w \<times> timer_instance" where
  "instance_apply sys (ChooseEventType t) (w, self) =
     (case alsatimer_user_instance_choose_event_type sys w self t of (w', self', _) \<Rightarrow> (w', self'))"
| "instance_apply sys (Attach tid) (w, self) = (fst (alsatimer_user_instance_attach sys w self tid), self)"
| "instance_apply sys (AttachAsSlave c i) (w, self) = (fst (alsatimer_user_instance_attach_as_slave sys w self c i), self)"
| "instance_apply sys GetInfo (w, self) = (fst (alsatimer_user_instance_get_info sys w self), self)"
| "instance_apply sys (SetParams params) (w, self) = (fst (alsatimer_user_instance_set_params sys w self params), self)"
| "instance_apply sys (GetStatus status) (w, self) = (fst (alsatimer_user_instance_get_status sys w self status), self)"
| "instance_apply sys Start (w, self) = (fst (alsatimer_user_instance_start sys w self), self)"
| "instance_apply sys Stop (w, self) = (fst (alsatimer_user_instance_stop sys w self), self)"
| "instance_apply sys Pause (w, self) = (fst (alsatimer_user_instance_pause sys w self), self)"
| "instance_apply sys Continue (w, self) = (fst (alsatimer_user_instance_continue sys w self), self)"
| "instance_apply sys (Dispatch buf condition) (w, self) =
     (fst (timer_user_instance_dispatch_src sys w self buf condition), self)"

fun instance_op_ok :: "instance_op \<Rightarrow> bool" where
  "instance_op_ok (ChooseEventType t) \<longleftrightarrow> t = timer_event_type_value ALSATIMER_EVENT_TYPE_TICK_TIME \<or> t = timer_event_type_value ALSATIMER_EVENT_TYPE_REAL_TIME"
| "instance_op_ok _ \<longleftrightarrow> True"

text \<open>
  \<open>tread\<close> reads from the kernel the kind of events it writes to the descriptor: the request for it sets
  the kind when it succeeds and leaves it when it fails, and nothing else changes it.
\<close>

definition keeps :: "('w \<Rightarrow> u32) \<Rightarrow> int \<Rightarrow> ('w \<Rightarrow> int \<Rightarrow> 'd \<Rightarrow> 'w \<times> 'e) \<Rightarrow> bool" where
  "keeps tread fd ioctl \<longleftrightarrow> (\<forall>w d. tread (fst (ioctl w fd d)) = tread w)"

definition keeps_tread :: "'w timer_sys \<Rightarrow> int \<Rightarrow> ('w \<Rightarrow> u32) \<Rightarrow> bool" where
  "keeps_tread sys fd tread \<longleftrightarrow>
     (\<forall>w d. d = 0 \<or> d = 1 \<longrightarrow>
        tread (fst (TIMER_IOCTL_TREAD sys w fd d)) =
          (case snd (TIMER_IOCTL_TREAD sys w fd d) of SysOk _ \<Rightarrow> d | SysErr _ \<Rightarrow> tread w)) \<and>
     keeps tread fd (TIMER_IOCTL_SELECT sys) \<and> keeps tread fd (TIMER_IOCTL_INFO sys) \<and>
     keeps tread fd (TIMER_IOCTL_PARAMS sys) \<and> keeps tread fd (TIMER_IOCTL_STATUS sys) \<and>
     keeps tread fd (TIMER_IOCTL_START sys) \<and> keeps tread fd (TIMER_IOCTL_STOP sys) \<and>
     keeps tread fd (TIMER_IOCTL_PAUSE sys) \<and> keeps tread fd (TIMER_IOCTL_CONTINUE sys) \<and>
     keeps tread fd (sys_read sys)"

lemma instance_request_world: "fst (instance_request err code ioctl w self d) = fst (ioctl w (ui_fd self) d)"
  by (simp add: instance_request_def split: prod.splits sysret.splits)

lemma attached_request_world: "fst (attached_request ioctl w self d) = fst (ioctl w (ui_fd self) d)"
  by (simp add: attached_request_def instance_request_world)

lemmas request_world = instance_request_world attached_request_world case_prod_unfold

lemma choose_event_type_tread:
  assumes "keeps_tread sys fd tread" "ui_fd self = fd" "t = 0 \<or> t = 1" "ui_event_type self = tread w"
    and "alsatimer_user_instance_choose_event_type sys w self t = (w', self', r)"
  shows "ui_fd self' = fd \<and> ui_event_type self' = tread w'"
proof -
  obtain w1 res where req: "TIMER_IOCTL_TREAD sys w fd t = (w1, res)" by fastforce
  have "tread (fst (TIMER_IOCTL_TREAD sys w fd t)) =
      (case snd (TIMER_IOCTL_TREAD sys w fd t) of SysOk _ \<Rightarrow> t | SysErr _ \<Rightarrow> tread w)"
    using assms(1,3) unfolding keeps_tread_def by blast
  then have "tread w1 = (case res of SysOk _ \<Rightarrow> t | SysErr _ \<Rightarrow> tread w)" by (simp add: req)
  then show ?thesis using assms(2,4,5) req
    by (auto simp: alsatimer_user_instance_choose_event_type_def instance_request_def instance_error_defs split: sysret.splits if_splits)
qed

lemma instance_apply_tread:
  assumes "keeps_tread sys fd tread" "instance_op_ok op" "ui_fd self = fd" "ui_event_type self = tread w"
    and "instance_apply sys op (w, self) = (w', self')"
  shows "ui_fd self' = fd \<and> ui_event_type self' = tread w'"
proof -
  have keep: "tread (fst (TIMER_IOCTL_SELECT sys v fd d1)) = tread v" "tread (fst (TIMER_IOCTL_INFO sys v fd d2)) = tread v"
    "tread (fst (TIMER_IOCTL_PARAMS sys v fd d3)) = tread v" "tread (fst (TIMER_IOCTL_STATUS sys v fd d4)) = tread v"
    "tread (fst (TIMER_IOCTL_START sys v fd u)) = tread v" "tread (fst (TIMER_IOCTL_STOP sys v fd u)) = tread v"
    "tread (fst (TIMER_IOCTL_PAUSE sys v fd u)) = tread v" "tread (fst (TIMER_IOCTL_CONTINUE sys v fd u)) = tread v"
    "tread (fst (sys_read sys v fd n)) = tread v" for v d1 d2 d3 d4 u n
    using assms(1) by (simp_all add: keeps_tread_def keeps_def)
  show ?thesis
  proof (cases op)
    case (ChooseEventType t)
    then show ?thesis
      using assms choose_event_type_tread [OF assms(1,3) _ assms(4)] by (auto split: prod.splits)
  next
    case (Dispatch buf condition)
    then show ?thesis using assms(3-5) keep(9) [of w "length buf"]
      by (auto simp: timer_user_instance_dispatch_src_def Let_def split: if_splits prod.splits sysret.splits)
  next
    case (AttachAsSlave c i)
    then show ?thesis using assms(3-5) keep(1) [of w]
      by (auto simp: alsatimer_user_instance_attach_as_slave_def split: prod.splits sysret.splits) (metis fst_conv)+
  qed (use assms(3-5) keep in \<open>auto simp: request_world alsatimer_user_instance_attach_def
      alsatimer_user_instance_get_info_def alsatimer_user_instance_set_params_def
      alsatimer_user_instance_get_status_def alsatimer_user_instance_start_def alsatimer_user_instance_stop_def
      alsatimer_user_instance_pause_def alsatimer_user_instance_continue_def\<close>)
qed

lemma instance_run_tread:
  assumes "keeps_tread sys fd tread" "\<forall>op\<in>set ops. instance_op_ok op"
    and "ui_fd self = fd" "ui_event_type self = tread w" "fold (instance_apply sys) ops (w, self) = (w', self')"
  shows "ui_fd self' = fd \<and> ui_event_type self' = tread w'"
  using assms(2-5)
proof (induction ops arbitrary: w self)
  case (Cons op ops)
  obtain w1 self1 where step: "instance_apply sys op (w, self) = (w1, self1)" by fastforce
  have ok: "instance_op_ok op" "\<forall>op\<in>set ops. instance_op_ok op" using Cons.prems(1) by simp_all
  have "ui_fd self1 = fd" "ui_event_type self1 = tread w1"
    using instance_apply_tread [OF assms(1) ok(1) Cons.prems(2,3) step] by simp_all
  then show ?case using Cons.IH [OF ok(2), of self1 w1] Cons.prems(4) step by simp
qed auto

text \<open>
  C32: after an instance was created and opened, whatever operations an application performs on it, in
  any order and with any of them failing, the kind of event the instance has stored is the kind the
  kernel writes to its descriptor. So when the kernel has written a batch of events of that kind, the
  last one possibly cut off, dispatching emits one signal for each, in order.
\<close>

theorem timer_events_match_kernel:
  assumes "alsatimer_user_instance_open sys w0 alsatimer_user_instance_init open_flag = (w1, self1, Ret ())"
    and "0 \<le> ui_fd self1" "tread w1 = 0" "keeps_tread sys (ui_fd self1) tread"
    and "\<forall>op\<in>set ops. instance_op_ok op" "fold (instance_apply sys) ops (w1, self1) = (w2, self2)"
    and "sys_read sys w2 (ui_fd self1) (length buf) = (w3, SysOk (batch_enc batch @ part))"
    and "batch_type batch = tread w2" "length part < batch_size batch" "condition AND G_IO_ERR = 0"
  shows "ui_event_type self2 = tread w2 \<and>
    (\<exists>buf'. timer_user_instance_dispatch_src sys w2 self2 buf condition =
       (w3, buf', G_SOURCE_CONTINUE, batch_signals batch))"
proof -
  have "ui_event_type self1 = tread w1"
    using assms(1,3) by (auto simp: alsatimer_user_instance_open_def alsatimer_user_instance_init_def Let_def
        generate_file_error_def instance_error_defs split: outcome.splits prod.splits sysret.splits if_splits)
  then have "ui_fd self2 = ui_fd self1" "ui_event_type self2 = tread w2"
    using instance_run_tread [OF assms(4,5) refl _ assms(6)] by auto
  with assms dispatch_batch [of self2 condition batch sys w2 buf w3 part] show ?thesis by simp
qed

text \<open>
  An instance that is opened again keeps the kind of event of the descriptor it had before, which
  it does not close, while the kernel starts a new descriptor with events of tick time.
\<close>

theorem reopen_keeps_event_type:
  assumes "alsatimer_user_instance_open sys w self open_flag = (w', self', Ret ())"
  shows "ui_event_type self' = ui_event_type self \<and>
    (\<exists>devnode w1 fd proto. sys_open sys w devnode (open_flag OR O_RDONLY) = (w1, SysOk fd) \<and> ui_fd self' = fd \<and>
       TIMER_IOCTL_PVERSION sys w1 fd 0 = (w', SysOk proto))"
  using assms
  by (auto simp: alsatimer_user_instance_open_def Let_def generate_file_error_def instance_error_defs
      split: outcome.splits prod.splits sysret.splits if_splits) blast

section \<open>Errors\<close>

text \<open>A table of the error numbers that mean something to a request; any other number is a failure of the system call.\<close>

definition instance_failure :: "(errno \<times> timer_user_instance_error) list \<Rightarrow> errno \<Rightarrow> 'a outcome" where
  "instance_failure own e =
     Throw (GError ALSATIMER_USER_INSTANCE_ERROR (timer_user_instance_error_code
       (case map_of own e of Some code \<Rightarrow> code | None \<Rightarrow> ALSATIMER_USER_INSTANCE_ERROR_FAILED)))"

text \<open>
  C37: how the ten requests of an instance report a refusal of the kernel, each in any state of the kernel and for any error number.
  An attached instance cannot choose the kind of event and keeps the one it has; attaching to an absent device, and
  asking for information or status, setting parameters, starting, stopping, pausing or continuing when nothing is attached,
  have errors of their own; any other error number, and every one when attaching as a slave, is a failure.
  A structure of the caller is left as it was.
\<close>

theorem instance_errors:
  "(\<forall>w w' e. TIMER_IOCTL_TREAD sys w (ui_fd self) t = (w', SysErr e) \<longrightarrow>
       alsatimer_user_instance_choose_event_type sys w self t = (w', self, instance_failure [(EBUSY, ALSATIMER_USER_INSTANCE_ERROR_ATTACHED)] e)) \<and>
     (\<forall>w w' e. TIMER_IOCTL_SELECT sys w (ui_fd self) \<lparr>sel_id = tid\<rparr> = (w', SysErr e) \<longrightarrow>
       alsatimer_user_instance_attach sys w self tid = (w', instance_failure [(ENODEV, ALSATIMER_USER_INSTANCE_ERROR_TIMER_NOT_FOUND)] e)) \<and>
     (\<forall>w w' e. TIMER_IOCTL_SELECT sys w (ui_fd self) \<lparr>sel_id = \<lparr>tid_dev_class = 0, tid_dev_sclass = c, tid_card = 0, tid_device = i, tid_subdevice = 0\<rparr>\<rparr> = (w', SysErr e) \<longrightarrow>
       alsatimer_user_instance_attach_as_slave sys w self c i = (w', instance_failure [] e)) \<and>
     (\<forall>w w' e. TIMER_IOCTL_INFO sys w (ui_fd self) zero_timer_info = (w', SysErr e) \<longrightarrow>
       alsatimer_user_instance_get_info sys w self = (w', instance_failure [(EBADFD, ALSATIMER_USER_INSTANCE_ERROR_NOT_ATTACHED)] e)) \<and>
     (\<forall>w w' e. TIMER_IOCTL_PARAMS sys w (ui_fd self) params = (w', SysErr e) \<longrightarrow>
       alsatimer_user_instance_set_params sys w self params = (w', params, instance_failure [(EBADFD, ALSATIMER_USER_INSTANCE_ERROR_NOT_ATTACHED)] e)) \<and>
     (\<forall>w w' e. TIMER_IOCTL_STATUS sys w (ui_fd self) (is_status status) = (w', SysErr e) \<longrightarrow>
       alsatimer_user_instance_get_status sys w self status = (w', status, instance_failure [(EBADFD, ALSATIMER_USER_INSTANCE_ERROR_NOT_ATTACHED)] e)) \<and>
     (\<forall>w w' e. TIMER_IOCTL_START sys w (ui_fd self) () = (w', SysErr e) \<longrightarrow>
       alsatimer_user_instance_start sys w self = (w', instance_failure [(EBADFD, ALSATIMER_USER_INSTANCE_ERROR_NOT_ATTACHED)] e)) \<and>
     (\<forall>w w' e. TIMER_IOCTL_STOP sys w (ui_fd self) () = (w', SysErr e) \<longrightarrow>
       alsatimer_user_instance_stop sys w self = (w', instance_failure [(EBADFD, ALSATIMER_USER_INSTANCE_ERROR_NOT_ATTACHED)] e)) \<and>
     (\<forall>w w' e. TIMER_IOCTL_PAUSE sys w (ui_fd self) () = (w', SysErr e) \<longrightarrow>
       alsatimer_user_instance_pause sys w self = (w', instance_failure [(EBADFD, ALSATIMER_USER_INSTANCE_ERROR_NOT_ATTACHED)] e)) \<and>
     (\<forall>w w' e. TIMER_IOCTL_CONTINUE sys w (ui_fd self) () = (w', SysErr e) \<longrightarrow>
       alsatimer_user_instance_continue sys w self = (w', instance_failure [(EBADFD, ALSATIMER_USER_INSTANCE_ERROR_NOT_ATTACHED)] e))"
  by (intro conjI allI impI)
    (simp_all add: instance_failure_def alsatimer_user_instance_choose_event_type_def alsatimer_user_instance_attach_def
      alsatimer_user_instance_attach_as_slave_def alsatimer_user_instance_get_info_def alsatimer_user_instance_set_params_def
      alsatimer_user_instance_get_status_def alsatimer_user_instance_start_def alsatimer_user_instance_stop_def
      alsatimer_user_instance_pause_def alsatimer_user_instance_continue_def
      attached_request_def instance_request_def instance_error_defs zero_timer_id_def)

section \<open>A small machine\<close>

text \<open>
  A kernel with two global timers. The state of the world is the kind of events of the descriptor; a new
  descriptor starts with tick time. Reading yields two events of tick time or one of real time.
\<close>

definition timer_device :: udev_device where
  "timer_device = \<lparr>udev_device_get_sysname = SysOk (ascii ''timer''),
     udev_device_get_devnode = SysOk (ascii ''/dev/snd/timer''), udev_device_get_sysnum = None\<rparr>"

definition global_timer :: "u32 \<Rightarrow> snd_timer_id" where
  "global_timer device = alsatimer_device_id_new 1 0 device 0"

definition next_small_timer :: "(u32, snd_timer_id) request" where
  "next_small_timer w fd tid =
     (w, SysOk (if tid_dev_class tid = -1 then global_timer 0
                else if tid_device tid = 0 then global_timer 3
                else zero_timer_id\<lparr>tid_dev_class := -1\<rparr>))"

definition small_batch :: "u32 \<Rightarrow> timer_batch" where
  "small_batch tread =
     (if tread = 0 then TickBatch [\<lparr>tr_resolution = 1000, tr_ticks = 1\<rparr>, \<lparr>tr_resolution = 1000, tr_ticks = 2\<rparr>]
      else RealBatch [(7, 9, \<lparr>tt_event = 1, tt_tv_sec = 5, tt_tv_nsec = 6, tt_val = 2\<rparr>)])"

definition small_timer :: "u32 timer_sys" where
  "small_timer =
     \<lparr>sys_open = (\<lambda>w d f. if d = ascii ''/dev/snd/timer'' then (0, SysOk 7) else (w, SysOk 3)),
      sys_close = (\<lambda>w fd. w),
      sys_read = (\<lambda>w fd n. (w, SysOk (if fd = 3 then print_int 1 else batch_enc (small_batch w)))),
      sys_write = (\<lambda>w fd bs. (w, SysOk (length bs))), file_error = (\<lambda>e. G_FILE_ERROR_FAILED),
      timer_libc = plain_libc, timer_udev = udev_with (Some timer_device),
      TIMER_IOCTL_PVERSION = (\<lambda>w fd d. (w, SysOk 0x020007)), TIMER_IOCTL_NEXT_DEVICE = next_small_timer,
      TIMER_IOCTL_TREAD = (\<lambda>w fd d. if d = 0 \<or> d = 1 then (d, SysOk d) else (w, SysErr EINVAL)),
      TIMER_IOCTL_GINFO = refuse, TIMER_IOCTL_GPARAMS = refuse, TIMER_IOCTL_GSTATUS = refuse,
      TIMER_IOCTL_SELECT = (\<lambda>w fd d. (w, SysErr ENODEV)), TIMER_IOCTL_INFO = refuse,
      TIMER_IOCTL_PARAMS = (\<lambda>w fd d. (w, SysErr EBADFD)), TIMER_IOCTL_STATUS = refuse,
      TIMER_IOCTL_START = (\<lambda>w fd d. (w, SysErr EBADFD)), TIMER_IOCTL_STOP = refuse,
      TIMER_IOCTL_CONTINUE = refuse, TIMER_IOCTL_PAUSE = refuse\<rparr>"

lemma small_timer_device: "alsatimer_get_devnode small_timer = Ret (ascii ''/dev/snd/timer'')"
  by (simp add: alsatimer_get_devnode_def lookup_and_allocate_timer_devname_def
      lookup_and_allocate_devname_by_sysname_def lookup_and_allocate_name_by_sysname_def
      lookup_and_allocate_string_by_sysname_def allocate_string_def plain_libc_def small_timer_def
      udev_with_def timer_device_def Let_def)

lemma small_timer_open:
  "sys_open small_timer w (ascii ''/dev/snd/timer'') f = (0, SysOk 7)"
  "alsatimer_user_instance_open small_timer w self f =
     (0, self\<lparr>ui_fd := 7, ui_proto_ver := (2, 0, 7)\<rparr>, Ret ())"
  by (simp_all add: alsatimer_user_instance_open_def small_timer_device, simp_all add: small_timer_def SNDRV_PROTOCOL_TRIPLET_def)

lemma small_timer_tread: "keeps_tread small_timer 7 (\<lambda>w. w)"
  by (auto simp: keeps_tread_def keeps_def small_timer_def refuse_def)

theorem device_id_list_complete_witness:
  "alsatimer_get_device_id_list small_timer 0 [] = Some (0, [global_timer 0, global_timer 3], Ret ())"
proof -
  have "enumerates_devices small_timer 7 (zero_timer_id\<lparr>tid_dev_class := -1\<rparr>) [global_timer 0, global_timer 3]"
    by (simp add: small_timer_def next_small_timer_def global_timer_def alsatimer_device_id_new_def)
  from device_id_list_complete [OF small_timer_device small_timer_open(1) this]
  show ?thesis by (simp add: small_timer_def)
qed

theorem failed_status_drops_reference_witness:
  "\<exists>obj'. snd (alsatimer_get_device_status small_timer 0 (global_timer 0) \<lparr>go_refs = 1, go_data = alsatimer_device_status_new\<rparr>) =
     Ret (obj', Some (GError G_FILE_ERROR 24)) \<and> go_refs obj' = 0"
  using failed_status_drops_reference [OF small_timer_device small_timer_open(1),
      where obj = "\<lparr>go_refs = 1, go_data = alsatimer_device_status_new\<rparr>" and device_id = "global_timer 0"
        and w = 0 and e = EINVAL and ?w2.0 = 0]
  by (force simp: small_timer_def refuse_def)

theorem real_time_clock_of_parameter_witness: "alsatimer_get_real_time_clock_id small_timer 0 = (0, Ret 1)"
proof -
  have "sys_open small_timer 0 (ascii ''/sys/module/snd_timer/parameters/timer_tstamp_monotonic'') 0 = (0, SysOk 3)"
    by (simp add: small_timer_def ascii_def)
  from real_time_clock_of_parameter [OF this, of 0 1] show ?thesis by (simp add: small_timer_def)
qed

theorem timer_events_match_kernel_witness:
  "\<exists>buf'. timer_user_instance_dispatch_src small_timer 1 (alsatimer_user_instance_init\<lparr>ui_fd := 7, ui_proto_ver := (2, 0, 7), ui_event_type := 1\<rparr>)
     (replicate 4096 0) 1 =
     (1, buf', G_SOURCE_CONTINUE, [HandleRealTimeEvent \<lparr>tt_event = 1, tt_tv_sec = 5, tt_tv_nsec = 6, tt_val = 2\<rparr>])"
proof -
  let ?self = "alsatimer_user_instance_init\<lparr>ui_fd := 7, ui_proto_ver := (2, 0, 7)\<rparr>"
  have run: "fold (instance_apply small_timer) [ChooseEventType 1, Start, ChooseEventType 0, ChooseEventType 1] (0, ?self) =
      (1, ?self\<lparr>ui_event_type := 1\<rparr>)"
    by (simp add: alsatimer_user_instance_choose_event_type_def alsatimer_user_instance_start_def
        attached_request_def instance_request_def small_timer_def instance_error_defs)
  have "ui_event_type (?self\<lparr>ui_event_type := 1\<rparr>) = 1 \<and>
      (\<exists>buf'. timer_user_instance_dispatch_src small_timer 1 (?self\<lparr>ui_event_type := 1\<rparr>) (replicate 4096 0) 1 =
         (1, buf', G_SOURCE_CONTINUE, batch_signals (small_batch 1)))"
    by (rule timer_events_match_kernel [OF small_timer_open(2) _ _ _ _ run, where tread = "\<lambda>w. w" and part = "[]"])
      (simp_all add: small_timer_tread, simp_all add: small_timer_def small_batch_def)
  then show ?thesis by (simp add: small_batch_def)
qed

theorem reopen_keeps_event_type_witness:
  "ui_event_type (fst (snd (alsatimer_user_instance_open small_timer 1 (alsatimer_user_instance_init\<lparr>ui_fd := 7, ui_event_type := 1\<rparr>) 0))) = 1"
  using reopen_keeps_event_type [OF small_timer_open(2)
      [of 1 "alsatimer_user_instance_init\<lparr>ui_fd := 7, ui_event_type := 1\<rparr>" 0]]
  by (simp add: small_timer_open(2))

text \<open>
  A kernel whose state, apart from the kind of events, is a two while a timer is attached: then the kind of events cannot be chosen, and
  before that the instance cannot be started.
\<close>

definition attaching_timer :: "u32 timer_sys" where
  "attaching_timer = small_timer\<lparr>
     TIMER_IOCTL_SELECT := (\<lambda>w fd d. if tid_device (sel_id d) = 3 then (2, SysOk d) else (w, SysErr ENODEV)),
     TIMER_IOCTL_TREAD := (\<lambda>w fd d. if w = 2 then (w, SysErr EBUSY) else (d, SysOk d)),
     TIMER_IOCTL_START := (\<lambda>w fd d. (w, if w = 2 then SysOk d else SysErr EBADFD))\<rparr>"

theorem instance_errors_witness:
  "alsatimer_user_instance_start attaching_timer 0 alsatimer_user_instance_init = (0, Throw (GError ALSATIMER_USER_INSTANCE_ERROR 2)) \<and>
   alsatimer_user_instance_attach attaching_timer 0 alsatimer_user_instance_init (global_timer 9) =
     (0, Throw (GError ALSATIMER_USER_INSTANCE_ERROR 1)) \<and>
   alsatimer_user_instance_choose_event_type attaching_timer 2 alsatimer_user_instance_init 1 =
     (2, alsatimer_user_instance_init, Throw (GError ALSATIMER_USER_INSTANCE_ERROR 3))"
proof -
  note errs = instance_errors [of attaching_timer alsatimer_user_instance_init 1 "global_timer 9" 0 0 alsatimer_instance_params_new
      alsatimer_instance_status_new]
  have refused: "TIMER_IOCTL_START attaching_timer 0 fd () = (0, SysErr EBADFD)"
      "TIMER_IOCTL_SELECT attaching_timer 0 fd \<lparr>sel_id = global_timer 9\<rparr> = (0, SysErr ENODEV)"
      "TIMER_IOCTL_TREAD attaching_timer 2 fd 1 = (2, SysErr EBUSY)" for fd
    by (simp_all add: attaching_timer_def global_timer_def alsatimer_device_id_new_def)
  from errs refused show ?thesis by (simp add: instance_failure_def)
qed

end
