(* ===== verification/Rawmidi_Enum_Types.thy ===== *)
theory Rawmidi_Enum_Types
  imports Enum_Values
begin

text \<open>
  The enumerations of \<open>rawmidi/alsarawmidi-enum-types.h\<close>, of raw MIDI: directions, flags of stream pairs and errors.
  The values are those of the kernel headers that the header names.
\<close>

datatype rawmidi_stream_direction =
    ALSARAWMIDI_STREAM_DIRECTION_OUTPUT | ALSARAWMIDI_STREAM_DIRECTION_INPUT

primrec rawmidi_stream_direction_value :: "rawmidi_stream_direction \<Rightarrow> u32" where
  "rawmidi_stream_direction_value ALSARAWMIDI_STREAM_DIRECTION_OUTPUT = 0" |
  "rawmidi_stream_direction_value ALSARAWMIDI_STREAM_DIRECTION_INPUT = 1"

definition all_rawmidi_stream_direction :: "rawmidi_stream_direction list" where
  "all_rawmidi_stream_direction = [ALSARAWMIDI_STREAM_DIRECTION_OUTPUT, ALSARAWMIDI_STREAM_DIRECTION_INPUT]"

lemma set_all_rawmidi_stream_direction: "set all_rawmidi_stream_direction = UNIV"
  using rawmidi_stream_direction.exhaust by (auto simp: all_rawmidi_stream_direction_def)

lemma distinct_all_rawmidi_stream_direction: "distinct (map rawmidi_stream_direction_value all_rawmidi_stream_direction)"
  by (simp add: all_rawmidi_stream_direction_def)

interpretation rawmidi_stream_direction: enumeration rawmidi_stream_direction_value all_rawmidi_stream_direction
  by unfold_locales (fact set_all_rawmidi_stream_direction distinct_all_rawmidi_stream_direction)+

datatype rawmidi_stream_pair_info_flag =
    ALSARAWMIDI_STREAM_PAIR_INFO_FLAG_OUTPUT | ALSARAWMIDI_STREAM_PAIR_INFO_FLAG_INPUT
  | ALSARAWMIDI_STREAM_PAIR_INFO_FLAG_DUPLEX

primrec rawmidi_stream_pair_info_flag_value :: "rawmidi_stream_pair_info_flag \<Rightarrow> u32" where
  "rawmidi_stream_pair_info_flag_value ALSARAWMIDI_STREAM_PAIR_INFO_FLAG_OUTPUT = 1" |
  "rawmidi_stream_pair_info_flag_value ALSARAWMIDI_STREAM_PAIR_INFO_FLAG_INPUT = 2" |
  "rawmidi_stream_pair_info_flag_value ALSARAWMIDI_STREAM_PAIR_INFO_FLAG_DUPLEX = 4"

definition all_rawmidi_stream_pair_info_flag :: "rawmidi_stream_pair_info_flag list" where
  "all_rawmidi_stream_pair_info_flag = [ALSARAWMIDI_STREAM_PAIR_INFO_FLAG_OUTPUT,
     ALSARAWMIDI_STREAM_PAIR_INFO_FLAG_INPUT, ALSARAWMIDI_STREAM_PAIR_INFO_FLAG_DUPLEX]"

lemma set_all_rawmidi_stream_pair_info_flag: "set all_rawmidi_stream_pair_info_flag = UNIV"
  using rawmidi_stream_pair_info_flag.exhaust by (auto simp: all_rawmidi_stream_pair_info_flag_def)

lemma distinct_all_rawmidi_stream_pair_info_flag: "distinct (map rawmidi_stream_pair_info_flag_value all_rawmidi_stream_pair_info_flag)"
  by (simp add: all_rawmidi_stream_pair_info_flag_def)

interpretation rawmidi_stream_pair_info_flag: flag_enumeration rawmidi_stream_pair_info_flag_value all_rawmidi_stream_pair_info_flag
proof unfold_locales
  fix a b :: rawmidi_stream_pair_info_flag
  assume "a \<noteq> b"
  then show "rawmidi_stream_pair_info_flag_value a AND rawmidi_stream_pair_info_flag_value b = 0" by (cases a; cases b; simp)
next
  fix a :: rawmidi_stream_pair_info_flag
  show "rawmidi_stream_pair_info_flag_value a \<noteq> 0" by (cases a) simp_all
qed (fact set_all_rawmidi_stream_pair_info_flag distinct_all_rawmidi_stream_pair_info_flag)+

datatype rawmidi_stream_pair_error =
    ALSARAWMIDI_STREAM_PAIR_ERROR_FAILED | ALSARAWMIDI_STREAM_PAIR_ERROR_DISCONNECTED
  | ALSARAWMIDI_STREAM_PAIR_ERROR_UNREADABLE

primrec rawmidi_stream_pair_error_code :: "rawmidi_stream_pair_error \<Rightarrow> int" where
  "rawmidi_stream_pair_error_code ALSARAWMIDI_STREAM_PAIR_ERROR_FAILED = 0" |
  "rawmidi_stream_pair_error_code ALSARAWMIDI_STREAM_PAIR_ERROR_DISCONNECTED = 1" |
  "rawmidi_stream_pair_error_code ALSARAWMIDI_STREAM_PAIR_ERROR_UNREADABLE = 2"

definition all_rawmidi_stream_pair_error :: "rawmidi_stream_pair_error list" where
  "all_rawmidi_stream_pair_error = [ALSARAWMIDI_STREAM_PAIR_ERROR_FAILED,
     ALSARAWMIDI_STREAM_PAIR_ERROR_DISCONNECTED, ALSARAWMIDI_STREAM_PAIR_ERROR_UNREADABLE]"

lemma set_all_rawmidi_stream_pair_error: "set all_rawmidi_stream_pair_error = UNIV"
  using rawmidi_stream_pair_error.exhaust by (auto simp: all_rawmidi_stream_pair_error_def)

lemma distinct_all_rawmidi_stream_pair_error: "distinct (map rawmidi_stream_pair_error_code all_rawmidi_stream_pair_error)"
  by (simp add: all_rawmidi_stream_pair_error_def)

interpretation rawmidi_stream_pair_error: enumeration rawmidi_stream_pair_error_code all_rawmidi_stream_pair_error
  by unfold_locales (fact set_all_rawmidi_stream_pair_error distinct_all_rawmidi_stream_pair_error)+

end
