(* ===== verification/Rawmidi_Query.thy ===== *)
theory Rawmidi_Query
  imports GObject_Props Utils Rawmidi_Enum_Types
begin

text \<open>
  The information classes for substreams of raw MIDI devices (\<open>rawmidi/substream-*.c\<close>) and the queries of
  \<open>rawmidi/query.c\<close>, which issue their requests to the control device of the card.
\<close>

section \<open>Information of a substream\<close>

record snd_rawmidi_info =
  ri_device :: u32
  ri_subdevice :: u32
  ri_stream :: u32
  ri_card :: u32
  ri_flags :: u32
  ri_id :: bytes
  ri_name :: bytes
  ri_subname :: bytes
  ri_subdevices_count :: u32
  ri_subdevices_avail :: u32

definition zero_rawmidi_info :: snd_rawmidi_info where
  "zero_rawmidi_info = \<lparr>ri_device = 0, ri_subdevice = 0, ri_stream = 0, ri_card = 0, ri_flags = 0,
     ri_id = replicate 64 0, ri_name = replicate 80 0, ri_subname = replicate 32 0,
     ri_subdevices_count = 0, ri_subdevices_avail = 0\<rparr>"

datatype rawmidi_substream_info_prop_type =
    RAWMIDI_SUBSTREAM_INFO_PROP_DEVICE_ID
  | RAWMIDI_SUBSTREAM_INFO_PROP_SUBDEVICE_ID
  | RAWMIDI_SUBSTREAM_INFO_PROP_DIRECTION
  | RAWMIDI_SUBSTREAM_INFO_PROP_CARD_ID
  | RAWMIDI_SUBSTREAM_INFO_PROP_FLAGS
  | RAWMIDI_SUBSTREAM_INFO_PROP_ID
  | RAWMIDI_SUBSTREAM_INFO_PROP_NAME
  | RAWMIDI_SUBSTREAM_INFO_PROP_SUBNAME
  | RAWMIDI_SUBSTREAM_INFO_PROP_SUBDEVICES_COUNT
  | RAWMIDI_SUBSTREAM_INFO_PROP_SUBDEVICES_AVAIL

fun rawmidi_substream_info_props :: "rawmidi_substream_info_prop_type \<Rightarrow> pspec" where
  "rawmidi_substream_info_props RAWMIDI_SUBSTREAM_INFO_PROP_DEVICE_ID =
     \<lparr>ps_name = ''device-id'', ps_type = TUInt, ps_min = 0, ps_max = 2147483647, ps_readable = True, ps_writable = False, ps_construct_only = False\<rparr>"
| "rawmidi_substream_info_props RAWMIDI_SUBSTREAM_INFO_PROP_SUBDEVICE_ID =
     \<lparr>ps_name = ''subdevice-id'', ps_type = TUInt, ps_min = 0, ps_max = 2147483647, ps_readable = True, ps_writable = False, ps_construct_only = False\<rparr>"
| "rawmidi_substream_info_props RAWMIDI_SUBSTREAM_INFO_PROP_DIRECTION =
     \<lparr>ps_name = ''direction'', ps_type = TEnum, ps_min = 0, ps_max = 0, ps_readable = True, ps_writable = False, ps_construct_only = False\<rparr>"
| "rawmidi_substream_info_props RAWMIDI_SUBSTREAM_INFO_PROP_CARD_ID =
     \<lparr>ps_name = ''card-id'', ps_type = TInt, ps_min = -2147483648, ps_max = 2147483647, ps_readable = True, ps_writable = False, ps_construct_only = False\<rparr>"
| "rawmidi_substream_info_props RAWMIDI_SUBSTREAM_INFO_PROP_FLAGS =
     \<lparr>ps_name = ''flags'', ps_type = TFlags, ps_min = 0, ps_max = 0, ps_readable = True, ps_writable = False, ps_construct_only = False\<rparr>"
| "rawmidi_substream_info_props RAWMIDI_SUBSTREAM_INFO_PROP_ID =
     \<lparr>ps_name = ''id'', ps_type = TString, ps_min = 0, ps_max = 0, ps_readable = True, ps_writable = False, ps_construct_only = False\<rparr>"
| "rawmidi_substream_info_props RAWMIDI_SUBSTREAM_INFO_PROP_NAME =
     \<lparr>ps_name = ''name'', ps_type = TString, ps_min = 0, ps_max = 0, ps_readable = True, ps_writable = False, ps_construct_only = False\<rparr>"
| "rawmidi_substream_info_props RAWMIDI_SUBSTREAM_INFO_PROP_SUBNAME =
     \<lparr>ps_name = ''subdevice-name'', ps_type = TString, ps_min = 0, ps_max = 0, ps_readable = True, ps_writable = False, ps_construct_only = False\<rparr>"
| "rawmidi_substream_info_props RAWMIDI_SUBSTREAM_INFO_PROP_SUBDEVICES_COUNT =
     \<lparr>ps_name = ''subdevices-count'', ps_type = TUInt, ps_min = 0, ps_max = 2147483647, ps_readable = True, ps_writable = False, ps_construct_only = False\<rparr>"
| "rawmidi_substream_info_props RAWMIDI_SUBSTREAM_INFO_PROP_SUBDEVICES_AVAIL =
     \<lparr>ps_name = ''subdevices-avail'', ps_type = TUInt, ps_min = 0, ps_max = 2147483647, ps_readable = True, ps_writable = False, ps_construct_only = False\<rparr>"

fun rawmidi_substream_info_get_property :: "snd_rawmidi_info \<Rightarrow> rawmidi_substream_info_prop_type \<Rightarrow> unit gvalue \<Rightarrow> unit gvalue" where
  "rawmidi_substream_info_get_property info RAWMIDI_SUBSTREAM_INFO_PROP_DEVICE_ID val =
     g_value_set_uint val (ri_device info)"
| "rawmidi_substream_info_get_property info RAWMIDI_SUBSTREAM_INFO_PROP_SUBDEVICE_ID val =
     g_value_set_uint val (ri_subdevice info)"
| "rawmidi_substream_info_get_property info RAWMIDI_SUBSTREAM_INFO_PROP_DIRECTION val =
     g_value_set_enum val (ri_stream info)"
| "rawmidi_substream_info_get_property info RAWMIDI_SUBSTREAM_INFO_PROP_CARD_ID val =
     g_value_set_int val (ri_card info)"
| "rawmidi_substream_info_get_property info RAWMIDI_SUBSTREAM_INFO_PROP_FLAGS val =
     g_value_set_flags val (ri_flags info)"
| "rawmidi_substream_info_get_property info RAWMIDI_SUBSTREAM_INFO_PROP_ID val =
     g_value_set_string val (cstr (ri_id info))"
| "rawmidi_substream_info_get_property info RAWMIDI_SUBSTREAM_INFO_PROP_NAME val =
     g_value_set_string val (cstr (ri_name info))"
| "rawmidi_substream_info_get_property info RAWMIDI_SUBSTREAM_INFO_PROP_SUBNAME val =
     g_value_set_string val (cstr (ri_subname info))"
| "rawmidi_substream_info_get_property info RAWMIDI_SUBSTREAM_INFO_PROP_SUBDEVICES_COUNT val =
     g_value_set_uint val (ri_subdevices_count info)"
| "rawmidi_substream_info_get_property info RAWMIDI_SUBSTREAM_INFO_PROP_SUBDEVICES_AVAIL val =
     g_value_set_uint val (ri_subdevices_avail info)"

section \<open>Parameters of a substream\<close>

text \<open>
  Sizes have 64 bits in the structure and 32 in the property, and the flag for active sensing is inverted.
\<close>

record snd_rawmidi_params =
  rp_stream :: u32
  rp_buffer_size :: u64
  rp_avail_min :: u64
  rp_no_active_sensing :: bool

definition alsarawmidi_substream_params_new :: snd_rawmidi_params where
  "alsarawmidi_substream_params_new =
     \<lparr>rp_stream = 0, rp_buffer_size = 0, rp_avail_min = 0, rp_no_active_sensing = False\<rparr>"

datatype rawmidi_substream_params_prop_type =
    RAWMIDI_SUBSTREAM_PARAMS_PROP_BUFFER_SIZE
  | RAWMIDI_SUBSTREAM_PARAMS_PROP_AVAIL_MIN
  | RAWMIDI_SUBSTREAM_PARAMS_PROP_ACTIVE_SENSING

fun rawmidi_substream_params_props :: "rawmidi_substream_params_prop_type \<Rightarrow> pspec" where
  "rawmidi_substream_params_props RAWMIDI_SUBSTREAM_PARAMS_PROP_BUFFER_SIZE =
     \<lparr>ps_name = ''buffer-size'', ps_type = TUInt, ps_min = 32, ps_max = 1048576, ps_readable = True, ps_writable = True, ps_construct_only = False\<rparr>"
| "rawmidi_substream_params_props RAWMIDI_SUBSTREAM_PARAMS_PROP_AVAIL_MIN =
     \<lparr>ps_name = ''avail-min'', ps_type = TUInt, ps_min = 1, ps_max = 4294967295, ps_readable = True, ps_writable = True, ps_construct_only = False\<rparr>"
| "rawmidi_substream_params_props RAWMIDI_SUBSTREAM_PARAMS_PROP_ACTIVE_SENSING =
     \<lparr>ps_name = ''active-sensing'', ps_type = TBool, ps_min = 0, ps_max = 0, ps_readable = True, ps_writable = True, ps_construct_only = False\<rparr>"

fun rawmidi_substream_params_set_property :: "snd_rawmidi_params \<Rightarrow> rawmidi_substream_params_prop_type \<Rightarrow> unit gvalue \<Rightarrow> snd_rawmidi_params outcome" where
  "rawmidi_substream_params_set_property info RAWMIDI_SUBSTREAM_PARAMS_PROP_BUFFER_SIZE val =
     Ret (info\<lparr>rp_buffer_size := ucast (g_value_get_uint val)\<rparr>)"
| "rawmidi_substream_params_set_property info RAWMIDI_SUBSTREAM_PARAMS_PROP_AVAIL_MIN val =
     Ret (info\<lparr>rp_avail_min := ucast (g_value_get_uint val)\<rparr>)"
| "rawmidi_substream_params_set_property info RAWMIDI_SUBSTREAM_PARAMS_PROP_ACTIVE_SENSING val =
     Ret (info\<lparr>rp_no_active_sensing := \<not> g_value_get_boolean val\<rparr>)"

fun rawmidi_substream_params_get_property :: "snd_rawmidi_params \<Rightarrow> rawmidi_substream_params_prop_type \<Rightarrow> unit gvalue \<Rightarrow> unit gvalue" where
  "rawmidi_substream_params_get_property info RAWMIDI_SUBSTREAM_PARAMS_PROP_BUFFER_SIZE val =
     g_value_set_uint val (ucast (rp_buffer_size info))"
| "rawmidi_substream_params_get_property info RAWMIDI_SUBSTREAM_PARAMS_PROP_AVAIL_MIN val =
     g_value_set_uint val (ucast (rp_avail_min info))"
| "rawmidi_substream_params_get_property info RAWMIDI_SUBSTREAM_PARAMS_PROP_ACTIVE_SENSING val =
     g_value_set_boolean val (\<not> rp_no_active_sensing info)"

section \<open>Status of a substream\<close>

record snd_rawmidi_status =
  rs_stream :: u32
  rs_avail :: u64
  rs_xruns :: u64

definition alsarawmidi_substream_status_new :: snd_rawmidi_status where
  "alsarawmidi_substream_status_new = \<lparr>rs_stream = 0, rs_avail = 0, rs_xruns = 0\<rparr>"

datatype rawmidi_substream_status_prop_type =
    RAWMIDI_SUBSTREAM_STATUS_PROP_AVAIL
  | RAWMIDI_SUBSTREAM_STATUS_PROP_XRUN

fun rawmidi_substream_status_props :: "rawmidi_substream_status_prop_type \<Rightarrow> pspec" where
  "rawmidi_substream_status_props RAWMIDI_SUBSTREAM_STATUS_PROP_AVAIL =
     \<lparr>ps_name = ''avail'', ps_type = TUInt64, ps_min = 0, ps_max = 18446744073709551615, ps_readable = True, ps_writable = False, ps_construct_only = False\<rparr>"
| "rawmidi_substream_status_props RAWMIDI_SUBSTREAM_STATUS_PROP_XRUN =
     \<lparr>ps_name = ''xruns'', ps_type = TUInt64, ps_min = 0, ps_max = 18446744073709551615, ps_readable = True, ps_writable = False, ps_construct_only = False\<rparr>"

fun rawmidi_substream_status_get_property :: "snd_rawmidi_status \<Rightarrow> rawmidi_substream_status_prop_type \<Rightarrow> unit gvalue \<Rightarrow> unit gvalue" where
  "rawmidi_substream_status_get_property info RAWMIDI_SUBSTREAM_STATUS_PROP_AVAIL val =
     g_value_set_uint64 val (rs_avail info)"
| "rawmidi_substream_status_get_property info RAWMIDI_SUBSTREAM_STATUS_PROP_XRUN val =
     g_value_set_uint64 val (rs_xruns info)"

section \<open>The kernel\<close>

text \<open>
  The requests of the control device, which is opened by the helper for card requests, and those of the raw MIDI device.
  udev is asked twice for a list of devices and may answer differently the second time.
\<close>

record 'w rawmidi_sys = "'w sys" +
  rawmidi_libc :: libc
  rawmidi_udev :: udev
  rawmidi_udev_again :: udev
  CTL_IOCTL_RAWMIDI_INFO :: "('w, snd_rawmidi_info) request"
  CTL_IOCTL_RAWMIDI_PREFER_SUBDEVICE :: "('w, u32) request"
  RAWMIDI_IOCTL_PVERSION :: "('w, u32) request"
  RAWMIDI_IOCTL_INFO :: "('w, snd_rawmidi_info) request"
  RAWMIDI_IOCTL_PARAMS :: "('w, snd_rawmidi_params) request"
  RAWMIDI_IOCTL_STATUS :: "('w, snd_rawmidi_status) request"
  RAWMIDI_IOCTL_DROP :: "('w, u32) request"
  RAWMIDI_IOCTL_DRAIN :: "('w, u32) request"
  fcntl_GETFL :: "'w \<Rightarrow> int \<Rightarrow> u32 sysret"
  close_errno :: "'w \<Rightarrow> int \<Rightarrow> errno option"

section \<open>Queries\<close>

definition alsarawmidi_get_device_id_list :: "'w rawmidi_sys \<Rightarrow> u32 \<Rightarrow> (u32 list option \<times> nat option) outcome" where
  "alsarawmidi_get_device_id_list sys card_id =
     obind (generate_rawmidi_sysnum_list (rawmidi_libc sys) (rawmidi_udev sys) (rawmidi_udev_again sys) card_id)
       (\<lambda>(err, entries, entry_count).
          if err < 0 then generate_file_error sys (- err) else Ret (entries, entry_count))"

definition alsarawmidi_get_rawmidi_sysname :: "'w rawmidi_sys \<Rightarrow> u32 \<Rightarrow> u32 \<Rightarrow> bytes outcome" where
  "alsarawmidi_get_rawmidi_sysname sys card_id device_id =
     obind (lookup_and_allocate_rawmidi_sysname (rawmidi_libc sys) (rawmidi_udev sys) card_id device_id)
       (\<lambda>(err, sysname). if err < 0 then generate_file_error sys (- err)
          else (case sysname of None \<Rightarrow> Undefined | Some s \<Rightarrow> Ret s))"

definition alsarawmidi_get_rawmidi_devnode :: "'w rawmidi_sys \<Rightarrow> u32 \<Rightarrow> u32 \<Rightarrow> bytes outcome" where
  "alsarawmidi_get_rawmidi_devnode sys card_id device_id =
     obind (lookup_and_allocate_rawmidi_devname (rawmidi_libc sys) (rawmidi_udev sys) card_id device_id)
       (\<lambda>(err, devnode). if err < 0 then generate_file_error sys (- err)
          else (case devnode of None \<Rightarrow> Undefined | Some s \<Rightarrow> Ret s))"

text \<open>The signed index of the loop overflows beyond the largest \<open>int\<close>.\<close>

definition alsarawmidi_get_subdevice_id_list ::
  "'w rawmidi_sys \<Rightarrow> 'w \<Rightarrow> u32 \<Rightarrow> u32 \<Rightarrow> u32 \<Rightarrow> ('w \<times> (u32 list \<times> nat) outcome) outcome" where
  "alsarawmidi_get_subdevice_id_list sys w card_id device_id direction =
     obind (request_ctl_ioctl sys (rawmidi_libc sys) (rawmidi_udev sys) (CTL_IOCTL_RAWMIDI_INFO sys) w card_id
              (zero_rawmidi_info\<lparr>ri_card := card_id, ri_device := device_id, ri_stream := direction\<rparr>))
       (\<lambda>(w', info, err).
          if err < 0 then Ret (w', generate_file_error sys (- err))
          else let cnt = unat (ri_subdevices_count info)
               in if 2147483648 < cnt then Undefined
                  else Ret (w', Ret (map of_nat [0..<cnt], cnt)))"

definition alsarawmidi_get_substream_info ::
  "'w rawmidi_sys \<Rightarrow> 'w \<Rightarrow> u32 \<Rightarrow> u32 \<Rightarrow> u32 \<Rightarrow> u32 \<Rightarrow> ('w \<times> snd_rawmidi_info outcome) outcome" where
  "alsarawmidi_get_substream_info sys w card_id device_id direction subdevice_id =
     obind (request_ctl_ioctl sys (rawmidi_libc sys) (rawmidi_udev sys) (CTL_IOCTL_RAWMIDI_INFO sys) w card_id
              (zero_rawmidi_info\<lparr>ri_device := device_id, ri_subdevice := subdevice_id, ri_stream := direction, ri_card := card_id\<rparr>))
       (\<lambda>(w', info, err).
          Ret (w', if err < 0 then generate_file_error sys (- err) else Ret info))"

text \<open>
  The preferred subdevice holds as long as the control device stays open, so that its descriptor is
  handed to the caller. It is written when the device was found, also when the request fails.
\<close>

definition rawmidi_select_subdevice ::
  "'w rawmidi_sys \<Rightarrow> 'w \<Rightarrow> u32 \<Rightarrow> u32 \<Rightarrow> ('w \<times> int option \<times> unit outcome) outcome" where
  "rawmidi_select_subdevice sys w card_id subdevice_id =
     obind (request_ctl_ioctl_opened sys (rawmidi_libc sys) (rawmidi_udev sys)
              (CTL_IOCTL_RAWMIDI_PREFER_SUBDEVICE sys) w card_id subdevice_id)
       (\<lambda>(w', ctl_fd, data, err).
          Ret (w', ctl_fd, if err < 0 then generate_file_error sys (- err) else Ret ()))"

section \<open>The contract of the parameters\<close>

lemma ucast_u32_u64 [simp]: "(ucast (ucast (x :: u32) :: u64) :: u32) = x"
  by (rule bit_word_eqI) (simp add: bit_simps)

interpretation rawmidi_substream_params: gobject_properties rawmidi_substream_params_set_property
  rawmidi_substream_params_get_property rawmidi_substream_params_props any_info
  "\<lambda>p. pspec_accepts (rawmidi_substream_params_props p)" all_kept
proof (unfold_locales, goal_cases)
  case (1 x p v) then show ?case by (cases p; cases v) (auto simp: property_simps any_info_def)
next
  case (2 x p v y) then show ?case by (cases p; cases v) (auto simp: property_simps)
next
  case (3 x p v q y) then show ?case by (cases p; cases q) (auto simp: property_simps)
qed

section \<open>Getters conform to their specifications\<close>

lemma rawmidi_substream_info_conforms: "getters_conform rawmidi_substream_info_get_property rawmidi_substream_info_props all_kept"
  apply (rule getters_conformI)
  subgoal for x p v by (cases p) (simp_all add: read_property_def)
  done

lemma rawmidi_substream_params_conforms: "getters_conform rawmidi_substream_params_get_property rawmidi_substream_params_props all_kept"
  apply (rule getters_conformI)
  subgoal for x p v by (cases p) (simp_all add: read_property_def)
  done

lemma rawmidi_substream_status_conforms: "getters_conform rawmidi_substream_status_get_property rawmidi_substream_status_props all_kept"
  apply (rule getters_conformI)
  subgoal for x p v by (cases p) (simp_all add: read_property_def)
  done

end
