(* ===== verification/Rawmidi_Stream_Pair.thy ===== *)
theory Rawmidi_Stream_Pair
  imports Rawmidi_Query
begin

text \<open>
  The stream pair of \<open>rawmidi/stream-pair.c\<close>: opening substreams of a raw MIDI device by way of the
  control device of the card, requests, reading and writing of messages, and the source that reports
  messages. The lemmas account for the descriptors that opening leaves open and compare the access
  mode that was opened with the one a source is created for.
\<close>

section \<open>State\<close>

record stream_pair =
  sp_fd :: int
  sp_devnode :: "bytes option"
  sp_proto_ver :: "u16 \<times> u16 \<times> u16"
  sp_refs :: nat

definition alsarawmidi_stream_pair_init :: stream_pair where
  "alsarawmidi_stream_pair_init = \<lparr>sp_fd = -1, sp_devnode = None, sp_proto_ver = (0, 0, 0), sp_refs = 1\<rparr>"

datatype rawmidi_stream_pair_prop_type = RAWMIDI_STREAM_PAIR_PROP_DEVNODE

fun rawmidi_stream_pair_props :: "rawmidi_stream_pair_prop_type \<Rightarrow> pspec" where
  "rawmidi_stream_pair_props RAWMIDI_STREAM_PAIR_PROP_DEVNODE =
     \<lparr>ps_name = ''devnode'', ps_type = TString, ps_min = 0, ps_max = 0, ps_readable = True, ps_writable = False, ps_construct_only = False\<rparr>"

fun rawmidi_stream_pair_get_property ::
  "stream_pair \<Rightarrow> rawmidi_stream_pair_prop_type \<Rightarrow> unit gvalue \<Rightarrow> unit gvalue" where
  "rawmidi_stream_pair_get_property self RAWMIDI_STREAM_PAIR_PROP_DEVNODE val =
     (case val of VString _ \<Rightarrow> VString (sp_devnode self) | _ \<Rightarrow> val)"

lemma rawmidi_stream_pair_conforms: "getters_conform rawmidi_stream_pair_get_property rawmidi_stream_pair_props all_kept"
  apply (rule getters_conformI)
  subgoal for x p v by (cases p; cases v) (simp_all add: read_property_def split: option.splits)
  done

definition rawmidi_stream_pair_finalize :: "'w rawmidi_sys \<Rightarrow> 'w \<Rightarrow> stream_pair \<Rightarrow> 'w" where
  "rawmidi_stream_pair_finalize sys w self = (if 0 \<le> sp_fd self then sys_close sys w (sp_fd self) else w)"

definition stream_pair_err_msgs :: "string option list" where
  "stream_pair_err_msgs =
     [None,
      Some ''The card is in disconnect state'',
      Some ''The instance is not for read operation'']"

definition stream_pair_local_error :: "rawmidi_stream_pair_error \<Rightarrow> 'a outcome" where
  "stream_pair_local_error code = generate_local_error ALSARAWMIDI_STREAM_PAIR_ERROR stream_pair_err_msgs (rawmidi_stream_pair_error_code code)"

definition stream_pair_syscall_error :: "'a outcome" where
  "stream_pair_syscall_error = Throw (GError ALSARAWMIDI_STREAM_PAIR_ERROR (rawmidi_stream_pair_error_code ALSARAWMIDI_STREAM_PAIR_ERROR_FAILED))"

lemmas stream_pair_error_defs = stream_pair_local_error_def stream_pair_syscall_error_def stream_pair_err_msgs_def local_error_defs

text \<open>Every code of the enumeration has a message but the one for failed system calls.\<close>

lemma stream_pair_local_error_throws:
  "stream_pair_local_error code =
     (if code = ALSARAWMIDI_STREAM_PAIR_ERROR_FAILED then Critical
      else Throw (GError ALSARAWMIDI_STREAM_PAIR_ERROR (rawmidi_stream_pair_error_code code)))"
  by (cases code) (simp_all add: stream_pair_error_defs)

text \<open>
  Errors of requests, and of system calls on the file: the latter are first translated to a code of
  GLib, and that code is translated as if it were an error number.
\<close>

definition stream_ioctl_error :: "errno \<Rightarrow> 'a outcome" where
  "stream_ioctl_error e =
     (if e = ENODEV then stream_pair_local_error ALSARAWMIDI_STREAM_PAIR_ERROR_DISCONNECTED else stream_pair_syscall_error)"

definition stream_fcntl_error :: "('w, 'z) sys_scheme \<Rightarrow> errno \<Rightarrow> 'a outcome" where
  "stream_fcntl_error sys e =
     (let code = file_error sys e
      in if code \<noteq> G_FILE_ERROR_FAILED then generate_file_error sys code
         else stream_pair_syscall_error)"

definition stream_file_error :: "('w, 'z) sys_scheme \<Rightarrow> errno \<Rightarrow> 'a outcome" where
  "stream_file_error sys e =
     (if e = ENODEV then stream_pair_local_error ALSARAWMIDI_STREAM_PAIR_ERROR_DISCONNECTED
      else stream_fcntl_error sys e)"

section \<open>Opening\<close>

text \<open>The flag for \<open>open(2)\<close>: the access mode of the caller is replaced by that for the directions.\<close>

definition stream_open_flag :: "u32 \<Rightarrow> u32 \<Rightarrow> u32 option" where
  "stream_open_flag access_modes open_flag =
     (let flag = open_flag AND NOT (O_RDWR OR O_WRONLY OR O_RDONLY)
      in if access_modes AND rawmidi_stream_pair_info_flag_value ALSARAWMIDI_STREAM_PAIR_INFO_FLAG_OUTPUT \<noteq> 0 \<and>
            access_modes AND rawmidi_stream_pair_info_flag_value ALSARAWMIDI_STREAM_PAIR_INFO_FLAG_INPUT \<noteq> 0
         then Some (flag OR O_RDWR)
         else if access_modes AND rawmidi_stream_pair_info_flag_value ALSARAWMIDI_STREAM_PAIR_INFO_FLAG_OUTPUT \<noteq> 0 then Some (flag OR O_WRONLY)
         else if access_modes AND rawmidi_stream_pair_info_flag_value ALSARAWMIDI_STREAM_PAIR_INFO_FLAG_INPUT \<noteq> 0 then Some (flag OR O_RDONLY)
         else None)"

text \<open>
  The control device is closed before \<open>errno\<close> of a failed \<open>open(2)\<close> is read: when closing fails too, it is the error of closing,
  \<open>close_errno\<close>, that is reported.
\<close>

definition stream_pair_open_node ::
  "'w rawmidi_sys \<Rightarrow> 'w \<Rightarrow> stream_pair \<Rightarrow> bytes \<Rightarrow> int \<Rightarrow> u32 \<Rightarrow> 'w \<times> stream_pair \<times> unit outcome" where
  "stream_pair_open_node sys w self devnode ctl_fd open_flag =
     (case sys_open sys w devnode open_flag of
        (w1, SysErr e) \<Rightarrow>
          (sys_close sys w1 ctl_fd, self\<lparr>sp_fd := -1\<rparr>,
           stream_file_error sys (case close_errno sys w1 ctl_fd of None \<Rightarrow> e | Some e' \<Rightarrow> e'))
      | (w1, SysOk fd) \<Rightarrow>
          let w2 = sys_close sys w1 ctl_fd;
              self1 = self\<lparr>sp_fd := fd, sp_devnode := Some devnode\<rparr>
          in (case RAWMIDI_IOCTL_PVERSION sys w2 fd 0 of
                (w3, SysErr e) \<Rightarrow> (sys_close sys w3 fd, self1\<lparr>sp_fd := -1\<rparr>, stream_ioctl_error e)
              | (w3, SysOk proto_ver) \<Rightarrow>
                  (w3, self1\<lparr>sp_proto_ver := SNDRV_PROTOCOL_TRIPLET proto_ver\<rparr>, Ret ())))"

definition alsarawmidi_stream_pair_open ::
  "'w rawmidi_sys \<Rightarrow> 'w \<Rightarrow> stream_pair \<Rightarrow> u32 \<Rightarrow> u32 \<Rightarrow> u32 \<Rightarrow> u32 \<Rightarrow> u32 \<Rightarrow> 'w \<times> stream_pair \<times> unit outcome" where
  "alsarawmidi_stream_pair_open sys w self card_id device_id subdevice_id access_modes open_flag =
     (if access_modes AND NOT (rawmidi_stream_pair_info_flag_value ALSARAWMIDI_STREAM_PAIR_INFO_FLAG_OUTPUT OR rawmidi_stream_pair_info_flag_value ALSARAWMIDI_STREAM_PAIR_INFO_FLAG_INPUT) \<noteq> 0
      then (w, self, Critical)
      else (case stream_open_flag access_modes open_flag of
          None \<Rightarrow> (w, self, Critical)
        | Some flag \<Rightarrow>
            (case alsarawmidi_get_rawmidi_devnode sys card_id device_id of
               Ret devnode \<Rightarrow>
                 (case rawmidi_select_subdevice sys w card_id subdevice_id of
                    Ret (w1, ctl_fd, Ret _) \<Rightarrow>
                      (case ctl_fd of None \<Rightarrow> (w1, self, Undefined)
                       | Some fd \<Rightarrow> stream_pair_open_node sys w1 self devnode fd flag)
                  | Ret (w1, _, Throw e) \<Rightarrow> (w1, self, Throw e)
                  | _ \<Rightarrow> (w, self, Undefined))
             | Throw e \<Rightarrow> (w, self, Throw e)
             | _ \<Rightarrow> (w, self, Undefined))))"

definition alsarawmidi_stream_pair_get_protocol_version :: "stream_pair \<Rightarrow> (u16 \<times> u16 \<times> u16) outcome" where
  "alsarawmidi_stream_pair_get_protocol_version self =
     (if sp_fd self < 0 then Critical else Ret (sp_proto_ver self))"

section \<open>Requests\<close>

definition stream_request ::
  "('w, 'd) request \<Rightarrow> 'w \<Rightarrow> stream_pair \<Rightarrow> 'd \<Rightarrow> 'w \<times> 'd \<times> unit outcome" where
  "stream_request ioctl w self data =
     (case ioctl w (sp_fd self) data of
        (w', SysErr e) \<Rightarrow> (w', data, stream_ioctl_error e)
      | (w', SysOk data') \<Rightarrow> (w', data', Ret ()))"

definition alsarawmidi_stream_pair_get_substream_info ::
  "'w rawmidi_sys \<Rightarrow> 'w \<Rightarrow> stream_pair \<Rightarrow> u32 \<Rightarrow> 'w \<times> snd_rawmidi_info outcome" where
  "alsarawmidi_stream_pair_get_substream_info sys w self direction =
     (case stream_request (RAWMIDI_IOCTL_INFO sys) w self (zero_rawmidi_info\<lparr>ri_stream := direction\<rparr>) of
        (w', info, r) \<Rightarrow> (w', obind r (\<lambda>_. Ret info)))"

definition alsarawmidi_stream_pair_set_substream_params ::
  "'w rawmidi_sys \<Rightarrow> 'w \<Rightarrow> stream_pair \<Rightarrow> u32 \<Rightarrow> snd_rawmidi_params \<Rightarrow> 'w \<times> snd_rawmidi_params \<times> unit outcome" where
  "alsarawmidi_stream_pair_set_substream_params sys w self direction params =
     stream_request (RAWMIDI_IOCTL_PARAMS sys) w self (params\<lparr>rp_stream := direction\<rparr>)"

definition alsarawmidi_stream_pair_get_substream_status ::
  "'w rawmidi_sys \<Rightarrow> 'w \<Rightarrow> stream_pair \<Rightarrow> u32 \<Rightarrow> snd_rawmidi_status \<Rightarrow> 'w \<times> snd_rawmidi_status \<times> unit outcome" where
  "alsarawmidi_stream_pair_get_substream_status sys w self direction status =
     stream_request (RAWMIDI_IOCTL_STATUS sys) w self (status\<lparr>rs_stream := direction\<rparr>)"

definition alsarawmidi_stream_pair_drain_substream ::
  "'w rawmidi_sys \<Rightarrow> 'w \<Rightarrow> stream_pair \<Rightarrow> u32 \<Rightarrow> 'w \<times> unit outcome" where
  "alsarawmidi_stream_pair_drain_substream sys w self direction =
     (case stream_request (RAWMIDI_IOCTL_DRAIN sys) w self direction of (w', _, r) \<Rightarrow> (w', r))"

definition alsarawmidi_stream_pair_drop_substream ::
  "'w rawmidi_sys \<Rightarrow> 'w \<Rightarrow> stream_pair \<Rightarrow> u32 \<Rightarrow> 'w \<times> unit outcome" where
  "alsarawmidi_stream_pair_drop_substream sys w self direction =
     (case stream_request (RAWMIDI_IOCTL_DROP sys) w self direction of (w', _, r) \<Rightarrow> (w', r))"

text \<open>
  Messages are read into the buffer of the caller, whose size is set to the number of bytes read. The
  kernel moves at most \<open>0x7ffff000\<close> bytes in one call, so that the number fits into \<open>int\<close>. How many
  bytes were written is not reported.
\<close>

definition alsarawmidi_stream_pair_read_from_substream ::
  "'w rawmidi_sys \<Rightarrow> 'w \<Rightarrow> stream_pair \<Rightarrow> bytes \<Rightarrow> nat \<Rightarrow> 'w \<times> bytes \<times> nat outcome" where
  "alsarawmidi_stream_pair_read_from_substream sys w self buf buf_size =
     (case sys_read sys w (sp_fd self) buf_size of
        (w', SysErr e) \<Rightarrow> (w', buf, stream_file_error sys e)
      | (w', SysOk bs) \<Rightarrow> (w', put_at 0 bs buf, Ret (length bs)))"

definition alsarawmidi_stream_pair_write_to_substream ::
  "'w rawmidi_sys \<Rightarrow> 'w \<Rightarrow> stream_pair \<Rightarrow> bytes \<Rightarrow> 'w \<times> unit outcome" where
  "alsarawmidi_stream_pair_write_to_substream sys w self buf =
     (case sys_write sys w (sp_fd self) buf of
        (w', SysErr e) \<Rightarrow> (w', stream_file_error sys e)
      | (w', SysOk len) \<Rightarrow> (w', Ret ()))"

section \<open>The source of messages\<close>

datatype rawmidi_signal = HandleMessages | HandleStreamDisconnection

definition rawmidi_stream_pair_check_src :: "u32 \<Rightarrow> bool" where
  "rawmidi_stream_pair_check_src condition \<longleftrightarrow> condition AND (G_IO_IN OR G_IO_ERR) \<noteq> 0"

definition rawmidi_stream_pair_dispatch_src :: "stream_pair \<Rightarrow> u32 \<Rightarrow> source_result \<times> rawmidi_signal list" where
  "rawmidi_stream_pair_dispatch_src self condition =
     (if sp_fd self < 0 then (G_SOURCE_REMOVE, [])
      else if condition AND G_IO_ERR \<noteq> 0 then (G_SOURCE_REMOVE, [HandleStreamDisconnection])
      else (G_SOURCE_CONTINUE, if condition AND G_IO_IN \<noteq> 0 then [HandleMessages] else []))"

definition rawmidi_stream_pair_finalize_src :: "'w rawmidi_sys \<Rightarrow> 'w \<Rightarrow> stream_pair \<Rightarrow> 'w \<times> stream_pair" where
  "rawmidi_stream_pair_finalize_src sys w self =
     (let self' = self\<lparr>sp_refs := sp_refs self - 1\<rparr>
      in (if sp_refs self' = 0 then rawmidi_stream_pair_finalize sys w self' else w, self'))"

definition alsarawmidi_stream_pair_create_source ::
  "'w rawmidi_sys \<Rightarrow> 'w \<Rightarrow> stream_pair \<Rightarrow> stream_pair \<times> unit outcome" where
  "alsarawmidi_stream_pair_create_source sys w self =
     (if sp_fd self < 0 then (self, Critical)
      else (case fcntl_GETFL sys w (sp_fd self) of
              SysErr e \<Rightarrow> (self, stream_fcntl_error sys e)
            | SysOk access_modes \<Rightarrow>
                if access_modes AND O_RDWR = 0 \<and> access_modes AND O_WRONLY = 0
                then (self, stream_pair_local_error ALSARAWMIDI_STREAM_PAIR_ERROR_UNREADABLE)
                else (self\<lparr>sp_refs := sp_refs self + 1\<rparr>, Ret ())))"

interpretation rawmidi_owner: descriptor_owner sp_refs sp_fd
  "alsarawmidi_stream_pair_create_source sys" "rawmidi_stream_pair_finalize_src sys" "sys_close sys"
  for sys
  by unfold_locales (auto simp: succeeded_def alsarawmidi_stream_pair_create_source_def rawmidi_stream_pair_finalize_src_def
      rawmidi_stream_pair_finalize_def stream_fcntl_error_def generate_file_error_def stream_pair_error_defs Let_def
      split: sysret.splits if_splits)

section \<open>Descriptors\<close>

text \<open>
  \<open>fds\<close> reads the open descriptors from the state of the world: \<open>open(2)\<close> adds a new one when it succeeds,
  \<open>close(2)\<close> removes one, and requests leave them alone. Error numbers are positive.
\<close>

definition tracks_descriptors :: "'w rawmidi_sys \<Rightarrow> ('w \<Rightarrow> int set) \<Rightarrow> bool" where
  "tracks_descriptors sys fds \<longleftrightarrow>
     (\<forall>w d f. case sys_open sys w d f of
        (w', SysOk fd) \<Rightarrow> 0 \<le> fd \<and> fd \<notin> fds w \<and> fds w' = insert fd (fds w)
      | (w', SysErr e) \<Rightarrow> 0 < e \<and> fds w' = fds w) \<and>
     (\<forall>w fd. fds (sys_close sys w fd) = fds w - {fd}) \<and>
     (\<forall>w fd d. fds (fst (CTL_IOCTL_RAWMIDI_PREFER_SUBDEVICE sys w fd d)) = fds w \<and>
        errno_set (snd (CTL_IOCTL_RAWMIDI_PREFER_SUBDEVICE sys w fd d))) \<and>
     (\<forall>w fd d. fds (fst (RAWMIDI_IOCTL_PVERSION sys w fd d)) = fds w)"

lemma tracks_descriptorsD:
  assumes "tracks_descriptors sys fds"
  shows "sys_open sys w d f = (w', SysOk fd) \<Longrightarrow> 0 \<le> fd \<and> fd \<notin> fds w \<and> fds w' = insert fd (fds w)"
    and "sys_open sys w d f = (w', SysErr e) \<Longrightarrow> 0 < e \<and> fds w' = fds w"
    and "fds (sys_close sys w fd) = fds w - {fd}"
    and "CTL_IOCTL_RAWMIDI_PREFER_SUBDEVICE sys w fd x = (w', r) \<Longrightarrow> fds w' = fds w \<and> errno_set r"
    and "RAWMIDI_IOCTL_PVERSION sys w fd x = (w', r') \<Longrightarrow> fds w' = fds w"
proof -
  note t = assms [unfolded tracks_descriptors_def]
  note t1 = conjunct1 [OF t, rule_format, of w d f]
  show "sys_open sys w d f = (w', SysOk fd) \<Longrightarrow> 0 \<le> fd \<and> fd \<notin> fds w \<and> fds w' = insert fd (fds w)"
    "sys_open sys w d f = (w', SysErr e) \<Longrightarrow> 0 < e \<and> fds w' = fds w"
    using t1 by auto
  show "fds (sys_close sys w fd) = fds w - {fd}" using t by blast
  show "CTL_IOCTL_RAWMIDI_PREFER_SUBDEVICE sys w fd x = (w', r) \<Longrightarrow> fds w' = fds w \<and> errno_set r"
    using t by (metis fst_conv snd_conv)
  show "RAWMIDI_IOCTL_PVERSION sys w fd x = (w', r') \<Longrightarrow> fds w' = fds w"
    using t by (metis fst_conv)
qed

lemma request_opened_cases:
  assumes "request_ctl_ioctl_opened sys libc udev ioctl w card_id data = Ret (w', fd, data', err)"
  obtains "err < 0" "w' = w" "fd = None"
  | d e where "sys_open sys w d (O_RDONLY OR O_NONBLOCK) = (w', SysErr e)" "fd = Some (-1)" "err = - e"
  | d w1 c e where "sys_open sys w d (O_RDONLY OR O_NONBLOCK) = (w1, SysOk c)" "ioctl w1 c data = (w', SysErr e)"
      "fd = Some c" "err = - e"
  | d w1 c where "sys_open sys w d (O_RDONLY OR O_NONBLOCK) = (w1, SysOk c)" "ioctl w1 c data = (w', SysOk data')"
      "fd = Some c" "err = 0"
  using assms
  by (auto simp: request_ctl_ioctl_opened_def split: prod.splits sysret.splits if_splits option.splits)

lemma select_subdevice_descriptors:
  assumes "tracks_descriptors sys fds" "rawmidi_select_subdevice sys w card_id subdevice_id = Ret (w', ctl_fd, r)"
  shows "case r of
      Ret _ \<Rightarrow> \<exists>fd. ctl_fd = Some fd \<and> 0 \<le> fd \<and> fd \<notin> fds w \<and> fds w' = insert fd (fds w)
    | Throw e \<Rightarrow> fds w' = fds w \<or> (\<exists>fd. ctl_fd = Some fd \<and> fd \<notin> fds w \<and> fds w' = insert fd (fds w))
    | _ \<Rightarrow> False"
proof -
  obtain data' err where req: "request_ctl_ioctl_opened sys (rawmidi_libc sys) (rawmidi_udev sys)
      (CTL_IOCTL_RAWMIDI_PREFER_SUBDEVICE sys) w card_id subdevice_id = Ret (w', ctl_fd, data', err)"
    and r: "r = (if err < 0 then generate_file_error sys (- err) else Ret ())"
    using assms(2) by (auto simp: rawmidi_select_subdevice_def)
  note t = tracks_descriptorsD [OF assms(1)]
  from req show ?thesis
  proof (cases rule: request_opened_cases)
    case 1
    then show ?thesis by (simp add: r generate_file_error_def)
  next
    case (2 d e)
    with t(2) [OF 2(1)] show ?thesis by (simp add: r generate_file_error_def)
  next
    case (3 d w1 c e)
    with t(1) [OF 3(1)] t(4) [OF 3(2)] show ?thesis by (simp add: r generate_file_error_def errno_set_def)
  next
    case (4 d w1 c)
    with t(1) [OF 4(1)] t(4) [OF 4(2)] show ?thesis by (simp add: r)
  qed
qed

lemma stream_file_error_throws: "\<exists>e'. stream_file_error sys e = Throw e'"
  by (simp add: stream_file_error_def stream_fcntl_error_def generate_file_error_def stream_pair_error_defs Let_def)

lemma open_node_descriptors:
  assumes "tracks_descriptors sys fds" "stream_pair_open_node sys w self devnode ctl_fd flag = (w', self', r)"
    and "fds w = insert ctl_fd F" "ctl_fd \<notin> F"
  shows "(r = Ret () \<and> 0 \<le> sp_fd self' \<and> sp_fd self' \<notin> F \<and> fds w' = insert (sp_fd self') F) \<or>
    ((\<exists>e. r = Throw e) \<and> sp_fd self' = -1 \<and> fds w' = F)"
proof -
  note t = tracks_descriptorsD [OF assms(1)]
  obtain w1 opened where op: "sys_open sys w devnode flag = (w1, opened)" by fastforce
  show ?thesis
  proof (cases opened)
    case (SysErr e)
    then have "r = stream_file_error sys (case close_errno sys w1 ctl_fd of None \<Rightarrow> e | Some e' \<Rightarrow> e')" "sp_fd self' = -1" "w' = sys_close sys w1 ctl_fd"
      using op assms(2) by (auto simp: stream_pair_open_node_def)
    moreover have "fds (sys_close sys w1 ctl_fd) = F"
      using SysErr op t(2) [of w devnode flag w1 e] t(3) assms(3,4) by auto
    ultimately show ?thesis using stream_file_error_throws by metis
  next
    case (SysOk fd)
    then have fd: "0 \<le> fd" "fd \<notin> fds w" "fds w1 = insert fd (fds w)" using op t(1) by auto
    obtain w3 ver where ver: "RAWMIDI_IOCTL_PVERSION sys (sys_close sys w1 ctl_fd) fd 0 = (w3, ver)" by fastforce
    then have "fds w3 = insert fd F" using t(5) t(3) fd(2,3) assms(3,4) by auto
    then show ?thesis using fd assms(2-4) op SysOk ver t(3)
      by (cases ver) (auto simp: stream_pair_open_node_def stream_ioctl_error_def stream_pair_error_defs Let_def split: if_splits)
  qed
qed

text \<open>
  C36: the descriptors around opening a stream pair. On success exactly one descriptor is left open, the
  one the stream pair keeps; the one of the control device is closed. On failure no descriptor is left
  open, with one exception: when the control device was opened but refuses to prefer the subdevice,
  the descriptor of the control device is lost. A call with wrong access modes touches nothing.
\<close>

theorem stream_pair_open_descriptors:
  assumes "tracks_descriptors sys fds"
    and "alsarawmidi_stream_pair_open sys w self card_id device_id subdevice_id access_modes open_flag = (w', self', r)"
    and "r \<noteq> Undefined"
  shows "(r = Ret () \<and> 0 \<le> sp_fd self' \<and> sp_fd self' \<notin> fds w \<and> fds w' = insert (sp_fd self') (fds w)) \<or>
    ((\<exists>e. r = Throw e) \<and> fds w' = fds w) \<or>
    (\<exists>e ctl_fd. r = Throw e \<and> ctl_fd \<notin> fds w \<and> fds w' = insert ctl_fd (fds w) \<and>
       rawmidi_select_subdevice sys w card_id subdevice_id = Ret (w', Some ctl_fd, Throw e)) \<or>
    r = Critical \<and> w' = w"
proof -
  consider (critical) "r = Critical" "w' = w" | (missing) e where "r = Throw e" "w' = w"
    | (refused) fd e where "rawmidi_select_subdevice sys w card_id subdevice_id = Ret (w', fd, Throw e)" "r = Throw e"
    | (selected) w1 fd u devnode flag where "rawmidi_select_subdevice sys w card_id subdevice_id = Ret (w1, Some fd, Ret u)"
        "stream_pair_open_node sys w1 self devnode fd flag = (w', self', r)"
    using assms(2,3) by (auto simp: alsarawmidi_stream_pair_open_def split: if_splits option.splits outcome.splits)
  then show ?thesis
  proof cases
    case (refused fd e)
    with select_subdevice_descriptors [OF assms(1) refused(1)] show ?thesis by auto
  next
    case (selected w1 fd u devnode flag)
    with select_subdevice_descriptors [OF assms(1) selected(1)] have "fds w1 = insert fd (fds w)" "fd \<notin> fds w" by auto
    then show ?thesis using open_node_descriptors [OF assms(1) selected(2)] by auto
  qed auto
qed

section \<open>Access modes\<close>

lemma two_bits:
  assumes "(x :: u32) AND NOT 3 = 0"
  shows "x = 0 \<or> x = 1 \<or> x = 2 \<or> x = 3"
proof -
  have "x AND 3 = x" using assms by (auto simp: bit_eq_iff bit_simps)
  moreover have "x AND 3 = take_bit 2 x" by (simp add: take_bit_eq_mask mask_eq_exp_minus_1)
  moreover have "uint (take_bit 2 x) = take_bit 2 (uint x)" by (rule unsigned_take_bit_eq)
  then have "uint (take_bit 2 x) < 4" by (simp add: take_bit_eq_mod)
  ultimately have "uint x < 4" by simp
  then have "uint x = 0 \<or> uint x = 1 \<or> uint x = 2 \<or> uint x = 3" using uint_ge_0 [of x] by linarith
  then show ?thesis by (simp add: word_uint_eq_iff)
qed

text \<open>The access mode for the directions: write only for output, read only for input, both for both.\<close>

definition direction_mode :: "u32 \<Rightarrow> u32" where
  "direction_mode access_modes = (if access_modes = 3 then O_RDWR else if access_modes = 1 then O_WRONLY else O_RDONLY)"

lemma stream_open_flag_mode:
  assumes "stream_open_flag access_modes open_flag = Some flag" "access_modes AND NOT 3 = 0"
  shows "flag AND O_ACCMODE = direction_mode access_modes \<and> flag AND NOT O_ACCMODE = open_flag AND NOT O_ACCMODE \<and>
    (access_modes = 1 \<or> access_modes = 2 \<or> access_modes = 3)"
proof -
  have "set_masked 3 v open_flag AND 3 = v \<and> set_masked 3 v open_flag AND NOT 3 = open_flag AND NOT 3"
    if "v AND NOT 3 = 0" for v
    using that set_masked_same [OF that] set_masked_other [of v "NOT 3" 3 open_flag] by simp
  moreover have "flag = set_masked 3 (direction_mode access_modes) open_flag"
      "access_modes = 1 \<or> access_modes = 2 \<or> access_modes = 3"
    using two_bits [OF assms(2)] assms(1)
    by (auto simp: stream_open_flag_def set_masked_def direction_mode_def)
  moreover have "direction_mode access_modes AND NOT 3 = 0" by (simp add: direction_mode_def)
  ultimately show ?thesis by simp
qed

lemma stream_pair_open_access:
  assumes "alsarawmidi_stream_pair_open sys w self card_id device_id subdevice_id access_modes open_flag = (w', self', Ret ())"
  shows "\<exists>flag. stream_open_flag access_modes open_flag = Some flag \<and> access_modes AND NOT 3 = 0"
  using assms by (auto simp: alsarawmidi_stream_pair_open_def split: if_splits option.splits)

text \<open>
  C38: a source is for reading messages, but the test of the access mode is the wrong way round: a stream
  pair opened for input only is refused a source as unreadable, and one opened for output only, from
  which nothing can be read, gets it. The kernel reports the access mode the device was opened with.
\<close>

theorem source_access_inverted:
  assumes "alsarawmidi_stream_pair_open sys w self card_id device_id subdevice_id access_modes open_flag = (w', self', Ret ())"
    and "0 \<le> sp_fd self'" "fcntl_GETFL sys w' (sp_fd self') = SysOk fl"
    and "\<forall>flag. stream_open_flag access_modes open_flag = Some flag \<longrightarrow> fl AND O_ACCMODE = flag AND O_ACCMODE"
  shows "(access_modes = rawmidi_stream_pair_info_flag_value ALSARAWMIDI_STREAM_PAIR_INFO_FLAG_INPUT \<longrightarrow>
      snd (alsarawmidi_stream_pair_create_source sys w' self') = Throw (GError ALSARAWMIDI_STREAM_PAIR_ERROR 2)) \<and>
    (access_modes \<noteq> rawmidi_stream_pair_info_flag_value ALSARAWMIDI_STREAM_PAIR_INFO_FLAG_INPUT \<longrightarrow>
      alsarawmidi_stream_pair_create_source sys w' self' = (self'\<lparr>sp_refs := sp_refs self' + 1\<rparr>, Ret ()))"
proof -
  obtain flag where flag: "stream_open_flag access_modes open_flag = Some flag" "access_modes AND NOT 3 = 0"
    using stream_pair_open_access [OF assms(1)] by auto
  then have mode: "fl AND 3 = direction_mode access_modes" and am: "access_modes = 1 \<or> access_modes = 2 \<or> access_modes = 3"
    using stream_open_flag_mode [OF flag] assms(4) by auto
  have "fl AND 2 = (fl AND 3) AND 2" "fl AND 1 = (fl AND 3) AND 1" by (simp_all add: and.assoc)
  then have "fl AND 2 = direction_mode access_modes AND 2" "fl AND 1 = direction_mode access_modes AND 1"
    by (simp_all only: mode)
  with am assms(2,3) show ?thesis
    by (auto simp: alsarawmidi_stream_pair_create_source_def direction_mode_def stream_pair_error_defs)
qed

section \<open>A small machine\<close>

text \<open>
  A card with a raw MIDI device. The state of the world is the list of open descriptors with the flag each
  was opened with; a new descriptor is the number of descriptors opened so far, counted from three.
\<close>

type_synonym small_files = "nat \<times> (int \<times> u32) list"

definition small_files_open :: "small_files \<Rightarrow> u32 \<Rightarrow> small_files \<times> int sysret" where
  "small_files_open w f = ((fst w + 1, (int (fst w), f) # filter (\<lambda>p. fst p \<noteq> int (fst w)) (snd w)), SysOk (int (fst w)))"

definition midi_device :: udev_device where
  "midi_device = \<lparr>udev_device_get_sysname = SysOk (ascii ''midiC0D0''),
     udev_device_get_devnode = SysOk (ascii ''/dev/snd/midiC0D0''), udev_device_get_sysnum = None\<rparr>"

definition small_midi :: "bool \<Rightarrow> small_files rawmidi_sys" where
  "small_midi prefers =
     \<lparr>sys_open = (\<lambda>w d f. if \<exists>p\<in>set (snd w). int (fst w) \<le> fst p then (w, SysErr EINVAL) else small_files_open w f),
      sys_close = (\<lambda>w fd. (fst w, filter (\<lambda>p. fst p \<noteq> fd) (snd w))),
      sys_read = (\<lambda>w fd n. (w, SysErr EAGAIN)), sys_write = (\<lambda>w fd bs. (w, SysOk (length bs))),
      file_error = (\<lambda>e. G_FILE_ERROR_FAILED), rawmidi_libc = plain_libc, rawmidi_udev = udev_with (Some midi_device),
      rawmidi_udev_again = udev_with (Some midi_device), CTL_IOCTL_RAWMIDI_INFO = refuse,
      CTL_IOCTL_RAWMIDI_PREFER_SUBDEVICE = (\<lambda>w fd d. (w, if prefers then SysOk d else SysErr ENODEV)),
      RAWMIDI_IOCTL_PVERSION = (\<lambda>w fd d. (w, SysOk 0x020001)), RAWMIDI_IOCTL_INFO = refuse,
      RAWMIDI_IOCTL_PARAMS = refuse, RAWMIDI_IOCTL_STATUS = refuse, RAWMIDI_IOCTL_DROP = refuse, RAWMIDI_IOCTL_DRAIN = refuse,
      fcntl_GETFL = (\<lambda>w fd. case map_of (snd w) fd of Some f \<Rightarrow> SysOk f | None \<Rightarrow> SysErr EINVAL),
      close_errno = (\<lambda>w fd. None)\<rparr>"

lemma small_midi_names:
  "alsarawmidi_get_rawmidi_devnode (small_midi b) c d = Ret (ascii ''/dev/snd/midiC0D0'')"
  "lookup_and_allocate_control_devname (rawmidi_libc (small_midi b)) (rawmidi_udev (small_midi b)) c =
     Ret (0, Some (ascii ''/dev/snd/midiC0D0''))"
  by (simp_all add: alsarawmidi_get_rawmidi_devnode_def lookup_and_allocate_rawmidi_devname_def
      lookup_and_allocate_control_devname_def lookup_and_allocate_devname_by_sysname_def
      lookup_and_allocate_name_by_sysname_def lookup_and_allocate_string_by_sysname_def allocate_string_def
      small_midi_def plain_libc_def udev_with_def midi_device_def Let_def)

lemma small_midi_tracks: "tracks_descriptors (small_midi b) (\<lambda>w. fst ` set (snd w))"
  by (auto simp: tracks_descriptors_def small_midi_def small_files_open_def errno_set_def image_iff)

lemma small_midi_open:
  "alsarawmidi_stream_pair_open (small_midi True) (3, []) alsarawmidi_stream_pair_init 0 0 0 2 0 =
     ((5, [(4, 0)]), alsarawmidi_stream_pair_init\<lparr>sp_fd := 4, sp_devnode := Some (ascii ''/dev/snd/midiC0D0''),
        sp_proto_ver := (2, 0, 1)\<rparr>, Ret ())"
  "alsarawmidi_stream_pair_open (small_midi False) (3, []) alsarawmidi_stream_pair_init 0 0 0 2 0 =
     ((4, [(3, 0x800)]), alsarawmidi_stream_pair_init, Throw (GError G_FILE_ERROR 24))"
  by (simp_all add: alsarawmidi_stream_pair_open_def stream_open_flag_def small_midi_names rawmidi_select_subdevice_def
      request_ctl_ioctl_opened_def stream_pair_open_node_def Let_def,
      simp_all add: small_midi_def small_files_open_def SNDRV_PROTOCOL_TRIPLET_def generate_file_error_def
        stream_pair_open_node_def)

theorem stream_pair_open_descriptors_witness:
  "fst ` set (snd (fst (alsarawmidi_stream_pair_open (small_midi True) (3, []) alsarawmidi_stream_pair_init 0 0 0 2 0))) = {4}"
  using stream_pair_open_descriptors [OF small_midi_tracks small_midi_open(1)] by (simp add: small_midi_open(1))

theorem source_access_inverted_witness:
  "snd (alsarawmidi_stream_pair_create_source (small_midi True) (5, [(4, 0)])
     (alsarawmidi_stream_pair_init\<lparr>sp_fd := 4, sp_devnode := Some (ascii ''/dev/snd/midiC0D0''), sp_proto_ver := (2, 0, 1)\<rparr>)) =
   Throw (GError ALSARAWMIDI_STREAM_PAIR_ERROR 2)"
  using source_access_inverted [OF small_midi_open(1), of 0] by (simp add: small_midi_def stream_open_flag_def)

end
