(* ===== verification/Hwdep_Enum_Types.thy ===== *)
theory Hwdep_Enum_Types
  imports Enum_Values
begin

text \<open>
  The enumerations of \<open>hwdep/alsahwdep-enum-types.h\<close>, of hardware dependent devices: interfaces and errors.
  The values are those that the header gives them, in the order of the kernel header.
\<close>

datatype hwdep_iface_type =
    ALSAHWDEP_IFACE_TYPE_OPL2 | ALSAHWDEP_IFACE_TYPE_OPL3 | ALSAHWDEP_IFACE_TYPE_OPL4
  | ALSAHWDEP_IFACE_TYPE_SB16CSP | ALSAHWDEP_IFACE_TYPE_EMU10K1 | ALSAHWDEP_IFACE_TYPE_YSS225
  | ALSAHWDEP_IFACE_TYPE_ICS2115 | ALSAHWDEP_IFACE_TYPE_SSCAPE | ALSAHWDEP_IFACE_TYPE_VX
  | ALSAHWDEP_IFACE_TYPE_MIXART | ALSAHWDEP_IFACE_TYPE_USX2Y | ALSAHWDEP_IFACE_TYPE_EMUX_WAVETABLE
  | ALSAHWDEP_IFACE_TYPE_BLUETOOTH | ALSAHWDEP_IFACE_TYPE_USX2Y_PCM | ALSAHWDEP_IFACE_TYPE_PCXHR
  | ALSAHWDEP_IFACE_TYPE_SB_RC | ALSAHWDEP_IFACE_TYPE_HDA | ALSAHWDEP_IFACE_TYPE_USB_STREAM
  | ALSAHWDEP_IFACE_TYPE_FW_DICE | ALSAHWDEP_IFACE_TYPE_FW_FIREWORKS | ALSAHWDEP_IFACE_TYPE_FW_BEBOB
  | ALSAHWDEP_IFACE_TYPE_FW_OXFW | ALSAHWDEP_IFACE_TYPE_FW_DIGI00X | ALSAHWDEP_IFACE_TYPE_FW_TASCAM
  | ALSAHWDEP_IFACE_TYPE_LINE6 | ALSAHWDEP_IFACE_TYPE_FW_MOTU | ALSAHWDEP_IFACE_TYPE_FW_FIREFACE

primrec hwdep_iface_type_value :: "hwdep_iface_type \<Rightarrow> u32" where
  "hwdep_iface_type_value ALSAHWDEP_IFACE_TYPE_OPL2 = 0" |
  "hwdep_iface_type_value ALSAHWDEP_IFACE_TYPE_OPL3 = 1" |
  "hwdep_iface_type_value ALSAHWDEP_IFACE_TYPE_OPL4 = 2" |
  "hwdep_iface_type_value ALSAHWDEP_IFACE_TYPE_SB16CSP = 3" |
  "hwdep_iface_type_value ALSAHWDEP_IFACE_TYPE_EMU10K1 = 4" |
  "hwdep_iface_type_value ALSAHWDEP_IFACE_TYPE_YSS225 = 5" |
  "hwdep_iface_type_value ALSAHWDEP_IFACE_TYPE_ICS2115 = 6" |
  "hwdep_iface_type_value ALSAHWDEP_IFACE_TYPE_SSCAPE = 7" |
  "hwdep_iface_type_value ALSAHWDEP_IFACE_TYPE_VX = 8" |
  "hwdep_iface_type_value ALSAHWDEP_IFACE_TYPE_MIXART = 9" |
  "hwdep_iface_type_value ALSAHWDEP_IFACE_TYPE_USX2Y = 10" |
  "hwdep_iface_type_value ALSAHWDEP_IFACE_TYPE_EMUX_WAVETABLE = 11" |
  "hwdep_iface_type_value ALSAHWDEP_IFACE_TYPE_BLUETOOTH = 12" |
  "hwdep_iface_type_value ALSAHWDEP_IFACE_TYPE_USX2Y_PCM = 13" |
  "hwdep_iface_type_value ALSAHWDEP_IFACE_TYPE_PCXHR = 14" |
  "hwdep_iface_type_value ALSAHWDEP_IFACE_TYPE_SB_RC = 15" |
  "hwdep_iface_type_value ALSAHWDEP_IFACE_TYPE_HDA = 16" |
  "hwdep_iface_type_value ALSAHWDEP_IFACE_TYPE_USB_STREAM = 17" |
  "hwdep_iface_type_value ALSAHWDEP_IFACE_TYPE_FW_DICE = 18" |
  "hwdep_iface_type_value ALSAHWDEP_IFACE_TYPE_FW_FIREWORKS = 19" |
  "hwdep_iface_type_value ALSAHWDEP_IFACE_TYPE_FW_BEBOB = 20" |
  "hwdep_iface_type_value ALSAHWDEP_IFACE_TYPE_FW_OXFW = 21" |
  "hwdep_iface_type_value ALSAHWDEP_IFACE_TYPE_FW_DIGI00X = 22" |
  "hwdep_iface_type_value ALSAHWDEP_IFACE_TYPE_FW_TASCAM = 23" |
  "hwdep_iface_type_value ALSAHWDEP_IFACE_TYPE_LINE6 = 24" |
  "hwdep_iface_type_value ALSAHWDEP_IFACE_TYPE_FW_MOTU = 25" |
  "hwdep_iface_type_value ALSAHWDEP_IFACE_TYPE_FW_FIREFACE = 26"

definition all_hwdep_iface_type :: "hwdep_iface_type list" where
  "all_hwdep_iface_type = [ALSAHWDEP_IFACE_TYPE_OPL2, ALSAHWDEP_IFACE_TYPE_OPL3, ALSAHWDEP_IFACE_TYPE_OPL4,
     ALSAHWDEP_IFACE_TYPE_SB16CSP, ALSAHWDEP_IFACE_TYPE_EMU10K1, ALSAHWDEP_IFACE_TYPE_YSS225,
     ALSAHWDEP_IFACE_TYPE_ICS2115, ALSAHWDEP_IFACE_TYPE_SSCAPE, ALSAHWDEP_IFACE_TYPE_VX,
     ALSAHWDEP_IFACE_TYPE_MIXART, ALSAHWDEP_IFACE_TYPE_USX2Y, ALSAHWDEP_IFACE_TYPE_EMUX_WAVETABLE,
     ALSAHWDEP_IFACE_TYPE_BLUETOOTH, ALSAHWDEP_IFACE_TYPE_USX2Y_PCM, ALSAHWDEP_IFACE_TYPE_PCXHR,
     ALSAHWDEP_IFACE_TYPE_SB_RC, ALSAHWDEP_IFACE_TYPE_HDA, ALSAHWDEP_IFACE_TYPE_USB_STREAM,
     ALSAHWDEP_IFACE_TYPE_FW_DICE, ALSAHWDEP_IFACE_TYPE_FW_FIREWORKS, ALSAHWDEP_IFACE_TYPE_FW_BEBOB,
     ALSAHWDEP_IFACE_TYPE_FW_OXFW, ALSAHWDEP_IFACE_TYPE_FW_DIGI00X, ALSAHWDEP_IFACE_TYPE_FW_TASCAM,
     ALSAHWDEP_IFACE_TYPE_LINE6, ALSAHWDEP_IFACE_TYPE_FW_MOTU, ALSAHWDEP_IFACE_TYPE_FW_FIREFACE]"

lemma set_all_hwdep_iface_type: "set all_hwdep_iface_type = UNIV"
  using hwdep_iface_type.exhaust by (auto simp: all_hwdep_iface_type_def)

lemma distinct_all_hwdep_iface_type: "distinct (map hwdep_iface_type_value all_hwdep_iface_type)"
  by (simp add: all_hwdep_iface_type_def)

interpretation hwdep_iface_type: enumeration hwdep_iface_type_value all_hwdep_iface_type
  by unfold_locales (fact set_all_hwdep_iface_type distinct_all_hwdep_iface_type)+

datatype hwdep_device_common_error =
    ALSAHWDEP_DEVICE_COMMON_ERROR_FAILED | ALSAHWDEP_DEVICE_COMMON_ERROR_IS_OPENED
  | ALSAHWDEP_DEVICE_COMMON_ERROR_IS_NOT_OPENED | ALSAHWDEP_DEVICE_COMMON_ERROR_IS_USED
  | ALSAHWDEP_DEVICE_COMMON_ERROR_IS_NOT_SUPPORTED | ALSAHWDEP_DEVICE_COMMON_ERROR_IS_DISCONNECTED

primrec hwdep_device_common_error_code :: "hwdep_device_common_error \<Rightarrow> int" where
  "hwdep_device_common_error_code ALSAHWDEP_DEVICE_COMMON_ERROR_FAILED = 1" |
  "hwdep_device_common_error_code ALSAHWDEP_DEVICE_COMMON_ERROR_IS_OPENED = 2" |
  "hwdep_device_common_error_code ALSAHWDEP_DEVICE_COMMON_ERROR_IS_NOT_OPENED = 3" |
  "hwdep_device_common_error_code ALSAHWDEP_DEVICE_COMMON_ERROR_IS_USED = 4" |
  "hwdep_device_common_error_code ALSAHWDEP_DEVICE_COMMON_ERROR_IS_NOT_SUPPORTED = 5" |
  "hwdep_device_common_error_code ALSAHWDEP_DEVICE_COMMON_ERROR_IS_DISCONNECTED = 6"

definition all_hwdep_device_common_error :: "hwdep_device_common_error list" where
  "all_hwdep_device_common_error = [ALSAHWDEP_DEVICE_COMMON_ERROR_FAILED,
     ALSAHWDEP_DEVICE_COMMON_ERROR_IS_OPENED, ALSAHWDEP_DEVICE_COMMON_ERROR_IS_NOT_OPENED,
     ALSAHWDEP_DEVICE_COMMON_ERROR_IS_USED, ALSAHWDEP_DEVICE_COMMON_ERROR_IS_NOT_SUPPORTED,
     ALSAHWDEP_DEVICE_COMMON_ERROR_IS_DISCONNECTED]"

lemma set_all_hwdep_device_common_error: "set all_hwdep_device_common_error = UNIV"
  using hwdep_device_common_error.exhaust by (auto simp: all_hwdep_device_common_error_def)

lemma distinct_all_hwdep_device_common_error: "distinct (map hwdep_device_common_error_code all_hwdep_device_common_error)"
  by (simp add: all_hwdep_device_common_error_def)

interpretation hwdep_device_common_error: enumeration hwdep_device_common_error_code all_hwdep_device_common_error
  by unfold_locales (fact set_all_hwdep_device_common_error distinct_all_hwdep_device_common_error)+

end
