(* ===== verification/Hwdep.thy ===== *)
theory Hwdep
  imports GObject_Props Utils Hwdep_Enum_Types
begin

text \<open>
  Hardware dependent devices (\<open>hwdep/\<close>): the information class, the queries, and the interface that
  implementations of a device outside of the repository provide. An implementation is a record of
  functions; the library adds the lookup of the device node.
\<close>

section \<open>Information of a device\<close>

record snd_hwdep_info =
  hi_device :: u32
  hi_card :: u32
  hi_id :: bytes
  hi_name :: bytes
  hi_iface :: u32

datatype hwdep_device_info_prop_type =
    HWDEP_DEVICE_INFO_PROP_DEVICE_ID
  | HWDEP_DEVICE_INFO_PROP_CARD_ID
  | HWDEP_DEVICE_INFO_PROP_ID
  | HWDEP_DEVICE_INFO_PROP_NAME
  | HWDEP_DEVICE_INFO_PROP_IFACE

fun hwdep_device_info_props :: "hwdep_device_info_prop_type \<Rightarrow> pspec" where
  "hwdep_device_info_props HWDEP_DEVICE_INFO_PROP_DEVICE_ID =
     \<lparr>ps_name = ''device-id'', ps_type = TUInt, ps_min = 0, ps_max = 4294967295, ps_readable = True, ps_writable = True, ps_construct_only = True\<rparr>"
| "hwdep_device_info_props HWDEP_DEVICE_INFO_PROP_CARD_ID =
     \<lparr>ps_name = ''card-id'', ps_type = TInt, ps_min = -2147483648, ps_max = 2147483647, ps_readable = True, ps_writable = True, ps_construct_only = True\<rparr>"
| "hwdep_device_info_props HWDEP_DEVICE_INFO_PROP_ID =
     \<lparr>ps_name = ''id'', ps_type = TString, ps_min = 0, ps_max = 0, ps_readable = True, ps_writable = True, ps_construct_only = True\<rparr>"
| "hwdep_device_info_props HWDEP_DEVICE_INFO_PROP_NAME =
     \<lparr>ps_name = ''name'', ps_type = TString, ps_min = 0, ps_max = 0, ps_readable = True, ps_writable = True, ps_construct_only = True\<rparr>"
| "hwdep_device_info_props HWDEP_DEVICE_INFO_PROP_IFACE =
     \<lparr>ps_name = ''iface'', ps_type = TEnum, ps_min = 0, ps_max = 0, ps_readable = True, ps_writable = True, ps_construct_only = True\<rparr>"

fun hwdep_device_info_set_property :: "snd_hwdep_info \<Rightarrow> hwdep_device_info_prop_type \<Rightarrow> unit gvalue \<Rightarrow> snd_hwdep_info outcome" where
  "hwdep_device_info_set_property info HWDEP_DEVICE_INFO_PROP_DEVICE_ID val =
     Ret (info\<lparr>hi_device := g_value_get_uint val\<rparr>)"
| "hwdep_device_info_set_property info HWDEP_DEVICE_INFO_PROP_CARD_ID val =
     Ret (info\<lparr>hi_card := g_value_get_int val\<rparr>)"
| "hwdep_device_info_set_property info HWDEP_DEVICE_INFO_PROP_ID val =
     Ret (info\<lparr>hi_id := copy_string (hi_id info) (g_value_get_string val)\<rparr>)"
| "hwdep_device_info_set_property info HWDEP_DEVICE_INFO_PROP_NAME val =
     Ret (info\<lparr>hi_name := copy_string (hi_name info) (g_value_get_string val)\<rparr>)"
| "hwdep_device_info_set_property info HWDEP_DEVICE_INFO_PROP_IFACE val =
     Ret (info\<lparr>hi_iface := g_value_get_enum val\<rparr>)"

fun hwdep_device_info_get_property :: "snd_hwdep_info \<Rightarrow> hwdep_device_info_prop_type \<Rightarrow> unit gvalue \<Rightarrow> unit gvalue" where
  "hwdep_device_info_get_property info HWDEP_DEVICE_INFO_PROP_DEVICE_ID val =
     g_value_set_uint val (hi_device info)"
| "hwdep_device_info_get_property info HWDEP_DEVICE_INFO_PROP_CARD_ID val =
     g_value_set_int val (hi_card info)"
| "hwdep_device_info_get_property info HWDEP_DEVICE_INFO_PROP_ID val =
     g_value_set_string val (cstr (hi_id info))"
| "hwdep_device_info_get_property info HWDEP_DEVICE_INFO_PROP_NAME val =
     g_value_set_string val (cstr (hi_name info))"
| "hwdep_device_info_get_property info HWDEP_DEVICE_INFO_PROP_IFACE val =
     g_value_set_enum val (hi_iface info)"

text \<open>The properties are set at construction, with their defaults when none is given.\<close>

definition hwdep_info_wf :: "snd_hwdep_info \<Rightarrow> bool" where
  "hwdep_info_wf info \<longleftrightarrow> length (hi_id info) = 64 \<and> length (hi_name info) = 80"

definition blank_hwdep_info :: snd_hwdep_info where
  "blank_hwdep_info = \<lparr>hi_device = 0, hi_card = 0, hi_id = replicate 64 0, hi_name = replicate 80 0, hi_iface = 0\<rparr>"

section \<open>The kernel\<close>

record 'w hwdep_sys = "'w sys" +
  hwdep_libc :: libc
  hwdep_udev :: udev
  hwdep_udev_again :: udev
  CTL_IOCTL_HWDEP_INFO :: "('w, snd_hwdep_info) request"

section \<open>Queries\<close>

definition alsahwdep_get_device_id_list :: "'w hwdep_sys \<Rightarrow> u32 \<Rightarrow> (u32 list option \<times> nat option) outcome" where
  "alsahwdep_get_device_id_list sys card_id =
     obind (generate_hwdep_sysnum_list (hwdep_libc sys) (hwdep_udev sys) (hwdep_udev_again sys) card_id)
       (\<lambda>(err, entries, entry_count).
          if err < 0 then generate_file_error sys (- err) else Ret (entries, entry_count))"

definition alsahwdep_get_hwdep_sysname :: "'w hwdep_sys \<Rightarrow> u32 \<Rightarrow> u32 \<Rightarrow> bytes outcome" where
  "alsahwdep_get_hwdep_sysname sys card_id device_id =
     obind (lookup_and_allocate_hwdep_sysname (hwdep_libc sys) (hwdep_udev sys) card_id device_id)
       (\<lambda>(err, sysname). if err < 0 then generate_file_error sys (- err)
          else (case sysname of None \<Rightarrow> Undefined | Some s \<Rightarrow> Ret s))"

definition alsahwdep_get_hwdep_devnode :: "'w hwdep_sys \<Rightarrow> u32 \<Rightarrow> u32 \<Rightarrow> bytes outcome" where
  "alsahwdep_get_hwdep_devnode sys card_id device_id =
     obind (lookup_and_allocate_hwdep_devname (hwdep_libc sys) (hwdep_udev sys) card_id device_id)
       (\<lambda>(err, devnode). if err < 0 then generate_file_error sys (- err)
          else (case devnode of None \<Rightarrow> Undefined | Some s \<Rightarrow> Ret s))"

definition alsahwdep_get_device_info ::
  "'w hwdep_sys \<Rightarrow> 'w \<Rightarrow> u32 \<Rightarrow> u32 \<Rightarrow> ('w \<times> snd_hwdep_info outcome) outcome" where
  "alsahwdep_get_device_info sys w card_id device_id =
     obind (request_ctl_ioctl sys (hwdep_libc sys) (hwdep_udev sys) (CTL_IOCTL_HWDEP_INFO sys) w card_id
              (blank_hwdep_info\<lparr>hi_device := device_id, hi_card := card_id\<rparr>))
       (\<lambda>(w', info, err).
          Ret (w', if err < 0 then generate_file_error sys (- err) else Ret info))"

section \<open>The interface of devices\<close>

primrec hwdep_labels :: "hwdep_device_common_error \<Rightarrow> string" where
  "hwdep_labels ALSAHWDEP_DEVICE_COMMON_ERROR_FAILED = ''The operation failed due to unspecified reason.''" |
  "hwdep_labels ALSAHWDEP_DEVICE_COMMON_ERROR_IS_OPENED = ''The instance is already associated to character device.''" |
  "hwdep_labels ALSAHWDEP_DEVICE_COMMON_ERROR_IS_NOT_OPENED = ''The instance is not associated to character device yet.''" |
  "hwdep_labels ALSAHWDEP_DEVICE_COMMON_ERROR_IS_USED = ''The character device is already used.''" |
  "hwdep_labels ALSAHWDEP_DEVICE_COMMON_ERROR_IS_NOT_SUPPORTED =
     ''The HwDep device associated to the character device is not supported.''" |
  "hwdep_labels ALSAHWDEP_DEVICE_COMMON_ERROR_IS_DISCONNECTED = ''The sound card is under disconnected state.''"

text \<open>A code that is no error of the interface is replaced before the table is indexed.\<close>

definition alsahwdep_device_common_error_to_label :: "int \<Rightarrow> string" where
  "alsahwdep_device_common_error_to_label code =
     (case enum_of_value hwdep_device_common_error_code all_hwdep_device_common_error code of
        Some error \<Rightarrow> hwdep_labels error
      | None \<Rightarrow> hwdep_labels ALSAHWDEP_DEVICE_COMMON_ERROR_FAILED)"

record ('w, 'i, 'src) hwdep_iface =
  iface_open :: "'w \<Rightarrow> 'i \<Rightarrow> bytes \<Rightarrow> u32 \<Rightarrow> 'w \<times> 'i \<times> unit outcome"
  iface_get_protocol_version :: "'w \<Rightarrow> 'i \<Rightarrow> 'w \<times> 'i \<times> (u16 \<times> u16 \<times> u16) outcome"
  iface_get_device_info :: "'w \<Rightarrow> 'i \<Rightarrow> 'w \<times> 'i \<times> snd_hwdep_info outcome"
  iface_create_source :: "'w \<Rightarrow> 'i \<Rightarrow> 'w \<times> 'i \<times> 'src outcome"

definition alsahwdep_device_common_open ::
  "'w hwdep_sys \<Rightarrow> ('w, 'i, 'src) hwdep_iface \<Rightarrow> 'w \<Rightarrow> 'i \<Rightarrow> u32 \<Rightarrow> u32 \<Rightarrow> u32 \<Rightarrow> 'w \<times> 'i \<times> unit outcome" where
  "alsahwdep_device_common_open sys iface w self card_id device_id open_flag =
     (case alsahwdep_get_hwdep_devnode sys card_id device_id of
        Ret devname \<Rightarrow> iface_open iface w self devname open_flag
      | Throw e \<Rightarrow> (w, self, Throw e)
      | _ \<Rightarrow> (w, self, Undefined))"

definition alsahwdep_device_common_get_protocol_version ::
  "('w, 'i, 'src) hwdep_iface \<Rightarrow> 'w \<Rightarrow> 'i \<Rightarrow> 'w \<times> 'i \<times> (u16 \<times> u16 \<times> u16) outcome" where
  "alsahwdep_device_common_get_protocol_version iface w self = iface_get_protocol_version iface w self"

definition alsahwdep_device_common_get_device_info ::
  "('w, 'i, 'src) hwdep_iface \<Rightarrow> 'w \<Rightarrow> 'i \<Rightarrow> 'w \<times> 'i \<times> snd_hwdep_info outcome" where
  "alsahwdep_device_common_get_device_info iface w self = iface_get_device_info iface w self"

definition alsahwdep_device_common_create_source ::
  "('w, 'i, 'src) hwdep_iface \<Rightarrow> 'w \<Rightarrow> 'i \<Rightarrow> 'w \<times> 'i \<times> 'src outcome" where
  "alsahwdep_device_common_create_source iface w self = iface_create_source iface w self"

section \<open>The contract of the class\<close>

definition hwdep_info_accepts :: "hwdep_device_info_prop_type \<Rightarrow> unit gvalue \<Rightarrow> bool" where
  "hwdep_info_accepts p v \<longleftrightarrow> pspec_accepts (hwdep_device_info_props p) v \<and>
     (p = HWDEP_DEVICE_INFO_PROP_ID \<longrightarrow> string_fits 64 (g_value_get_string v)) \<and>
     (p = HWDEP_DEVICE_INFO_PROP_NAME \<longrightarrow> string_fits 80 (g_value_get_string v))"

lemmas hwdep_simps = property_simps hwdep_info_accepts_def hwdep_info_wf_def

interpretation hwdep_device_info: gobject_properties hwdep_device_info_set_property
  hwdep_device_info_get_property hwdep_device_info_props hwdep_info_wf hwdep_info_accepts all_kept
proof (unfold_locales, goal_cases)
  case (1 x p v) then show ?case by (cases p; cases v) (auto simp: hwdep_simps)
next
  case (2 x p v y) then show ?case by (cases p; cases v) (auto simp: hwdep_simps)
next
  case (3 x p v q y) then show ?case by (cases p; cases q) (auto simp: hwdep_simps)
qed

lemma hwdep_label_known: "alsahwdep_device_common_error_to_label (hwdep_device_common_error_code error) = hwdep_labels error"
  by (simp add: alsahwdep_device_common_error_to_label_def hwdep_device_common_error.of_value)

section \<open>Getters conform to their specifications\<close>

lemma hwdep_device_info_conforms: "getters_conform hwdep_device_info_get_property hwdep_device_info_props all_kept"
  apply (rule getters_conformI)
  subgoal for x p v by (cases p) (simp_all add: read_property_def)
  done

end
