(* ===== verification/Spec2Isabelle.thy ===== *)
theory Spec2Isabelle
  imports Seq_User_Client Ctl_Source Timer_User_Instance Rawmidi_Stream_Pair Hwdep
begin

text \<open>
  Verification of alsa-gobject, the GObject bindings of the ALSA character devices in Linux.

  \<^bold>\<open>The program.\<close> The repository is a set of C libraries, one for each kind of character device, that
  wrap the ioctl interface of the kernel in GObject classes: \<open>seq/\<close> for the sequencer, \<open>ctl/\<close> for
  controls of a sound card, \<open>timer/\<close>, \<open>rawmidi/\<close> and \<open>hwdep/\<close>, on top of the helpers in \<open>utils/\<close>. In
  each library there are queries, which find a device by way of libudev, open it, issue a request
  and close it; information classes, which keep one structure of the kernel headers and give access
  to it by properties; and one class with a descriptor, which issues requests and has a source of
  events for the main loop. The sequencer library also has the event object, a tagged union with
  blobs on the heap, and the container that flattens events for \<open>write(2)\<close> and splits up what
  \<open>read(2)\<close> returns.

  \<^bold>\<open>The theories.\<close>
  \<^item> \<open>Alsa_Prelude\<close>: machine types, the type \<open>outcome\<close> of how a call ends, little-endian layouts with
    the locales \<open>byte_codec\<close> and \<open>byte_layout\<close>, heap blocks and the allocator, character arrays, flag words.
  \<^item> \<open>Utils\<close>: \<open>utils/string.c\<close>, \<open>sysfs.c\<close> and \<open>ioctl.c\<close>; the record \<open>sys\<close> of system calls; the locale
    \<open>record_walk\<close> of the loops over records of fixed size in a read buffer, and the locale \<open>descriptor_owner\<close>
    of an object whose descriptor is closed when the last of its users goes away, which are counted beside the object.
  \<^item> \<open>Event_Loop\<close>: one source in the main loop of GLib, over the conditions of successive polls, and the contract of a
    source that delivers what is pending, the locale \<open>polled_source\<close>.
  \<^item> \<open>Enum_Values\<close>, \<open>Seq_Enum_Types\<close>, \<open>Ctl_Enum_Types\<close>, \<open>Timer_Enum_Types\<close>, \<open>Rawmidi_Enum_Types\<close>, \<open>Hwdep_Enum_Types\<close>:
    the enumerations of the public headers as datatypes with their values, and the contracts of
    enumerations and flags, the locales \<open>enumeration\<close> and \<open>flag_enumeration\<close>.
  \<^item> \<open>GObject_Props\<close>: values and parameter specifications of GObject and the contract of a class with
    properties, construct-only ones included, the locale \<open>gobject_properties\<close>; \<open>getters_conform\<close> compares getters with their specifications.
  \<^item> \<open>Seq_Event_Data\<close>, \<open>Seq_Event\<close>, \<open>Seq_Event_Ops\<close>, \<open>Seq_Event_Cntr\<close>: \<open>seq/event-data-*.c\<close>, \<open>event.c\<close>, \<open>event-cntr.c\<close>.
    \<open>snd_seq_event\<close> is the structure; its blob lives in a \<open>heap\<close>; the locale \<open>fixed_data_access\<close> is the
    contract of a setter and getter of fixed length data. \<open>boxed_copy\<close> is the contract of the copy functions.
    \<open>Seq_Event_Ops\<close> has the abstract event, with one payload, and the relation \<open>represents\<close> to the structure and its heap.
  \<^item> \<open>Seq_Infos\<close>: the information classes of \<open>seq/\<close>. \<open>Seq_Query\<close>: \<open>seq/query.c\<close>. \<open>Seq_User_Client\<close>:
    \<open>seq/user-client.c\<close>, with the record \<open>user_client\<close> for its private structure.
  \<^item> \<open>Ctl_Elem\<close>: \<open>ctl/elem-id.c\<close> and \<open>elem-value.c\<close>, with the locale \<open>value_member\<close> for the members of the
    value union. \<open>Ctl_Infos\<close>: \<open>ctl/elem-info-*.c\<close> and \<open>card-info.c\<close>. \<open>Ctl_Card\<close>: \<open>ctl/card.c\<close> and
    \<open>query.c\<close>. \<open>Ctl_Source\<close>: the source of events of a card and its subscription, as a state machine.
  \<^item> \<open>Timer_Device_Id\<close>: identifiers of timers, which queues of the sequencer refer to too. \<open>Timer_Infos\<close>: events, and the information and parameter classes of \<open>timer/\<close>.
    \<open>Timer_Query\<close>: \<open>timer/query.c\<close>. \<open>Timer_User_Instance\<close>: \<open>timer/user-instance.c\<close>, and the operations
    of an application on an instance as a function over sequences of them.
  \<^item> \<open>Rawmidi_Query\<close>: \<open>rawmidi/substream-*.c\<close> and \<open>query.c\<close>. \<open>Rawmidi_Stream_Pair\<close>: \<open>rawmidi/stream-pair.c\<close>.
    \<open>Hwdep\<close>: \<open>hwdep/\<close>, with a record of functions for an implementation of the device interface.

  \<^bold>\<open>The model.\<close> A structure is a record with the fields that the sources touch, an integer is a word
  of its width, and an array is the list of its elements. A call returns an \<open>outcome\<close>: \<open>Ret\<close> with the
  out-parameters, \<open>Throw\<close> with the domain and code of the error, \<open>FalseUnset\<close> for \<open>FALSE\<close> with no error,
  \<open>Critical\<close> for a failed \<open>g_return_val_if_fail\<close>, \<open>Abort\<close> when GLib runs out of memory, and \<open>Undefined\<close>
  for undefined behaviour of C, such as a read outside of an allocation or the use of a variable that was
  never written. An out-parameter that a call may leave unwritten is an option. The \<open>NULL\<close> and
  instance checks that the types of the model make redundant are left out; guards on values are not.
  \<open>gsize\<close> and lengths of lists are natural numbers where they count objects in memory. Sizes and
  offsets are those of a machine with 64 bit pointers and \<open>long\<close>, little-endian.

  \<^bold>\<open>Parameters.\<close> Code outside of the repository is an argument: the kernel (the records \<open>sys\<close>, \<open>seq_sys\<close>,
  \<open>ctl_sys\<close> and so on have one function for each system call and request, over an arbitrary state of the
  world), libudev (\<open>udev\<close>), the allocator and \<open>qsort\<close> of the C library (\<open>libc\<close>), the allocator of GLib
  (\<open>allocator\<close>, with \<open>malloc_ok\<close> for what is documented of it) and \<open>g_file_error_from_errno\<close>, and what
  \<open>g_object_get\<close> does with a structure that is no object. Constants of the kernel headers have their values. A theorem that
  relies on the kernel says so in a hypothesis (\<open>enumerates_clients\<close>, \<open>answers_queues\<close>, \<open>answers_subscriptions\<close>, \<open>lists_elems\<close>,
  \<open>names_items\<close>, \<open>keeps_subscription\<close>, \<open>delivers\<close>,
  \<open>enumerates_devices\<close>, \<open>keeps_tread\<close>, \<open>tracks_descriptors\<close>), and its witness runs it on a small kernel that satisfies it.

  \<^bold>\<open>Loops.\<close> No definition has fuel. Loops over lists and counters are structural, the walks over a buffer
  end by a measure on the bytes left, and the three loops whose end depends on the kernel
  (\<open>query_clients\<close>, \<open>fetch_elem_ids\<close>, \<open>next_devices\<close>) are partial functions into option; that they return is proved.

  \<^bold>\<open>What is shown.\<close>
  \<^item> Events: a batch of events survives flattening and splitting with all blobs, for the two
    alignments; a batch read from the kernel is never read out of bounds; setters and getters of all
    kinds of data agree; which events are deliverable; the cells an event takes. Through any sequence of
    setters an event implements the abstract event and leaks no memory. The serialiser gives the
    concatenation of the flat layouts. Some operations on blobs are shown to be undefined.
  \<^item> Sequencer client: scheduling writes exactly the flat layout and counts the events taken; opening
    leaves no descriptor behind on failure; permission errors; the lists of clients and queues are complete, that of
    subscriptions is never returned.
  \<^item> Information classes: what is written to a property is read back and disturbs no other one, with
    the exceptions that the sources have.
  \<^item> Controls: values are read back by the getter of the same type; the list of elements is complete
    over any number of requests and overflows when elements are added meanwhile; labels of enumerations;
    events become signals in order; the subscription of the descriptor follows the number of live
    sources.
  \<^item> Timers: after any sequence of operations an instance parses events of the kind the kernel writes, and
    delivers each; the filter of events; the list of devices; the clock of real time; error codes.
  \<^item> Raw MIDI: which descriptors opening a stream pair leaves open, and for which access modes it has a source.
  \<^item> Helpers: numbers and device lists.
  \<^item> Across the libraries, in this theory: getters store what their properties are specified with; a
    descriptor is closed with the last reference to its object, whatever sources are made from it; the sources of
    the sequencer, the cards and the timers deliver every pending batch, in order, if they are polled often enough.

  \<^bold>\<open>Not modelled.\<close> Registration of types and signals with GObject, and the text of messages with
  arguments; the tables of fixed messages are modelled, since an error needs an entry in them. The prototypes and
  macros of types in the public headers. Memory other than the blobs of events and the names of items: the structures of objects, and the buffers and arrays that
  calls return, are values, so that their allocation, the abort when it fails and their release are left out. Concurrent use of one object from several
  threads: operations are sequences of steps.
\<close>

section \<open>Properties of objects\<close>

text \<open>
  C19: in every information class of the five libraries, the value of an element, the client, the card and the stream pair, the getter of
  a property stores into a value of the type that the property is specified with, and what it stores depends on the
  object alone. The one exception is the
  number of the queue in a queue status, whose getter uses the accessor of another type and leaves the value as it was.
\<close>

theorem getters_conform_to_specs:
  "getters_conform seq_client_info_get_property seq_client_info_props all_kept \<and>
   getters_conform seq_port_info_get_property seq_port_info_props all_kept \<and>
   getters_conform seq_client_pool_get_property seq_client_pool_props all_kept \<and>
   getters_conform seq_queue_info_get_property seq_queue_info_props all_kept \<and>
   getters_conform seq_queue_tempo_get_property seq_queue_tempo_props all_kept \<and>
   getters_conform seq_queue_timer_alsa_get_property seq_queue_timer_alsa_props all_kept \<and>
   getters_conform seq_remove_filter_get_property seq_remove_filter_props all_kept \<and>
   getters_conform seq_subscribe_data_get_property seq_subscribe_data_props all_kept \<and>
   getters_conform seq_system_info_get_property seq_system_info_props all_kept \<and>
   getters_conform seq_queue_status_get_property seq_queue_status_props (\<lambda>p. p \<noteq> SEQ_QUEUE_STATUS_PROP_QUEUE_ID) \<and>
   getters_conform elem_info_common_get_property elem_info_common_props all_kept \<and>
   getters_conform elem_info_single_array_get_property elem_info_single_array_props all_kept \<and>
   getters_conform ctl_elem_info_integer_get_property elem_info_integer_props all_kept \<and>
   getters_conform ctl_elem_info_integer64_get_property elem_info_integer64_props all_kept \<and>
   getters_conform ctl_elem_info_enumerated_get_property elem_info_enumerated_props all_kept \<and>
   getters_conform ctl_card_info_get_property ctl_card_info_props all_kept \<and>
   getters_conform ctl_elem_value_get_property ctl_elem_value_props all_kept \<and>
   getters_conform timer_device_info_get_property timer_device_info_props all_kept \<and>
   getters_conform timer_device_params_get_property timer_device_params_props all_kept \<and>
   getters_conform timer_device_status_get_property timer_device_status_props all_kept \<and>
   getters_conform timer_instance_info_get_property timer_instance_info_props all_kept \<and>
   getters_conform timer_instance_params_get_property timer_instance_params_props all_kept \<and>
   getters_conform timer_instance_status_get_property timer_instance_status_props all_kept \<and>
   getters_conform rawmidi_substream_info_get_property rawmidi_substream_info_props all_kept \<and>
   getters_conform rawmidi_substream_params_get_property rawmidi_substream_params_props all_kept \<and>
   getters_conform rawmidi_substream_status_get_property rawmidi_substream_status_props all_kept \<and>
   getters_conform hwdep_device_info_get_property hwdep_device_info_props all_kept \<and>
   getters_conform seq_user_client_get_property seq_user_client_props all_kept \<and>
   getters_conform ctl_card_get_property ctl_card_props all_kept \<and>
   getters_conform rawmidi_stream_pair_get_property rawmidi_stream_pair_props all_kept \<and>
   seq_queue_status_get_property status SEQ_QUEUE_STATUS_PROP_QUEUE_ID (VUChar c) = VUChar c"
proof (intro conjI)
  show "seq_queue_status_get_property status SEQ_QUEUE_STATUS_PROP_QUEUE_ID (VUChar c) = VUChar c" by simp
qed (fact seq_client_info_conforms seq_port_info_conforms seq_client_pool_conforms seq_queue_info_conforms
    seq_queue_tempo_conforms seq_queue_timer_alsa_conforms seq_remove_filter_conforms
    seq_subscribe_data_conforms seq_system_info_conforms seq_queue_status_conforms
    elem_info_common_conforms elem_info_single_array_conforms ctl_elem_info_integer_conforms
    ctl_elem_info_integer64_conforms ctl_elem_info_enumerated_conforms ctl_card_info_conforms ctl_elem_value_conforms
    timer_device_info_conforms timer_device_params_conforms timer_device_status_conforms
    timer_instance_info_conforms timer_instance_params_conforms timer_instance_status_conforms
    rawmidi_substream_info_conforms rawmidi_substream_params_conforms rawmidi_substream_status_conforms
    hwdep_device_info_conforms seq_user_client_conforms ctl_card_conforms rawmidi_stream_pair_conforms)+

section \<open>Descriptors and sources\<close>

text \<open>
  C18: the descriptor of a sequencer client, of a timer instance and of a stream pair, through the lifetime of the
  object. The users of an open object are the references the application holds and the sources created since; a user may
  create a source, which counts when the call succeeds, and users go away in any order. The descriptor stays open as long as there is
  a user, and is closed exactly once, when the last one goes away: no source outlives the descriptor it polls.
\<close>

theorem descriptor_closed_once:
  assumes "0 \<le> uc_fd client" "uc_refs client = users" "0 \<le> ui_fd inst" "ui_refs inst = users" "0 \<le> sp_fd pair" "sp_refs pair = users"
    and "0 < users"
    and "run_users (\<lambda>w. alsaseq_user_client_create_source page_size) (seq_user_client_finalize_src seq) ops w1 client users =
      (w1', client', users1)"
    and "run_users (\<lambda>w. alsatimer_user_instance_create_source page_size) (timer_user_instance_finalize_src timer) ops w2 inst users =
      (w2', inst', users2)"
    and "run_users (alsarawmidi_stream_pair_create_source midi) (rawmidi_stream_pair_finalize_src midi) ops w3 pair users =
      (w3', pair', users3)"
  shows "w1' = (if users1 = 0 then sys_close seq w1 (uc_fd client) else w1) \<and>
    w2' = (if users2 = 0 then sys_close timer w2 (ui_fd inst) else w2) \<and>
    w3' = (if users3 = 0 then sys_close midi w3 (sp_fd pair) else w3)"
  using seq_owner.closed_once [OF assms(2,7,1,8)] timer_owner.closed_once [OF assms(4,7,3,9)]
    rawmidi_owner.closed_once [OF assms(6,7,5,10)] by blast

text \<open>
  Two sources are created from each object and the application drops its reference, then one source goes away and
  the other one, on kernels that log what they close: the client is still open before the last step.
\<close>

theorem descriptor_closed_once_witness:
  "run_users (\<lambda>w. alsaseq_user_client_create_source 4096) (seq_user_client_finalize_src (small_seq True))
     [CreateSourceOp, CreateSourceOp, ReleaseOp, ReleaseOp] [] (alsaseq_user_client_init\<lparr>uc_fd := 7\<rparr>) 1 =
     ([], alsaseq_user_client_init\<lparr>uc_fd := 7\<rparr>, 1) \<and>
   fst (run_users (\<lambda>w. alsaseq_user_client_create_source 4096) (seq_user_client_finalize_src (small_seq True))
     [CreateSourceOp, CreateSourceOp, ReleaseOp, ReleaseOp, ReleaseOp] [] (alsaseq_user_client_init\<lparr>uc_fd := 7\<rparr>) 1) = [7]"
proof -
  let ?c = "alsaseq_user_client_init\<lparr>uc_fd := 7\<rparr>"
  let ?i = "alsatimer_user_instance_init\<lparr>ui_fd := 7\<rparr>"
  let ?p = "alsarawmidi_stream_pair_init\<lparr>sp_fd := 4\<rparr>"
  let ?seq = "\<lambda>ops. run_users (\<lambda>w. alsaseq_user_client_create_source 4096) (seq_user_client_finalize_src (small_seq True)) ops [] ?c 1"
  have init: "0 \<le> uc_fd ?c" "uc_refs ?c = 1" "0 \<le> ui_fd ?i" "ui_refs ?i = 1" "0 \<le> sp_fd ?p" "sp_refs ?p = 1" "0 < (1 :: nat)"
    by (simp_all add: alsaseq_user_client_init_def alsatimer_user_instance_init_def alsarawmidi_stream_pair_init_def)
  have run: "fst (?seq ops) = (if snd (snd (?seq ops)) = 0 then [7] else [])" for ops
  proof -
    obtain w1 c u1 where c: "?seq ops = (w1, c, u1)" by (metis prod_cases3)
    obtain w2 i u2 where i: "run_users (\<lambda>w. alsatimer_user_instance_create_source 4096)
        (timer_user_instance_finalize_src small_timer) ops 0 ?i 1 = (w2, i, u2)" by (metis prod_cases3)
    obtain w3 p u3 where p: "run_users (alsarawmidi_stream_pair_create_source (small_midi True))
        (rawmidi_stream_pair_finalize_src (small_midi True)) ops (5, [(4, 2)]) ?p 1 = (w3, p, u3)" by (metis prod_cases3)
    show ?thesis using descriptor_closed_once [OF init c i p] c by (simp add: small_seq_simps)
  qed
  have four: "snd (?seq [CreateSourceOp, CreateSourceOp, ReleaseOp, ReleaseOp]) = (?c, 1)"
    by (simp add: alsaseq_user_client_create_source_def seq_user_client_finalize_src_def succeeded_def
        alsaseq_user_client_init_def Let_def)
  have five: "snd (snd (?seq [CreateSourceOp, CreateSourceOp, ReleaseOp, ReleaseOp, ReleaseOp])) = 0"
    by (simp add: alsaseq_user_client_create_source_def seq_user_client_finalize_src_def succeeded_def
        alsaseq_user_client_init_def Let_def)
  show ?thesis
    using run [of "[CreateSourceOp, CreateSourceOp, ReleaseOp, ReleaseOp]"] four
      run [of "[CreateSourceOp, CreateSourceOp, ReleaseOp, ReleaseOp, ReleaseOp]"] five
    by (metis prod.collapse snd_conv zero_neq_one)
qed

section \<open>Sources in the main loop\<close>

text \<open>
  C3: what the kernel has pending on the descriptors of a sequencer client, a card and a timer instance reaches the
  application. When the sources are polled at least as often as there are batches pending, before the
  device goes away, every batch is delivered as signals, once and in order: the sequencer emits one container for each
  batch, from which its events can be read; the card emits a signal for each event of an element; the timer emits one
  for each event. The error that ends the device is reported last, by the card and the timer, and the sources leave the loop.
\<close>

theorem sources_deliver_all:
  assumes "\<forall>c\<in>set cs. c AND G_IO_ERR = 0" "c AND G_IO_ERR \<noteq> 0"
    and "delivers seq (uc_fd client) (length buf) seq_pending (\<lambda>events. concat (map (flat h True) events))
      (\<lambda>events. \<forall>ev\<in>set events. blob_readable h ev)" "length (seq_pending w1) \<le> length (filter is_ready cs)"
    and "delivers ctl (card_fd snd_card) (length buf) ctl_pending (\<lambda>evs. concat (map ctl_event_enc evs)) ctl_batch_wf"
      "length (ctl_pending w2) \<le> length (filter is_ready cs)"
    and "delivers timer (ui_fd inst) (length buf) timer_pending batch_enc (\<lambda>batch. batch_type batch = ui_event_type inst)"
      "length (timer_pending w3) \<le> length (filter is_ready cs)"
  shows "(\<exists>w' cntrs. run_source seq_user_client_check_src (seq_source_dispatch seq client) (cs @ c # rest) w1 buf =
        (w', False, cntrs) \<and> seq_pending w' = [] \<and> list_all2 (holds_events h) cntrs (seq_pending w1)) \<and>
    (\<exists>w'. run_source ctl_card_check_src (\<lambda>w. ctl_card_dispatch_src ctl w snd_card) (cs @ c # rest) w2 buf =
        (w', False, concat (map ctl_event_signals (concat (ctl_pending w2))) @ [HandleDisconnection]) \<and> ctl_pending w' = []) \<and>
    (\<exists>w'. run_source timer_user_instance_check_src (\<lambda>w. timer_user_instance_dispatch_src timer w inst) (cs @ c # rest) w3 buf =
        (w', False, concat (map batch_signals (timer_pending w3)) @ [HandleTimerDisconnection]) \<and> timer_pending w' = [])"
proof (intro conjI)
  show "\<exists>w' cntrs. run_source seq_user_client_check_src (seq_source_dispatch seq client) (cs @ c # rest) w1 buf =
      (w', False, cntrs) \<and> seq_pending w' = [] \<and> list_all2 (holds_events h) cntrs (seq_pending w1)"
    using seq_source.run_to_error [OF assms(3) refl assms(1,4,2), of rest] by (auto dest: groups_of_one)
  obtain w' groups where "run_source ctl_card_check_src (\<lambda>w. ctl_card_dispatch_src ctl w snd_card) (cs @ c # rest) w2 buf =
        (w', False, concat groups @ [HandleDisconnection])" "ctl_pending w' = []"
      "list_all2 (\<lambda>signals evs. signals = concat (map ctl_event_signals evs)) groups (ctl_pending w2)"
    using ctl_source.run_to_error [OF assms(5) refl assms(1,6,2), of rest] by blast
  then show "\<exists>w'. run_source ctl_card_check_src (\<lambda>w. ctl_card_dispatch_src ctl w snd_card) (cs @ c # rest) w2 buf =
      (w', False, concat (map ctl_event_signals (concat (ctl_pending w2))) @ [HandleDisconnection]) \<and> ctl_pending w' = []"
    by (auto dest!: groups_by_function simp: concat_map_concat)
  show "\<exists>w'. run_source timer_user_instance_check_src (\<lambda>w. timer_user_instance_dispatch_src timer w inst) (cs @ c # rest) w3 buf =
      (w', False, concat (map batch_signals (timer_pending w3)) @ [HandleTimerDisconnection]) \<and> timer_pending w' = []"
    using timer_source.run_to_error [OF assms(7) refl assms(1,8,2), of rest] by (auto dest!: groups_by_function)
qed

text \<open>
  Two polls of sources with one batch each: an event with a blob, a change and a removal of elements, and an event of
  real time. The pending batches are what is left of the state of each kernel.
\<close>

definition pending_seq :: "int list \<Rightarrow> snd_seq_event list list" where
  "pending_seq w = map (\<lambda>_. [blob_event]) w"

definition reading_seq :: "int list seq_sys" where
  "reading_seq = (small_seq True)\<lparr>sys_read := \<lambda>w fd n. case w of
     [] \<Rightarrow> ([], SysErr EAGAIN)
   | _ # w' \<Rightarrow> (w', SysOk (concat (map (flat [1024 \<mapsto> [1, 2]] True) [blob_event])))\<rparr>"

definition pending_ctl :: "bool \<Rightarrow> (u32 \<times> u32 \<times> snd_ctl_elem_id) list list" where
  "pending_ctl w = (if w then [[(0, 1, zero_elem_id\<lparr>id_numid := 4\<rparr>), (0, 0xffffffff, zero_elem_id\<lparr>id_numid := 5\<rparr>)]] else [])"

definition reading_ctl :: "bool ctl_sys" where
  "reading_ctl = refusing_ctl\<lparr>sys_read := \<lambda>w fd n. case pending_ctl w of
     [] \<Rightarrow> (w, SysErr EAGAIN)
   | evs # _ \<Rightarrow> (False, SysOk (concat (map ctl_event_enc evs)))\<rparr>"

definition pending_timer :: "u32 \<Rightarrow> timer_batch list" where
  "pending_timer w = (if w = 0 then [] else [small_batch 1])"

definition reading_timer :: "u32 timer_sys" where
  "reading_timer = small_timer\<lparr>sys_read := \<lambda>w fd n. case pending_timer w of
     [] \<Rightarrow> (w, SysErr EAGAIN)
   | batch # _ \<Rightarrow> (0, SysOk (batch_enc batch))\<rparr>"

lemma reading_seq_delivers:
  "delivers reading_seq 7 4096 pending_seq (\<lambda>events. concat (map (flat [1024 \<mapsto> [1, 2]] True) events))
     (\<lambda>events. \<forall>ev\<in>set events. blob_readable [1024 \<mapsto> [1, 2]] ev)"
  by (auto simp: delivers_def reading_seq_def pending_seq_def blob_readable_def event_content_def heap_read_def
      seq_event_calculate_flattened_length_def split: list.splits)

lemma reading_ctl_delivers:
  "delivers reading_ctl 7 4096 pending_ctl (\<lambda>evs. concat (map ctl_event_enc evs)) ctl_batch_wf"
  by (auto simp: delivers_def reading_ctl_def pending_ctl_def ctl_batch_wf_def ctl_event_enc_def elem_id_wf_def zero_elem_id_def)

lemma reading_timer_delivers:
  "delivers reading_timer 7 4096 pending_timer batch_enc (\<lambda>batch. batch_type batch = 1)"
  by (auto simp: delivers_def reading_timer_def pending_timer_def small_batch_def timer_tread.length_enc)

theorem sources_deliver_all_witness:
  "\<exists>w'. run_source ctl_card_check_src (\<lambda>w. ctl_card_dispatch_src reading_ctl w (alsactl_card_init\<lparr>card_fd := 7\<rparr>)) [1, 1, 9] True (replicate 4096 0) =
     (w', False, [HandleElemEvent (zero_elem_id\<lparr>id_numid := 4\<rparr>) 1, HandleElemEvent (zero_elem_id\<lparr>id_numid := 5\<rparr>) 16, HandleDisconnection])"
proof -
  note all = sources_deliver_all [where cs = "[1, 1]" and c = 9 and rest = "[]" and buf = "replicate 4096 0"
      and seq = reading_seq and client = "alsaseq_user_client_init\<lparr>uc_fd := 7\<rparr>" and seq_pending = pending_seq and ?w1.0 = "[0]"
      and ctl = reading_ctl and snd_card = "alsactl_card_init\<lparr>card_fd := 7\<rparr>" and ctl_pending = pending_ctl and ?w2.0 = True
      and timer = reading_timer and inst = "alsatimer_user_instance_init\<lparr>ui_fd := 7, ui_event_type := 1\<rparr>"
      and timer_pending = pending_timer and ?w3.0 = 1 and h = "[1024 \<mapsto> [1, 2]]"]
  have "\<exists>w'. run_source ctl_card_check_src (\<lambda>w. ctl_card_dispatch_src reading_ctl w (alsactl_card_init\<lparr>card_fd := 7\<rparr>)) ([1, 1] @ [9])
      True (replicate 4096 0) = (w', False, concat (map ctl_event_signals (concat (pending_ctl True))) @ [HandleDisconnection]) \<and> pending_ctl w' = []"
    by (rule all [THEN conjunct2, THEN conjunct1])
      (simp_all add: reading_seq_delivers reading_ctl_delivers reading_timer_delivers is_ready_def pending_seq_def pending_ctl_def pending_timer_def)
  then show ?thesis by (auto simp: pending_ctl_def ctl_event_signals_def simp del: run_source.simps)
qed

end
